(* ===== verification/Prelude.thy ===== *)
theory Prelude
  imports Main "HOL-Library.AList" "HOL-Library.Multiset"
begin

text \<open>
  Shared vocabulary of the development: the result type of fallible code (\<open>Inl\<close> carries
  the exception that was raised, \<open>Inr\<close> the value that was returned), stateful code that can
  raise, Python's idioms on optional values, and the generic list lemmas that several
  components use.

  Collections of facts: \<open>py\<close> holds the evaluation rules of the Python layer, \<open>inv_intros\<close>
  the preservation lemmas of the store invariant, \<open>frame\<close> the equations that say which part
  of the state an operation leaves alone.
\<close>

named_theorems py
named_theorems inv_intros
named_theorems frame

section \<open>Results and exceptions\<close>

definition rbind :: "'e + 'a \<Rightarrow> ('a \<Rightarrow> 'e + 'b) \<Rightarrow> 'e + 'b" where
  "rbind m f = (case m of Inl e \<Rightarrow> Inl e | Inr x \<Rightarrow> f x)"

lemma rbind_simps [simp]:
  "rbind (Inl e) f = Inl e"
  "rbind (Inr x) f = f x"
  by (simp_all add: rbind_def)

lemma rbind_eq_Inr: "rbind m f = Inr y \<longleftrightarrow> (\<exists>x. m = Inr x \<and> f x = Inr y)"
  by (cases m) auto

lemma rbind_eq_Inl: "rbind m f = Inl e \<longleftrightarrow> m = Inl e \<or> (\<exists>x. m = Inr x \<and> f x = Inl e)"
  by (cases m) auto

definition raise_if :: "bool \<Rightarrow> 'e \<Rightarrow> 'e + unit" where
  "raise_if b e = (if b then Inl e else Inr ())"

lemma raise_if_simps [simp]:
  "raise_if True e = Inl e"
  "raise_if False e = Inr ()"
  by (simp_all add: raise_if_def)

lemma raise_if_eq_Inr [simp]: "raise_if b e = Inr u \<longleftrightarrow> \<not> b"
  by (simp add: raise_if_def)

lemma raise_if_eq_Inl [simp]: "raise_if b e = Inl e' \<longleftrightarrow> b \<and> e = e'"
  by (auto simp: raise_if_def)

text \<open>An option as a result: \<open>None\<close> is the given exception.\<close>

definition require_some :: "'e \<Rightarrow> 'a option \<Rightarrow> 'e + 'a" where
  "require_some e x = (case x of None \<Rightarrow> Inl e | Some v \<Rightarrow> Inr v)"

lemma require_some_simps [simp]:
  "require_some e None = Inl e"
  "require_some e (Some v) = Inr v"
  by (simp_all add: require_some_def)

lemma require_some_eq_Inr [simp]: "require_some e x = Inr v \<longleftrightarrow> x = Some v"
  by (cases x) auto

text \<open>A loop that maps a fallible body over a list and stops at the first exception.\<close>

fun rmap :: "('a \<Rightarrow> 'e + 'b) \<Rightarrow> 'a list \<Rightarrow> 'e + 'b list" where
  "rmap f [] = Inr []"
| "rmap f (x # xs) = rbind (f x) (\<lambda>y. rbind (rmap f xs) (\<lambda>ys. Inr (y # ys)))"

lemma rmap_eq_Inr_length: "rmap f xs = Inr ys \<Longrightarrow> length ys = length xs"
  by (induction xs arbitrary: ys) (auto simp: rbind_eq_Inr)

lemma rmap_eq_Inr_nth:
  "rmap f xs = Inr ys \<Longrightarrow> i < length xs \<Longrightarrow> f (xs ! i) = Inr (ys ! i)"
  by (induction xs arbitrary: ys i) (auto simp: rbind_eq_Inr nth_Cons split: nat.splits)

text \<open>
  Stateful code that can raise: what it did to the state before the exception stays done.
\<close>

type_synonym ('s, 'e, 'a) prog = "'s \<Rightarrow> ('e + 'a) \<times> 's"

definition pbind :: "('s, 'e, 'a) prog \<Rightarrow> ('a \<Rightarrow> ('s, 'e, 'b) prog) \<Rightarrow> ('s, 'e, 'b) prog" where
  "pbind m f = (\<lambda>s. case m s of (Inl e, s') \<Rightarrow> (Inl e, s') | (Inr x, s') \<Rightarrow> f x s')"

definition preturn :: "'a \<Rightarrow> ('s, 'e, 'a) prog" where
  "preturn x = (\<lambda>s. (Inr x, s))"

definition plift :: "'e + 'a \<Rightarrow> ('s, 'e, 'a) prog" where
  "plift r = (\<lambda>s. (r, s))"

definition pmodify :: "('s \<Rightarrow> 's) \<Rightarrow> ('s, 'e, unit) prog" where
  "pmodify f = (\<lambda>s. (Inr (), f s))"

text \<open>\<open>try: .. except Exception as e: ..\<close>\<close>

definition pcatch :: "('s, 'e, 'a) prog \<Rightarrow> ('e \<Rightarrow> ('s, 'e, 'a) prog) \<Rightarrow> ('s, 'e, 'a) prog" where
  "pcatch m h = (\<lambda>s. case m s of (Inl e, s') \<Rightarrow> h e s' | (Inr x, s') \<Rightarrow> (Inr x, s'))"

lemma preturn_apply [simp]: "preturn x s = (Inr x, s)"
  by (simp add: preturn_def)

lemma plift_apply [simp]: "plift r s = (r, s)"
  by (simp add: plift_def)

lemma pmodify_apply [simp]: "pmodify f s = (Inr (), f s)"
  by (simp add: pmodify_def)

lemma pbind_modify [simp]: "pbind (pmodify f) g s = g () (f s)"
  by (simp add: pbind_def)

lemma pbind_lift_Inl [simp]: "pbind (plift (Inl e)) g s = (Inl e, s)"
  by (simp add: pbind_def)

lemma pbind_lift_Inr [simp]: "pbind (plift (Inr x)) g s = g x s"
  by (simp add: pbind_def)

lemma pbind_return [simp]: "pbind (preturn x) g s = g x s"
  by (simp add: pbind_def)

lemma pbind_eq_Inr:
  "pbind m f s = (Inr y, t) \<longleftrightarrow> (\<exists>x s'. m s = (Inr x, s') \<and> f x s' = (Inr y, t))"
  by (auto simp: pbind_def split: prod.splits sum.splits)

lemma pbind_eq_Inl:
  "pbind m f s = (Inl e, t) \<longleftrightarrow>
     m s = (Inl e, t) \<or> (\<exists>x s'. m s = (Inr x, s') \<and> f x s' = (Inl e, t))"
  by (auto simp: pbind_def split: prod.splits sum.splits)

text \<open>
  An action obeys a relation on states when every run of it, ended by a value or by an
  exception, relates its first to its last state. For a reflexive and transitive relation the
  combinators keep this.
\<close>

definition obeys :: "('s \<Rightarrow> 's \<Rightarrow> bool) \<Rightarrow> ('s, 'e, 'a) prog \<Rightarrow> bool" where
  "obeys R a \<longleftrightarrow> (\<forall>s. R s (snd (a s)))"

lemma obeysI: "(\<And>s r s'. a s = (r, s') \<Longrightarrow> R s s') \<Longrightarrow> obeys R a"
  by (auto simp: obeys_def) (metis prod.collapse)

lemma obeysD: "obeys R a \<Longrightarrow> a s = (r, s') \<Longrightarrow> R s s'"
  by (metis obeys_def snd_conv)

locale action_relation =
  fixes R :: "'s \<Rightarrow> 's \<Rightarrow> bool"
  assumes R_refl: "R s s"
    and R_trans: "R s t \<Longrightarrow> R t u \<Longrightarrow> R s u"
begin

lemma obeys_return: "obeys R (preturn x)"
  by (simp add: obeys_def R_refl)

lemma obeys_lift: "obeys R (plift r)"
  by (simp add: obeys_def R_refl)

lemma obeys_modify: "(\<And>s. R s (f s)) \<Longrightarrow> obeys R (pmodify f)"
  by (simp add: obeys_def)

lemma obeys_bind: "obeys R m \<Longrightarrow> (\<And>x. obeys R (f x)) \<Longrightarrow> obeys R (pbind m f)"
  by (auto simp: obeys_def pbind_def R_refl split: prod.splits sum.splits)
    (metis snd_conv R_trans)+

lemma obeys_catch: "obeys R m \<Longrightarrow> (\<And>e. obeys R (h e)) \<Longrightarrow> obeys R (pcatch m h)"
  by (auto simp: obeys_def pcatch_def R_refl split: prod.splits sum.splits)
    (metis snd_conv R_trans)+

lemma obeys_if: "obeys R a \<Longrightarrow> obeys R b \<Longrightarrow> obeys R (if c then a else b)"
  by simp

lemma obeys_option: "obeys R a \<Longrightarrow> (\<And>x. obeys R (f x)) \<Longrightarrow> obeys R (case o' of None \<Rightarrow> a | Some x \<Rightarrow> f x)"
  by (cases o') auto

lemmas obeys_intros = obeys_return obeys_lift obeys_bind obeys_catch obeys_if obeys_option

end

text \<open>The relation of leaving a part of the state alone.\<close>

definition keeps :: "('s \<Rightarrow> 'x) \<Rightarrow> 's \<Rightarrow> 's \<Rightarrow> bool" where
  "keeps f s s' \<longleftrightarrow> f s' = f s"

lemma keepsD: "obeys (keeps f) a \<Longrightarrow> a s = (r, s') \<Longrightarrow> f s' = f s"
  using obeysD [of "keeps f"] by (simp add: keeps_def)

interpretation keeping: action_relation "keeps f" for f
  by unfold_locales (simp_all add: keeps_def)

section \<open>Python's idioms on optional values\<close>

text \<open>
  \<open>if s\<close> on an optional string is true exactly for a string that is present and not empty;
  \<open>a or b\<close> takes the first operand that is true and otherwise the last one.
\<close>

fun truthy :: "'a list option \<Rightarrow> bool" where
  "truthy None = False"
| "truthy (Some s) = (s \<noteq> [])"

definition por :: "'a list option \<Rightarrow> 'a list option \<Rightarrow> 'a list option" where
  "por a b = (if truthy a then a else b)"

text \<open>A condition on an optional value that holds when there is none.\<close>

fun opt_all :: "('a \<Rightarrow> bool) \<Rightarrow> 'a option \<Rightarrow> bool" where
  "opt_all P None = True"
| "opt_all P (Some x) = P x"

lemma truthyE: "truthy x \<Longrightarrow> (\<And>s. x = Some s \<Longrightarrow> s \<noteq> [] \<Longrightarrow> P) \<Longrightarrow> P"
  by (cases x) auto

lemma por_truthy [simp]: "truthy (por a b) \<longleftrightarrow> truthy a \<or> truthy b"
  by (auto simp: por_def)

section \<open>Lists\<close>

lemma distinct_map_eqI:
  "distinct (map f xs) \<Longrightarrow> x \<in> set xs \<Longrightarrow> y \<in> set xs \<Longrightarrow> f x = f y \<Longrightarrow> x = y"
  by (auto simp: distinct_map inj_on_def)

text \<open>\<open>find\<close> depends only on the multiset when at most one element qualifies.\<close>

lemma find_Some_in: "find P xs = Some x \<Longrightarrow> x \<in> set xs \<and> P x"
  by (induction xs) (auto split: if_splits)

lemma find_found: "(\<exists>y. find P xs = Some y) \<longleftrightarrow> (\<exists>x\<in>set xs. P x)"
  by (induction xs) auto

lemma find_unique:
  assumes "x \<in> set xs" and "P x" and "\<And>y. y \<in> set xs \<Longrightarrow> P y \<Longrightarrow> y = x"
  shows "find P xs = Some x"
proof (cases "find P xs")
  case None
  with assms(1,2) show ?thesis by (auto simp: find_None_iff)
next
  case (Some y)
  with assms(3) find_Some_in [OF Some] show ?thesis by auto
qed

lemma find_perm_unique:
  assumes set: "set xs = set ys"
    and uniq: "\<And>x y. x \<in> set xs \<Longrightarrow> y \<in> set xs \<Longrightarrow> P x \<Longrightarrow> P y \<Longrightarrow> x = y"
  shows "find P xs = find P ys"
proof (cases "find P xs")
  case None
  with set show ?thesis by (metis find_None_iff)
next
  case (Some x)
  have "find P ys = Some x"
    by (rule find_unique) (use find_Some_in [OF Some] set uniq in auto)
  with Some show ?thesis by simp
qed

lemma map_replace_same_key:
  assumes "\<And>x. f (g x) = f x"
  shows "map f (map (\<lambda>x. if P x then g x else x) xs) = map f xs"
  by (induction xs) (auto simp: assms)

text \<open>What holds of every entry of a table holds of what is looked up in it.\<close>

lemma map_of_allD: "list_all (\<lambda>(k, v). P k v) xs \<Longrightarrow> map_of xs k = Some v \<Longrightarrow> P k v"
  by (drule map_of_SomeD) (auto simp: list_all_iff)

lemma upt_allD: "list_all P [0..<k] \<Longrightarrow> n < k \<Longrightarrow> P n"
  by (simp add: list_all_iff)

end
