(* ===== verification/PyText.thy ===== *)
theory PyText
  imports Prelude
begin

text \<open>
  The string operations of Python that the service uses. A Python \<open>str\<close> is modelled by the
  bytes of its UTF-8 encoding: ASCII characters are themselves, and the bytes from 128 up
  belong to characters that the operations below leave alone. White space and letter case
  are those of ASCII (Python also strips and folds some characters beyond ASCII; no constant
  of the source holds one).
\<close>

section \<open>White space\<close>

definition is_space :: "char \<Rightarrow> bool" where
  "is_space c = (c \<in> set [CHR 0x09, CHR 0x0A, CHR 0x0B, CHR 0x0C, CHR 0x0D,
                          CHR 0x1C, CHR 0x1D, CHR 0x1E, CHR 0x1F, CHR 0x20])"

definition strip :: "string \<Rightarrow> string" where
  "strip s = rev (dropWhile is_space (rev (dropWhile is_space s)))"

lemma strip_Nil [simp]: "strip [] = []"
  by (simp add: strip_def)

lemma strip_id: "s = [] \<or> (\<not> is_space (hd s) \<and> \<not> is_space (last s)) \<Longrightarrow> strip s = s"
proof (induction s rule: rev_induct)
  case (snoc x xs)
  then show ?case by (cases xs) (auto simp: strip_def)
qed simp

lemma hd_strip: "strip s \<noteq> [] \<Longrightarrow> \<not> is_space (hd (strip s))"
proof -
  assume ne: "strip s \<noteq> []"
  define d where "d = dropWhile is_space s"
  have "strip s = rev (dropWhile is_space (rev d))"
    by (simp add: strip_def d_def)
  moreover obtain zs where "d = strip s @ zs"
    using calculation by (metis rev_append rev_rev_ident takeWhile_dropWhile_id)
  ultimately have "hd d = hd (strip s)" and "d \<noteq> []"
    using ne by auto
  moreover have "d \<noteq> [] \<Longrightarrow> \<not> is_space (hd d)"
    by (simp add: d_def hd_dropWhile)
  ultimately show ?thesis by simp
qed

lemma last_strip: "strip s \<noteq> [] \<Longrightarrow> \<not> is_space (last (strip s))"
  by (simp add: strip_def last_rev hd_dropWhile)

lemma strip_strip [simp]: "strip (strip s) = strip s"
  using hd_strip last_strip by (blast intro: strip_id)

text \<open>\<open>s.split()\<close>: the maximal runs of characters that are not white space.\<close>

fun split_ws_acc :: "string \<Rightarrow> string \<Rightarrow> string list" where
  "split_ws_acc [] w = (if w = [] then [] else [rev w])"
| "split_ws_acc (c # cs) w =
     (if is_space c then (if w = [] then split_ws_acc cs [] else rev w # split_ws_acc cs [])
      else split_ws_acc cs (c # w))"

definition split_ws :: "string \<Rightarrow> string list" where
  "split_ws s = split_ws_acc s []"

text \<open>\<open>s.split(c)\<close> for a separator of one character.\<close>

fun split_on :: "char \<Rightarrow> string \<Rightarrow> string list" where
  "split_on d [] = [[]]"
| "split_on d (c # cs) =
     (if c = d then [] # split_on d cs
      else (case split_on d cs of [] \<Rightarrow> [[c]] | w # ws \<Rightarrow> (c # w) # ws))"

fun join :: "string \<Rightarrow> string list \<Rightarrow> string" where
  "join sep [] = []"
| "join sep [s] = s"
| "join sep (s # t # ts) = s @ sep @ join sep (t # ts)"

lemma split_on_nonempty [simp]: "split_on d s \<noteq> []"
  by (induction s) (auto split: list.splits)

lemma join_split_on: "join [d] (split_on d s) = s"
proof (induction s)
  case (Cons c cs)
  then show ?case
    by (cases "split_on d cs"; cases "tl (split_on d cs)") auto
qed simp

section \<open>Letter case\<close>

abbreviation lower_letters :: string where
  "lower_letters \<equiv> ''abcdefghijklmnopqrstuvwxyz''"

abbreviation upper_letters :: string where
  "upper_letters \<equiv> ''ABCDEFGHIJKLMNOPQRSTUVWXYZ''"

definition upper_char :: "char \<Rightarrow> char" where
  "upper_char c = (case map_of (zip lower_letters upper_letters) c of Some d \<Rightarrow> d | None \<Rightarrow> c)"

definition lower_char :: "char \<Rightarrow> char" where
  "lower_char c = (case map_of (zip upper_letters lower_letters) c of Some d \<Rightarrow> d | None \<Rightarrow> c)"

definition upper :: "string \<Rightarrow> string" where
  "upper s = map upper_char s"

definition lower :: "string \<Rightarrow> string" where
  "lower s = map lower_char s"

section \<open>Prefixes and suffixes\<close>

definition starts_with :: "string \<Rightarrow> string \<Rightarrow> bool" where
  "starts_with s p = (take (length p) s = p)"

definition ends_with_char :: "string \<Rightarrow> char \<Rightarrow> bool" where
  "ends_with_char s c = (s \<noteq> [] \<and> last s = c)"

section \<open>Digits and integers\<close>

abbreviation digit_chars :: string where
  "digit_chars \<equiv> ''0123456789''"

definition digit_val :: "char \<Rightarrow> int option" where
  "digit_val c = map_of (zip digit_chars [0, 1, 2, 3, 4, 5, 6, 7, 8, 9]) c"

definition is_digit :: "char \<Rightarrow> bool" where
  "is_digit c = (c \<in> set digit_chars)"

definition digit_char :: "int \<Rightarrow> char" where
  "digit_char d = digit_chars ! nat d"

fun of_digits_acc :: "int \<Rightarrow> string \<Rightarrow> int option" where
  "of_digits_acc a [] = Some a"
| "of_digits_acc a (c # cs) =
     (case digit_val c of None \<Rightarrow> None | Some d \<Rightarrow> of_digits_acc (10 * a + d) cs)"

text \<open>The number a non-empty run of digits denotes.\<close>

definition of_digits :: "string \<Rightarrow> int option" where
  "of_digits s = (if s = [] then None else of_digits_acc 0 s)"

function show_nat :: "int \<Rightarrow> string" where
  "show_nat n = (if n < 10 then [digit_char n] else show_nat (n div 10) @ [digit_char (n mod 10)])"
  by pat_completeness auto
termination
  by (relation "measure nat") auto

declare show_nat.simps [simp del]

definition show_int :: "int \<Rightarrow> string" where
  "show_int i = (if i < 0 then CHR ''-'' # show_nat (- i) else show_nat i)"

text \<open>Zero padding to a width, as \<open>%02d\<close> prints.\<close>

definition pad_nat :: "nat \<Rightarrow> int \<Rightarrow> string" where
  "pad_nat w n = (let s = show_nat n in replicate (w - length s) (CHR ''0'') @ s)"

lemma digit_cases:
  fixes d :: int
  assumes "0 \<le> d" and "d < 10"
  shows "d \<in> {0, 1, 2, 3, 4, 5, 6, 7, 8, 9}"
  using assms by (simp only: insert_iff empty_iff) presburger

lemma digit_val_char [simp]: "0 \<le> d \<Longrightarrow> d < 10 \<Longrightarrow> digit_val (digit_char d) = Some d"
  by (drule (1) digit_cases) (auto simp: digit_val_def digit_char_def)

lemma is_digit_char [simp]: "0 \<le> d \<Longrightarrow> d < 10 \<Longrightarrow> is_digit (digit_char d)"
  by (drule (1) digit_cases) (auto simp: is_digit_def digit_char_def)

lemma of_digits_acc_append:
  "of_digits_acc a (s @ t) =
     (case of_digits_acc a s of None \<Rightarrow> None | Some b \<Rightarrow> of_digits_acc b t)"
  by (induction s arbitrary: a) (auto split: option.splits)

lemma show_nat_nonempty [simp]: "show_nat n \<noteq> []"
  by (subst show_nat.simps) simp

lemma of_digits_acc_show: "0 \<le> n \<Longrightarrow> of_digits_acc 0 (show_nat n) = Some n"
proof (induction n rule: show_nat.induct)
  case (1 n)
  show ?case
  proof (cases "n < 10")
    case True
    with "1.prems" show ?thesis by (subst show_nat.simps) simp
  next
    case False
    with "1.IH" show ?thesis
      by (subst show_nat.simps) (simp add: of_digits_acc_append)
  qed
qed

lemma of_digits_show [simp]: "0 \<le> n \<Longrightarrow> of_digits (show_nat n) = Some n"
  by (simp add: of_digits_def of_digits_acc_show)

text \<open>
  \<open>int(text)\<close>: white space around it, a sign, digits with single underscores between them,
  and at most 4300 digits (the interpreter's default limit).
\<close>

fun drop_underscores :: "string \<Rightarrow> string option" where
  "drop_underscores [] = Some []"
| "drop_underscores [c] = (if c = CHR ''_'' then None else Some [c])"
| "drop_underscores (c # d # cs) =
     (if c = CHR ''_'' then (if is_digit d then drop_underscores (d # cs) else None)
      else map_option ((#) c) (drop_underscores (d # cs)))"

definition unsigned_of_text :: "string \<Rightarrow> int option" where
  "unsigned_of_text s =
     (if s = [] \<or> hd s = CHR ''_'' then None
      else case drop_underscores s of
        None \<Rightarrow> None
      | Some t \<Rightarrow> if length t \<le> 4300 then of_digits t else None)"

definition int_of_text :: "string \<Rightarrow> int option" where
  "int_of_text s =
     (case strip s of
        [] \<Rightarrow> None
      | c # cs \<Rightarrow>
          if c = CHR ''-'' then map_option uminus (unsigned_of_text cs)
          else if c = CHR ''+'' then unsigned_of_text cs
          else unsigned_of_text (c # cs))"

section \<open>repr\<close>

definition hex_digit :: "nat \<Rightarrow> char" where
  "hex_digit n = ''0123456789abcdef'' ! (n mod 16)"

definition repr_char :: "char \<Rightarrow> char \<Rightarrow> string" where
  "repr_char q c =
     (if c = q \<or> c = CHR 0x5C then [CHR 0x5C, c]
      else if c = CHR 0x09 then [CHR 0x5C, CHR ''t'']
      else if c = CHR 0x0A then [CHR 0x5C, CHR ''n'']
      else if c = CHR 0x0D then [CHR 0x5C, CHR ''r'']
      else if of_char c < (32::nat) \<or> of_char c = (127::nat)
        then [CHR 0x5C, CHR ''x'', hex_digit (of_char c div 16), hex_digit (of_char c)]
      else [c])"

definition repr_string :: "string \<Rightarrow> string" where
  "repr_string s =
     (let q = (if CHR 0x27 \<in> set s \<and> CHR 0x22 \<notin> set s then CHR 0x22 else CHR 0x27)
      in [q] @ concat (map (repr_char q) s) @ [q])"

end
