(* ===== verification/PyTime.thy ===== *)
theory PyTime
  imports PyText
begin

text \<open>
  Dates and times of Python's \<open>datetime\<close> module (3.11 and later). A \<open>datetime\<close> is its local
  reading in microseconds since 0001-01-01T00:00 of the proleptic Gregorian calendar, and
  the offset from UTC in microseconds when it is aware. An \<open>instant\<close> is an aware time that
  has been converted to UTC; every time the service stores or compares is one.
  \<open>fromisoformat\<close> accepts the documented ISO 8601 formats (calendar and week dates, basic
  and extended, any one-character separator, fractional seconds, \<open>Z\<close> or an offset), and
  \<open>isoformat\<close> prints the way Python does.
\<close>

section \<open>The calendar\<close>

definition is_leap :: "int \<Rightarrow> bool" where
  "is_leap y = (y mod 4 = 0 \<and> (y mod 100 \<noteq> 0 \<or> y mod 400 = 0))"

definition days_before_year :: "int \<Rightarrow> int" where
  "days_before_year y = (y - 1) * 365 + (y - 1) div 4 - (y - 1) div 100 + (y - 1) div 400"

definition days_in_month :: "int \<Rightarrow> int \<Rightarrow> int" where
  "days_in_month y m =
     (if m = 2 then (if is_leap y then 29 else 28)
      else if m \<in> set [4, 6, 9, 11] then 30 else 31)"

definition days_before_month :: "int \<Rightarrow> int \<Rightarrow> int" where
  "days_before_month y m =
     [0, 31, 59, 90, 120, 151, 181, 212, 243, 273, 304, 334, 365] ! nat (m - 1)
       + (if 2 < m \<and> is_leap y then 1 else 0)"

text \<open>Day 1 is 0001-01-01.\<close>

definition ymd2ord :: "int \<Rightarrow> int \<Rightarrow> int \<Rightarrow> int" where
  "ymd2ord y m d = days_before_year y + days_before_month y m + d"

definition max_ordinal :: int where
  "max_ordinal = 3652059"

definition valid_ymd :: "int \<Rightarrow> int \<Rightarrow> int \<Rightarrow> bool" where
  "valid_ymd y m d =
     (1 \<le> y \<and> y \<le> 9999 \<and> 1 \<le> m \<and> m \<le> 12 \<and> 1 \<le> d \<and> d \<le> days_in_month y m)"

definition year_of_ord :: "int \<Rightarrow> int" where
  "year_of_ord n =
     (let y = ((n - 1) * 400) div 146097 + 1
      in if n \<le> days_before_year y then y - 1
         else if days_before_year (y + 1) < n then y + 1 else y)"

definition month_of_day :: "int \<Rightarrow> int \<Rightarrow> int" where
  "month_of_day y r =
     (case find (\<lambda>m. days_before_month y m < r) [12, 11, 10, 9, 8, 7, 6, 5, 4, 3, 2, 1] of
        Some m \<Rightarrow> m | None \<Rightarrow> 1)"

definition ord2ymd :: "int \<Rightarrow> int \<times> int \<times> int" where
  "ord2ymd n =
     (let y = year_of_ord n; r = n - days_before_year y; m = month_of_day y r
      in (y, m, r - days_before_month y m))"

section \<open>Time values\<close>

definition usec_per_day :: int where
  "usec_per_day = 86400000000"

definition usec_per_sec :: int where
  "usec_per_sec = 1000000"

definition max_usec :: int where
  "max_usec = 315537897600000000"

lemma max_usec_eq: "max_usec = max_ordinal * usec_per_day"
  by (simp add: max_usec_def max_ordinal_def usec_per_day_def)

datatype pydatetime = DateTime (dt_local: int) (dt_offset: "int option")

datatype instant = Utc (usec: int)

instantiation instant :: linorder
begin

definition less_eq_instant :: "instant \<Rightarrow> instant \<Rightarrow> bool" where
  "less_eq_instant a b = (usec a \<le> usec b)"

definition less_instant :: "instant \<Rightarrow> instant \<Rightarrow> bool" where
  "less_instant a b = (usec a < usec b)"

instance
  by intro_classes (auto simp: less_eq_instant_def less_instant_def intro: instant.expand)

end

lemma instant_le [simp]: "Utc a \<le> Utc b \<longleftrightarrow> a \<le> b"
  by (simp add: less_eq_instant_def)

lemma instant_less [simp]: "Utc a < Utc b \<longleftrightarrow> a < b"
  by (simp add: less_instant_def)

lemma instant_max [simp]: "max (Utc a) (Utc b) = Utc (max a b)"
  by (simp add: max_def)

text \<open>\<open>(a - b).total_seconds()\<close>, kept exact: microseconds.\<close>

definition elapsed :: "instant \<Rightarrow> instant \<Rightarrow> int" where
  "elapsed a b = usec a - usec b"

text \<open>\<open>int(x)\<close> of a duration in seconds truncates towards zero.\<close>

definition whole_seconds :: "int \<Rightarrow> int" where
  "whole_seconds u = (if u < 0 then - ((- u) div usec_per_sec) else u div usec_per_sec)"

lemma max_whole_seconds: "max 0 (whole_seconds u) = max 0 (u div usec_per_sec)"
  by (auto simp: whole_seconds_def usec_per_sec_def)

text \<open>
  \<open>value.astimezone(timezone.utc)\<close> for an aware value raises \<open>OverflowError\<close> (here
  \<open>None\<close>) when the UTC reading leaves the years 1 to 9999; \<open>replace(tzinfo=timezone.utc)\<close>
  takes a naive reading as it is.
\<close>

definition to_utc :: "pydatetime \<Rightarrow> instant option" where
  "to_utc t =
     (case dt_offset t of
        None \<Rightarrow> Some (Utc (dt_local t))
      | Some off \<Rightarrow>
          (let u = dt_local t - off in if 0 \<le> u \<and> u < max_usec then Some (Utc u) else None))"

section \<open>Parsing\<close>

definition num_at :: "string \<Rightarrow> nat \<Rightarrow> nat \<Rightarrow> int option" where
  "num_at s p w =
     (if p + w \<le> length s then of_digits (take w (drop p s)) else None)"

definition char_at :: "string \<Rightarrow> nat \<Rightarrow> char option" where
  "char_at s p = (if p < length s then Some (s ! p) else None)"

text \<open>Where the date part ends (\<open>_find_isoformat_datetime_separator\<close> of the module).\<close>

definition date_length :: "string \<Rightarrow> nat option" where
  "date_length s =
     (let n = length s in
      if n < 7 then None
      else if n = 7 then Some 7
      else if char_at s 4 = Some (CHR ''-'') then
        (if char_at s 5 = Some (CHR ''W'') then
           (if char_at s 8 = Some (CHR ''-'') then
              (if n = 9 then None
               else if 10 < n \<and> is_digit (s ! 10) then Some 8 else Some 10)
            else Some 8)
         else Some 10)
      else if char_at s 4 = Some (CHR ''W'') then
        (let i = 7 + length (takeWhile is_digit (drop 7 s)) in
         if i < 9 then Some i else if even i then Some 7 else Some 8)
      else Some 8)"

definition iso_week1_monday :: "int \<Rightarrow> int" where
  "iso_week1_monday y =
     (let first = ymd2ord y 1 1; wd = (first + 6) mod 7; monday = first - wd
      in if 3 < wd then monday + 7 else monday)"

definition ord_of_isoweek :: "int \<Rightarrow> int \<Rightarrow> int \<Rightarrow> int option" where
  "ord_of_isoweek y w d =
     (let fw = ymd2ord y 1 1 mod 7;
          week_ok = ((0 < w \<and> w < 53) \<or> (w = 53 \<and> (fw = 4 \<or> (fw = 3 \<and> is_leap y))));
          n = iso_week1_monday y + (w - 1) * 7 + (d - 1)
      in if 1 \<le> y \<and> y \<le> 9999 \<and> week_ok \<and> 0 < d \<and> d < 8 \<and> 1 \<le> n \<and> n \<le> max_ordinal
         then Some n else None)"

definition ord_of_ymd :: "int \<Rightarrow> int \<Rightarrow> int \<Rightarrow> int option" where
  "ord_of_ymd y m d = (if valid_ymd y m d then Some (ymd2ord y m d) else None)"

definition parse_iso_date :: "string \<Rightarrow> int option" where
  "parse_iso_date s =
     Option.bind (num_at s 0 4) (\<lambda>y.
       let sep = (char_at s 4 = Some (CHR ''-'')); p = (if sep then 5 else 4)
       in if char_at s p = Some (CHR ''W'') then
            Option.bind (num_at s (p + 1) 2) (\<lambda>w.
              if length s = p + 3 then ord_of_isoweek y w 1
              else if sep then
                (if char_at s (p + 3) = Some (CHR ''-'') \<and> length s = p + 5
                 then Option.bind (num_at s (p + 4) 1) (ord_of_isoweek y w) else None)
              else (if length s = p + 4
                    then Option.bind (num_at s (p + 3) 1) (ord_of_isoweek y w) else None))
          else
            Option.bind (num_at s p 2) (\<lambda>m.
              if sep then
                (if char_at s 7 = Some (CHR ''-'') \<and> length s = 10
                 then Option.bind (num_at s 8 2) (ord_of_ymd y m) else None)
              else (if length s = 8
                    then Option.bind (num_at s 6 2) (ord_of_ymd y m) else None)))"

text \<open>\<open>HH[:MM[:SS]]\<close> or \<open>HH[MM[SS]]\<close>; the first separator decides which.\<close>

fun parse_comps :: "nat \<Rightarrow> bool \<Rightarrow> string \<Rightarrow> (int list \<times> string) option" where
  "parse_comps 0 sep s = Some ([], s)"
| "parse_comps (Suc k) sep s =
     Option.bind (num_at s 0 2) (\<lambda>v.
       let r = drop 2 s in
       if k = 0 \<or> r = [] then Some ([v], r)
       else if sep then
         (if hd r = CHR '':'' then map_option (apfst ((#) v)) (parse_comps k sep (tl r))
          else None)
       else map_option (apfst ((#) v)) (parse_comps k sep r))"

definition parse_fraction :: "string \<Rightarrow> int option" where
  "parse_fraction s =
     (if s = [] then Some 0
      else if hd s \<in> set [CHR ''.'', CHR '',''] then
        (let ds = tl s; six = take 6 ds in
         if list_all is_digit ds
         then map_option (\<lambda>n. n * 10 ^ (6 - length six)) (of_digits six) else None)
      else None)"

text \<open>Hours, minutes, seconds and microseconds, not yet checked against their ranges.\<close>

definition parse_hmsf :: "string \<Rightarrow> (int \<times> int \<times> int \<times> int) option" where
  "parse_hmsf s =
     Option.bind (parse_comps 3 (char_at s 2 = Some (CHR '':'')) s) (\<lambda>(vs, r).
       if length vs < 3 \<and> r \<noteq> [] then None
       else Option.bind (parse_fraction r) (\<lambda>us.
         case vs of
           [h] \<Rightarrow> Some (h, 0, 0, us)
         | [h, m] \<Rightarrow> Some (h, m, 0, us)
         | h # m # sc # _ \<Rightarrow> Some (h, m, sc, us)
         | [] \<Rightarrow> None))"

definition is_zone_char :: "char \<Rightarrow> bool" where
  "is_zone_char c = (c \<in> set [CHR ''+'', CHR ''-'', CHR ''Z''])"

definition usec_of_hms :: "int \<Rightarrow> int \<Rightarrow> int \<Rightarrow> int \<Rightarrow> int" where
  "usec_of_hms h m sc us = ((h * 60 + m) * 60 + sc) * usec_per_sec + us"

definition parse_zone :: "string \<Rightarrow> int option option" where
  "parse_zone z =
     (case z of
        [] \<Rightarrow> Some None
      | c # cs \<Rightarrow>
          if c = CHR ''Z'' then (if cs = [] then Some (Some 0) else None)
          else Option.bind (parse_hmsf cs) (\<lambda>(h, m, sc, us).
            let off = usec_of_hms h m sc us in
            if off < usec_per_day then Some (Some (if c = CHR ''-'' then - off else off)) else None))"

definition parse_iso_time :: "string \<Rightarrow> (int \<times> int option) option" where
  "parse_iso_time s =
     Option.bind (parse_hmsf (takeWhile (\<lambda>c. \<not> is_zone_char c) s)) (\<lambda>(h, m, sc, us).
       if h < 24 \<and> m < 60 \<and> sc < 60
       then map_option (Pair (usec_of_hms h m sc us))
              (parse_zone (dropWhile (\<lambda>c. \<not> is_zone_char c) s))
       else None)"

definition fromisoformat :: "string \<Rightarrow> pydatetime option" where
  "fromisoformat s =
     Option.bind (date_length s) (\<lambda>p.
       Option.bind (parse_iso_date (take p s)) (\<lambda>n.
         let base = (n - 1) * usec_per_day in
         if length s \<le> p then Some (DateTime base None)
         else map_option (\<lambda>(u, off). DateTime (base + u) off)
                (parse_iso_time (drop (p + 1) s))))"

section \<open>Printing\<close>

definition show_hms :: "int \<Rightarrow> string" where
  "show_hms u =
     (let sc = u div usec_per_sec; us = u mod usec_per_sec
      in pad_nat 2 (sc div 3600) @ '':'' @ pad_nat 2 (sc div 60 mod 60) @ '':''
           @ pad_nat 2 (sc mod 60)
           @ (if us = 0 then [] else ''.'' @ pad_nat 6 us))"

definition show_offset :: "int \<Rightarrow> string" where
  "show_offset off =
     (let a = \<bar>off\<bar>; sc = a div usec_per_sec; us = a mod usec_per_sec
      in (if off < 0 then ''-'' else ''+'')
           @ pad_nat 2 (sc div 3600) @ '':'' @ pad_nat 2 (sc div 60 mod 60)
           @ (if sc mod 60 = 0 \<and> us = 0 then [] else '':'' @ pad_nat 2 (sc mod 60))
           @ (if us = 0 then [] else ''.'' @ pad_nat 6 us))"

definition isoformat_sep :: "string \<Rightarrow> pydatetime \<Rightarrow> string" where
  "isoformat_sep sep t =
     (case ord2ymd (dt_local t div usec_per_day + 1) of (y, m, d) \<Rightarrow>
        pad_nat 4 y @ ''-'' @ pad_nat 2 m @ ''-'' @ pad_nat 2 d @ sep
          @ show_hms (dt_local t mod usec_per_day)
          @ (case dt_offset t of None \<Rightarrow> [] | Some off \<Rightarrow> show_offset off))"

definition isoformat :: "pydatetime \<Rightarrow> string" where
  "isoformat = isoformat_sep ''T''"

definition show_instant :: "instant \<Rightarrow> string" where
  "show_instant i = isoformat (DateTime (usec i) (Some 0))"

end
