(* ===== verification/PyDecimal.thy ===== *)
theory PyDecimal
  imports PyText
begin

text \<open>
  Decimal numbers of Python's \<open>decimal\<close> module as \<open>Decimal(text)\<close> builds them: white space
  around the text and underscores in it are dropped, then a sign, digits with an optional
  point and exponent, or an infinity or a NaN in any letter case. The exponent is unbounded
  here (the module refuses exponents beyond 10^18).
\<close>

datatype decimal =
    DecFinite bool int int    \<comment> \<open>negative?, coefficient, exponent of ten\<close>
  | DecInfinity bool          \<comment> \<open>negative?\<close>
  | DecNaN bool bool int      \<comment> \<open>negative?, signalling?, payload\<close>

definition digits_then :: "string \<Rightarrow> string \<times> string" where
  "digits_then s = (takeWhile is_digit s, dropWhile is_digit s)"

definition digits_or_0 :: "string \<Rightarrow> int" where
  "digits_or_0 s = (case of_digits s of None \<Rightarrow> 0 | Some n \<Rightarrow> n)"

text \<open>The exponent part: nothing, or \<open>e\<close>, a sign and at least one digit up to the end.\<close>

definition parse_exponent :: "string \<Rightarrow> int option" where
  "parse_exponent s =
     (case s of
        [] \<Rightarrow> Some 0
      | c # cs \<Rightarrow>
          if c \<noteq> CHR ''e'' then None
          else case cs of
            [] \<Rightarrow> None
          | d # ds \<Rightarrow>
              if d = CHR ''-'' then map_option uminus (of_digits ds)
              else if d = CHR ''+'' then of_digits ds
              else of_digits cs)"

definition parse_finite :: "bool \<Rightarrow> string \<Rightarrow> decimal option" where
  "parse_finite neg s =
     (case digits_then s of (ip, r) \<Rightarrow>
        (case (case r of [] \<Rightarrow> ([], r)
               | c # cs \<Rightarrow> if c = CHR ''.'' then digits_then cs else ([], r)) of (fp, r') \<Rightarrow>
           if ip @ fp = [] then None
           else map_option
             (\<lambda>e. DecFinite neg (digits_or_0 (ip @ fp)) (e - int (length fp)))
             (parse_exponent r')))"

definition parse_nan :: "bool \<Rightarrow> bool \<Rightarrow> string \<Rightarrow> decimal option" where
  "parse_nan neg sig s =
     (if starts_with s ''nan'' \<and> list_all is_digit (drop 3 s)
      then Some (DecNaN neg sig (digits_or_0 (drop 3 s))) else None)"

definition parse_unsigned :: "bool \<Rightarrow> string \<Rightarrow> decimal option" where
  "parse_unsigned neg s =
     (if s = ''inf'' \<or> s = ''infinity'' then Some (DecInfinity neg)
      else if starts_with s ''snan'' then parse_nan neg True (tl s)
      else if starts_with s ''nan'' then parse_nan neg False s
      else parse_finite neg s)"

definition decimal_of_text :: "string \<Rightarrow> decimal option" where
  "decimal_of_text text =
     (case lower (filter (\<lambda>c. c \<noteq> CHR ''_'') (strip text)) of
        [] \<Rightarrow> None
      | c # cs \<Rightarrow>
          if c = CHR ''-'' then parse_unsigned True cs
          else if c = CHR ''+'' then parse_unsigned False cs
          else parse_unsigned False (c # cs))"

definition is_finite :: "decimal \<Rightarrow> bool" where
  "is_finite d = (case d of DecFinite _ _ _ \<Rightarrow> True | _ \<Rightarrow> False)"

end
