(* ===== verification/PyValue.thy ===== *)
theory PyValue
  imports PyTime PyDecimal
begin

text \<open>
  The dynamically typed values that \<open>json.loads\<close> and \<open>yaml.safe_load\<close> return, with the
  operations the service applies to them: truth value, equality, \<open>str\<close>, \<open>int\<close> and dictionary
  lookup. A float is represented by the text \<open>repr\<close> prints for it, which determines it; a
  dictionary is the list of its items in insertion order, with distinct keys. The exceptions
  of the service and of the library calls it makes are \<open>py_error\<close>.
\<close>

section \<open>Values\<close>

datatype pykey =
    KeyStr string
  | KeyInt int
  | KeyBool bool
  | KeyFloat string
  | KeyNone

datatype pyval =
    PyNone
  | PyBool bool
  | PyInt int
  | PyFloat string
  | PyStr string
  | PyList "pyval list"
  | PyDict "(pykey \<times> pyval) list"
  | PyDatetime pydatetime

type_synonym pydict = "(pykey \<times> pyval) list"

text \<open>\<open>d.get(key)\<close> for a string key, and \<open>d[key] = v\<close>, which keeps the place of a key.\<close>

definition dict_get :: "pydict \<Rightarrow> string \<Rightarrow> pyval" where
  "dict_get d k = (case map_of d (KeyStr k) of None \<Rightarrow> PyNone | Some v \<Rightarrow> v)"

definition dict_has :: "pydict \<Rightarrow> string \<Rightarrow> bool" where
  "dict_has d k = (map_of d (KeyStr k) \<noteq> None)"

definition dict_set :: "pydict \<Rightarrow> string \<Rightarrow> pyval \<Rightarrow> pydict" where
  "dict_set d k v = AList.update (KeyStr k) v d"

lemma dict_get_set [simp]: "dict_get (dict_set d k v) k' = (if k' = k then v else dict_get d k')"
  by (simp add: dict_get_def dict_set_def update_conv')

lemma dict_get_Nil [simp]: "dict_get [] k = PyNone"
  by (simp add: dict_get_def)

lemma dict_get_Cons [simp]:
  "dict_get ((k, v) # d) k' = (if k = KeyStr k' then v else dict_get d k')"
  by (simp add: dict_get_def)

section \<open>Floats\<close>

text \<open>
  The integer part of a float, from its shortest decimal text. Below 2^53 the text and the
  float have the same integer part; from there on a float is an integer of 53 significant
  bits, the one nearest to the text.
\<close>

function bit_length :: "int \<Rightarrow> nat" where
  "bit_length n = (if n \<le> 0 then 0 else Suc (bit_length (n div 2)))"
  by pat_completeness auto
termination
  by (relation "measure nat") auto

declare bit_length.simps [simp del]

definition round53 :: "int \<Rightarrow> int" where
  "round53 v =
     (let k = bit_length v - 53; q = v div 2 ^ k; r = v mod 2 ^ k
      in (if 2 ^ k < 2 * r \<or> (2 ^ k = 2 * r \<and> 0 < k \<and> odd q) then q + 1 else q) * 2 ^ k)"

definition float_int :: "string \<Rightarrow> int option" where
  "float_int t =
     (case decimal_of_text t of
        Some (DecFinite neg c e) \<Rightarrow>
          (let v = (if 0 \<le> e then c * 10 ^ nat e else c div 10 ^ nat (- e));
               w = (if v < 2 ^ 53 then v else round53 v)
           in Some (if neg then - w else w))
      | _ \<Rightarrow> None)"

definition float_integral :: "string \<Rightarrow> bool" where
  "float_integral t =
     (case decimal_of_text t of
        Some (DecFinite neg c e) \<Rightarrow> 0 \<le> e \<or> c mod 10 ^ nat (- e) = 0
      | _ \<Rightarrow> False)"

section \<open>Truth value and equality\<close>

fun py_true :: "pyval \<Rightarrow> bool" where
  "py_true PyNone = False"
| "py_true (PyBool b) = b"
| "py_true (PyInt i) = (i \<noteq> 0)"
| "py_true (PyFloat t) = (t \<noteq> ''0.0'' \<and> t \<noteq> ''-0.0'')"
| "py_true (PyStr s) = (s \<noteq> [])"
| "py_true (PyList xs) = (xs \<noteq> [])"
| "py_true (PyDict d) = (d \<noteq> [])"
| "py_true (PyDatetime t) = True"

definition py_or :: "pyval \<Rightarrow> pyval \<Rightarrow> pyval" where
  "py_or a b = (if py_true a then a else b)"

text \<open>
  Booleans, integers and floats compare by their numeric value, and a NaN equals nothing;
  aware datetimes compare by instant, naive ones by reading, and the two kinds differ.
\<close>

datatype numkey = KInt int | KFloat string | KNaN

fun num_key :: "pyval \<Rightarrow> numkey option" where
  "num_key (PyBool b) = Some (KInt (of_bool b))"
| "num_key (PyInt i) = Some (KInt i)"
| "num_key (PyFloat t) =
     Some (if t = ''nan'' then KNaN
           else if float_integral t then (case float_int t of Some i \<Rightarrow> KInt i | None \<Rightarrow> KFloat t)
           else KFloat t)"
| "num_key _ = None"

definition num_eq :: "pyval \<Rightarrow> pyval \<Rightarrow> bool" where
  "num_eq a b =
     (case (num_key a, num_key b) of
        (Some x, Some y) \<Rightarrow> x \<noteq> KNaN \<and> x = y
      | _ \<Rightarrow> False)"

fun datetime_eq :: "pydatetime \<Rightarrow> pydatetime \<Rightarrow> bool" where
  "datetime_eq (DateTime l (Some off)) (DateTime l' (Some off')) = (l - off = l' - off')"
| "datetime_eq (DateTime l None) (DateTime l' None) = (l = l')"
| "datetime_eq _ _ = False"

fun py_eq :: "pyval \<Rightarrow> pyval \<Rightarrow> bool"
  and py_eq_list :: "pyval list \<Rightarrow> pyval list \<Rightarrow> bool"
  and py_eq_items :: "(pykey \<times> pyval) list \<Rightarrow> pydict \<Rightarrow> bool"
where
  "py_eq PyNone v = (v = PyNone)"
| "py_eq (PyStr s) v = (v = PyStr s)"
| "py_eq (PyList xs) v = (case v of PyList ys \<Rightarrow> py_eq_list xs ys | _ \<Rightarrow> False)"
| "py_eq (PyDict d) v =
     (case v of PyDict e \<Rightarrow> length d = length e \<and> py_eq_items d e | _ \<Rightarrow> False)"
| "py_eq (PyDatetime t) v = (case v of PyDatetime u \<Rightarrow> datetime_eq t u | _ \<Rightarrow> False)"
| "py_eq (PyBool b) v = num_eq (PyBool b) v"
| "py_eq (PyInt i) v = num_eq (PyInt i) v"
| "py_eq (PyFloat f) v = num_eq (PyFloat f) v"
| "py_eq_list [] ys = (ys = [])"
| "py_eq_list (x # xs) ys =
     (case ys of [] \<Rightarrow> False | y # ys' \<Rightarrow> py_eq x y \<and> py_eq_list xs ys')"
| "py_eq_items [] e = True"
| "py_eq_items ((k, v) # d) e =
     ((case map_of e k of None \<Rightarrow> False | Some v' \<Rightarrow> py_eq v v') \<and> py_eq_items d e)"

section \<open>Conversions\<close>

fun key_repr :: "pykey \<Rightarrow> string" where
  "key_repr (KeyStr s) = repr_string s"
| "key_repr (KeyInt i) = show_int i"
| "key_repr (KeyBool b) = (if b then ''True'' else ''False'')"
| "key_repr (KeyFloat t) = t"
| "key_repr KeyNone = ''None''"

fun py_repr :: "pyval \<Rightarrow> string"
  and repr_elems :: "pyval list \<Rightarrow> string list"
  and repr_items :: "(pykey \<times> pyval) list \<Rightarrow> string list"
where
  "py_repr PyNone = ''None''"
| "py_repr (PyBool b) = (if b then ''True'' else ''False'')"
| "py_repr (PyInt i) = show_int i"
| "py_repr (PyFloat t) = t"
| "py_repr (PyStr s) = repr_string s"
| "py_repr (PyList xs) = ''['' @ join '', '' (repr_elems xs) @ '']''"
| "py_repr (PyDict d) = ''{'' @ join '', '' (repr_items d) @ ''}''"
| "py_repr (PyDatetime t) = ''datetime.datetime('' @ isoformat t @ '')''"
| "repr_elems [] = []"
| "repr_elems (x # xs) = py_repr x # repr_elems xs"
| "repr_items [] = []"
| "repr_items ((k, v) # d) = (key_repr k @ '': '' @ py_repr v) # repr_items d"

fun py_str :: "pyval \<Rightarrow> string" where
  "py_str (PyStr s) = s"
| "py_str (PyDatetime t) = isoformat_sep '' '' t"
| "py_str v = py_repr v"

text \<open>\<open>int(value)\<close>; \<open>None\<close> where Python raises.\<close>

fun py_int :: "pyval \<Rightarrow> int option" where
  "py_int (PyBool b) = Some (of_bool b)"
| "py_int (PyInt i) = Some i"
| "py_int (PyFloat t) = float_int t"
| "py_int (PyStr s) = int_of_text s"
| "py_int _ = None"

section \<open>Exceptions\<close>

text \<open>
  Why an event is refused. The exception classes form the hierarchy of the source:
  \<open>UnsupportedTopicError\<close> and \<open>ContractCoreViolationError\<close> are \<open>EventValidationError\<close>s,
  which are \<open>ValueError\<close>s; \<open>SystemExit\<close> ends a script. \<open>DatabaseError\<close> stands for everything the database driver
  raises, \<open>KafkaException\<close> for the Kafka client, \<open>PyJWTError\<close> for the token library;
  \<open>DetachedInstanceError\<close> is SQLAlchemy's for reading a row whose session is closed.
\<close>

datatype invalid =
    FieldRequired string
  | NotNumeric string
  | NotIsoDatetime string
  | VersionNotInt
  | MissingCoreFields string "string list"
  | NotAnObject

datatype py_error =
    EventValidationError invalid
  | UnsupportedTopicError string string
  | ContractCoreViolationError string string string string
  | ValueError string
  | OverflowError
  | RuntimeError
  | JSONDecodeError
  | UnicodeDecodeError
  | UnicodeEncodeError
  | TypeError
  | AttributeError
  | DatabaseError
  | KafkaException
  | PyJWTError
  | DetachedInstanceError
  | SystemExit string
  | AuthError string
  | HTTPException int string

type_synonym 'a result = "py_error + 'a"

fun is_event_validation_error :: "py_error \<Rightarrow> bool" where
  "is_event_validation_error (EventValidationError _) = True"
| "is_event_validation_error (UnsupportedTopicError _ _) = True"
| "is_event_validation_error (ContractCoreViolationError _ _ _ _) = True"
| "is_event_validation_error _ = False"

end
