(* ===== verification/EventProfiles.thy ===== *)
theory EventProfiles
  imports PyValue
begin

text \<open>
  \<open>src/common/event_profiles.py\<close>: reading and checking the event profiles. PyYAML is a
  parameter: \<open>None\<close> when it could not be imported, otherwise the function from the text of
  the file to the loaded value. Python's tuples and lists are both \<open>PyList\<close>.
\<close>

section \<open>Defaults\<close>

definition DEFAULT_EVENT_PROFILE_ID :: string where
  "DEFAULT_EVENT_PROFILE_ID = ''canonical-v1''"

definition DEFAULT_TOPICS :: "(string \<times> string) list" where
  "DEFAULT_TOPICS =
     [(''ledger'', ''ledger.entry.upserted''), (''payment_order'', ''payment.order.upserted'')]"

abbreviation topic_kinds :: "string list" where
  "topic_kinds \<equiv> [''ledger'', ''payment_order'']"

section \<open>Checks\<close>

definition expect_mapping :: "pyval \<Rightarrow> pydict result" where
  "expect_mapping v = (case v of PyDict d \<Rightarrow> Inr d | _ \<Rightarrow> Inl (ValueError ''must be a mapping''))"

definition expect_text :: "pyval \<Rightarrow> string result" where
  "expect_text v =
     (case v of
        PyStr s \<Rightarrow>
          if strip s = [] then Inl (ValueError ''must be a non-empty string'') else Inr (strip s)
      | _ \<Rightarrow> Inl (ValueError ''must be a non-empty string''))"

definition key_val :: "pykey \<Rightarrow> pyval" where
  "key_val k =
     (case k of KeyStr s \<Rightarrow> PyStr s | KeyInt i \<Rightarrow> PyInt i | KeyBool b \<Rightarrow> PyBool b
              | KeyFloat t \<Rightarrow> PyFloat t | KeyNone \<Rightarrow> PyNone)"

text \<open>\<open>d.get(key, default)\<close>: the default only for a key that is absent.\<close>

definition dict_get_or :: "pydict \<Rightarrow> string \<Rightarrow> pyval \<Rightarrow> pyval" where
  "dict_get_or d k v = (case map_of d (KeyStr k) of None \<Rightarrow> v | Some w \<Rightarrow> w)"

text \<open>Keep the first of equal aliases; a canonical key that is not listed goes first.\<close>

definition dedupe :: "string list \<Rightarrow> string list" where
  "dedupe xs = foldl (\<lambda>acc x. if x \<in> set acc then acc else acc @ [x]) [] xs"

definition with_canonical :: "string \<Rightarrow> string list \<Rightarrow> string list" where
  "with_canonical k xs = (if k \<in> set xs then xs else k # xs)"

text \<open>A Python dictionary with string keys, filled item by item.\<close>

definition str_dict :: "(string \<times> 'v) list \<Rightarrow> (string \<times> 'v) list" where
  "str_dict kvs = foldl (\<lambda>d (k, v). AList.update k v d) [] kvs"

definition to_pydict :: "('v \<Rightarrow> pyval) \<Rightarrow> (string \<times> 'v) list \<Rightarrow> pyval" where
  "to_pydict f d = PyDict (map (\<lambda>(k, v). (KeyStr k, f v)) d)"

abbreviation py_strs :: "string list \<Rightarrow> pyval" where
  "py_strs xs \<equiv> PyList (map PyStr xs)"

section \<open>Normalising the two sections of a profile\<close>

definition normalize_alias_item :: "pykey \<times> pyval \<Rightarrow> (string \<times> string list) result" where
  "normalize_alias_item kv =
     (case kv of (k, v) \<Rightarrow>
        rbind (expect_text (key_val k)) (\<lambda>canonical.
          case v of
            PyList vs \<Rightarrow>
              (if vs = [] then Inl (ValueError ''must be a non-empty list'')
               else rbind (rmap expect_text vs) (\<lambda>aliases.
                 Inr (canonical, with_canonical canonical (dedupe aliases))))
          | _ \<Rightarrow> Inl (ValueError ''must be a non-empty list'')))"

definition normalize_aliases :: "pydict \<Rightarrow> pyval result" where
  "normalize_aliases aliases_raw =
     rbind (rmap (\<lambda>kind.
              rbind (expect_mapping (dict_get_or aliases_raw kind (PyDict []))) (\<lambda>items.
                rbind (rmap normalize_alias_item items) (\<lambda>kvs.
                  Inr (kind, to_pydict py_strs (str_dict kvs))))) topic_kinds)
       (\<lambda>sections. Inr (to_pydict id sections))"

definition normalize_core_required :: "pydict \<Rightarrow> pyval result" where
  "normalize_core_required required_raw =
     rbind (rmap (\<lambda>kind.
              case dict_get_or required_raw kind (PyList []) of
                PyList vs \<Rightarrow>
                  rbind (rmap expect_text vs) (\<lambda>fields. Inr (kind, py_strs fields))
              | _ \<Rightarrow> Inl (ValueError ''must be a list'')) topic_kinds)
       (\<lambda>sections. Inr (to_pydict id sections))"

section \<open>Loading\<close>

definition load_profile :: "pykey \<times> pyval \<Rightarrow> (string \<times> pyval) result" where
  "load_profile kv =
     (case kv of (k, v) \<Rightarrow>
        rbind (expect_text (key_val k)) (\<lambda>profile_id.
        rbind (expect_mapping v) (\<lambda>profile_raw.
        rbind (expect_mapping (dict_get profile_raw ''topics'')) (\<lambda>topics_raw.
        rbind (expect_text (dict_get topics_raw ''ledger'')) (\<lambda>ledger.
        rbind (expect_text (dict_get topics_raw ''payment_order'')) (\<lambda>payment_order.
        rbind (rbind (expect_mapping (dict_get_or profile_raw ''aliases'' (PyDict [])))
                 normalize_aliases) (\<lambda>aliases.
        rbind (rbind (expect_mapping (dict_get_or profile_raw ''core_required'' (PyDict [])))
                 normalize_core_required) (\<lambda>core_required.
          Inr (profile_id,
               to_pydict id
                 [(''topics'', to_pydict PyStr
                     [(''ledger'', ledger), (''payment_order'', payment_order)]),
                  (''aliases'', aliases),
                  (''core_required'', core_required)])))))))))"

definition load_event_profiles ::
  "(string \<Rightarrow> pyval result) option \<Rightarrow> string option \<Rightarrow> (string \<times> pyval) list result" where
  "load_event_profiles yaml file =
     rbind (require_some RuntimeError yaml) (\<lambda>safe_load.
     rbind (require_some (ValueError ''event profile file not found'') file) (\<lambda>text.
     rbind (safe_load text) (\<lambda>loaded.
     rbind (expect_mapping (py_or loaded (PyDict []))) (\<lambda>root.
     rbind (raise_if (\<not> py_eq (dict_get root ''version'') (PyInt 1))
              (ValueError ''event profile version must be 1'')) (\<lambda>_.
     rbind (expect_mapping (dict_get root ''profiles'')) (\<lambda>profiles_raw.
     rbind (raise_if (profiles_raw = [])
              (ValueError ''profiles must define at least one profile'')) (\<lambda>_.
     rbind (rmap load_profile profiles_raw) (\<lambda>kvs. Inr (str_dict kvs)))))))))"

end
