(* ===== verification/ContractProfile.thy ===== *)
theory ContractProfile
  imports EventProfiles
begin

text \<open>
  \<open>src/consumer/contract_profile.py\<close>: the contract the consumer runs under, that is, which
  Kafka topic carries which kind of event, which payload keys are aliases of a canonical key,
  and which keys an event must have.
\<close>

record topic_profile =
  tp_ledger :: string
  tp_payment_order :: string

record alias_profile =
  ap_ledger :: "(string \<times> string list) list"
  ap_payment_order :: "(string \<times> string list) list"

record core_required_policy =
  cr_ledger :: "string list"
  cr_payment_order :: "string list"

record event_contract_profile =
  profile_id :: string
  topics :: topic_profile
  aliases :: alias_profile
  core_required :: core_required_policy

definition topic_kind :: "event_contract_profile \<Rightarrow> string \<Rightarrow> string option" where
  "topic_kind p topic =
     (if topic = tp_ledger (topics p) then Some ''ledger''
      else if topic = tp_payment_order (topics p) then Some ''payment_order''
      else None)"

definition aliases_for ::
  "event_contract_profile \<Rightarrow> string \<Rightarrow> (string \<times> string list) list result" where
  "aliases_for p kind =
     (if kind = ''ledger'' then Inr (ap_ledger (aliases p))
      else if kind = ''payment_order'' then Inr (ap_payment_order (aliases p))
      else Inl (ValueError ''unsupported topic kind''))"

definition core_required_for :: "event_contract_profile \<Rightarrow> string \<Rightarrow> string list result" where
  "core_required_for p kind =
     (if kind = ''ledger'' then Inr (cr_ledger (core_required p))
      else if kind = ''payment_order'' then Inr (cr_payment_order (core_required p))
      else Inl (ValueError ''unsupported topic kind''))"

section \<open>From the loaded profile\<close>

definition nonempty_text :: "string \<Rightarrow> pyval \<Rightarrow> string result" where
  "nonempty_text what v =
     (let s = strip (py_str v) in if s = [] then Inl (ValueError what) else Inr s)"

definition to_alias_item :: "pykey \<times> pyval \<Rightarrow> (string \<times> string list) result" where
  "to_alias_item kv =
     (case kv of (k, v) \<Rightarrow>
        rbind (nonempty_text ''has empty canonical key'' (key_val k)) (\<lambda>canonical_key.
          case v of
            PyList vs \<Rightarrow>
              rbind (rmap (nonempty_text ''has empty alias'') vs) (\<lambda>values.
                Inr (canonical_key, with_canonical canonical_key (dedupe values)))
          | _ \<Rightarrow> Inl (ValueError ''must be a list'')))"

definition to_alias_map :: "pydict \<Rightarrow> string \<Rightarrow> (string \<times> string list) list result" where
  "to_alias_map raw_aliases kind =
     (case dict_get_or raw_aliases kind (PyDict []) of
        PyDict items \<Rightarrow> rbind (rmap to_alias_item items) (\<lambda>kvs. Inr (str_dict kvs))
      | _ \<Rightarrow> Inl (ValueError ''must be a mapping''))"

definition to_core_required :: "pydict \<Rightarrow> string \<Rightarrow> string list result" where
  "to_core_required raw_required kind =
     (case dict_get_or raw_required kind (PyList []) of
        PyList vs \<Rightarrow> rmap (nonempty_text ''has empty field'') vs
      | _ \<Rightarrow> Inl (ValueError ''must be a list''))"

text \<open>
  The arguments are the loaded profiles and the three settings of \<open>AppConfig\<close> that the
  function reads: the profile id and the two effective topics.
\<close>

definition load_event_contract_profile ::
  "(string \<times> pyval) list \<Rightarrow> string \<Rightarrow> string \<Rightarrow> string \<Rightarrow> event_contract_profile result" where
  "load_event_contract_profile profiles event_profile_id ledger_topic payment_order_topic =
     rbind (require_some (ValueError ''unknown event profile'')
              (map_of profiles event_profile_id)) (\<lambda>v.
     rbind (expect_mapping v) (\<lambda>profile_raw.
     rbind (expect_mapping (dict_get_or profile_raw ''aliases'' (PyDict []))) (\<lambda>aliases_raw.
     rbind (expect_mapping (dict_get_or profile_raw ''core_required'' (PyDict []))) (\<lambda>required_raw.
     rbind (raise_if (ledger_topic = payment_order_topic)
              (ValueError ''effective ledger/payment topics must be distinct'')) (\<lambda>_.
     rbind (to_alias_map aliases_raw ''ledger'') (\<lambda>al.
     rbind (to_alias_map aliases_raw ''payment_order'') (\<lambda>ap.
     rbind (to_core_required required_raw ''ledger'') (\<lambda>cl.
     rbind (to_core_required required_raw ''payment_order'') (\<lambda>cp.
       Inr \<lparr>profile_id = event_profile_id,
            topics = \<lparr>tp_ledger = ledger_topic, tp_payment_order = payment_order_topic\<rparr>,
            aliases = \<lparr>ap_ledger = al, ap_payment_order = ap\<rparr>,
            core_required = \<lparr>cr_ledger = cl, cr_payment_order = cp\<rparr>\<rparr>)))))))))"

end
