(* ===== verification/Normalizer.thy ===== *)
theory Normalizer
  imports ContractProfile
begin

text \<open>
  \<open>src/consumer/contract_normalizer.py\<close>: bringing a payload to its canonical keys. Every
  alias group is resolved on the original payload, two different non-empty values in one
  group are a contract violation, and a required key without a value is an error.
\<close>

definition EVENT_TIME_REQUIRED_SENTINEL :: string where
  "EVENT_TIME_REQUIRED_SENTINEL = ''event_time_or_alias''"

record normalized_payload =
  np_payload :: pydict
  np_topic_kind :: string
  np_alias_hits :: "(string \<times> string) list"

fun is_missing :: "pyval \<Rightarrow> bool" where
  "is_missing PyNone = True"
| "is_missing (PyStr s) = (strip s = [])"
| "is_missing _ = False"

fun normalize_value :: "pyval \<Rightarrow> pyval" where
  "normalize_value (PyStr s) = PyStr (strip s)"
| "normalize_value v = v"

text \<open>The aliases that have a value, in the order of the group, with the stripped value.\<close>

definition alias_candidates :: "pydict \<Rightarrow> string list \<Rightarrow> (string \<times> pyval) list" where
  "alias_candidates payload grp =
     map (\<lambda>a. (a, normalize_value (dict_get payload a)))
       (filter (\<lambda>a. \<not> is_missing (dict_get payload a)) grp)"

definition resolve_alias_value ::
  "pydict \<Rightarrow> string list \<Rightarrow> string \<Rightarrow> string \<Rightarrow> string \<Rightarrow> (string \<times> pyval) option result" where
  "resolve_alias_value payload grp canonical_key kind pid =
     (case alias_candidates payload grp of
        [] \<Rightarrow> Inr None
      | (first_alias, first_value) # rest \<Rightarrow>
          (case find (\<lambda>(a, v). \<not> py_eq v first_value) rest of
             Some (a, v) \<Rightarrow> Inl (ContractCoreViolationError kind canonical_key pid a)
           | None \<Rightarrow> Inr (Some (first_alias, first_value))))"

text \<open>The loop over the alias map; the accumulator is the new payload and the alias hits.\<close>

fun resolve_groups ::
  "pydict \<Rightarrow> string \<Rightarrow> string \<Rightarrow> (string \<times> string list) list
     \<Rightarrow> pydict \<times> (string \<times> string) list \<Rightarrow> (pydict \<times> (string \<times> string) list) result" where
  "resolve_groups payload kind pid [] acc = Inr acc"
| "resolve_groups payload kind pid ((canonical_key, grp) # gs) acc =
     rbind (resolve_alias_value payload grp canonical_key kind pid) (\<lambda>resolved.
       resolve_groups payload kind pid gs
         (case resolved of
            None \<Rightarrow> acc
          | Some (alias_name, v) \<Rightarrow>
              (dict_set (fst acc) canonical_key v,
               if alias_name \<noteq> canonical_key then snd acc @ [(canonical_key, alias_name)]
               else snd acc)))"

definition required_key :: "string \<Rightarrow> string" where
  "required_key required =
     (if required = EVENT_TIME_REQUIRED_SENTINEL then ''event_time'' else required)"

definition validate_core_required :: "pydict \<Rightarrow> string \<Rightarrow> string list \<Rightarrow> unit result" where
  "validate_core_required normalized kind required_fields =
     (let missing = filter (\<lambda>r. is_missing (dict_get normalized (required_key r))) required_fields
      in raise_if (missing \<noteq> []) (EventValidationError (MissingCoreFields kind missing)))"

definition normalize_payload_for_topic ::
  "string \<Rightarrow> pydict \<Rightarrow> event_contract_profile \<Rightarrow> normalized_payload result" where
  "normalize_payload_for_topic topic payload profile =
     (case topic_kind profile topic of
        None \<Rightarrow> Inl (UnsupportedTopicError topic (profile_id profile))
      | Some kind \<Rightarrow>
          rbind (aliases_for profile kind) (\<lambda>alias_map.
          rbind (resolve_groups payload kind (profile_id profile) alias_map (payload, []))
            (\<lambda>(normalized, hits).
          rbind (core_required_for profile kind) (\<lambda>required.
          rbind (validate_core_required normalized kind required) (\<lambda>_.
            Inr \<lparr>np_payload = normalized, np_topic_kind = kind, np_alias_hits = hits\<rparr>)))))"

section \<open>What a resolved payload holds\<close>

lemma is_missing_normalize [simp]: "is_missing (normalize_value v) = is_missing v"
  by (cases v) auto

lemma alias_candidates_Nil_iff:
  "alias_candidates payload grp = [] \<longleftrightarrow> (\<forall>a \<in> set grp. is_missing (dict_get payload a))"
  by (auto simp: alias_candidates_def filter_empty_conv)

lemma alias_candidates_in:
  "(a, v) \<in> set (alias_candidates payload grp) \<longleftrightarrow>
     a \<in> set grp \<and> \<not> is_missing (dict_get payload a) \<and> v = normalize_value (dict_get payload a)"
  by (auto simp: alias_candidates_def)

text \<open>
  A resolved group: the value comes from a member of the group, and every member with a
  value has an equal one (the comparison is the one the code makes, other against first).
\<close>

lemma resolve_alias_value_Some:
  assumes "resolve_alias_value payload grp k kind pid = Inr (Some (a, v))"
  shows "a \<in> set grp \<and> \<not> is_missing (dict_get payload a) \<and> v = normalize_value (dict_get payload a)
    \<and> (\<forall>b \<in> set grp. \<not> is_missing (dict_get payload b) \<longrightarrow>
          b = a \<or> py_eq (normalize_value (dict_get payload b)) v)"
proof -
  obtain rest where cs: "alias_candidates payload grp = (a, v) # rest"
    and none: "find (\<lambda>(a, w). \<not> py_eq w v) rest = None"
    using assms by (auto simp: resolve_alias_value_def split: list.splits option.splits prod.splits)
  have "(a, v) \<in> set (alias_candidates payload grp)"
    using cs by simp
  then have "a \<in> set grp \<and> \<not> is_missing (dict_get payload a) \<and> v = normalize_value (dict_get payload a)"
    by (simp add: alias_candidates_in)
  moreover have "b = a \<or> py_eq (normalize_value (dict_get payload b)) v"
    if "b \<in> set grp" "\<not> is_missing (dict_get payload b)" for b
  proof -
    have "(b, normalize_value (dict_get payload b)) \<in> set (alias_candidates payload grp)"
      using that by (simp add: alias_candidates_in)
    with cs none show ?thesis by (force simp: find_None_iff)
  qed
  ultimately show ?thesis by blast
qed

lemma resolve_alias_value_None:
  "resolve_alias_value payload grp k kind pid = Inr None \<longleftrightarrow>
     (\<forall>a \<in> set grp. is_missing (dict_get payload a))"
  unfolding alias_candidates_Nil_iff [symmetric]
  by (auto simp: resolve_alias_value_def split: list.splits option.splits prod.splits)

text \<open>The loop's result, key by key, when the canonical keys are distinct.\<close>

lemma resolve_groups_other:
  assumes "resolve_groups payload kind pid gs acc = Inr (d, hits)" and "k \<notin> fst ` set gs"
  shows "dict_get d k = dict_get (fst acc) k"
  using assms
proof (induction gs arbitrary: acc)
  case Nil
  then show ?case by simp
next
  case (Cons g gs)
  obtain c grp where g: "g = (c, grp)" by (cases g)
  with Cons.prems obtain r where
    "resolve_groups payload kind pid gs
       (case r of None \<Rightarrow> acc
        | Some (a, v) \<Rightarrow> (dict_set (fst acc) c v,
            if a \<noteq> c then snd acc @ [(c, a)] else snd acc)) = Inr (d, hits)"
    by (auto simp: rbind_eq_Inr)
  from Cons.IH [OF this] Cons.prems(2) g show ?case
    by (auto split: option.splits)
qed

lemma resolve_groups_canonical:
  assumes "resolve_groups payload kind pid gs acc = Inr (d, hits)"
    and "distinct (map fst gs)" and "(k, grp) \<in> set gs"
  shows "\<exists>r. resolve_alias_value payload grp k kind pid = Inr r \<and>
           dict_get d k = (case r of None \<Rightarrow> dict_get (fst acc) k | Some (a, v) \<Rightarrow> v)"
  using assms
proof (induction gs arbitrary: acc)
  case Nil
  then show ?case by simp
next
  case (Cons g gs)
  obtain c g' where g: "g = (c, g')" by (cases g)
  with Cons.prems(1) obtain r where
    r: "resolve_alias_value payload g' c kind pid = Inr r" and
    rest: "resolve_groups payload kind pid gs
       (case r of None \<Rightarrow> acc
        | Some (a, v) \<Rightarrow> (dict_set (fst acc) c v,
            if a \<noteq> c then snd acc @ [(c, a)] else snd acc)) = Inr (d, hits)"
    by (auto simp: rbind_eq_Inr)
  show ?case
  proof (cases "k = c")
    case True
    with Cons.prems(2,3) g have "grp = g'" and "k \<notin> fst ` set gs"
      by (auto simp: image_iff)
    with resolve_groups_other [OF rest] r True show ?thesis
      by (auto split: option.splits)
  next
    case False
    with Cons.prems g have "(k, grp) \<in> set gs" and "distinct (map fst gs)" by auto
    from Cons.IH [OF rest this(2,1)] False show ?thesis
      by (auto split: option.splits)
  qed
qed

text \<open>One shape for every success of the function.\<close>

lemma normalize_InrE:
  assumes "normalize_payload_for_topic topic payload profile = Inr n"
  obtains kind gs required where
    "topic_kind profile topic = Some kind"
    "aliases_for profile kind = Inr gs"
    "core_required_for profile kind = Inr required"
    "resolve_groups payload kind (profile_id profile) gs (payload, []) =
       Inr (np_payload n, np_alias_hits n)"
    "np_topic_kind n = kind"
    "\<forall>r \<in> set required. \<not> is_missing (dict_get (np_payload n) (required_key r))"
  using assms
  by (auto simp: normalize_payload_for_topic_def rbind_eq_Inr validate_core_required_def Let_def
        filter_empty_conv split: option.splits)

lemma normalize_required:
  assumes "normalize_payload_for_topic topic payload profile = Inr n"
    and "core_required_for profile (np_topic_kind n) = Inr required" and "r \<in> set required"
  shows "\<not> is_missing (dict_get (np_payload n) (required_key r))"
  using assms(2,3) by (auto intro: normalize_InrE [OF assms(1)])

lemma normalize_other:
  assumes "normalize_payload_for_topic topic payload profile = Inr n"
    and "aliases_for profile (np_topic_kind n) = Inr gs" and "k \<notin> fst ` set gs"
  shows "dict_get (np_payload n) k = dict_get payload k"
  by (rule normalize_InrE [OF assms(1)]) (use assms(2,3) in \<open>auto dest: resolve_groups_other\<close>)

text \<open>
  An alias group after normalisation: without any value its key is as it was; otherwise the key
  has the value of one of its aliases, to which the other present ones are equal.
\<close>

definition group_resolved :: "pydict \<Rightarrow> string list \<Rightarrow> pyval \<Rightarrow> bool" where
  "group_resolved payload grp v \<longleftrightarrow>
     (\<exists>a\<in>set grp. \<not> is_missing (dict_get payload a) \<and> v = normalize_value (dict_get payload a)
        \<and> (\<forall>b\<in>set grp. is_missing (dict_get payload b) \<or> b = a
              \<or> py_eq (normalize_value (dict_get payload b)) v))"

lemma normalize_group:
  assumes "normalize_payload_for_topic topic payload profile = Inr n"
    and "aliases_for profile (np_topic_kind n) = Inr gs" and "distinct (map fst gs)"
    and "(k, grp) \<in> set gs"
  shows "(\<forall>a\<in>set grp. is_missing (dict_get payload a)) \<and> dict_get (np_payload n) k = dict_get payload k
         \<or> group_resolved payload grp (dict_get (np_payload n) k)"
proof -
  obtain kind where groups: "resolve_groups payload kind (profile_id profile) gs (payload, []) =
      Inr (np_payload n, np_alias_hits n)"
    by (rule normalize_InrE [OF assms(1)]) (use assms(2) in auto)
  obtain r where r: "resolve_alias_value payload grp k kind (profile_id profile) = Inr r"
    and d: "dict_get (np_payload n) k = (case r of None \<Rightarrow> dict_get payload k | Some (a, v) \<Rightarrow> v)"
    using resolve_groups_canonical [OF groups assms(3,4), unfolded fst_conv] by blast
  show ?thesis
  proof (cases r)
    case None
    with r d show ?thesis by (simp add: resolve_alias_value_None)
  next
    case (Some av)
    obtain a v where av: "av = (a, v)" by force
    have "group_resolved payload grp v"
      using resolve_alias_value_Some [OF r [unfolded Some av]]
      unfolding group_resolved_def by blast
    then show ?thesis using d Some av by simp
  qed
qed

lemma topic_kind_cases:
  "topic_kind p t = Some k \<Longrightarrow> k = ''ledger'' \<or> k = ''payment_order''"
  by (auto simp: topic_kind_def split: if_splits)

section \<open>Which errors normalisation raises\<close>

lemma resolve_alias_value_error:
  "resolve_alias_value payload grp k kind pid = Inl e \<Longrightarrow> \<exists>a. e = ContractCoreViolationError kind k pid a"
  by (auto simp: resolve_alias_value_def split: list.splits option.splits prod.splits)

lemma resolve_groups_error:
  "resolve_groups payload kind pid gs acc = Inl e \<Longrightarrow> is_event_validation_error e"
proof (induction gs arbitrary: acc)
  case (Cons g gs)
  obtain c grp where g: "g = (c, grp)" by (cases g)
  from Cons.prems consider
    "resolve_alias_value payload grp c kind pid = Inl e"
    | acc' where "resolve_groups payload kind pid gs acc' = Inl e"
    unfolding g resolve_groups.simps rbind_eq_Inl by blast
  then show ?case
    by cases (auto dest: resolve_alias_value_error intro: Cons.IH)
qed simp

lemma normalize_error_class:
  assumes "normalize_payload_for_topic topic payload profile = Inl e"
  shows "is_event_validation_error e"
proof (cases "topic_kind profile topic")
  case None
  with assms show ?thesis by (auto simp: normalize_payload_for_topic_def)
next
  case (Some kind)
  with topic_kind_cases [OF Some] assms show ?thesis
    by (auto simp: normalize_payload_for_topic_def rbind_eq_Inl aliases_for_def
        core_required_for_def validate_core_required_def Let_def dest: resolve_groups_error)
qed

end
