(* ===== verification/Events.thy ===== *)
theory Events
  imports Normalizer
begin

text \<open>
  \<open>src/consumer/events.py\<close>: from a payload to a typed event. Each parser raises
  \<open>EventValidationError\<close>; only the conversion of an aware time to UTC can raise something
  else (\<open>OverflowError\<close>).
\<close>

section \<open>Field parsers\<close>

definition parse_decimal :: "pyval \<Rightarrow> string \<Rightarrow> decimal result" where
  "parse_decimal v field =
     (if v = PyNone then Inl (EventValidationError (FieldRequired field))
      else require_some (EventValidationError (NotNumeric field)) (decimal_of_text (py_str v)))"

text \<open>\<open>if text.endswith("Z"): text = text[:-1] + "+00:00"\<close>\<close>

definition replace_zulu :: "string \<Rightarrow> string" where
  "replace_zulu t = (if ends_with_char t (CHR ''Z'') then butlast t @ ''+00:00'' else t)"

definition parse_datetime :: "pyval \<Rightarrow> string \<Rightarrow> instant result" where
  "parse_datetime v field =
     (case v of
        PyNone \<Rightarrow> Inl (EventValidationError (FieldRequired field))
      | PyDatetime t \<Rightarrow> require_some OverflowError (to_utc t)
      | PyStr s \<Rightarrow>
          rbind (require_some (EventValidationError (NotIsoDatetime field))
                   (fromisoformat (replace_zulu (strip s))))
            (\<lambda>t. require_some OverflowError (to_utc t))
      | _ \<Rightarrow> Inl (EventValidationError (NotIsoDatetime field)))"

definition parse_optional_datetime :: "pyval \<Rightarrow> instant option result" where
  "parse_optional_datetime v =
     (if v = PyNone then Inr None
      else rbind (parse_datetime v ''updated_at'') (\<lambda>t. Inr (Some t)))"

definition parse_optional_int :: "pyval \<Rightarrow> int option result" where
  "parse_optional_int v =
     (if v = PyNone then Inr None
      else rbind (require_some (EventValidationError VersionNotInt) (py_int v)) (\<lambda>i. Inr (Some i)))"

text \<open>\<open>str(payload.get(k) or "").strip()\<close>\<close>

definition text_field :: "pyval \<Rightarrow> string" where
  "text_field v = strip (py_str (py_or v (PyStr [])))"

text \<open>\<open>str(v).strip() if v is not None else None\<close>\<close>

definition optional_text :: "pyval \<Rightarrow> string option" where
  "optional_text v = (if v = PyNone then None else Some (strip (py_str v)))"

section \<open>Ledger events\<close>

record ledger_event =
  ev_tx_id :: string
  ev_wallet_id :: string
  ev_entry_type :: string
  ev_amount :: decimal
  ev_amount_signed :: "decimal option"
  ev_related_id :: "string option"
  ev_related_type :: "string option"
  ev_event_time :: instant
  ev_created_at :: instant
  ev_updated_at :: "instant option"
  ev_source_version :: "int option"

definition version_value :: "pydict \<Rightarrow> pyval" where
  "version_value payload = py_or (dict_get payload ''version'') (dict_get payload ''source_version'')"

definition event_time_value :: "pydict \<Rightarrow> pyval" where
  "event_time_value payload =
     py_or (dict_get payload ''event_time'')
       (py_or (dict_get payload ''source_created_at'') (dict_get payload ''created_at''))"

definition created_value :: "pydict \<Rightarrow> pyval" where
  "created_value payload =
     py_or (dict_get payload ''source_created_at'')
       (py_or (dict_get payload ''created_at'') (dict_get payload ''event_time''))"

definition ledger_from_dict :: "pydict \<Rightarrow> ledger_event result" where
  "ledger_from_dict payload =
     (let tx_id = text_field (dict_get payload ''tx_id'');
          wallet_id = text_field (dict_get payload ''wallet_id'');
          entry_type = text_field (py_or (dict_get payload ''entry_type'') (dict_get payload ''type''))
      in
      rbind (raise_if (tx_id = []) (EventValidationError (FieldRequired ''tx_id''))) (\<lambda>_.
      rbind (raise_if (wallet_id = []) (EventValidationError (FieldRequired ''wallet_id''))) (\<lambda>_.
      rbind (raise_if (entry_type = []) (EventValidationError (FieldRequired ''entry_type''))) (\<lambda>_.
      rbind (parse_decimal (dict_get payload ''amount'') ''amount'') (\<lambda>amount.
      rbind (if dict_get payload ''amount_signed'' = PyNone then Inr None
             else rbind (parse_decimal (dict_get payload ''amount_signed'') ''amount_signed'')
                    (\<lambda>a. Inr (Some a))) (\<lambda>amount_signed.
      rbind (parse_datetime (event_time_value payload) ''event_time'') (\<lambda>event_time.
      rbind (parse_datetime (created_value payload) ''created_at'') (\<lambda>created_at.
      rbind (parse_optional_datetime (dict_get payload ''updated_at'')) (\<lambda>updated_at.
      rbind (parse_optional_int (version_value payload)) (\<lambda>source_version.
        Inr \<lparr>ev_tx_id = tx_id, ev_wallet_id = wallet_id, ev_entry_type = entry_type,
             ev_amount = amount, ev_amount_signed = amount_signed,
             ev_related_id = optional_text (dict_get payload ''related_id''),
             ev_related_type = optional_text (dict_get payload ''related_type''),
             ev_event_time = event_time, ev_created_at = created_at,
             ev_updated_at = updated_at, ev_source_version = source_version\<rparr>))))))))))"

section \<open>Payment order events\<close>

record order_event =
  oe_order_id :: string
  oe_user_id :: "string option"
  oe_merchant_name :: "string option"
  oe_amount :: decimal
  oe_status :: string
  oe_created_at :: instant
  oe_updated_at :: "instant option"
  oe_source_version :: "int option"

definition order_from_dict :: "pydict \<Rightarrow> order_event result" where
  "order_from_dict payload =
     (let order_id = text_field (dict_get payload ''order_id'');
          status = text_field (dict_get payload ''status'')
      in
      rbind (raise_if (order_id = []) (EventValidationError (FieldRequired ''order_id''))) (\<lambda>_.
      rbind (raise_if (status = []) (EventValidationError (FieldRequired ''status''))) (\<lambda>_.
      rbind (parse_decimal (dict_get payload ''amount'') ''amount'') (\<lambda>amount.
      rbind (parse_datetime (dict_get payload ''created_at'') ''created_at'') (\<lambda>created_at.
      rbind (parse_optional_datetime (dict_get payload ''updated_at'')) (\<lambda>updated_at.
      rbind (parse_optional_int (version_value payload)) (\<lambda>source_version.
        Inr \<lparr>oe_order_id = order_id,
             oe_user_id = optional_text (dict_get payload ''user_id''),
             oe_merchant_name = optional_text (dict_get payload ''merchant_name''),
             oe_amount = amount, oe_status = status, oe_created_at = created_at,
             oe_updated_at = updated_at, oe_source_version = source_version\<rparr>)))))))"

section \<open>Lemmas\<close>

lemma text_field_stripped [simp]: "strip (text_field v) = text_field v"
  by (simp add: text_field_def)

lemmas field_parser_defs =
  parse_decimal_def parse_datetime_def parse_optional_datetime_def parse_optional_int_def

definition parser_error :: "py_error \<Rightarrow> bool" where
  "parser_error e = (is_event_validation_error e \<or> e = OverflowError)"

lemma require_some_eq_Inl: "require_some e x = Inl e' \<longleftrightarrow> x = None \<and> e' = e"
  by (cases x) auto

lemma parse_decimal_error: "parse_decimal v f = Inl e \<Longrightarrow> parser_error e"
  by (auto simp: parse_decimal_def parser_error_def require_some_eq_Inl split: if_splits)

lemma parse_datetime_error: "parse_datetime v f = Inl e \<Longrightarrow> parser_error e"
  by (auto simp: parse_datetime_def parser_error_def require_some_eq_Inl rbind_eq_Inl
      split: pyval.splits)

lemma parse_optional_datetime_error: "parse_optional_datetime v = Inl e \<Longrightarrow> parser_error e"
  by (auto simp: parse_optional_datetime_def rbind_eq_Inl dest: parse_datetime_error split: if_splits)

lemma parse_optional_int_error: "parse_optional_int v = Inl e \<Longrightarrow> parser_error e"
  by (auto simp: parse_optional_int_def parser_error_def rbind_eq_Inl require_some_eq_Inl
      split: if_splits)

lemmas field_parser_errors =
  parse_decimal_error parse_datetime_error parse_optional_datetime_error parse_optional_int_error

lemma ledger_from_dict_error: "ledger_from_dict payload = Inl e \<Longrightarrow> parser_error e"
  by (auto simp: ledger_from_dict_def Let_def rbind_eq_Inl dest: field_parser_errors
      simp: parser_error_def split: if_splits)

lemma order_from_dict_error: "order_from_dict payload = Inl e \<Longrightarrow> parser_error e"
  by (auto simp: order_from_dict_def Let_def rbind_eq_Inl dest: field_parser_errors
      simp: parser_error_def)

lemma ledger_from_dict_version:
  "ledger_from_dict payload = Inr ev \<Longrightarrow> parse_optional_int (version_value payload) = Inr (ev_source_version ev)"
  by (auto simp: ledger_from_dict_def Let_def rbind_eq_Inr)

lemma ledger_from_dict_ids:
  "ledger_from_dict payload = Inr ev \<Longrightarrow>
     (ev_tx_id ev \<noteq> [] \<and> ev_wallet_id ev \<noteq> [] \<and> ev_entry_type ev \<noteq> [])
     \<and> strip (ev_tx_id ev) = ev_tx_id ev \<and> strip (ev_wallet_id ev) = ev_wallet_id ev
     \<and> strip (ev_entry_type ev) = ev_entry_type ev"
  by (auto simp: ledger_from_dict_def Let_def rbind_eq_Inr)

lemma order_from_dict_ids:
  "order_from_dict payload = Inr ev \<Longrightarrow>
     (oe_order_id ev \<noteq> [] \<and> oe_status ev \<noteq> [])
     \<and> strip (oe_order_id ev) = oe_order_id ev \<and> strip (oe_status ev) = oe_status ev"
  by (auto simp: order_from_dict_def Let_def rbind_eq_Inr)

end
