(* ===== verification/Config.thy ===== *)
theory Config
  imports Events
begin

text \<open>
  \<open>src/common/config.py\<close> and \<open>src/common/kafka.py\<close>: the settings of the service, read from
  the environment with defaults and checks, and the Kafka client settings made of them. The
  environment is an association list; the loaded event profiles are an argument, which may be
  the loader's exception.
\<close>

type_synonym environ = "(string \<times> string) list"

definition ALLOWED_ENVS :: "string list" where
  "ALLOWED_ENVS = [''local'', ''dev'', ''prod'']"

definition ALLOWED_AUTH_MODES :: "string list" where
  "ALLOWED_AUTH_MODES = [''disabled'', ''oidc'']"

definition ALLOWED_KAFKA_SECURITY_PROTOCOLS :: "string list" where
  "ALLOWED_KAFKA_SECURITY_PROTOCOLS = [''PLAINTEXT'', ''SSL'', ''SASL_PLAINTEXT'', ''SASL_SSL'']"

definition ALLOWED_DLQ_BACKENDS :: "string list" where
  "ALLOWED_DLQ_BACKENDS = [''file'', ''db'']"

record app_config =
  cf_app_env :: string
  cf_log_level :: string
  cf_database_url :: string
  cf_kafka_brokers :: string
  cf_kafka_security_protocol :: string
  cf_kafka_sasl_mechanism :: string
  cf_kafka_sasl_username :: string
  cf_kafka_sasl_password :: string
  cf_kafka_ssl_ca_location :: string
  cf_service_name :: string
  cf_consumer_group_id :: string
  cf_ledger_topic :: string
  cf_payment_order_topic :: string
  cf_event_profile_id :: string
  cf_effective_ledger_topic :: string
  cf_effective_payment_order_topic :: string
  cf_dlq_path :: string
  cf_dlq_backend :: string
  cf_dlq_retention_days :: int
  cf_consumer_poll_timeout_ms :: int
  cf_consumer_offset_reset :: string
  cf_auth_mode :: string
  cf_auth_issuer :: string
  cf_auth_audience :: string
  cf_auth_jwks_url :: string
  cf_auth_algorithm :: string
  cf_auth_roles_claim :: string
  cf_auth_actor_id_claims :: string
  cf_audit_mask_query_keys :: string
  cf_db_pool_size :: int
  cf_db_max_overflow :: int
  cf_db_pool_timeout :: int
  cf_db_pool_recycle :: int
  cf_appinsights_connection_string :: string
  cf_db_slow_query_ms :: int

section \<open>Reading one variable\<close>

definition get_env :: "environ \<Rightarrow> string \<Rightarrow> string \<Rightarrow> string" where
  "get_env env key dflt = strip (case map_of env key of None \<Rightarrow> dflt | Some v \<Rightarrow> v)"

definition get_int :: "environ \<Rightarrow> string \<Rightarrow> int \<Rightarrow> int result" where
  "get_int env key dflt =
     (case map_of env key of
        None \<Rightarrow> Inr dflt
      | Some v \<Rightarrow> require_some (ValueError (key @ '' must be an integer'')) (int_of_text (strip v)))"

definition get_optional_env :: "environ \<Rightarrow> string \<Rightarrow> string option" where
  "get_optional_env env key =
     (case map_of env key of
        None \<Rightarrow> None
      | Some v \<Rightarrow> (let trimmed = strip v in if trimmed = [] then None else Some trimmed))"

section \<open>Loading\<close>

text \<open>\<open>env or os.environ\<close>: an empty mapping counts as none.\<close>

definition config_source :: "environ option \<Rightarrow> environ \<Rightarrow> environ" where
  "config_source env os_environ =
     (case env of None \<Rightarrow> os_environ | Some e \<Rightarrow> if e = [] then os_environ else e)"

definition effective_topic :: "environ \<Rightarrow> string \<Rightarrow> pydict \<Rightarrow> string \<Rightarrow> string \<Rightarrow> string" where
  "effective_topic env key profile_topics kind dflt =
     (case get_optional_env env key of
        Some t \<Rightarrow> t
      | None \<Rightarrow> (let t = text_field (dict_get profile_topics kind) in if t = [] then dflt else t))"

text \<open>\<open>profile["topics"]\<close>; the profiles that the loader returns all have the mapping.\<close>

definition profile_topics_of :: "pyval \<Rightarrow> pydict result" where
  "profile_topics_of profile =
     (case profile of
        PyDict d \<Rightarrow>
          (case dict_get d ''topics'' of PyDict t \<Rightarrow> Inr t | _ \<Rightarrow> Inl (ValueError ''topics''))
      | _ \<Rightarrow> Inl (ValueError ''topics''))"

text \<open>The value that is returned once everything has been read and checked.\<close>

type_synonym setting = string

definition make_config ::
  "environ \<Rightarrow> setting \<Rightarrow> setting \<Rightarrow> setting \<Rightarrow> setting \<Rightarrow> setting \<Rightarrow> setting \<Rightarrow> setting \<Rightarrow> setting \<Rightarrow> setting
     \<Rightarrow> int \<Rightarrow> int \<Rightarrow> int \<Rightarrow> int \<Rightarrow> int \<Rightarrow> int \<Rightarrow> int \<Rightarrow> app_config" where
  "make_config source app_env auth_mode protocol username password dlq_backend
     event_profile_id ledger_topic payment_order_topic retention poll_timeout pool_size
     max_overflow pool_timeout pool_recycle slow_query =
       \<lparr>cf_app_env = app_env,
            cf_log_level = get_env source ''LOG_LEVEL'' ''INFO'',
            cf_database_url = get_env source ''DATABASE_URL'' ''postgresql+psycopg://bo:bo@localhost:5432/bo'',
            cf_kafka_brokers = get_env source ''KAFKA_BROKERS'' ''localhost:9092'',
            cf_kafka_security_protocol = protocol,
            cf_kafka_sasl_mechanism = get_env source ''KAFKA_SASL_MECHANISM'' ''PLAIN'',
            cf_kafka_sasl_username = username,
            cf_kafka_sasl_password = password,
            cf_kafka_ssl_ca_location = get_env source ''KAFKA_SSL_CA_LOCATION'' [],
            cf_service_name = get_env source ''SERVICE_NAME'' ''tx-lookup-service'',
            cf_consumer_group_id = get_env source ''KAFKA_GROUP_ID'' ''bo-sync-consumer'',
            cf_ledger_topic = ledger_topic,
            cf_payment_order_topic = payment_order_topic,
            cf_event_profile_id = event_profile_id,
            cf_effective_ledger_topic = ledger_topic,
            cf_effective_payment_order_topic = payment_order_topic,
            cf_dlq_path = get_env source ''DLQ_PATH'' ''./dlq/failed_events.jsonl'',
            cf_dlq_backend = dlq_backend,
            cf_dlq_retention_days = retention,
            cf_consumer_poll_timeout_ms = poll_timeout,
            cf_consumer_offset_reset = get_env source ''CONSUMER_OFFSET_RESET'' ''earliest'',
            cf_auth_mode = auth_mode,
            cf_auth_issuer = get_env source ''AUTH_ISSUER'' [],
            cf_auth_audience = get_env source ''AUTH_AUDIENCE'' [],
            cf_auth_jwks_url = get_env source ''AUTH_JWKS_URL'' [],
            cf_auth_algorithm = get_env source ''AUTH_ALGORITHM'' ''RS256'',
            cf_auth_roles_claim = get_env source ''AUTH_ROLES_CLAIM'' ''roles,scp'',
            cf_auth_actor_id_claims = get_env source ''AUTH_ACTOR_ID_CLAIMS'' ''oid,sub'',
            cf_audit_mask_query_keys = get_env source ''AUDIT_MASK_QUERY_KEYS'' ''access_token,token'',
            cf_db_pool_size = pool_size,
            cf_db_max_overflow = max_overflow,
            cf_db_pool_timeout = pool_timeout,
            cf_db_pool_recycle = pool_recycle,
            cf_appinsights_connection_string =
              get_env source ''APPLICATIONINSIGHTS_CONNECTION_STRING'' [],
            cf_db_slow_query_ms = slow_query\<rparr>"

definition load_config ::
  "environ option \<Rightarrow> environ \<Rightarrow> (string \<times> pyval) list result \<Rightarrow> app_config result" where
  "load_config env os_environ event_profiles =
    (let source = config_source env os_environ;
         app_env = get_env source ''APP_ENV'' ''local'';
         auth_mode = get_env source ''AUTH_MODE'' ''disabled'';
         protocol = upper (get_env source ''KAFKA_SECURITY_PROTOCOL'' ''PLAINTEXT'');
         username = get_env source ''KAFKA_SASL_USERNAME'' [];
         password = get_env source ''KAFKA_SASL_PASSWORD'' [];
         dlq_backend_default = (if app_env = ''prod'' then ''db'' else ''file'');
         dlq_backend = lower (get_env source ''DLQ_BACKEND'' dlq_backend_default);
         event_profile_id = get_env source ''EVENT_PROFILE_ID'' DEFAULT_EVENT_PROFILE_ID
     in
     rbind (raise_if (app_env \<notin> set ALLOWED_ENVS) (ValueError ''APP_ENV'')) (\<lambda>_.
     rbind (raise_if (auth_mode \<notin> set ALLOWED_AUTH_MODES) (ValueError ''AUTH_MODE'')) (\<lambda>_.
     rbind (raise_if (protocol \<notin> set ALLOWED_KAFKA_SECURITY_PROTOCOLS)
              (ValueError ''KAFKA_SECURITY_PROTOCOL'')) (\<lambda>_.
     rbind (raise_if (starts_with protocol ''SASL'' \<and> (username = [] \<or> password = []))
              (ValueError ''KAFKA_SASL_USERNAME and KAFKA_SASL_PASSWORD are required'')) (\<lambda>_.
     rbind (raise_if (dlq_backend \<notin> set ALLOWED_DLQ_BACKENDS) (ValueError ''DLQ_BACKEND'')) (\<lambda>_.
     rbind event_profiles (\<lambda>profiles.
     rbind (require_some (ValueError ''EVENT_PROFILE_ID'') (map_of profiles event_profile_id)) (\<lambda>profile.
     rbind (profile_topics_of profile) (\<lambda>profile_topics.
     (let ledger_topic =
            effective_topic source ''LEDGER_TOPIC'' profile_topics ''ledger''
              (the (map_of DEFAULT_TOPICS ''ledger''));
          payment_order_topic =
            effective_topic source ''PAYMENT_ORDER_TOPIC'' profile_topics ''payment_order''
              (the (map_of DEFAULT_TOPICS ''payment_order''))
      in
      rbind (raise_if (ledger_topic = payment_order_topic)
               (ValueError ''effective ledger/payment topics must be distinct'')) (\<lambda>_.
      rbind (get_int source ''DLQ_RETENTION_DAYS'' 14) (\<lambda>retention.
      rbind (get_int source ''CONSUMER_POLL_TIMEOUT_MS'' 1000) (\<lambda>poll_timeout.
      rbind (get_int source ''DB_POOL_SIZE'' 5) (\<lambda>pool_size.
      rbind (get_int source ''DB_MAX_OVERFLOW'' 10) (\<lambda>max_overflow.
      rbind (get_int source ''DB_POOL_TIMEOUT'' 30) (\<lambda>pool_timeout.
      rbind (get_int source ''DB_POOL_RECYCLE'' 1800) (\<lambda>pool_recycle.
      rbind (get_int source ''DB_SLOW_QUERY_MS'' 200) (\<lambda>slow_query.
       Inr (make_config source app_env auth_mode protocol username password dlq_backend
              event_profile_id ledger_topic payment_order_topic retention poll_timeout pool_size
              max_overflow pool_timeout pool_recycle slow_query)))))))))))))))))))"

section \<open>Kafka client settings\<close>

definition build_kafka_client_config :: "app_config \<Rightarrow> (string \<times> string) list" where
  "build_kafka_client_config c =
     [(''bootstrap.servers'', cf_kafka_brokers c)]
     @ (if cf_kafka_security_protocol c \<noteq> []
        then [(''security.protocol'', cf_kafka_security_protocol c)] else [])
     @ (if starts_with (cf_kafka_security_protocol c) ''SASL''
        then [(''sasl.mechanism'', cf_kafka_sasl_mechanism c),
              (''sasl.username'', cf_kafka_sasl_username c),
              (''sasl.password'', cf_kafka_sasl_password c)] else [])
     @ (if cf_kafka_ssl_ca_location c \<noteq> []
        then [(''ssl.ca.location'', cf_kafka_ssl_ca_location c)] else [])"

section \<open>What a loaded configuration satisfies\<close>

definition valid_config :: "app_config \<Rightarrow> bool" where
  "valid_config c \<longleftrightarrow>
     cf_app_env c \<in> set ALLOWED_ENVS \<and> cf_auth_mode c \<in> set ALLOWED_AUTH_MODES
     \<and> cf_kafka_security_protocol c \<in> set ALLOWED_KAFKA_SECURITY_PROTOCOLS
     \<and> (starts_with (cf_kafka_security_protocol c) ''SASL'' \<longrightarrow>
          cf_kafka_sasl_username c \<noteq> [] \<and> cf_kafka_sasl_password c \<noteq> [])
     \<and> cf_dlq_backend c \<in> set ALLOWED_DLQ_BACKENDS
     \<and> cf_effective_ledger_topic c \<noteq> cf_effective_payment_order_topic c
     \<and> cf_ledger_topic c = cf_effective_ledger_topic c
     \<and> cf_payment_order_topic c = cf_effective_payment_order_topic c
     \<and> cf_effective_ledger_topic c \<noteq> [] \<and> cf_effective_payment_order_topic c \<noteq> []"

lemma effective_topic_nonempty: "dflt \<noteq> [] \<Longrightarrow> effective_topic env key d kind dflt \<noteq> []"
  by (auto simp: effective_topic_def get_optional_env_def Let_def split: option.splits if_splits)

lemma valid_make_config:
  assumes "app_env \<in> set ALLOWED_ENVS" "auth_mode \<in> set ALLOWED_AUTH_MODES"
    "protocol \<in> set ALLOWED_KAFKA_SECURITY_PROTOCOLS"
    "\<not> (starts_with protocol ''SASL'' \<and> (username = [] \<or> password = []))"
    "dlq_backend \<in> set ALLOWED_DLQ_BACKENDS" "lt \<noteq> pt" "lt \<noteq> []" "pt \<noteq> []"
  shows "valid_config (make_config source app_env auth_mode protocol username password dlq_backend
           pid lt pt i1 i2 i3 i4 i5 i6 i7)"
  using assms by (simp add: valid_config_def make_config_def)

lemma default_topics_nonempty:
  "the (map_of DEFAULT_TOPICS ''ledger'') \<noteq> []" "the (map_of DEFAULT_TOPICS ''payment_order'') \<noteq> []"
  by (simp_all add: DEFAULT_TOPICS_def)

lemma load_config_valid:
  assumes "load_config env os_environ event_profiles = Inr c"
  shows "valid_config c"
  using assms unfolding load_config_def Let_def rbind_eq_Inr raise_if_eq_Inr require_some_eq_Inr
    sum.inject not_not
  by - (elim exE conjE, erule subst [where P = valid_config], rule valid_make_config,
      assumption+, (rule effective_topic_nonempty default_topics_nonempty)+)

lemma load_config_profile:
  assumes "load_config env os_environ event_profiles = Inr c"
  shows "\<exists>ps. event_profiles = Inr ps \<and> map_of ps (cf_event_profile_id c) \<noteq> None"
  using assms unfolding load_config_def Let_def rbind_eq_Inr raise_if_eq_Inr require_some_eq_Inr
    sum.inject
  by - (elim exE conjE, erule subst [where P = "\<lambda>c. \<exists>ps. event_profiles = Inr ps
        \<and> map_of ps (cf_event_profile_id c) \<noteq> None"], simp add: make_config_def)

end
