(* ===== verification/Metrics.thy ===== *)
theory Metrics
  imports PyTime
begin

text \<open>
  \<open>src/consumer/metrics.py\<close> (and the instruments of \<open>src/common/metrics.py\<close>, whose functions
  are in \<open>ApiMetrics\<close>): the measurements the consumer emits, the two gauges and the
  three accumulators. Durations are exact microseconds where the code has a float number of
  seconds; a reading of the clock is the argument \<open>now\<close>.
\<close>

section \<open>Instruments\<close>

datatype measurement =
    ConsumerMessagesTotal string string
  | ConsumerEventLag string int
  | ConsumerDlqTotal string
  | VersionMissingTotal string
  | ContractAliasHitTotal string string string string
  | ContractCoreViolationTotal string string
  | ContractProfileMessagesTotal string string
  | PairTotal
  | PairIncompleteTotal
  | PairIncompleteAge int
  | PairingSkippedTotal string
  | ApiRequestsInflight int string string
  | ApiRequestLatency string string string int
  | ApiRequestsTotal string string string
  | DbQueryLatency string string string int
  | DbQueriesTotal string string string

text \<open>What was emitted, in order, and the values behind the observable gauges.\<close>

record telemetry =
  emitted :: "measurement list"
  kafka_lag_values :: "(string \<times> int) list"
  freshness_values :: "(string \<times> int) list"

definition emit :: "measurement \<Rightarrow> telemetry \<Rightarrow> telemetry" where
  "emit m t = t\<lparr>emitted := emitted t @ [m]\<rparr>"

definition record_consumer_message :: "string \<Rightarrow> string \<Rightarrow> telemetry \<Rightarrow> telemetry" where
  "record_consumer_message topic status = emit (ConsumerMessagesTotal topic status)"

definition record_event_lag :: "instant \<Rightarrow> string \<Rightarrow> instant \<Rightarrow> telemetry \<Rightarrow> telemetry" where
  "record_event_lag now topic event_time = emit (ConsumerEventLag topic (max 0 (elapsed now event_time)))"

definition lag_key :: "string \<Rightarrow> int \<Rightarrow> string" where
  "lag_key topic partn = topic @ ''|'' @ show_int partn"

definition record_kafka_lag :: "string \<Rightarrow> int \<Rightarrow> int \<Rightarrow> telemetry \<Rightarrow> telemetry" where
  "record_kafka_lag topic partn lag t =
     t\<lparr>kafka_lag_values := AList.update (lag_key topic partn) (max 0 lag) (kafka_lag_values t)\<rparr>"

definition record_dlq :: "string \<Rightarrow> telemetry \<Rightarrow> telemetry" where
  "record_dlq topic = emit (ConsumerDlqTotal topic)"

definition record_version_missing :: "string \<Rightarrow> bool \<Rightarrow> telemetry \<Rightarrow> telemetry" where
  "record_version_missing topic missing = (if missing then emit (VersionMissingTotal topic) else id)"

definition record_contract_alias_hit ::
  "string \<Rightarrow> string \<Rightarrow> string \<Rightarrow> string \<Rightarrow> telemetry \<Rightarrow> telemetry" where
  "record_contract_alias_hit topic pid canonical_key alias_key =
     emit (ContractAliasHitTotal topic pid canonical_key alias_key)"

definition record_contract_core_violation :: "string \<Rightarrow> string \<Rightarrow> telemetry \<Rightarrow> telemetry" where
  "record_contract_core_violation topic pid = emit (ContractCoreViolationTotal topic pid)"

definition record_contract_profile_message :: "string \<Rightarrow> string \<Rightarrow> telemetry \<Rightarrow> telemetry" where
  "record_contract_profile_message topic pid = emit (ContractProfileMessagesTotal topic pid)"

section \<open>Gauge callbacks\<close>

text \<open>\<open>key.rsplit("|", 1)\<close> of a key that has the separator.\<close>

definition rsplit_once :: "char \<Rightarrow> string \<Rightarrow> string \<times> string" where
  "rsplit_once c s =
     (let r = rev s; tail = takeWhile (\<lambda>x. x \<noteq> c) r
      in (rev (drop (Suc (length tail)) r), rev tail))"

definition kafka_lag_callback :: "telemetry \<Rightarrow> (int \<times> string \<times> string) list" where
  "kafka_lag_callback t =
     map (\<lambda>(key, v). case rsplit_once (CHR ''|'') key of (topic, partn) \<Rightarrow> (v, topic, partn))
       (kafka_lag_values t)"

definition freshness_callback :: "telemetry \<Rightarrow> (int \<times> string) list" where
  "freshness_callback t = map (\<lambda>(topic, v). (v, topic)) (freshness_values t)"

section \<open>Accumulators\<close>

type_synonym freshness_tracker = "(string \<times> instant) list"

text \<open>\<open>FreshnessTracker.record\<close> keeps the newest event time of a topic and sets the gauge from it.\<close>

definition freshness_record ::
  "instant \<Rightarrow> string \<Rightarrow> instant \<Rightarrow> freshness_tracker \<times> telemetry \<Rightarrow> freshness_tracker \<times> telemetry" where
  "freshness_record now topic event_time st =
     (case st of (tracker, t) \<Rightarrow>
        (let tracker' =
               (case map_of tracker topic of
                  None \<Rightarrow> AList.update topic event_time tracker
                | Some prev \<Rightarrow>
                    if prev < event_time then AList.update topic event_time tracker else tracker)
         in case map_of tracker' topic of
              None \<Rightarrow> (tracker', t)
            | Some latest \<Rightarrow>
                (tracker',
                 t\<lparr>freshness_values :=
                     AList.update topic (max 0 (elapsed now latest)) (freshness_values t)\<rparr>)))"

record version_missing_counter =
  vc_log_every :: int
  vc_processed :: int
  vc_missing_version :: int

definition new_version_counter :: version_missing_counter where
  "new_version_counter = \<lparr>vc_log_every = 100, vc_processed = 0, vc_missing_version = 0\<rparr>"

definition version_counter_record ::
  "bool \<Rightarrow> version_missing_counter \<Rightarrow> bool \<times> version_missing_counter" where
  "version_counter_record missing c =
     (let c' = c\<lparr>vc_processed := vc_processed c + 1,
                 vc_missing_version := vc_missing_version c + (if missing then 1 else 0)\<rparr>
      in (vc_processed c' mod vc_log_every c' = 0, c'))"

definition version_counter_summary :: "version_missing_counter \<Rightarrow> string" where
  "version_counter_summary c =
     ''processed='' @ show_int (vc_processed c) @ '' version_missing_cnt=''
       @ show_int (vc_missing_version c)"

record pairing_metrics =
  pm_log_every :: int
  pm_total :: int
  pm_incomplete :: int
  pm_age_sum :: int
  pm_age_max :: int

definition new_pairing_metrics :: pairing_metrics where
  "new_pairing_metrics =
     \<lparr>pm_log_every = 100, pm_total = 0, pm_incomplete = 0, pm_age_sum = 0, pm_age_max = 0\<rparr>"

definition pairing_metrics_record ::
  "bool \<Rightarrow> int option \<Rightarrow> pairing_metrics \<times> telemetry \<Rightarrow> bool \<times> pairing_metrics \<times> telemetry" where
  "pairing_metrics_record complete age st =
     (case st of (pm, t) \<Rightarrow>
        (let pm = pm\<lparr>pm_total := pm_total pm + 1\<rparr>;
             t = emit PairTotal t;
             (pm, t) =
               (if complete then (pm, t)
                else
                  (let pm = pm\<lparr>pm_incomplete := pm_incomplete pm + 1\<rparr>;
                       t = emit PairIncompleteTotal t
                   in case age of
                        None \<Rightarrow> (pm, t)
                      | Some a \<Rightarrow>
                          (pm\<lparr>pm_age_sum := pm_age_sum pm + a, pm_age_max := max (pm_age_max pm) a\<rparr>,
                           emit (PairIncompleteAge a) t)))
         in (pm_total pm mod pm_log_every pm = 0, pm, t)))"

section \<open>Lemmas\<close>

lemma emitted_emit [simp]: "emitted (emit m t) = emitted t @ [m]"
  by (simp add: emit_def)

lemma show_nat_digits: "0 \<le> n \<Longrightarrow> c \<in> set (show_nat n) \<Longrightarrow> is_digit c"
proof (induction n rule: show_nat.induct)
  case (1 n)
  show ?case
  proof (cases "n < 10")
    case True
    with "1.prems" show ?thesis by (subst (asm) show_nat.simps) simp
  next
    case False
    with 1 show ?thesis
      by (subst (asm) (2) show_nat.simps) (auto simp: pos_imp_zdiv_nonneg_iff)
  qed
qed

lemma show_int_no_bar: "CHR ''|'' \<notin> set (show_int i)"
proof
  assume "CHR ''|'' \<in> set (show_int i)"
  then have "is_digit (CHR ''|'')"
    by (cases "i < 0") (auto simp: show_int_def dest: show_nat_digits [rotated])
  then show False by (simp add: is_digit_def digit_val_def)
qed

lemma rsplit_once_append:
  assumes "c \<notin> set b"
  shows "rsplit_once c (a @ c # b) = (a, b)"
proof -
  have "takeWhile (\<lambda>x. x \<noteq> c) (rev b @ c # rev a) = rev b"
    using assms by (subst takeWhile_append2) auto
  then show ?thesis by (simp add: rsplit_once_def Let_def)
qed

lemma rsplit_lag_key: "rsplit_once (CHR ''|'') (lag_key topic p) = (topic, show_int p)"
  using rsplit_once_append [OF show_int_no_bar] by (simp add: lag_key_def)

lemma freshness_record_latest:
  "freshness_record now topic et (tr, t) = (tr', t') \<Longrightarrow>
     map_of tr' topic = Some (case map_of tr topic of None \<Rightarrow> et | Some l \<Rightarrow> max l et)"
  by (auto simp: freshness_record_def Let_def update_conv' max_def not_less split: option.splits if_splits)

lemma freshness_record_other:
  "freshness_record now topic et (tr, t) = (tr', t') \<Longrightarrow> u \<noteq> topic \<Longrightarrow>
     map_of tr' u = map_of tr u \<and> map_of (freshness_values t') u = map_of (freshness_values t) u"
  by (auto simp: freshness_record_def Let_def update_conv' split: option.splits if_splits)

lemma freshness_record_gauge:
  "freshness_record now topic et (tr, t) = (tr', t') \<Longrightarrow>
     map_of (freshness_values t') topic =
       Some (max 0 (elapsed now (the (map_of tr' topic))))"
  by (auto simp: freshness_record_def Let_def update_conv' split: option.splits if_splits)

lemma freshness_record_frame:
  "freshness_record now topic et (tr, t) = (tr', t') \<Longrightarrow>
     emitted t' = emitted t \<and> kafka_lag_values t' = kafka_lag_values t"
  by (auto simp: freshness_record_def Let_def split: option.splits if_splits)

end
