(* ===== verification/PyBytes.thy ===== *)
theory PyBytes
  imports PyText
begin

text \<open>
  \<open>bytes.decode("utf-8")\<close>. A text is the list of its UTF-8 bytes, so decoding valid bytes
  leaves them as they are; strict decoding fails on anything else, and \<open>errors="replace"\<close>
  puts U+FFFD for each maximal piece that cannot be continued to a character.
\<close>

definition byte_of :: "char \<Rightarrow> nat" where
  "byte_of c = of_char c"

text \<open>A lead byte: the range of the second byte and how many bytes follow.\<close>

definition lead_class :: "nat \<Rightarrow> (nat \<times> nat \<times> nat) option" where
  "lead_class b =
     (if b < 0x80 then Some (0, 0, 0)
      else if b < 0xC2 then None
      else if b < 0xE0 then Some (0x80, 0xBF, 1)
      else if b = 0xE0 then Some (0xA0, 0xBF, 2)
      else if b = 0xED then Some (0x80, 0x9F, 2)
      else if b < 0xF0 then Some (0x80, 0xBF, 2)
      else if b = 0xF0 then Some (0x90, 0xBF, 3)
      else if b < 0xF4 then Some (0x80, 0xBF, 3)
      else if b = 0xF4 then Some (0x80, 0x8F, 3)
      else None)"

text \<open>How many of the \<open>n\<close> continuation bytes are there.\<close>

fun continuation :: "nat \<Rightarrow> nat \<Rightarrow> nat \<Rightarrow> string \<Rightarrow> nat" where
  "continuation lo hi 0 s = 0"
| "continuation lo hi (Suc n) [] = 0"
| "continuation lo hi (Suc n) (c # s) =
     (if lo \<le> byte_of c \<and> byte_of c \<le> hi then Suc (continuation 0x80 0xBF n s) else 0)"

definition replacement_char :: string where
  "replacement_char = [CHR 0xEF, CHR 0xBF, CHR 0xBD]"

function decode_replace :: "string \<Rightarrow> string" where
  "decode_replace [] = []"
| "decode_replace (c # s) =
     (case lead_class (byte_of c) of
        None \<Rightarrow> replacement_char @ decode_replace s
      | Some (lo, hi, n) \<Rightarrow>
          (let k = continuation lo hi n s in
           (if k = n then c # take n s else replacement_char) @ decode_replace (drop k s)))"
  by pat_completeness auto
termination
  by (relation "measure length") auto

function valid_utf8 :: "string \<Rightarrow> bool" where
  "valid_utf8 [] = True"
| "valid_utf8 (c # s) =
     (case lead_class (byte_of c) of
        None \<Rightarrow> False
      | Some (lo, hi, n) \<Rightarrow> continuation lo hi n s = n \<and> valid_utf8 (drop n s))"
  by pat_completeness auto
termination
  by (relation "measure length") auto

definition decode_strict :: "string \<Rightarrow> string option" where
  "decode_strict s = (if valid_utf8 s then Some s else None)"

section \<open>Characters of a text\<close>

text \<open>Python counts characters; here a character is the bytes of its encoding.\<close>

function chars_of :: "string \<Rightarrow> string list" where
  "chars_of [] = []"
| "chars_of (c # s) =
     (let n = (case lead_class (byte_of c) of Some (lo, hi, k) \<Rightarrow> k | None \<Rightarrow> 0)
      in (c # take n s) # chars_of (drop n s))"
  by pat_completeness auto
termination
  by (relation "measure length") auto

lemma concat_chars_of [simp]: "concat (chars_of s) = s"
  by (induction s rule: chars_of.induct) (simp_all add: Let_def)

section \<open>Decoding valid bytes\<close>

lemma decode_replace_valid: "valid_utf8 s \<Longrightarrow> decode_replace s = s"
proof (induction s rule: decode_replace.induct)
  case (2 c s)
  then obtain lo hi n where l: "lead_class (byte_of c) = Some (lo, hi, n)"
    and k: "continuation lo hi n s = n" and v: "valid_utf8 (drop n s)"
    by (auto split: option.splits)
  have "decode_replace (drop n s) = drop n s"
    using "2.IH"(2) [OF l] k v by simp
  with l k show ?case by (simp add: Let_def)
qed simp

lemma decode_strict_replace: "decode_strict s = Some t \<Longrightarrow> t = s \<and> decode_replace s = t"
  by (auto simp: decode_strict_def decode_replace_valid split: if_splits)

end
