(* ===== verification/Correlation.thy ===== *)
theory Correlation
  imports PyValue PyBytes
begin

text \<open>
  \<open>src/common/observability.py\<close>: the correlation id of the work in progress. The context
  variable is a text, \<open>-\<close> when nothing has set it; \<open>uuid.uuid4\<close> is the argument \<open>fresh\<close>.
\<close>

text \<open>\<open>normalize_correlation_id\<close> on a value that is not \<open>bytes\<close>, and on \<open>bytes\<close>.\<close>

definition stripped_or_none :: "string \<Rightarrow> string option" where
  "stripped_or_none s = (let t = strip s in if t = [] then None else Some t)"

definition normalize_correlation_value :: "pyval \<Rightarrow> string option" where
  "normalize_correlation_value v = (if v = PyNone then None else stripped_or_none (py_str v))"

definition normalize_correlation_bytes :: "string \<Rightarrow> string option" where
  "normalize_correlation_bytes b = Option.bind (decode_strict b) stripped_or_none"

text \<open>What \<open>set_correlation_id\<close> puts into the variable.\<close>

definition correlation_or_fresh :: "string option \<Rightarrow> string \<Rightarrow> string" where
  "correlation_or_fresh value_opt fresh =
     (case Option.bind value_opt stripped_or_none of None \<Rightarrow> fresh | Some t \<Rightarrow> t)"

text \<open>
  Header names are compared in lower case and a later header of the same name replaces an
  earlier one; the first of the three known names decides, even when its value is no id.
\<close>

definition header_dict :: "(string \<times> string option) list \<Rightarrow> (string \<times> string option) list" where
  "header_dict headers =
     fold (\<lambda>(k, v) d. AList.update (lower k) v d) (filter (\<lambda>(k, v). k \<noteq> []) headers) []"

fun first_present :: "('k \<Rightarrow> 'v option) \<Rightarrow> 'k list \<Rightarrow> 'v option" where
  "first_present m [] = None"
| "first_present m (k # ks) = (case m k of None \<Rightarrow> first_present m ks | Some v \<Rightarrow> Some v)"

definition extract_correlation_id_from_headers ::
  "(string \<times> string option) list option \<Rightarrow> string option" where
  "extract_correlation_id_from_headers headers =
     (case headers of
        None \<Rightarrow> None
      | Some hs \<Rightarrow>
          (case first_present (map_of (header_dict hs))
                  [''x-correlation-id'', ''correlation-id'', ''correlation_id''] of
             None \<Rightarrow> None
           | Some v \<Rightarrow> Option.bind v normalize_correlation_bytes))"

definition extract_correlation_id_from_payload :: "pydict \<Rightarrow> string option" where
  "extract_correlation_id_from_payload payload =
     (case first_present (\<lambda>k. map_of payload (KeyStr k))
             [''correlation_id'', ''correlationId'', ''x_correlation_id''] of
        None \<Rightarrow> None
      | Some v \<Rightarrow> normalize_correlation_value v)"

section \<open>Lemmas\<close>

lemma stripped_or_none_Some: "stripped_or_none s = Some t \<Longrightarrow> t \<noteq> [] \<and> strip t = t"
  by (auto simp: stripped_or_none_def Let_def split: if_splits)

lemma stripped_or_none_id: "t \<noteq> [] \<Longrightarrow> strip t = t \<Longrightarrow> stripped_or_none t = Some t"
  by (simp add: stripped_or_none_def)

lemma headers_id_clean:
  "extract_correlation_id_from_headers hs = Some t \<Longrightarrow> t \<noteq> [] \<and> strip t = t"
  by (auto simp: extract_correlation_id_from_headers_def normalize_correlation_bytes_def
      split: option.splits bind_splits dest: stripped_or_none_Some)

lemma payload_id_clean:
  "extract_correlation_id_from_payload p = Some t \<Longrightarrow> t \<noteq> [] \<and> strip t = t"
  by (auto simp: extract_correlation_id_from_payload_def normalize_correlation_value_def
      split: option.splits if_splits dest: stripped_or_none_Some)

lemma correlation_or_fresh_Some:
  "t \<noteq> [] \<Longrightarrow> strip t = t \<Longrightarrow> correlation_or_fresh (Some t) fresh = t"
  by (simp add: correlation_or_fresh_def stripped_or_none_id)

end
