(* ===== verification/ContractProperties.thy ===== *)
theory ContractProperties
  imports Config Metrics Correlation
begin

text \<open>
  The properties of the way from raw settings and payloads to typed values: profiles,
  configuration, normalisation, event parsing, and the texts that metrics and correlation ids
  are made of.
\<close>

section \<open>Concrete profiles\<close>

text \<open>The profile \<open>canonical-v1\<close> of \<open>configs/event_profiles.yaml\<close>, as PyYAML loads it.\<close>

definition canonical_profile_yaml :: pyval where
  "canonical_profile_yaml = to_pydict id
     [(''topics'', to_pydict PyStr
        [(''ledger'', ''ledger.entry.upserted''), (''payment_order'', ''payment.order.upserted'')]),
      (''aliases'', to_pydict id
        [(''ledger'', to_pydict py_strs
            [(''entry_type'', [''entry_type'', ''type'']),
             (''event_time'', [''event_time'', ''source_created_at'', ''created_at'']),
             (''version'', [''version'', ''source_version''])]),
         (''payment_order'', to_pydict py_strs [(''version'', [''version'', ''source_version''])])]),
      (''core_required'', to_pydict py_strs
        [(''ledger'', [''tx_id'', ''wallet_id'', ''entry_type'', ''amount'', ''event_time_or_alias'']),
         (''payment_order'', [''order_id'', ''amount'', ''status'', ''created_at''])])]"

definition canonical_profiles :: "(string \<times> pyval) list result" where
  "canonical_profiles = load_event_profiles
     (Some (\<lambda>_. Inr (PyDict [(KeyStr ''version'', PyInt 1),
                (KeyStr ''profiles'', PyDict [(KeyStr ''canonical-v1'', canonical_profile_yaml)])])))
     (Some ''text of the file'')"

definition canonical_profile :: event_contract_profile where
  "canonical_profile =
     \<lparr>profile_id = ''canonical-v1'',
      topics = \<lparr>tp_ledger = ''ledger.entry.upserted'', tp_payment_order = ''payment.order.upserted''\<rparr>,
      aliases =
        \<lparr>ap_ledger =
           [(''entry_type'', [''entry_type'', ''type'']),
            (''event_time'', [''event_time'', ''source_created_at'', ''created_at'']),
            (''version'', [''version'', ''source_version''])],
         ap_payment_order = [(''version'', [''version'', ''source_version''])]\<rparr>,
      core_required =
        \<lparr>cr_ledger = [''tx_id'', ''wallet_id'', ''entry_type'', ''amount'', ''event_time_or_alias''],
         cr_payment_order = [''order_id'', ''amount'', ''status'', ''created_at'']\<rparr>\<rparr>"

lemma canonical_profiles_load:
  "rbind canonical_profiles (\<lambda>ps. load_event_contract_profile ps ''canonical-v1''
      ''ledger.entry.upserted'' ''payment.order.upserted'') = Inr canonical_profile"
  by code_simp

definition example_payload :: pydict where
  "example_payload =
     [(KeyStr ''tx_id'', PyStr '' tx-1 ''), (KeyStr ''wallet_id'', PyStr ''w''),
      (KeyStr ''type'', PyStr ''PAYMENT''), (KeyStr ''amount'', PyInt 100),
      (KeyStr ''created_at'', PyStr ''2026-02-04T03:12:45Z''), (KeyStr ''version'', PyInt 0)]"

definition example_normalized :: normalized_payload where
  "example_normalized =
     \<lparr>np_payload = example_payload @
        [(KeyStr ''entry_type'', PyStr ''PAYMENT''),
         (KeyStr ''event_time'', PyStr ''2026-02-04T03:12:45Z'')],
      np_topic_kind = ''ledger'',
      np_alias_hits = [(''entry_type'', ''type''), (''event_time'', ''created_at'')]\<rparr>"

lemma example_payload_normalizes:
  "normalize_payload_for_topic ''ledger.entry.upserted'' example_payload canonical_profile =
     Inr example_normalized"
  by code_simp

definition result_event :: "ledger_event result" where
  "result_event = ledger_from_dict (np_payload example_normalized)"

lemma result_event_ok:
  "case result_event of
     Inr ev \<Rightarrow> ev_tx_id ev = ''tx-1'' \<and> ev_source_version ev = None | Inl e \<Rightarrow> False"
  by code_simp

section \<open>Normalisation\<close>

text \<open>The alias groups and the required keys of the kind of a topic.\<close>

definition groups_of_topic :: "event_contract_profile \<Rightarrow> string \<Rightarrow> (string \<times> string list) list" where
  "groups_of_topic profile topic =
     (if topic = tp_ledger (topics profile) then ap_ledger (aliases profile) else ap_payment_order (aliases profile))"

definition required_of_topic :: "event_contract_profile \<Rightarrow> string \<Rightarrow> string list" where
  "required_of_topic profile topic =
     (if topic = tp_ledger (topics profile) then cr_ledger (core_required profile)
      else cr_payment_order (core_required profile))"

text \<open>
  C6. A normalised payload belongs to a topic of the profile and has the kind of that topic:
  \<open>ledger\<close> for the ledger topic, \<open>payment_order\<close> for the topic of the orders. With the alias groups
  and the required keys of that kind: it has a value for every required key; under the canonical
  key of every alias group it holds the common value of the group's aliases (all of them that
  have a value are equal up to surrounding white space), taken from the original payload; and
  every key that is no canonical key is as it was. The canonical keys of a kind are distinct, as
  they are in a profile read from a document.
\<close>

theorem normalized_payload_spec:
  assumes "normalize_payload_for_topic topic payload profile = Inr n"
    and "distinct (map fst (groups_of_topic profile topic))"
  shows "topic \<in> {tp_ledger (topics profile), tp_payment_order (topics profile)}
    \<and> np_topic_kind n = (if topic = tp_ledger (topics profile) then ''ledger'' else ''payment_order'')
    \<and> (\<forall>r\<in>set (required_of_topic profile topic). \<not> is_missing (dict_get (np_payload n) (required_key r)))
    \<and> (\<forall>(k, grp)\<in>set (groups_of_topic profile topic).
         (\<forall>a\<in>set grp. is_missing (dict_get payload a)) \<and> dict_get (np_payload n) k = dict_get payload k
         \<or> group_resolved payload grp (dict_get (np_payload n) k))
    \<and> (\<forall>k. k \<notin> fst ` set (groups_of_topic profile topic) \<longrightarrow>
         dict_get (np_payload n) k = dict_get payload k)"
proof -
  have "topic_kind profile topic = Some (np_topic_kind n)" by (rule normalize_InrE [OF assms(1)]) simp
  then have kind: "topic \<in> {tp_ledger (topics profile), tp_payment_order (topics profile)}
      \<and> np_topic_kind n = (if topic = tp_ledger (topics profile) then ''ledger'' else ''payment_order'')"
    by (auto simp: topic_kind_def split: if_splits)
  then have "aliases_for profile (np_topic_kind n) = Inr (groups_of_topic profile topic)"
    and "core_required_for profile (np_topic_kind n) = Inr (required_of_topic profile topic)"
    by (auto simp: aliases_for_def core_required_for_def groups_of_topic_def required_of_topic_def)
  with kind normalize_required [OF assms(1)] normalize_group [OF assms(1) _ assms(2)]
    normalize_other [OF assms(1)] show ?thesis by blast
qed

theorem normalized_payload_spec_witness:
  "np_topic_kind example_normalized = ''ledger''
   \<and> dict_get (np_payload example_normalized) ''event_time'' = PyStr ''2026-02-04T03:12:45Z''
   \<and> dict_get (np_payload example_normalized) ''amount'' = dict_get example_payload ''amount''"
proof -
  have "distinct (map fst (groups_of_topic canonical_profile ''ledger.entry.upserted''))" by code_simp
  note spec = normalized_payload_spec [OF example_payload_normalizes this]
  have "topics canonical_profile = \<lparr>tp_ledger = ''ledger.entry.upserted'', tp_payment_order = ''payment.order.upserted''\<rparr>"
    by (simp add: canonical_profile_def)
  with spec have "np_topic_kind example_normalized = ''ledger''"
    and "\<forall>k. k \<notin> fst ` set (groups_of_topic canonical_profile ''ledger.entry.upserted'') \<longrightarrow>
      dict_get (np_payload example_normalized) k = dict_get example_payload k"
    by simp_all
  moreover have "''amount'' \<notin> fst ` set (groups_of_topic canonical_profile ''ledger.entry.upserted'')"
    by (simp add: groups_of_topic_def canonical_profile_def)
  ultimately show ?thesis by (simp add: example_normalized_def example_payload_def)
qed

definition json_like :: "pyval \<Rightarrow> bool" where
  "json_like v = (case v of PyDatetime _ \<Rightarrow> False | _ \<Rightarrow> True)"

lemma parse_datetime_json:
  "parse_datetime v f = Inr t \<Longrightarrow> json_like v \<Longrightarrow> \<exists>s. v = PyStr s \<and> strip s \<noteq> []"
proof (cases v)
  case (PyStr s)
  assume "parse_datetime v f = Inr t"
  moreover have "fromisoformat (replace_zulu []) = None" by code_simp
  ultimately show ?thesis using PyStr by (auto simp: parse_datetime_def rbind_eq_Inr)
qed (auto simp: parse_datetime_def json_like_def)

lemma parse_datetime_field: "parse_datetime v f = Inr t \<Longrightarrow> parse_datetime v g = Inr t"
  by (auto simp: parse_datetime_def rbind_eq_Inr split: pyval.splits)

lemma parse_datetime_strip: "parse_datetime (PyStr (strip s)) f = parse_datetime (PyStr s) f"
  by (simp add: parse_datetime_def)

lemma json_like_normalize [simp]: "json_like (normalize_value v) = json_like v"
  by (cases v) (auto simp: json_like_def)

text \<open>The values of a group against the one that was chosen: absent, empty, or the same text.\<close>

lemma num_eq_text [simp]: "\<not> num_eq x (PyStr s)"
  by (simp add: num_eq_def split: option.splits)

lemma equal_text:
  "py_eq (normalize_value x) (PyStr s) \<Longrightarrow> \<exists>y. x = PyStr y \<and> strip y = s"
  by (cases x) auto

text \<open>
  Under the profile \<open>canonical-v1\<close> a ledger event that is accepted has equal event and
  creation times: the alias group of \<open>event_time\<close> contains \<open>created_at\<close>, so a payload in which
  the two differ is refused as a contract violation.
\<close>

theorem canonical_created_at_is_event_time:
  assumes n: "normalize_payload_for_topic topic payload canonical_profile = Inr n"
    and kind: "np_topic_kind n = ''ledger''"
    and ev: "ledger_from_dict (np_payload n) = Inr event"
    and json: "\<forall>k. json_like (dict_get payload k)"
  shows "ev_created_at event = ev_event_time event"
proof -
  let ?d = "np_payload n"
  let ?grp = "[''event_time'', ''source_created_at'', ''created_at'']"
  let ?al = "ap_ledger (aliases canonical_profile)"
  have al: "aliases_for canonical_profile (np_topic_kind n) = Inr ?al"
    by (simp add: kind aliases_for_def)
  have required: "\<not> is_missing (dict_get ?d ''event_time'')"
    using normalize_required [OF n, of "cr_ledger (core_required canonical_profile)" EVENT_TIME_REQUIRED_SENTINEL]
    by (simp add: kind core_required_for_def canonical_profile_def EVENT_TIME_REQUIRED_SENTINEL_def
        required_key_def)
  have group': "(\<forall>a\<in>set ?grp. is_missing (dict_get payload a))
      \<and> dict_get ?d ''event_time'' = dict_get payload ''event_time''
      \<or> group_resolved payload ?grp (dict_get ?d ''event_time'')"
    by (rule normalize_group [OF n al]) (simp_all add: canonical_profile_def)
  have other: "dict_get ?d ''source_created_at'' = dict_get payload ''source_created_at''"
      "dict_get ?d ''created_at'' = dict_get payload ''created_at''"
    using normalize_other [OF n al] by (simp_all add: canonical_profile_def)
  have "group_resolved payload ?grp (dict_get ?d ''event_time'')"
    using group' required by (metis list.set_intros(1))
  then obtain a where a: "a \<in> set ?grp" "\<not> is_missing (dict_get payload a)"
      "dict_get ?d ''event_time'' = normalize_value (dict_get payload a)"
    and eq: "\<And>b. b \<in> set ?grp \<Longrightarrow> is_missing (dict_get payload b) \<or> b = a
            \<or> py_eq (normalize_value (dict_get payload b)) (dict_get ?d ''event_time'')"
    unfolding group_resolved_def by blast
  obtain t1 t2 where t: "parse_datetime (event_time_value ?d) ''event_time'' = Inr t1"
      "parse_datetime (created_value ?d) ''created_at'' = Inr t2"
      "ev_event_time event = t1" "ev_created_at event = t2"
    using ev by (auto simp: ledger_from_dict_def Let_def rbind_eq_Inr)
  let ?v = "dict_get ?d ''event_time''"
  have json': "json_like ?v" "json_like (dict_get ?d ''source_created_at'')"
      "json_like (dict_get ?d ''created_at'')"
    using json by (simp_all add: a(3) other)
  have member: "is_missing x \<or> normalize_value x = ?v \<or> py_eq (normalize_value x) ?v"
    if "x = dict_get ?d ''source_created_at'' \<or> x = dict_get ?d ''created_at''" for x
    using that eq [of "''source_created_at''"] eq [of "''created_at''"] a(3) other by auto
  have chosen: "?v = PyStr (strip z)"
    if "x = dict_get ?d ''source_created_at'' \<or> x = dict_get ?d ''created_at''"
      "x = PyStr z" "strip z \<noteq> []" for x z
    using member [OF that(1)] that(2,3) by auto
  have jv: "json_like (event_time_value ?d)" "json_like (created_value ?d)"
    using json' by (simp_all add: event_time_value_def created_value_def py_or_def)
  obtain s where s: "?v = PyStr s" "strip s = s" "s \<noteq> []"
  proof -
    obtain z where z: "event_time_value ?d = PyStr z" "strip z \<noteq> []"
      using parse_datetime_json [OF t(1) jv(1)] by blast
    then have "?v = PyStr z \<or> ?v = PyStr (strip z)"
      using chosen by (auto simp: event_time_value_def py_or_def split: if_splits)
    then obtain s where "?v = PyStr s" by blast
    moreover from this required have "strip s = s" "s \<noteq> []"
      using a(3) by (cases "dict_get payload a"; auto)+
    ultimately show thesis by (rule that)
  qed
  have same: "\<exists>y. x = PyStr y \<and> strip y = s"
    if "x = dict_get ?d ''source_created_at'' \<or> x = dict_get ?d ''created_at''"
      "\<not> is_missing x" for x
    using member [OF that(1)] that(2) s equal_text [of x s] by (cases x) auto
  have "\<exists>y. created_value ?d = PyStr y \<and> strip y = s"
  proof -
    obtain z where z: "created_value ?d = PyStr z" "strip z \<noteq> []"
      using parse_datetime_json [OF t(2) jv(2)] by blast
    then have present: "\<not> is_missing (created_value ?d)" by simp
    have "created_value ?d = ?v \<or> created_value ?d = dict_get ?d ''source_created_at''
        \<or> created_value ?d = dict_get ?d ''created_at''"
      by (simp add: created_value_def py_or_def)
    then show ?thesis using same [OF _ present] s by metis
  qed
  then have "parse_datetime (created_value ?d) f = parse_datetime ?v f" for f
    using parse_datetime_strip s by metis
  moreover have "event_time_value ?d = ?v"
    using s by (simp add: event_time_value_def py_or_def)
  ultimately have "t2 = t1"
    using t(1,2) parse_datetime_field by (metis Inr_inject)
  with t show ?thesis by simp
qed

theorem canonical_created_at_is_event_time_witness:
  "\<exists>ev. result_event = Inr ev \<and> ev_created_at ev = ev_event_time ev"
proof -
  obtain ev where ev: "result_event = Inr ev"
    using result_event_ok by (auto split: sum.splits)
  have "\<forall>k. json_like (dict_get example_payload k)"
    by (simp add: example_payload_def json_like_def)
  from canonical_created_at_is_event_time [OF example_payload_normalizes _ ev [unfolded result_event_def] this]
  have "ev_created_at ev = ev_event_time ev" by (simp add: example_normalized_def)
  with ev show ?thesis by blast
qed

text \<open>
  C27. Whatever a payload holds, normalisation either succeeds or raises one of the validation
  errors of the consumer, and so do the event parsers, apart from \<open>OverflowError\<close> for a time
  outside the years 1 to 9999.
\<close>

theorem parsing_errors_are_validation_errors:
  "(case normalize_payload_for_topic topic payload profile of
      Inl e \<Rightarrow> is_event_validation_error e | Inr n \<Rightarrow> True)
   \<and> (case ledger_from_dict payload of
        Inl e \<Rightarrow> is_event_validation_error e \<or> e = OverflowError | Inr ev \<Rightarrow> True)
   \<and> (case order_from_dict payload of
        Inl e \<Rightarrow> is_event_validation_error e \<or> e = OverflowError | Inr ev \<Rightarrow> True)"
  by (auto split: sum.splits
      dest: normalize_error_class ledger_from_dict_error order_from_dict_error simp: parser_error_def)

section \<open>Events\<close>

text \<open>
  The identifying texts of an accepted event are not empty and have no white space around
  them.
\<close>

theorem accepted_events_have_clean_ids:
  "(case ledger_from_dict payload of Inl e \<Rightarrow> True | Inr ev \<Rightarrow>
      list_all (\<lambda>t. t \<noteq> [] \<and> strip t = t) [ev_tx_id ev, ev_wallet_id ev, ev_entry_type ev])
   \<and> (case order_from_dict payload of Inl e \<Rightarrow> True | Inr ev \<Rightarrow>
      list_all (\<lambda>t. t \<noteq> [] \<and> strip t = t) [oe_order_id ev, oe_status ev])"
  using ledger_from_dict_ids [of payload] order_from_dict_ids [of payload] by (auto split: sum.splits)

text \<open>
  Version 0 counts as no version: with \<open>version\<close> equal to 0, \<open>payload.get("version") or ..\<close>
  goes on to \<open>source_version\<close>, so that an accepted event without \<open>source_version\<close> has none.
\<close>

theorem version_zero_is_dropped:
  assumes "dict_get payload ''version'' = PyInt 0" and "dict_get payload ''source_version'' = PyNone"
    and "ledger_from_dict payload = Inr ev"
  shows "ev_source_version ev = None"
proof -
  have "version_value payload = PyNone" by (simp add: version_value_def py_or_def assms(1,2))
  then show ?thesis
    using ledger_from_dict_version [OF assms(3)] by (simp add: parse_optional_int_def)
qed

theorem version_zero_is_dropped_witness:
  "\<exists>ev. result_event = Inr ev \<and> ev_source_version ev = None"
proof -
  obtain ev where ev: "result_event = Inr ev"
    using result_event_ok by (auto split: sum.splits)
  have "ev_source_version ev = None"
    by (rule version_zero_is_dropped [OF _ _ ev [unfolded result_event_def]])
      (simp_all add: example_normalized_def example_payload_def)
  with ev show ?thesis by blast
qed

section \<open>Settings\<close>

text \<open>
  C28. A configuration that loads is consistent: its environment, authentication mode, protocol
  and dead-letter backend are allowed values, a SASL protocol comes with credentials, the two
  topics are distinct and not empty, and the profile is one of the loaded ones.
\<close>

theorem loaded_config_is_valid:
  assumes "load_config env os_environ profiles = Inr c"
  shows "valid_config c \<and> (\<exists>ps. profiles = Inr ps \<and> map_of ps (cf_event_profile_id c) \<noteq> None)"
  using load_config_valid [OF assms] load_config_profile [OF assms] by blast

definition example_environ :: environ where
  "example_environ = [(''APP_ENV'', '' prod ''), (''KAFKA_SECURITY_PROTOCOL'', ''sasl_ssl''),
     (''KAFKA_SASL_USERNAME'', ''user''), (''KAFKA_SASL_PASSWORD'', ''secret'')]"

lemma example_config_loads:
  "case load_config None example_environ canonical_profiles of
     Inl e \<Rightarrow> False
   | Inr c \<Rightarrow> cf_dlq_backend c = ''db'' \<and> cf_kafka_security_protocol c = ''SASL_SSL''"
  by code_simp

theorem loaded_config_is_valid_witness:
  "\<exists>c. load_config None example_environ canonical_profiles = Inr c \<and> valid_config c"
proof -
  obtain c where "load_config None example_environ canonical_profiles = Inr c"
    using example_config_loads by (auto split: sum.splits)
  with loaded_config_is_valid [OF this] show ?thesis by blast
qed

text \<open>
  The Kafka settings of a loaded configuration name each setting once, always the brokers
  and the protocol, and contain user name and password exactly under a SASL protocol, where
  they are not empty.
\<close>

theorem kafka_settings_of_config:
  assumes "load_config env os_environ profiles = Inr c"
  shows "distinct (map fst (build_kafka_client_config c))
    \<and> map_of (build_kafka_client_config c) ''bootstrap.servers'' = Some (cf_kafka_brokers c)
    \<and> map_of (build_kafka_client_config c) ''security.protocol'' = Some (cf_kafka_security_protocol c)
    \<and> map_of (build_kafka_client_config c) ''sasl.password'' =
        (if starts_with (cf_kafka_security_protocol c) ''SASL'' then Some (cf_kafka_sasl_password c)
         else None)
    \<and> map_of (build_kafka_client_config c) ''sasl.password'' \<noteq> Some []"
  using load_config_valid [OF assms]
  by (auto simp: build_kafka_client_config_def valid_config_def ALLOWED_KAFKA_SECURITY_PROTOCOLS_def)

theorem kafka_settings_of_config_witness:
  "\<exists>c. load_config None example_environ canonical_profiles = Inr c
     \<and> distinct (map fst (build_kafka_client_config c))"
proof -
  obtain c where "load_config None example_environ canonical_profiles = Inr c"
    using example_config_loads by (auto split: sum.splits)
  with kafka_settings_of_config [OF this] show ?thesis by blast
qed

section \<open>Metrics\<close>

text \<open>
  The lag gauge gives back topic and partition: after a lag is recorded, the callback
  reports it, not negative, under that topic and partition, even when the topic contains the
  separator.
\<close>

theorem kafka_lag_is_reported:
  "(max 0 lag, topic, show_int partn)
     \<in> set (kafka_lag_callback (record_kafka_lag topic partn lag t))"
proof -
  have "(lag_key topic partn, max 0 lag)
      \<in> set (AList.update (lag_key topic partn) (max 0 lag) (kafka_lag_values t))"
    by (rule map_of_SomeD) (simp add: update_conv')
  then show ?thesis
    by (force simp: kafka_lag_callback_def record_kafka_lag_def rsplit_lag_key)
qed

text \<open>
  The freshness tracker keeps the newest event time of each topic: recording an event takes
  the maximum, leaves the other topics alone, and sets the gauge of the topic to the age of
  that maximum, which is not negative.
\<close>

theorem freshness_follows_newest_event:
  assumes "freshness_record now topic et (tr, t) = (tr', t')"
  shows "map_of tr' topic = Some (case map_of tr topic of None \<Rightarrow> et | Some l \<Rightarrow> max l et)
    \<and> map_of (freshness_values t') topic = Some (max 0 (elapsed now (the (map_of tr' topic))))
    \<and> (\<forall>u. u \<noteq> topic \<longrightarrow> map_of tr' u = map_of tr u
         \<and> map_of (freshness_values t') u = map_of (freshness_values t) u)"
  using freshness_record_latest [OF assms] freshness_record_gauge [OF assms]
    freshness_record_other [OF assms] by blast

theorem freshness_follows_newest_event_witness:
  "map_of (fst (freshness_record (Utc 9) ''t'' (Utc 3)
      ([(''t'', Utc 5)], \<lparr>emitted = [], kafka_lag_values = [], freshness_values = []\<rparr>))) ''t'' = Some (Utc 5)"
  using freshness_follows_newest_event [of "Utc 9" "''t''" "Utc 3" "[(''t'', Utc 5)]"
      "\<lparr>emitted = [], kafka_lag_values = [], freshness_values = []\<rparr>"]
  by (cases "freshness_record (Utc 9) ''t'' (Utc 3)
      ([(''t'', Utc 5)], \<lparr>emitted = [], kafka_lag_values = [], freshness_values = []\<rparr>)") simp

end
