(* ===== verification/Store.thy ===== *)
theory Store
  imports Events
begin

text \<open>
  \<open>src/db/models.py\<close> and \<open>src/db/upsert.py\<close>: the rows of the backoffice tables, and the
  latest-wins upsert as the SQL statement that the code builds together with what PostgreSQL
  does with such a statement (\<open>INSERT .. ON CONFLICT .. DO UPDATE SET .. WHERE\<close>, three-valued
  conditions). A table is the list of its rows.
\<close>

section \<open>Rows (models.py)\<close>

record ledger_entry =
  le_tx_id :: string
  le_wallet_id :: string
  le_entry_type :: string
  le_amount :: decimal
  le_amount_signed :: "decimal option"
  le_related_id :: "string option"
  le_related_type :: "string option"
  le_event_time :: instant
  le_created_at :: instant
  le_updated_at :: "instant option"
  le_source_version :: "int option"
  le_ingested_at :: instant

record payment_order =
  po_order_id :: string
  po_user_id :: "string option"
  po_merchant_name :: "string option"
  po_amount :: decimal
  po_status :: string
  po_created_at :: instant
  po_updated_at :: "instant option"
  po_source_version :: "int option"
  po_ingested_at :: instant

record payment_pair =
  pp_payment_order_id :: string
  pp_payment_tx_id :: "string option"
  pp_receive_tx_id :: "string option"
  pp_payer_wallet_id :: "string option"
  pp_payee_wallet_id :: "string option"
  pp_amount :: "decimal option"
  pp_status :: "string option"
  pp_event_time :: "instant option"
  pp_updated_at :: instant
  pp_ingested_at :: instant

section \<open>Columns\<close>

datatype sqlval =
    SqlNull
  | SqlText string
  | SqlNumeric decimal
  | SqlTime instant
  | SqlBigint int

definition sql_opt :: "('a \<Rightarrow> sqlval) \<Rightarrow> 'a option \<Rightarrow> sqlval" where
  "sql_opt f x = (case x of None \<Rightarrow> SqlNull | Some v \<Rightarrow> f v)"

text \<open>
  A table as the statement builder sees it: its columns in order, the value a row has in a
  column, and the assignment \<open>SET column = EXCLUDED.column\<close> (first the new row, then the
  row that is updated).
\<close>

record 'r sql_table =
  columns :: "string list"
  col_value :: "string \<Rightarrow> 'r \<Rightarrow> sqlval"
  col_copy :: "string \<Rightarrow> 'r \<Rightarrow> 'r \<Rightarrow> 'r"

definition column ::
  "string \<Rightarrow> ('r \<Rightarrow> sqlval) \<Rightarrow> ('r \<Rightarrow> 'r \<Rightarrow> 'r) \<Rightarrow> string \<times> ('r \<Rightarrow> sqlval) \<times> ('r \<Rightarrow> 'r \<Rightarrow> 'r)" where
  "column name get copy = (name, get, copy)"

definition make_table ::
  "(string \<times> ('r \<Rightarrow> sqlval) \<times> ('r \<Rightarrow> 'r \<Rightarrow> 'r)) list \<Rightarrow> 'r sql_table" where
  "make_table cs =
     \<lparr>columns = map fst cs,
      col_value = (\<lambda>c r. case map_of cs c of Some (get, copy) \<Rightarrow> get r | None \<Rightarrow> SqlNull),
      col_copy = (\<lambda>c new r. case map_of cs c of Some (get, copy) \<Rightarrow> copy new r | None \<Rightarrow> r)\<rparr>"

definition ledger_table :: "ledger_entry sql_table" where
  "ledger_table = make_table
     [column ''tx_id'' (SqlText \<circ> le_tx_id) (\<lambda>n r. r\<lparr>le_tx_id := le_tx_id n\<rparr>),
      column ''wallet_id'' (SqlText \<circ> le_wallet_id) (\<lambda>n r. r\<lparr>le_wallet_id := le_wallet_id n\<rparr>),
      column ''entry_type'' (SqlText \<circ> le_entry_type) (\<lambda>n r. r\<lparr>le_entry_type := le_entry_type n\<rparr>),
      column ''amount'' (SqlNumeric \<circ> le_amount) (\<lambda>n r. r\<lparr>le_amount := le_amount n\<rparr>),
      column ''amount_signed'' (sql_opt SqlNumeric \<circ> le_amount_signed)
        (\<lambda>n r. r\<lparr>le_amount_signed := le_amount_signed n\<rparr>),
      column ''related_id'' (sql_opt SqlText \<circ> le_related_id)
        (\<lambda>n r. r\<lparr>le_related_id := le_related_id n\<rparr>),
      column ''related_type'' (sql_opt SqlText \<circ> le_related_type)
        (\<lambda>n r. r\<lparr>le_related_type := le_related_type n\<rparr>),
      column ''event_time'' (SqlTime \<circ> le_event_time) (\<lambda>n r. r\<lparr>le_event_time := le_event_time n\<rparr>),
      column ''created_at'' (SqlTime \<circ> le_created_at) (\<lambda>n r. r\<lparr>le_created_at := le_created_at n\<rparr>),
      column ''updated_at'' (sql_opt SqlTime \<circ> le_updated_at)
        (\<lambda>n r. r\<lparr>le_updated_at := le_updated_at n\<rparr>),
      column ''source_version'' (sql_opt SqlBigint \<circ> le_source_version)
        (\<lambda>n r. r\<lparr>le_source_version := le_source_version n\<rparr>),
      column ''ingested_at'' (SqlTime \<circ> le_ingested_at)
        (\<lambda>n r. r\<lparr>le_ingested_at := le_ingested_at n\<rparr>)]"

definition order_table :: "payment_order sql_table" where
  "order_table = make_table
     [column ''order_id'' (SqlText \<circ> po_order_id) (\<lambda>n r. r\<lparr>po_order_id := po_order_id n\<rparr>),
      column ''user_id'' (sql_opt SqlText \<circ> po_user_id) (\<lambda>n r. r\<lparr>po_user_id := po_user_id n\<rparr>),
      column ''merchant_name'' (sql_opt SqlText \<circ> po_merchant_name)
        (\<lambda>n r. r\<lparr>po_merchant_name := po_merchant_name n\<rparr>),
      column ''amount'' (SqlNumeric \<circ> po_amount) (\<lambda>n r. r\<lparr>po_amount := po_amount n\<rparr>),
      column ''status'' (SqlText \<circ> po_status) (\<lambda>n r. r\<lparr>po_status := po_status n\<rparr>),
      column ''created_at'' (SqlTime \<circ> po_created_at) (\<lambda>n r. r\<lparr>po_created_at := po_created_at n\<rparr>),
      column ''updated_at'' (sql_opt SqlTime \<circ> po_updated_at)
        (\<lambda>n r. r\<lparr>po_updated_at := po_updated_at n\<rparr>),
      column ''source_version'' (sql_opt SqlBigint \<circ> po_source_version)
        (\<lambda>n r. r\<lparr>po_source_version := po_source_version n\<rparr>),
      column ''ingested_at'' (SqlTime \<circ> po_ingested_at)
        (\<lambda>n r. r\<lparr>po_ingested_at := po_ingested_at n\<rparr>)]"

definition pair_table :: "payment_pair sql_table" where
  "pair_table = make_table
     [column ''payment_order_id'' (SqlText \<circ> pp_payment_order_id)
        (\<lambda>n r. r\<lparr>pp_payment_order_id := pp_payment_order_id n\<rparr>),
      column ''payment_tx_id'' (sql_opt SqlText \<circ> pp_payment_tx_id)
        (\<lambda>n r. r\<lparr>pp_payment_tx_id := pp_payment_tx_id n\<rparr>),
      column ''receive_tx_id'' (sql_opt SqlText \<circ> pp_receive_tx_id)
        (\<lambda>n r. r\<lparr>pp_receive_tx_id := pp_receive_tx_id n\<rparr>),
      column ''payer_wallet_id'' (sql_opt SqlText \<circ> pp_payer_wallet_id)
        (\<lambda>n r. r\<lparr>pp_payer_wallet_id := pp_payer_wallet_id n\<rparr>),
      column ''payee_wallet_id'' (sql_opt SqlText \<circ> pp_payee_wallet_id)
        (\<lambda>n r. r\<lparr>pp_payee_wallet_id := pp_payee_wallet_id n\<rparr>),
      column ''amount'' (sql_opt SqlNumeric \<circ> pp_amount) (\<lambda>n r. r\<lparr>pp_amount := pp_amount n\<rparr>),
      column ''status'' (sql_opt SqlText \<circ> pp_status) (\<lambda>n r. r\<lparr>pp_status := pp_status n\<rparr>),
      column ''event_time'' (sql_opt SqlTime \<circ> pp_event_time)
        (\<lambda>n r. r\<lparr>pp_event_time := pp_event_time n\<rparr>),
      column ''updated_at'' (SqlTime \<circ> pp_updated_at) (\<lambda>n r. r\<lparr>pp_updated_at := pp_updated_at n\<rparr>),
      column ''ingested_at'' (SqlTime \<circ> pp_ingested_at)
        (\<lambda>n r. r\<lparr>pp_ingested_at := pp_ingested_at n\<rparr>)]"

section \<open>Conditions in three-valued logic\<close>

text \<open>\<open>Some\<close> truth value, or \<open>None\<close> for SQL's unknown.\<close>

datatype sql_ref = Excluded string | Existing string

datatype sql_cond =
    IsNull sql_ref
  | IsNotNull sql_ref
  | GreaterEq sql_ref sql_ref
  | AllOf "sql_cond list"
  | AnyOf "sql_cond list"

fun ref_value :: "'r sql_table \<Rightarrow> 'r \<Rightarrow> 'r \<Rightarrow> sql_ref \<Rightarrow> sqlval" where
  "ref_value t new old (Excluded c) = col_value t c new"
| "ref_value t new old (Existing c) = col_value t c old"

fun sql_ge :: "sqlval \<Rightarrow> sqlval \<Rightarrow> bool option" where
  "sql_ge (SqlTime a) (SqlTime b) = Some (b \<le> a)"
| "sql_ge (SqlBigint a) (SqlBigint b) = Some (b \<le> a)"
| "sql_ge _ _ = None"

fun and3 :: "bool option \<Rightarrow> bool option \<Rightarrow> bool option" where
  "and3 (Some False) _ = Some False"
| "and3 _ (Some False) = Some False"
| "and3 (Some True) (Some True) = Some True"
| "and3 _ _ = None"

fun or3 :: "bool option \<Rightarrow> bool option \<Rightarrow> bool option" where
  "or3 (Some True) _ = Some True"
| "or3 _ (Some True) = Some True"
| "or3 (Some False) (Some False) = Some False"
| "or3 _ _ = None"

fun eval_cond :: "'r sql_table \<Rightarrow> 'r \<Rightarrow> 'r \<Rightarrow> sql_cond \<Rightarrow> bool option"
  and eval_all :: "'r sql_table \<Rightarrow> 'r \<Rightarrow> 'r \<Rightarrow> sql_cond list \<Rightarrow> bool option"
  and eval_any :: "'r sql_table \<Rightarrow> 'r \<Rightarrow> 'r \<Rightarrow> sql_cond list \<Rightarrow> bool option"
where
  "eval_cond t new old (IsNull x) = Some (ref_value t new old x = SqlNull)"
| "eval_cond t new old (IsNotNull x) = Some (ref_value t new old x \<noteq> SqlNull)"
| "eval_cond t new old (GreaterEq x y) = sql_ge (ref_value t new old x) (ref_value t new old y)"
| "eval_cond t new old (AllOf cs) = eval_all t new old cs"
| "eval_cond t new old (AnyOf cs) = eval_any t new old cs"
| "eval_all t new old [] = Some True"
| "eval_all t new old (c # cs) = and3 (eval_cond t new old c) (eval_all t new old cs)"
| "eval_any t new old [] = Some False"
| "eval_any t new old (c # cs) = or3 (eval_cond t new old c) (eval_any t new old cs)"

section \<open>The statement (upsert.py)\<close>

record 'r upsert_stmt =
  us_values :: 'r
  us_index :: "string list"
  us_set :: "string list"
  us_where :: "sql_cond option"

definition lww_condition ::
  "'r sql_table \<Rightarrow> string \<Rightarrow> string \<Rightarrow> string \<Rightarrow> sql_cond option" where
  "lww_condition table updated_at_col version_col ingested_at_col =
     (if updated_at_col \<in> set (columns table) \<and> ingested_at_col \<in> set (columns table) then
        (let incoming_updated = Excluded updated_at_col;
             incoming_ingested = Excluded ingested_at_col;
             existing_updated = Existing updated_at_col;
             existing_ingested = Existing ingested_at_col;
             incoming_version = Excluded version_col;
             existing_version = Existing version_col;
             has_version = (version_col \<in> set (columns table));
             conditions =
               [AllOf [IsNotNull incoming_updated,
                       AnyOf [IsNull existing_updated,
                              GreaterEq incoming_updated existing_updated]]]
               @ (if has_version then
                    [AllOf [IsNull incoming_updated, IsNotNull incoming_version,
                            AnyOf [IsNull existing_version,
                                   GreaterEq incoming_version existing_version]]]
                  else []);
             fallback_checks =
               [IsNull incoming_updated]
               @ (if has_version then [IsNull incoming_version] else [])
               @ [IsNull existing_updated]
               @ (if has_version then [IsNull existing_version] else [])
               @ [GreaterEq incoming_ingested existing_ingested]
         in Some (AnyOf (conditions @ [AllOf fallback_checks])))
      else None)"

definition latest_wins_upsert :: "'r sql_table \<Rightarrow> 'r \<Rightarrow> string list \<Rightarrow> 'r upsert_stmt" where
  "latest_wins_upsert table values conflict_cols =
     \<lparr>us_values = values,
      us_index = conflict_cols,
      us_set = filter (\<lambda>c. c \<notin> set conflict_cols) (columns table),
      us_where = lww_condition table ''updated_at'' ''source_version'' ''ingested_at''\<rparr>"

section \<open>Executing it (PostgreSQL)\<close>

definition conflicts :: "'r sql_table \<Rightarrow> 'r upsert_stmt \<Rightarrow> 'r \<Rightarrow> bool" where
  "conflicts table stmt r =
     list_all (\<lambda>c. col_value table c r = col_value table c (us_values stmt)) (us_index stmt)"

definition where_holds :: "'r sql_table \<Rightarrow> 'r upsert_stmt \<Rightarrow> 'r \<Rightarrow> bool" where
  "where_holds table stmt old =
     (case us_where stmt of
        None \<Rightarrow> True
      | Some c \<Rightarrow> eval_cond table (us_values stmt) old c = Some True)"

definition apply_set :: "'r sql_table \<Rightarrow> 'r upsert_stmt \<Rightarrow> 'r \<Rightarrow> 'r" where
  "apply_set table stmt old = foldl (\<lambda>r c. col_copy table c (us_values stmt) r) old (us_set stmt)"

definition execute_upsert :: "'r sql_table \<Rightarrow> 'r upsert_stmt \<Rightarrow> 'r list \<Rightarrow> 'r list" where
  "execute_upsert table stmt rows =
     (if list_ex (conflicts table stmt) rows
      then map (\<lambda>r. if conflicts table stmt r \<and> where_holds table stmt r
                    then apply_set table stmt r else r) rows
      else rows @ [us_values stmt])"

section \<open>The rule the statement is meant to implement\<close>

text \<open>
  The ordering data of a row, and the three-step rule of the design documents: a newer or
  equal \<open>updated_at\<close> wins; without one, a newer or equal version wins; without either, a
  newer or equal arrival wins, but only over a row that has neither.
\<close>

record lww_meta =
  m_updated :: "instant option"
  m_version :: "int option"
  m_ingested :: instant

definition lww_wins :: "lww_meta \<Rightarrow> lww_meta \<Rightarrow> bool" where
  "lww_wins new old =
     (case m_updated new of
        Some u \<Rightarrow> (case m_updated old of None \<Rightarrow> True | Some u' \<Rightarrow> u' \<le> u)
      | None \<Rightarrow>
          (case m_version new of
             Some v \<Rightarrow> (case m_version old of None \<Rightarrow> True | Some v' \<Rightarrow> v' \<le> v)
           | None \<Rightarrow>
               m_updated old = None \<and> m_version old = None \<and> m_ingested old \<le> m_ingested new))"

definition ledger_meta :: "ledger_entry \<Rightarrow> lww_meta" where
  "ledger_meta r = \<lparr>m_updated = le_updated_at r, m_version = le_source_version r,
                    m_ingested = le_ingested_at r\<rparr>"

definition order_meta :: "payment_order \<Rightarrow> lww_meta" where
  "order_meta r = \<lparr>m_updated = po_updated_at r, m_version = po_source_version r,
                   m_ingested = po_ingested_at r\<rparr>"

definition pair_meta :: "payment_pair \<Rightarrow> lww_meta" where
  "pair_meta r = \<lparr>m_updated = Some (pp_updated_at r), m_version = None,
                  m_ingested = pp_ingested_at r\<rparr>"

end
