(* ===== verification/LatestWins.thy ===== *)
theory LatestWins
  imports Store
begin

text \<open>
  What the upsert of \<open>src/db/upsert.py\<close> does to a table: the built SQL condition is the
  latest-wins rule on the rows' ordering data, and the statement replaces or keeps the one row
  of its key. The consequences are proved once, in the locales \<open>keyed_lww\<close> (a table with a
  primary key and a conditional replacement) and \<open>ranked_lww\<close> (the condition compares a rank),
  and read off for the three tables by interpretation.
\<close>

section \<open>Lookup by primary key\<close>

definition row_of :: "('r \<Rightarrow> 'k) \<Rightarrow> 'k \<Rightarrow> 'r list \<Rightarrow> 'r option" where
  "row_of key k rows = find (\<lambda>r. key r = k) rows"

lemma row_of_simps [simp]:
  "row_of key k [] = None"
  "row_of key k (r # rows) = (if key r = k then Some r else row_of key k rows)"
  by (simp_all add: row_of_def)

lemma row_of_SomeD: "row_of key k rows = Some r \<Longrightarrow> r \<in> set rows \<and> key r = k"
  unfolding row_of_def by (rule find_Some_in)

lemma row_of_None: "row_of key k rows = None \<longleftrightarrow> k \<notin> key ` set rows"
  by (auto simp: row_of_def find_None_iff)

lemma row_of_eq_Some:
  "distinct (map key rows) \<Longrightarrow> row_of key k rows = Some r \<longleftrightarrow> r \<in> set rows \<and> key r = k"
  by (induction rows) (auto simp: rev_image_eqI)

lemma row_of_append:
  "row_of key k (xs @ ys) = (case row_of key k xs of None \<Rightarrow> row_of key k ys | Some r \<Rightarrow> Some r)"
  by (induction xs) auto

text \<open>The table operation that the statement amounts to.\<close>

definition replace_or_insert ::
  "('r \<Rightarrow> 'k) \<Rightarrow> ('r \<Rightarrow> 'r \<Rightarrow> bool) \<Rightarrow> 'r \<Rightarrow> 'r list \<Rightarrow> 'r list" where
  "replace_or_insert key wins v rows =
     (if key v \<in> key ` set rows
      then map (\<lambda>r. if key r = key v \<and> wins v r then v else r) rows
      else rows @ [v])"

lemma replace_or_insert_keys:
  "map key (replace_or_insert key wins v rows) =
     (if key v \<in> key ` set rows then map key rows else map key rows @ [key v])"
  by (auto simp: replace_or_insert_def)

lemma replace_or_insert_distinct:
  "distinct (map key rows) \<Longrightarrow> distinct (map key (replace_or_insert key wins v rows))"
  by (simp add: replace_or_insert_keys)

lemma row_of_map_replace:
  "row_of key k (map (\<lambda>r. if key r = key v \<and> wins v r then v else r) rows) =
     (case row_of key k rows of
        None \<Rightarrow> None
      | Some r \<Rightarrow> Some (if k = key v \<and> wins v r then v else r))"
  by (induction rows) (auto split: option.splits)

lemma row_of_replace_or_insert:
  "row_of key k (replace_or_insert key wins v rows) =
     (if k = key v
      then Some (case row_of key k rows of None \<Rightarrow> v | Some r \<Rightarrow> if wins v r then v else r)
      else row_of key k rows)"
proof (cases "key v \<in> key ` set rows")
  case True
  then have "row_of key (key v) rows \<noteq> None" by (simp add: row_of_None)
  then show ?thesis using True
    by (cases "row_of key k rows") (auto simp: replace_or_insert_def row_of_map_replace)
next
  case False
  then have "row_of key (key v) rows = None" by (simp add: row_of_None)
  then show ?thesis using False
    by (cases "row_of key k rows") (auto simp: replace_or_insert_def row_of_append)
qed

section \<open>A table with a conditional replacement\<close>

locale keyed_lww =
  fixes key :: "'r \<Rightarrow> 'k"
    and wins :: "'r \<Rightarrow> 'r \<Rightarrow> bool"
    and upsert :: "'r \<Rightarrow> 'r list \<Rightarrow> 'r list"
  assumes wins_refl: "wins v v"
    and upsert_lookup:
      "row_of key k (upsert v rows) =
         (if k = key v
          then Some (case row_of key k rows of None \<Rightarrow> v | Some r \<Rightarrow> if wins v r then v else r)
          else row_of key k rows)"
    and upsert_distinct: "distinct (map key rows) \<Longrightarrow> distinct (map key (upsert v rows))"
begin

lemma lookup_other: "k \<noteq> key v \<Longrightarrow> row_of key k (upsert v rows) = row_of key k rows"
  by (simp add: upsert_lookup)

lemma lookup_present: "\<exists>r. row_of key (key v) (upsert v rows) = Some r \<and> key r = key v"
  by (auto simp: upsert_lookup split: option.splits dest: row_of_SomeD)

lemma lookup_loses:
  "row_of key (key v) rows = Some r \<Longrightarrow> \<not> wins v r \<Longrightarrow>
     row_of key k (upsert v rows) = row_of key k rows"
  by (auto simp: upsert_lookup)

lemma lookup_twice: "row_of key k (upsert v (upsert v rows)) = row_of key k (upsert v rows)"
  by (auto simp: upsert_lookup wins_refl split: option.splits)

lemma fold_distinct: "distinct (map key rows) \<Longrightarrow> distinct (map key (fold upsert vs rows))"
  by (induction vs arbitrary: rows) (auto intro: upsert_distinct)

lemma fold_lookup_source:
  "row_of key k (fold upsert vs rows) = Some r \<Longrightarrow>
     r \<in> set vs \<or> row_of key k rows = Some r"
proof (induction vs arbitrary: rows)
  case (Cons v vs)
  have "r \<in> set vs \<or> row_of key k (upsert v rows) = Some r"
    using Cons.IH [of "upsert v rows"] Cons.prems by simp
  then show ?case
    by (auto simp: upsert_lookup split: if_splits option.splits)
qed simp

lemma fold_lookup_mono:
  "row_of key k rows \<noteq> None \<Longrightarrow> row_of key k (fold upsert vs rows) \<noteq> None"
proof (induction vs arbitrary: rows)
  case (Cons v vs)
  have "row_of key k (upsert v rows) \<noteq> None"
    using Cons.prems by (auto simp: upsert_lookup)
  then show ?case using Cons.IH by simp
qed simp

lemma fold_lookup_None:
  "row_of key k (fold upsert vs rows) = None \<longleftrightarrow> row_of key k rows = None \<and> k \<notin> key ` set vs"
proof (induction vs arbitrary: rows)
  case (Cons v vs)
  have "row_of key k (upsert v rows) = None \<longleftrightarrow> k \<noteq> key v \<and> row_of key k rows = None"
    by (simp add: upsert_lookup)
  then show ?case using Cons.IH [of "upsert v rows"] by auto
qed simp

end

text \<open>
  Rows that compare by a rank: then the surviving row of a key is one of highest rank, and
  what it contains does not depend on the order or the number of the deliveries, provided
  equal ranks carry equal contents.
\<close>

locale ranked_lww = keyed_lww key wins upsert
  for key :: "'r \<Rightarrow> 'k" and wins :: "'r \<Rightarrow> 'r \<Rightarrow> bool" and upsert :: "'r \<Rightarrow> 'r list \<Rightarrow> 'r list" +
  fixes good :: "'r \<Rightarrow> bool"
    and rank :: "'r \<Rightarrow> 'o::linorder"
    and content :: "'r \<Rightarrow> 'c"
  assumes wins_rank: "good v \<Longrightarrow> good r \<Longrightarrow> wins v r \<longleftrightarrow> rank r \<le> rank v"
    and content_key: "content v = content r \<Longrightarrow> key v = key r"
    and content_rank: "content v = content r \<Longrightarrow> rank v = rank r"
begin

lemma fold_lookup_max:
  assumes "\<And>v. v \<in> set vs \<Longrightarrow> good v" and "\<And>r. r \<in> set rows \<Longrightarrow> good r"
    and "row_of key k (fold upsert vs rows) = Some r"
  shows "(\<forall>v\<in>set vs. key v = k \<longrightarrow> rank v \<le> rank r)
         \<and> (\<forall>w. row_of key k rows = Some w \<longrightarrow> rank w \<le> rank r)"
  using assms
proof (induction vs arbitrary: r rule: rev_induct)
  case Nil
  then show ?case by simp
next
  case (snoc v vs)
  let ?t = "fold upsert vs rows"
  have step: "row_of key k (upsert v ?t) = Some r" using snoc.prems(3) by simp
  show ?case
  proof (cases "row_of key k ?t")
    case None
    then have old: "row_of key k rows = None" "k \<notin> key ` set vs"
      by (simp_all add: fold_lookup_None)
    have "k = key v" "r = v" using step None by (auto simp: upsert_lookup split: if_splits)
    with old show ?thesis by (force simp: image_iff)
  next
    case (Some w)
    have w: "\<forall>v\<in>set vs. key v = k \<longrightarrow> rank v \<le> rank w"
        "\<forall>x. row_of key k rows = Some x \<longrightarrow> rank x \<le> rank w"
      using snoc.IH Some snoc.prems(1,2) by auto
    have "good w"
      using fold_lookup_source [OF Some] snoc.prems(1,2) by (auto dest: row_of_SomeD)
    moreover have "good v" using snoc.prems(1) by simp
    ultimately have "wins v w \<longleftrightarrow> rank w \<le> rank v" by (rule wins_rank [rotated])
    then show ?thesis
      using step Some w by (auto simp: upsert_lookup split: if_splits)
  qed
qed

lemma fold_content_le:
  assumes good: "\<And>v. v \<in> set vs \<union> set ws \<Longrightarrow> good v"
    and same: "content ` set vs = content ` set ws"
    and ties: "\<And>v w. v \<in> set vs \<union> set ws \<Longrightarrow> w \<in> set vs \<union> set ws \<Longrightarrow> key v = key w \<Longrightarrow>
                 rank v = rank w \<Longrightarrow> content v = content w"
    and found: "row_of key k (fold upsert vs []) = Some r"
  shows "\<exists>s. row_of key k (fold upsert ws []) = Some s \<and> content s = content r"
proof -
  have r: "r \<in> set vs" "key r = k"
    using fold_lookup_source [OF found] row_of_SomeD [OF found] by simp_all
  then obtain r' where r': "r' \<in> set ws" "content r' = content r"
    using same by (metis imageE imageI)
  then have k: "k \<in> key ` set ws" using content_key [OF r'(2)] r(2) by (metis imageI)
  then obtain s where s: "row_of key k (fold upsert ws []) = Some s"
    using fold_lookup_None [of k ws "[]"] by auto
  have sm: "s \<in> set ws" "key s = k"
    using fold_lookup_source [OF s] row_of_SomeD [OF s] by simp_all
  then obtain s' where s': "s' \<in> set vs" "content s' = content s"
    using same by (metis imageE imageI)
  have "\<forall>v\<in>set vs. key v = k \<longrightarrow> rank v \<le> rank r"
    using fold_lookup_max [OF _ _ found] good by simp
  then have "rank s' \<le> rank r" using s' sm(2) content_key [OF s'(2)] by simp
  moreover have "\<forall>v\<in>set ws. key v = k \<longrightarrow> rank v \<le> rank s"
    using fold_lookup_max [OF _ _ s] good by simp
  then have "rank r' \<le> rank s" using r' r(2) content_key [OF r'(2)] by simp
  ultimately have "rank s = rank r" using content_rank [OF s'(2)] content_rank [OF r'(2)] by simp
  then have "content s = content r" using ties [of s r] sm r by simp
  then show ?thesis using s by blast
qed

lemma fold_content_converges:
  assumes "\<And>v. v \<in> set vs \<union> set ws \<Longrightarrow> good v"
    and "content ` set vs = content ` set ws"
    and "\<And>v w. v \<in> set vs \<union> set ws \<Longrightarrow> w \<in> set vs \<union> set ws \<Longrightarrow> key v = key w \<Longrightarrow>
           rank v = rank w \<Longrightarrow> content v = content w"
  shows "map_option content (row_of key k (fold upsert vs [])) =
         map_option content (row_of key k (fold upsert ws []))"
proof (cases "row_of key k (fold upsert vs [])")
  case None
  have "key ` set vs = key ` set ws"
  proof -
    have "key ` set xs \<subseteq> key ` set ys" if sub: "content ` set xs \<subseteq> content ` set ys" for xs ys
    proof
      fix k' assume "k' \<in> key ` set xs"
      then obtain x where x: "x \<in> set xs" "k' = key x" by auto
      then obtain y where y: "y \<in> set ys" "content y = content x"
        using sub by (metis imageE imageI subsetD)
      then show "k' \<in> key ` set ys" using x(2) content_key [OF y(2)] by (metis imageI)
    qed
    then show ?thesis using assms(2) by (simp add: subset_antisym)
  qed
  then show ?thesis using None fold_lookup_None [of k vs "[]"] fold_lookup_None [of k ws "[]"] by simp
next
  case (Some r)
  obtain s where "row_of key k (fold upsert ws []) = Some s" "content s = content r"
    using fold_content_le [OF assms Some] by blast
  with Some show ?thesis by simp
qed

end


section \<open>The statement is the rule\<close>

lemmas table_defs = make_table_def column_def sql_opt_def

lemma ledger_columns [simp]:
  "columns ledger_table =
     [''tx_id'', ''wallet_id'', ''entry_type'', ''amount'', ''amount_signed'', ''related_id'',
      ''related_type'', ''event_time'', ''created_at'', ''updated_at'', ''source_version'',
      ''ingested_at'']"
  by (simp add: ledger_table_def table_defs)

lemma order_columns [simp]:
  "columns order_table =
     [''order_id'', ''user_id'', ''merchant_name'', ''amount'', ''status'', ''created_at'',
      ''updated_at'', ''source_version'', ''ingested_at'']"
  by (simp add: order_table_def table_defs)

lemma pair_columns [simp]:
  "columns pair_table =
     [''payment_order_id'', ''payment_tx_id'', ''receive_tx_id'', ''payer_wallet_id'',
      ''payee_wallet_id'', ''amount'', ''status'', ''event_time'', ''updated_at'', ''ingested_at'']"
  by (simp add: pair_table_def table_defs)

lemma ledger_lww_cols:
  "col_value ledger_table ''tx_id'' r = SqlText (le_tx_id r)"
  "col_value ledger_table ''updated_at'' r = sql_opt SqlTime (le_updated_at r)"
  "col_value ledger_table ''source_version'' r = sql_opt SqlBigint (le_source_version r)"
  "col_value ledger_table ''ingested_at'' r = SqlTime (le_ingested_at r)"
  by (simp_all add: ledger_table_def table_defs)

lemma order_lww_cols:
  "col_value order_table ''order_id'' r = SqlText (po_order_id r)"
  "col_value order_table ''updated_at'' r = sql_opt SqlTime (po_updated_at r)"
  "col_value order_table ''source_version'' r = sql_opt SqlBigint (po_source_version r)"
  "col_value order_table ''ingested_at'' r = SqlTime (po_ingested_at r)"
  by (simp_all add: order_table_def table_defs)

lemma pair_lww_cols:
  "col_value pair_table ''payment_order_id'' r = SqlText (pp_payment_order_id r)"
  "col_value pair_table ''updated_at'' r = SqlTime (pp_updated_at r)"
  "col_value pair_table ''ingested_at'' r = SqlTime (pp_ingested_at r)"
  by (simp_all add: pair_table_def table_defs)

lemma sql_opt_simps [simp]:
  "sql_opt f None = SqlNull"
  "sql_opt f (Some x) = f x"
  by (simp_all add: sql_opt_def)

lemma bool3_cases:
  "(x = None \<Longrightarrow> P) \<Longrightarrow> (x = Some True \<Longrightarrow> P) \<Longrightarrow> (x = Some False \<Longrightarrow> P) \<Longrightarrow> P"
  for x :: "bool option"
  by (cases x) auto

lemma logic3_units [simp]:
  "or3 x (Some True) = Some True"
  "or3 (Some False) x = x"
  "or3 x (Some False) = x"
  "and3 x (Some False) = Some False"
  "and3 (Some True) x = x"
  "and3 x (Some True) = x"
  by (cases x rule: bool3_cases; simp)+

lemmas lww_statement_defs = where_holds_def latest_wins_upsert_def lww_condition_def Let_def
  lww_wins_def

text \<open>
  PostgreSQL applies the update exactly when the condition is true (not false, not unknown):
  that is the three-step rule.
\<close>

lemma ledger_where:
  "where_holds ledger_table (latest_wins_upsert ledger_table v [''tx_id'']) r \<longleftrightarrow>
     lww_wins (ledger_meta v) (ledger_meta r)"
  by (cases "le_updated_at v"; cases "le_updated_at r"; cases "le_source_version v";
      cases "le_source_version r")
    (simp_all add: lww_statement_defs ledger_lww_cols ledger_meta_def)

lemma order_where:
  "where_holds order_table (latest_wins_upsert order_table v [''order_id'']) r \<longleftrightarrow>
     lww_wins (order_meta v) (order_meta r)"
  by (cases "po_updated_at v"; cases "po_updated_at r"; cases "po_source_version v";
      cases "po_source_version r")
    (simp_all add: lww_statement_defs order_lww_cols order_meta_def)

lemma pair_where:
  "where_holds pair_table (latest_wins_upsert pair_table v [''payment_order_id'']) r \<longleftrightarrow>
     lww_wins (pair_meta v) (pair_meta r)"
  by (simp add: lww_statement_defs pair_lww_cols pair_meta_def)

lemma ledger_conflicts:
  "conflicts ledger_table (latest_wins_upsert ledger_table v [''tx_id'']) r \<longleftrightarrow>
     le_tx_id r = le_tx_id v"
  by (simp add: conflicts_def latest_wins_upsert_def ledger_lww_cols)

lemma order_conflicts:
  "conflicts order_table (latest_wins_upsert order_table v [''order_id'']) r \<longleftrightarrow>
     po_order_id r = po_order_id v"
  by (simp add: conflicts_def latest_wins_upsert_def order_lww_cols)

lemma pair_conflicts:
  "conflicts pair_table (latest_wins_upsert pair_table v [''payment_order_id'']) r \<longleftrightarrow>
     pp_payment_order_id r = pp_payment_order_id v"
  by (simp add: conflicts_def latest_wins_upsert_def pair_lww_cols)

text \<open>The update copies every column that is not the key: the row becomes the new one.\<close>

lemma ledger_set:
  "le_tx_id r = le_tx_id v \<Longrightarrow>
     apply_set ledger_table (latest_wins_upsert ledger_table v [''tx_id'']) r = v"
  by (simp add: apply_set_def latest_wins_upsert_def)
    (simp add: ledger_table_def table_defs)

lemma order_set:
  "po_order_id r = po_order_id v \<Longrightarrow>
     apply_set order_table (latest_wins_upsert order_table v [''order_id'']) r = v"
  by (simp add: apply_set_def latest_wins_upsert_def)
    (simp add: order_table_def table_defs)

lemma pair_set:
  "pp_payment_order_id r = pp_payment_order_id v \<Longrightarrow>
     apply_set pair_table (latest_wins_upsert pair_table v [''payment_order_id'']) r = v"
  by (simp add: apply_set_def latest_wins_upsert_def)
    (simp add: pair_table_def table_defs)

lemma execute_upsert_as_replacement:
  assumes "\<And>r. conflicts t s r \<longleftrightarrow> key r = key v"
    and "\<And>r. where_holds t s r \<longleftrightarrow> wins v r"
    and "\<And>r. key r = key v \<Longrightarrow> apply_set t s r = v"
    and "us_values s = v"
  shows "execute_upsert t s rows = replace_or_insert key wins v rows"
proof -
  have "list_ex (conflicts t s) rows \<longleftrightarrow> key v \<in> key ` set rows"
    by (auto simp: list_ex_iff assms(1)) (metis imageI)
  then show ?thesis
    by (simp add: execute_upsert_def replace_or_insert_def assms cong: if_cong)
qed

definition ledger_wins :: "ledger_entry \<Rightarrow> ledger_entry \<Rightarrow> bool" where
  "ledger_wins v r = lww_wins (ledger_meta v) (ledger_meta r)"

definition order_wins :: "payment_order \<Rightarrow> payment_order \<Rightarrow> bool" where
  "order_wins v r = lww_wins (order_meta v) (order_meta r)"

definition pair_wins :: "payment_pair \<Rightarrow> payment_pair \<Rightarrow> bool" where
  "pair_wins v r = lww_wins (pair_meta v) (pair_meta r)"

definition ledger_upsert :: "ledger_entry \<Rightarrow> ledger_entry list \<Rightarrow> ledger_entry list" where
  "ledger_upsert v rows = execute_upsert ledger_table (latest_wins_upsert ledger_table v [''tx_id'']) rows"

definition order_upsert :: "payment_order \<Rightarrow> payment_order list \<Rightarrow> payment_order list" where
  "order_upsert v rows = execute_upsert order_table (latest_wins_upsert order_table v [''order_id'']) rows"

definition pair_upsert :: "payment_pair \<Rightarrow> payment_pair list \<Rightarrow> payment_pair list" where
  "pair_upsert v rows =
     execute_upsert pair_table (latest_wins_upsert pair_table v [''payment_order_id'']) rows"

lemma us_values_upsert [simp]: "us_values (latest_wins_upsert t v cs) = v"
  by (simp add: latest_wins_upsert_def)

lemma ledger_upsert_is_replacement:
  "ledger_upsert v rows = replace_or_insert le_tx_id ledger_wins v rows"
  unfolding ledger_upsert_def
  by (rule execute_upsert_as_replacement)
    (simp_all add: ledger_conflicts ledger_where ledger_wins_def ledger_set)

lemma order_upsert_is_replacement:
  "order_upsert v rows = replace_or_insert po_order_id order_wins v rows"
  unfolding order_upsert_def
  by (rule execute_upsert_as_replacement)
    (simp_all add: order_conflicts order_where order_wins_def order_set)

lemma pair_upsert_is_replacement:
  "pair_upsert v rows = replace_or_insert pp_payment_order_id pair_wins v rows"
  unfolding pair_upsert_def
  by (rule execute_upsert_as_replacement)
    (simp_all add: pair_conflicts pair_where pair_wins_def pair_set)

lemmas upsert_is_replacement =
  ledger_upsert_is_replacement order_upsert_is_replacement pair_upsert_is_replacement

section \<open>The rule on ordering data\<close>

lemma lww_wins_refl [simp]: "lww_wins m m"
  by (simp add: lww_wins_def split: option.splits)

lemma lww_wins_updated:
  "m_updated a = Some u \<Longrightarrow> m_updated b = Some w \<Longrightarrow> lww_wins a b \<longleftrightarrow> w \<le> u"
  by (simp add: lww_wins_def)

lemma lww_wins_version:
  "m_updated a = None \<Longrightarrow> m_version a = Some v \<Longrightarrow> m_version b = Some w \<Longrightarrow>
     lww_wins a b \<longleftrightarrow> w \<le> v"
  by (simp add: lww_wins_def)

lemma lww_without_metadata_loses:
  "m_updated a = None \<Longrightarrow> m_version a = None \<Longrightarrow> m_updated b \<noteq> None \<or> m_version b \<noteq> None \<Longrightarrow>
     \<not> lww_wins a b"
  by (auto simp: lww_wins_def)

section \<open>The tables as latest-wins stores\<close>

interpretation ledger_store: keyed_lww le_tx_id ledger_wins ledger_upsert
  by unfold_locales
    (simp_all add: ledger_upsert_is_replacement row_of_replace_or_insert
      replace_or_insert_distinct ledger_wins_def)

interpretation order_store: keyed_lww po_order_id order_wins order_upsert
  by unfold_locales
    (simp_all add: order_upsert_is_replacement row_of_replace_or_insert
      replace_or_insert_distinct order_wins_def)

interpretation pair_store: keyed_lww pp_payment_order_id pair_wins pair_upsert
  by unfold_locales
    (simp_all add: pair_upsert_is_replacement row_of_replace_or_insert
      replace_or_insert_distinct pair_wins_def)

text \<open>
  What a row says about its key: everything but the time at which this service stored it.
  Rows with \<open>updated_at\<close> are ranked by it, rows with a version only by their version.
\<close>

definition ledger_content :: "ledger_entry \<Rightarrow> ledger_entry" where
  "ledger_content r = r\<lparr>le_ingested_at := Utc 0\<rparr>"

definition order_content :: "payment_order \<Rightarrow> payment_order" where
  "order_content r = r\<lparr>po_ingested_at := Utc 0\<rparr>"

lemma ledger_content_eqD:
  "ledger_content v = ledger_content r \<Longrightarrow>
     le_tx_id v = le_tx_id r \<and> le_updated_at v = le_updated_at r
     \<and> le_source_version v = le_source_version r"
  by (cases v; cases r; simp add: ledger_content_def)

lemma order_content_eqD:
  "order_content v = order_content r \<Longrightarrow>
     po_order_id v = po_order_id r \<and> po_updated_at v = po_updated_at r
     \<and> po_source_version v = po_source_version r"
  by (cases v; cases r; simp add: order_content_def)

interpretation ledger_by_time: ranked_lww le_tx_id ledger_wins ledger_upsert
  "\<lambda>r. le_updated_at r \<noteq> None" "\<lambda>r. the (le_updated_at r)" ledger_content
  by unfold_locales
    (auto simp: ledger_wins_def ledger_meta_def lww_wins_def dest: ledger_content_eqD)

interpretation ledger_by_version: ranked_lww le_tx_id ledger_wins ledger_upsert
  "\<lambda>r. le_updated_at r = None \<and> le_source_version r \<noteq> None" "\<lambda>r. the (le_source_version r)"
  ledger_content
  by unfold_locales
    (auto simp: ledger_wins_def ledger_meta_def lww_wins_def dest: ledger_content_eqD)

interpretation order_by_time: ranked_lww po_order_id order_wins order_upsert
  "\<lambda>r. po_updated_at r \<noteq> None" "\<lambda>r. the (po_updated_at r)" order_content
  by unfold_locales
    (auto simp: order_wins_def order_meta_def lww_wins_def dest: order_content_eqD)

interpretation order_by_version: ranked_lww po_order_id order_wins order_upsert
  "\<lambda>r. po_updated_at r = None \<and> po_source_version r \<noteq> None" "\<lambda>r. the (po_source_version r)"
  order_content
  by unfold_locales
    (auto simp: order_wins_def order_meta_def lww_wins_def dest: order_content_eqD)

end
