(* ===== verification/PyUrl.thy ===== *)
theory PyUrl
  imports PyBytes
begin

text \<open>
  \<open>urllib.parse\<close>: \<open>quote_plus\<close>, \<open>unquote\<close>, \<open>urlencode\<close> and \<open>parse_qsl\<close> with
  \<open>keep_blank_values=True\<close>, on texts as their UTF-8 bytes, and the round trip of the last two.
\<close>

section \<open>Quoting\<close>

definition is_ascii :: "char \<Rightarrow> bool" where
  "is_ascii c = (byte_of c < 0x80)"

text \<open>\<open>_ALWAYS_SAFE\<close>, and the two digits of a byte.\<close>

definition url_safe :: "char \<Rightarrow> bool" where
  "url_safe c =
     (c \<in> set ''ABCDEFGHIJKLMNOPQRSTUVWXYZabcdefghijklmnopqrstuvwxyz0123456789_.-~'')"

definition hex_upper :: "nat \<Rightarrow> char" where
  "hex_upper n = ''0123456789ABCDEF'' ! n"

definition percent_byte :: "char \<Rightarrow> string" where
  "percent_byte c = [CHR ''%'', hex_upper (byte_of c div 16), hex_upper (byte_of c mod 16)]"

definition quote :: "string \<Rightarrow> string \<Rightarrow> string" where
  "quote safe s = concat (map (\<lambda>c. if url_safe c \<or> c \<in> set safe then [c] else percent_byte c) s)"

definition replace_char :: "char \<Rightarrow> char \<Rightarrow> string \<Rightarrow> string" where
  "replace_char a b s = map (\<lambda>c. if c = a then b else c) s"

definition quote_plus :: "string \<Rightarrow> string" where
  "quote_plus s =
     (if CHR '' '' \<in> set s then replace_char (CHR '' '') (CHR ''+'') (quote '' '' s) else quote [] s)"

definition urlencode :: "(string \<times> string) list \<Rightarrow> string" where
  "urlencode ps = join ''&'' (map (\<lambda>(k, v). quote_plus k @ ''='' @ quote_plus v) ps)"

section \<open>Unquoting\<close>

definition hex_value :: "char \<Rightarrow> nat option" where
  "hex_value c = map_of (zip ''0123456789ABCDEFabcdef'' ([0..<16] @ [10..<16])) c"

fun unquote_bytes :: "string \<Rightarrow> string" where
  "unquote_bytes (a # b # c # s) =
     (case (hex_value b, hex_value c) of
        (Some x, Some y) \<Rightarrow>
          if a = CHR ''%'' then char_of (16 * x + y) # unquote_bytes s else a # unquote_bytes (b # c # s)
      | _ \<Rightarrow> a # unquote_bytes (b # c # s))"
| "unquote_bytes s = s"

text \<open>Each maximal run of ASCII characters is unquoted and decoded by itself.\<close>

function unquote :: "string \<Rightarrow> string" where
  "unquote [] = []"
| "unquote (c # s) =
     (if is_ascii c
      then decode_replace (unquote_bytes (c # takeWhile is_ascii s)) @ unquote (dropWhile is_ascii s)
      else c # unquote s)"
  by pat_completeness auto
termination
  by (relation "measure length") (auto simp: le_imp_less_Suc length_dropWhile_le)

definition parse_field :: "string \<Rightarrow> string \<times> string" where
  "parse_field nv =
     (unquote (replace_char (CHR ''+'') (CHR '' '') (takeWhile (\<lambda>c. c \<noteq> CHR ''='') nv)),
      unquote (replace_char (CHR ''+'') (CHR '' '') (drop 1 (dropWhile (\<lambda>c. c \<noteq> CHR ''='') nv))))"

definition parse_qsl :: "string \<Rightarrow> (string \<times> string) list" where
  "parse_qsl qs = map parse_field (filter (\<lambda>f. f \<noteq> []) (split_on (CHR ''&'') qs))"

section \<open>What quoting produces\<close>

text \<open>\<open>quote_plus\<close> character by character.\<close>

definition quote_char :: "char \<Rightarrow> string" where
  "quote_char c =
     (if c = CHR '' '' then ''+'' else if url_safe c then [c] else percent_byte c)"

lemma nibbles: "byte_of c div 16 < 16" "byte_of c mod 16 < 16"
  using nat_of_char_less_256 [of c] by (simp_all add: byte_of_def less_mult_imp_div_less)

lemma hex_digit_facts:
  assumes "n < 16"
  shows "hex_value (hex_upper n) = Some n" and "is_ascii (hex_upper n)"
    and "hex_upper n \<notin> {CHR '' '', CHR ''&'', CHR ''='', CHR ''+''}"
proof -
  have "list_all (\<lambda>n. hex_value (hex_upper n) = Some n \<and> is_ascii (hex_upper n)
      \<and> hex_upper n \<notin> set '' &=+'') [0..<16]"
    by code_simp
  with assms have "hex_value (hex_upper n) = Some n \<and> is_ascii (hex_upper n)
      \<and> hex_upper n \<notin> set '' &=+''"
    by (simp only: list_all_iff set_upt atLeastLessThan_iff)
      (metis atLeastLessThan_iff le0)
  then show "hex_value (hex_upper n) = Some n" and "is_ascii (hex_upper n)"
    and "hex_upper n \<notin> {CHR '' '', CHR ''&'', CHR ''='', CHR ''+''}" by auto
qed

lemma url_safe_facts:
  assumes "url_safe c"
  shows "is_ascii c" and "c \<notin> {CHR '' '', CHR ''&'', CHR ''='', CHR ''+'', CHR ''%''}"
proof -
  have "list_all (\<lambda>c. is_ascii c \<and> c \<notin> set '' &=+%'')
      ''ABCDEFGHIJKLMNOPQRSTUVWXYZabcdefghijklmnopqrstuvwxyz0123456789_.-~''" by code_simp
  with assms have "is_ascii c \<and> c \<notin> set '' &=+%''"
    by (simp only: list_all_iff url_safe_def) blast
  then show "is_ascii c" and "c \<notin> {CHR '' '', CHR ''&'', CHR ''='', CHR ''+'', CHR ''%''}" by auto
qed

lemma percent_byte_facts:
  "x \<in> set (percent_byte c) \<Longrightarrow> is_ascii x \<and> x \<notin> {CHR '' '', CHR ''&'', CHR ''='', CHR ''+''}"
  using hex_digit_facts [OF nibbles(1), of c] hex_digit_facts [OF nibbles(2), of c]
  by (auto simp: percent_byte_def is_ascii_def byte_of_def)

lemma quote_char_facts:
  "x \<in> set (quote_char c) \<Longrightarrow> is_ascii x \<and> x \<notin> {CHR '' '', CHR ''&'', CHR ''=''}"
  using percent_byte_facts [of x c] url_safe_facts [of c]
  by (auto simp: quote_char_def is_ascii_def byte_of_def split: if_splits)

lemma replace_char_none: "a \<notin> set s \<Longrightarrow> replace_char a b s = s"
  by (auto simp: replace_char_def intro: map_idI)

lemma replace_char_single: "replace_char a b [c] = [if c = a then b else c]"
  by (simp add: replace_char_def)

lemma replace_char_append: "replace_char a b (s @ t) = replace_char a b s @ replace_char a b t"
  by (simp add: replace_char_def)

lemma replace_percent:
  "a \<in> {CHR '' '', CHR ''+''} \<Longrightarrow> replace_char a b (percent_byte c) = percent_byte c"
  using percent_byte_facts [of a c] by (intro replace_char_none) auto

lemma quote_plus_chars: "quote_plus s = concat (map quote_char s)"
proof (cases "CHR '' '' \<in> set s")
  case True
  have "\<not> url_safe (CHR '' '')" using url_safe_facts(2) by blast
  then have one: "replace_char (CHR '' '') (CHR ''+'')
      (if url_safe c \<or> c \<in> set '' '' then [c] else percent_byte c) = quote_char c" for c
    by (auto simp: quote_char_def replace_char_single replace_percent)
  have "replace_char (CHR '' '') (CHR ''+'') (quote '' '' s) = concat (map quote_char s)"
    unfolding quote_def
    by (induction s) (simp_all only: list.map concat.simps replace_char_append one, simp add: replace_char_def)
  with True show ?thesis by (simp add: quote_plus_def)
next
  case False
  then have "quote [] s = concat (map quote_char s)"
    by (induction s) (auto simp: quote_def quote_char_def)
  with False show ?thesis by (simp add: quote_plus_def)
qed

lemma quote_plus_facts:
  "x \<in> set (quote_plus s) \<Longrightarrow> is_ascii x \<and> x \<notin> {CHR '' '', CHR ''&'', CHR ''=''}"
  using quote_char_facts by (fastforce simp: quote_plus_chars)

section \<open>Unquoting what was quoted\<close>

lemma unquote_literal: "a \<noteq> CHR ''%'' \<Longrightarrow> unquote_bytes (a # s) = a # unquote_bytes s"
  by (cases "(a # s)" rule: unquote_bytes.cases) (auto split: option.splits)

lemma unquote_percent: "unquote_bytes (percent_byte c @ s) = c # unquote_bytes s"
proof -
  have "char_of (16 * (byte_of c div 16) + byte_of c mod 16) = c"
    by (simp add: byte_of_def del: of_char_mod_256)
  then show ?thesis
    using hex_digit_facts(1) [OF nibbles(1), of c] hex_digit_facts(1) [OF nibbles(2), of c]
    by (simp add: percent_byte_def)
qed

lemma unquote_quoted:
  "unquote_bytes (replace_char (CHR ''+'') (CHR '' '') (quote_plus s)) = s"
proof -
  let ?r = "replace_char (CHR ''+'') (CHR '' '')"
  have "unquote_bytes (?r (quote_char c) @ t) = c # unquote_bytes t" for c t
    using url_safe_facts(2) [of c]
    by (auto simp: quote_char_def replace_char_single replace_percent unquote_percent unquote_literal)
  then show ?thesis
    unfolding quote_plus_chars by (induction s) (simp_all add: replace_char_append, simp add: replace_char_def)
qed

lemma unquote_ascii:
  assumes "list_all is_ascii s"
  shows "unquote s = decode_replace (unquote_bytes s)"
proof (cases s)
  case (Cons c t)
  with assms have eqs: "takeWhile is_ascii t = t" "dropWhile is_ascii t = []" "is_ascii c"
    by (auto simp: list_all_iff)
  show ?thesis
    unfolding Cons by (simp only: unquote.simps eqs if_True append_Nil2)
qed simp

lemma unquote_quote_plus:
  assumes "valid_utf8 s"
  shows "unquote (replace_char (CHR ''+'') (CHR '' '') (quote_plus s)) = s"
proof -
  have "list_all is_ascii (replace_char (CHR ''+'') (CHR '' '') (quote_plus s))"
    using quote_plus_facts [of _ s] by (auto simp: list_all_iff replace_char_def is_ascii_def byte_of_def)
  then show ?thesis
    by (simp add: unquote_ascii unquote_quoted decode_replace_valid assms)
qed

lemma split_on_absent: "d \<notin> set w \<Longrightarrow> split_on d w = [w]"
  by (induction w) auto

lemma split_on_append: "d \<notin> set w \<Longrightarrow> split_on d (w @ d # s) = w # split_on d s"
  by (induction w) auto

lemma split_on_join:
  "ws \<noteq> [] \<Longrightarrow> \<forall>w\<in>set ws. d \<notin> set w \<Longrightarrow> split_on d (join [d] ws) = ws"
  by (induction "[d]" ws rule: join.induct) (simp_all add: split_on_absent split_on_append)

lemma cut_at:
  "c \<notin> set xs \<Longrightarrow> takeWhile (\<lambda>x. x \<noteq> c) (xs @ c # ys) = xs"
  "c \<notin> set xs \<Longrightarrow> dropWhile (\<lambda>x. x \<noteq> c) (xs @ c # ys) = c # ys"
  by (induction xs) auto

lemma parse_field_encoded:
  assumes "valid_utf8 k" and "valid_utf8 v"
  shows "parse_field (quote_plus k @ CHR ''='' # quote_plus v) = (k, v)"
proof -
  have "CHR ''='' \<notin> set (quote_plus k)" using quote_plus_facts by blast
  then show ?thesis
    by (simp add: parse_field_def unquote_quote_plus cut_at assms)
qed

lemma parse_urlencode:
  assumes "list_all (\<lambda>(k, v). valid_utf8 k \<and> valid_utf8 v) ps"
  shows "parse_qsl (urlencode ps) = ps"
proof (cases "ps = []")
  case True
  then show ?thesis by (simp add: parse_qsl_def urlencode_def)
next
  case False
  let ?f = "\<lambda>(k, v). quote_plus k @ ''='' @ quote_plus v"
  have no_amp: "\<forall>w\<in>set (map ?f ps). CHR ''&'' \<notin> set w"
    using quote_plus_facts by (fastforce split: prod.splits)
  have split: "split_on (CHR ''&'') (urlencode ps) = map ?f ps"
    unfolding urlencode_def by (rule split_on_join) (use False no_amp in auto)
  have "filter (\<lambda>f. f \<noteq> []) (map ?f ps) = map ?f ps"
    by (rule filter_True) auto
  then have "parse_qsl (urlencode ps) = map (\<lambda>p. parse_field (?f p)) ps"
    by (simp add: parse_qsl_def split comp_def)
  also have "\<dots> = ps"
    by (rule map_idI) (use assms in \<open>auto simp: list_all_iff intro!: parse_field_encoded\<close>)
  finally show ?thesis .
qed

section \<open>Valid texts\<close>

text \<open>
  The fields of a valid text are valid: it can be cut at ASCII characters, and decoding always
  gives a valid text.
\<close>

lemma lead_ascii [simp]: "is_ascii c \<Longrightarrow> lead_class (byte_of c) = Some (0, 0, 0)"
  by (simp add: lead_class_def is_ascii_def)

lemma lead_range: "lead_class b = Some (lo, hi, n) \<Longrightarrow> n = 0 \<or> 0x80 \<le> lo"
  by (auto simp: lead_class_def split: if_splits)

lemma continuation_length: "continuation lo hi n s = n \<Longrightarrow> n \<le> length s"
  by (induction lo hi n s rule: continuation.induct) (auto split: if_splits)

lemma continuation_append: "continuation lo hi n s = n \<Longrightarrow> continuation lo hi n (s @ t) = n"
  by (induction lo hi n s rule: continuation.induct) (auto split: if_splits)

lemma continuation_take: "continuation lo hi n s = n \<Longrightarrow> continuation lo hi n (take n s) = n"
  by (induction lo hi n s rule: continuation.induct) (auto split: if_splits)

lemma continuation_not_ascii:
  "continuation lo hi n s = n \<Longrightarrow> n = 0 \<or> 0x80 \<le> lo \<Longrightarrow> list_all (\<lambda>c. \<not> is_ascii c) (take n s)"
  by (induction lo hi n s rule: continuation.induct) (auto simp: is_ascii_def split: if_splits)

lemma continuation_cut:
  "continuation lo hi n (s @ c # t) = n \<Longrightarrow> is_ascii c \<Longrightarrow> n = 0 \<or> 0x80 \<le> lo \<Longrightarrow>
     continuation lo hi n s = n"
proof (induction lo hi n s rule: continuation.induct)
  case (2 lo hi n)
  then show ?case by (auto simp: is_ascii_def split: if_splits)
qed (auto split: if_splits)

lemma valid_utf8_append: "valid_utf8 s \<Longrightarrow> valid_utf8 t \<Longrightarrow> valid_utf8 (s @ t)"
proof (induction s rule: valid_utf8.induct)
  case (2 c s)
  then obtain lo hi n where l: "lead_class (byte_of c) = Some (lo, hi, n)"
    and k: "continuation lo hi n s = n" and v: "valid_utf8 (drop n s)"
    by (auto split: option.splits)
  have "valid_utf8 (drop n s @ t)" using "2.IH" [OF l] k v "2.prems"(2) by simp
  then show ?case using l continuation_append [OF k] continuation_length [OF k] by simp
qed simp

lemma valid_utf8_cut:
  "valid_utf8 (s @ c # t) \<Longrightarrow> is_ascii c \<Longrightarrow> valid_utf8 s \<and> valid_utf8 t"
proof (induction s rule: valid_utf8.induct)
  case (2 a s)
  then obtain lo hi n where l: "lead_class (byte_of a) = Some (lo, hi, n)"
    and k: "continuation lo hi n (s @ c # t) = n" and v: "valid_utf8 (drop n (s @ c # t))"
    by (auto split: option.splits)
  have k': "continuation lo hi n s = n"
    by (rule continuation_cut [OF k "2.prems"(2) lead_range [OF l]])
  with v have "valid_utf8 (drop n s @ c # t)" using continuation_length [OF k'] by simp
  with "2.IH" [OF l] "2.prems"(2) l k' show ?case by simp
qed simp

lemma valid_decode_replace: "valid_utf8 (decode_replace s)"
proof (induction s rule: decode_replace.induct)
  case (2 c s)
  have r: "valid_utf8 replacement_char" by code_simp
  show ?case
  proof (cases "lead_class (byte_of c)")
    case None
    with 2 r show ?thesis by (simp add: valid_utf8_append)
  next
    case (Some x)
    then obtain lo hi n where l: "lead_class (byte_of c) = Some (lo, hi, n)" by (cases x) auto
    let ?k = "continuation lo hi n s"
    have "valid_utf8 (if ?k = n then c # take n s else replacement_char)"
      using l r by (auto simp: continuation_take)
    moreover have "valid_utf8 (decode_replace (drop ?k s))"
      using "2.IH"(2) [OF l] by simp
    moreover have "decode_replace (c # s) =
        (if ?k = n then c # take n s else replacement_char) @ decode_replace (drop ?k s)"
      using l by (simp add: Let_def)
    ultimately show ?thesis by (metis valid_utf8_append)
  qed
qed simp

lemma valid_dropWhile_ascii: "valid_utf8 s \<Longrightarrow> valid_utf8 (dropWhile is_ascii s)"
  by (induction s) auto

lemma unquote_not_ascii: "list_all (\<lambda>c. \<not> is_ascii c) s \<Longrightarrow> unquote (s @ t) = s @ unquote t"
  by (induction s) auto

lemma valid_unquote: "valid_utf8 s \<Longrightarrow> valid_utf8 (unquote s)"
proof (induction s rule: length_induct)
  case (1 s)
  show ?case
  proof (cases s)
    case (Cons c t)
    show ?thesis
    proof (cases "is_ascii c")
      case True
      have "valid_utf8 (dropWhile is_ascii t)"
        using 1(2) Cons True by (simp add: valid_dropWhile_ascii)
      moreover have "length (dropWhile is_ascii t) < length s"
        using Cons by (simp add: length_dropWhile_le less_Suc_eq_le)
      ultimately show ?thesis
        using 1(1) Cons True by (simp add: valid_utf8_append valid_decode_replace)
    next
      case False
      obtain lo hi n where l: "lead_class (byte_of c) = Some (lo, hi, n)"
        and k: "continuation lo hi n t = n" and v: "valid_utf8 (drop n t)"
        using 1(2) Cons by (auto split: option.splits)
      have "valid_utf8 (unquote (drop n t))" using 1(1) v Cons by simp
      moreover have "valid_utf8 (c # take n t)" using l continuation_take [OF k] by simp
      moreover have "unquote s = (c # take n t) @ unquote (drop n t)"
        using unquote_not_ascii [of "c # take n t" "drop n t"] False
          continuation_not_ascii [OF k lead_range [OF l]] Cons by simp
      ultimately show ?thesis by (metis valid_utf8_append)
    qed
  qed simp
qed

lemma valid_join: "is_ascii d \<Longrightarrow> valid_utf8 (join [d] ws) \<Longrightarrow> list_all valid_utf8 ws"
proof (induction "[d]" ws rule: join.induct)
  case (3 s t ts)
  have "join [d] (s # t # ts) = s @ d # join [d] (t # ts)" by simp
  with 3(2,3) valid_utf8_cut [of s d] have "valid_utf8 s" "valid_utf8 (join [d] (t # ts))" by auto
  with 3 show ?case by simp
qed auto

lemma valid_split_on: "is_ascii d \<Longrightarrow> valid_utf8 s \<Longrightarrow> list_all valid_utf8 (split_on d s)"
  using valid_join [of d "split_on d s"] by (simp add: join_split_on)

lemma continuation_map_ascii:
  assumes "\<And>c. is_ascii c \<Longrightarrow> is_ascii (f c)" and "\<And>c. \<not> is_ascii c \<Longrightarrow> f c = c"
  shows "n = 0 \<or> 0x80 \<le> lo \<Longrightarrow> continuation lo hi n (map f s) = continuation lo hi n s"
proof (induction lo hi n s rule: continuation.induct)
  case (3 lo hi n c s)
  have "lo \<le> byte_of (f c) \<and> byte_of (f c) \<le> hi \<longleftrightarrow> lo \<le> byte_of c \<and> byte_of c \<le> hi"
    using 3(2) assms(1) [of c] assms(2) [of c] by (cases "is_ascii c") (auto simp: is_ascii_def)
  with 3 show ?case by simp
qed simp_all

lemma valid_map_ascii:
  assumes "\<And>c. is_ascii c \<Longrightarrow> is_ascii (f c)" and "\<And>c. \<not> is_ascii c \<Longrightarrow> f c = c"
  shows "valid_utf8 s \<Longrightarrow> valid_utf8 (map f s)"
proof (induction s rule: valid_utf8.induct)
  case (2 c s)
  then obtain lo hi n where l: "lead_class (byte_of c) = Some (lo, hi, n)"
    and k: "continuation lo hi n s = n" and v: "valid_utf8 (drop n s)"
    by (auto split: option.splits)
  have IH: "valid_utf8 (drop n (map f s))" using "2.IH" [OF l] k v by (simp add: drop_map)
  show ?case
  proof (cases "is_ascii c")
    case True
    then have "n = 0" using l by simp
    with IH assms(1) [OF True] show ?thesis by simp
  next
    case False
    with IH l k lead_range [OF l] show ?thesis
      by (simp add: assms(2) continuation_map_ascii [OF assms])
  qed
qed simp

lemma valid_replace_char:
  "is_ascii a \<Longrightarrow> is_ascii b \<Longrightarrow> valid_utf8 s \<Longrightarrow> valid_utf8 (replace_char a b s)"
  unfolding replace_char_def by (rule valid_map_ascii) (auto split: if_splits)

lemma valid_parse_field:
  assumes "valid_utf8 nv"
  shows "case parse_field nv of (k, v) \<Rightarrow> valid_utf8 k \<and> valid_utf8 v"
proof -
  let ?a = "takeWhile (\<lambda>c. c \<noteq> CHR ''='') nv" and ?b = "dropWhile (\<lambda>c. c \<noteq> CHR ''='') nv"
  have ascii: "is_ascii (CHR ''='')" "is_ascii (CHR ''+'')" "is_ascii (CHR '' '')" by code_simp+
  have "valid_utf8 ?a \<and> valid_utf8 (drop 1 ?b)"
  proof (cases ?b)
    case Nil
    then show ?thesis using assms by (metis append_Nil2 drop_Nil takeWhile_dropWhile_id valid_utf8.simps(1))
  next
    case (Cons c t)
    then have "c = CHR ''=''" using hd_dropWhile [of "\<lambda>c. c \<noteq> CHR ''=''" nv] by auto
    moreover have "nv = ?a @ c # t" by (metis Cons takeWhile_dropWhile_id)
    ultimately show ?thesis using valid_utf8_cut assms ascii(1) Cons by (metis drop0 drop_Suc_Cons One_nat_def)
  qed
  then show ?thesis
    by (simp add: parse_field_def valid_unquote valid_replace_char ascii)
qed

lemma valid_parse_qsl:
  assumes "valid_utf8 q"
  shows "list_all (\<lambda>(k, v). valid_utf8 k \<and> valid_utf8 v) (parse_qsl q)"
proof -
  have "is_ascii (CHR ''&'')" by code_simp
  then have "list_all valid_utf8 (split_on (CHR ''&'') q)"
    by (rule valid_split_on) (rule assms)
  with valid_parse_field show ?thesis
    by (fastforce simp: parse_qsl_def list_all_iff)
qed

end
