(* ===== verification/PyJson.thy ===== *)
theory PyJson
  imports PyValue PyUrl
begin

text \<open>
  Python's \<open>json\<close> module: \<open>json.loads\<close> (the scanner of \<open>Modules/_json.c\<close>) and
  \<open>json.dumps\<close> with the default separators, with and without \<open>ensure_ascii\<close>. A text is the
  list of its UTF-8 bytes, in which a lone surrogate has the three bytes that
  \<open>errors="surrogatepass"\<close> gives it. What \<open>repr(float(number))\<close> prints for the text of a number
  is the argument \<open>float_repr\<close>. Nesting has no limit here.
\<close>

section \<open>Code points\<close>

definition utf8_bytes :: "nat \<Rightarrow> nat list" where
  "utf8_bytes n =
     (if n < 0x80 then [n]
      else if n < 0x800 then [0xC0 + n div 0x40, 0x80 + n mod 0x40]
      else if n < 0x10000 then [0xE0 + n div 0x1000, 0x80 + n div 0x40 mod 0x40, 0x80 + n mod 0x40]
      else [0xF0 + n div 0x40000, 0x80 + n div 0x1000 mod 0x40, 0x80 + n div 0x40 mod 0x40,
            0x80 + n mod 0x40])"

definition utf8_char :: "nat \<Rightarrow> string" where
  "utf8_char n = map char_of (utf8_bytes n)"

definition code_point :: "string \<Rightarrow> nat" where
  "code_point c =
     (case map byte_of c of
        [a] \<Rightarrow> a
      | [a, b] \<Rightarrow> (a - 0xC0) * 0x40 + (b - 0x80)
      | [a, b, d] \<Rightarrow> (a - 0xE0) * 0x1000 + (b - 0x80) * 0x40 + (d - 0x80)
      | [a, b, d, e] \<Rightarrow> (a - 0xF0) * 0x40000 + (b - 0x80) * 0x1000 + (d - 0x80) * 0x40 + (e - 0x80)
      | _ \<Rightarrow> 0)"

section \<open>Printing\<close>

definition backslash :: char where
  "backslash = CHR 0x5C"

definition dquote :: char where
  "dquote = CHR 0x22"

text \<open>The characters with an escape of one letter.\<close>

definition short_escape :: "char \<Rightarrow> char option" where
  "short_escape c =
     map_of [(CHR 0x22, CHR 0x22), (CHR 0x5C, CHR 0x5C), (CHR 0x0A, CHR ''n''), (CHR 0x0D, CHR ''r''),
             (CHR 0x09, CHR ''t''), (CHR 0x0C, CHR ''f''), (CHR 0x08, CHR ''b'')] c"

definition escape_unit :: "nat \<Rightarrow> string" where
  "escape_unit n =
     [backslash, CHR ''u'', hex_digit (n div 0x1000), hex_digit (n div 0x100), hex_digit (n div 0x10), hex_digit n]"

text \<open>One character with \<open>ensure_ascii\<close>, by its code point, and one byte without.\<close>

definition ascii_char :: "nat \<Rightarrow> string" where
  "ascii_char n =
     (if n < 0x80
      then (case short_escape (char_of n) of
              Some e \<Rightarrow> [backslash, e]
            | None \<Rightarrow> if 0x20 \<le> n \<and> n \<le> 0x7E then [char_of n] else escape_unit n)
      else if n < 0x10000 then escape_unit n
      else escape_unit (0xD800 + (n - 0x10000) div 0x400) @ escape_unit (0xDC00 + (n - 0x10000) mod 0x400))"

definition ascii_piece :: "string \<Rightarrow> string" where
  "ascii_piece c = ascii_char (code_point c)"

text \<open>For evaluation: a single byte is not turned into a number and back.\<close>

lemma ascii_piece_code [code]:
  "ascii_piece c =
     (if c = [hd c]
      then (case short_escape (hd c) of
              Some e \<Rightarrow> [backslash, e]
            | None \<Rightarrow>
                if 0x20 \<le> byte_of (hd c) \<and> byte_of (hd c) \<le> 0x7E then c else escape_unit (byte_of (hd c)))
      else ascii_char (code_point c))"
proof (cases "\<exists>a. c = [a]")
  case True
  then obtain a where c: "c = [a]" by blast
  have "list_all (\<lambda>(c, e). byte_of c < 0x80)
      [(CHR 0x22, CHR 0x22), (CHR 0x5C, CHR 0x5C), (CHR 0x0A, CHR ''n''), (CHR 0x0D, CHR ''r''),
       (CHR 0x09, CHR ''t''), (CHR 0x0C, CHR ''f''), (CHR 0x08, CHR ''b'')]" by code_simp
  from map_of_allD [OF this, of a] have "short_escape a = Some e \<Longrightarrow> byte_of a < 0x80" for e
    by (simp add: short_escape_def)
  moreover have "byte_of a < 256" by (simp add: byte_of_def)
  moreover have "char_of (byte_of a) = a" by (simp add: byte_of_def)
  ultimately show ?thesis
    by (cases "short_escape a") (auto simp: c ascii_piece_def ascii_char_def code_point_def)
next
  case False
  then show ?thesis by (metis ascii_piece_def)
qed

definition raw_char :: "char \<Rightarrow> string" where
  "raw_char c =
     (case short_escape c of
        Some e \<Rightarrow> [backslash, e]
      | None \<Rightarrow> if byte_of c < 0x20 then escape_unit (byte_of c) else [c])"

definition json_string :: "bool \<Rightarrow> string \<Rightarrow> string" where
  "json_string ascii s =
     dquote # concat (if ascii then map ascii_piece (chars_of s) else map raw_char s) @ [dquote]"

definition json_float :: "string \<Rightarrow> string" where
  "json_float t =
     (if t = ''nan'' then ''NaN'' else if t = ''inf'' then ''Infinity''
      else if t = ''-inf'' then ''-Infinity'' else t)"

fun json_key :: "pykey \<Rightarrow> string" where
  "json_key (KeyStr s) = s"
| "json_key (KeyInt i) = show_int i"
| "json_key (KeyBool b) = (if b then ''true'' else ''false'')"
| "json_key (KeyFloat t) = json_float t"
| "json_key KeyNone = ''null''"

fun json_text :: "bool \<Rightarrow> pyval \<Rightarrow> string"
  and json_elems :: "bool \<Rightarrow> pyval list \<Rightarrow> string list"
  and json_items :: "bool \<Rightarrow> (pykey \<times> pyval) list \<Rightarrow> string list"
where
  "json_text asc PyNone = ''null''"
| "json_text asc (PyBool b) = (if b then ''true'' else ''false'')"
| "json_text asc (PyInt i) = show_int i"
| "json_text asc (PyFloat t) = json_float t"
| "json_text asc (PyStr s) = json_string asc s"
| "json_text asc (PyList xs) = ''['' @ join '', '' (json_elems asc xs) @ '']''"
| "json_text asc (PyDict d) = ''{'' @ join '', '' (json_items asc d) @ ''}''"
| "json_text asc (PyDatetime t) = []"
| "json_elems asc [] = []"
| "json_elems asc (x # xs) = json_text asc x # json_elems asc xs"
| "json_items asc [] = []"
| "json_items asc ((k, v) # d) = (json_string asc (json_key k) @ '': '' @ json_text asc v) # json_items asc d"

text \<open>A \<open>datetime\<close> raises, and so does an integer of more than 4300 digits.\<close>

definition printable_int :: "int \<Rightarrow> bool" where
  "printable_int i = (int (length (show_nat \<bar>i\<bar>)) \<le> 4300)"

fun serializable :: "pyval \<Rightarrow> bool"
  and serializable_elems :: "pyval list \<Rightarrow> bool"
  and serializable_items :: "(pykey \<times> pyval) list \<Rightarrow> bool"
where
  "serializable (PyInt i) = printable_int i"
| "serializable (PyList xs) = serializable_elems xs"
| "serializable (PyDict d) = serializable_items d"
| "serializable (PyDatetime t) = False"
| "serializable _ = True"
| "serializable_elems [] = True"
| "serializable_elems (x # xs) = (serializable x \<and> serializable_elems xs)"
| "serializable_items [] = True"
| "serializable_items ((k, v) # d) =
     ((case k of KeyInt i \<Rightarrow> printable_int i | _ \<Rightarrow> True) \<and> serializable v \<and> serializable_items d)"

definition dumps :: "bool \<Rightarrow> pyval \<Rightarrow> string option" where
  "dumps ascii v = (if serializable v then Some (json_text ascii v) else None)"

section \<open>Scanning\<close>

definition json_space :: "char \<Rightarrow> bool" where
  "json_space c = (c \<in> set [CHR '' '', CHR 0x09, CHR 0x0A, CHR 0x0D])"

definition skip_space :: "string \<Rightarrow> string" where
  "skip_space s = dropWhile json_space s"

definition long_escape :: "char \<Rightarrow> char option" where
  "long_escape e =
     map_of [(CHR 0x22, CHR 0x22), (CHR 0x5C, CHR 0x5C), (CHR ''/'', CHR ''/''), (CHR ''b'', CHR 0x08),
             (CHR ''f'', CHR 0x0C), (CHR ''n'', CHR 0x0A), (CHR ''r'', CHR 0x0D), (CHR ''t'', CHR 0x09)] e"

text \<open>The four digits after \<open>\u\<close>.\<close>

definition hex4 :: "string \<Rightarrow> nat option" where
  "hex4 s =
     (case map hex_value (take 4 s) of
        [Some a, Some b, Some c, Some d] \<Rightarrow> Some (((a * 0x10 + b) * 0x10 + c) * 0x10 + d)
      | _ \<Rightarrow> None)"

definition is_high :: "nat \<Rightarrow> bool" where
  "is_high n = (0xD800 \<le> n \<and> n < 0xDC00)"

definition is_low :: "nat \<Rightarrow> bool" where
  "is_low n = (0xDC00 \<le> n \<and> n < 0xE000)"

text \<open>The second half of a surrogate pair, when the text goes on with one.\<close>

definition low_escape :: "string \<Rightarrow> nat option" where
  "low_escape s =
     (if starts_with s [backslash, CHR ''u'']
      then Option.bind (hex4 (drop 2 s)) (\<lambda>n. if is_low n then Some n else None) else None)"

text \<open>The rest of a string literal, after its opening quote.\<close>

function scan_string :: "string \<Rightarrow> (string \<times> string) option" where
  "scan_string [] = None"
| "scan_string (c # s) =
     (if c = dquote then Some ([], s)
      else if c = backslash then
        (case s of
           [] \<Rightarrow> None
         | e # t \<Rightarrow>
             if e = CHR ''u'' then
               Option.bind (hex4 t) (\<lambda>n.
                 case (if is_high n then low_escape (drop 4 t) else None) of
                   Some m \<Rightarrow>
                     map_option (\<lambda>(x, r). (utf8_char (0x10000 + (n - 0xD800) * 0x400 + (m - 0xDC00)) @ x, r))
                       (scan_string (drop 10 t))
                 | None \<Rightarrow> map_option (\<lambda>(x, r). (utf8_char n @ x, r)) (scan_string (drop 4 t)))
             else Option.bind (long_escape e) (\<lambda>d. map_option (\<lambda>(x, r). (d # x, r)) (scan_string t)))
      else if byte_of c < 0x20 then None
      else map_option (\<lambda>(x, r). (c # x, r)) (scan_string s))"
  by pat_completeness auto
termination
  by (relation "measure length") auto

text \<open>A number: the integer part, then the fraction and the exponent when they are complete.\<close>

definition int_part :: "string \<Rightarrow> string option" where
  "int_part s =
     (let sign = (case s of c # t \<Rightarrow> if c = CHR ''-'' then [c] else [] | [] \<Rightarrow> []);
          digits = takeWhile is_digit (drop (length sign) s)
      in case digits of
           [] \<Rightarrow> None
         | d # ds \<Rightarrow> Some (sign @ (if d = CHR ''0'' then [d] else digits)))"

definition fraction_part :: "string \<Rightarrow> string" where
  "fraction_part s =
     (case s of
        [] \<Rightarrow> []
      | c # t \<Rightarrow> if c = CHR ''.'' \<and> takeWhile is_digit t \<noteq> [] then c # takeWhile is_digit t else [])"

definition exponent_part :: "string \<Rightarrow> string" where
  "exponent_part s =
     (case s of
        [] \<Rightarrow> []
      | c # t \<Rightarrow>
          (let sign = (case t of d # u \<Rightarrow> if d = CHR ''+'' \<or> d = CHR ''-'' then [d] else [] | [] \<Rightarrow> []);
               digits = takeWhile is_digit (drop (length sign) t)
           in if (c = CHR ''e'' \<or> c = CHR ''E'') \<and> digits \<noteq> [] then c # sign @ digits else []))"

definition scan_int :: "string \<Rightarrow> int option" where
  "scan_int ip =
     (case ip of
        [] \<Rightarrow> None
      | c # t \<Rightarrow> if c = CHR ''-'' then map_option uminus (of_digits t) else of_digits ip)"

definition scan_number :: "(string \<Rightarrow> string) \<Rightarrow> string \<Rightarrow> (pyval \<times> string) result" where
  "scan_number float_repr s =
     (case int_part s of
        None \<Rightarrow> Inl JSONDecodeError
      | Some ip \<Rightarrow>
          (let fp = fraction_part (drop (length ip) s);
               ep = exponent_part (drop (length ip + length fp) s);
               rest = drop (length ip + length fp + length ep) s
           in if fp @ ep \<noteq> [] then Inr (PyFloat (float_repr (ip @ fp @ ep)), rest)
              else if 4300 < int (length (filter is_digit ip))
                then Inl (ValueError ''Exceeds the limit for integer string conversion'')
              else rbind (require_some JSONDecodeError (scan_int ip)) (\<lambda>i. Inr (PyInt i, rest))))"

text \<open>The words that stand for a value.\<close>

definition json_words :: "(string \<times> pyval) list" where
  "json_words =
     [(''null'', PyNone), (''true'', PyBool True), (''false'', PyBool False), (''NaN'', PyFloat ''nan''),
      (''Infinity'', PyFloat ''inf''), (''-Infinity'', PyFloat ''-inf'')]"

text \<open>
  A value, the elements of a list after its bracket, and the items of an object after its brace.
  The first argument bounds the recursion; twice the length of the text is enough.
\<close>

fun scan_value :: "nat \<Rightarrow> (string \<Rightarrow> string) \<Rightarrow> string \<Rightarrow> (pyval \<times> string) result"
  and scan_elems :: "nat \<Rightarrow> (string \<Rightarrow> string) \<Rightarrow> string \<Rightarrow> (pyval list \<times> string) result"
  and scan_items :: "nat \<Rightarrow> (string \<Rightarrow> string) \<Rightarrow> string \<Rightarrow> ((string \<times> pyval) list \<times> string) result"
where
  "scan_value 0 fr s = Inl JSONDecodeError"
| "scan_value (Suc n) fr s =
     (case s of
        [] \<Rightarrow> Inl JSONDecodeError
      | c # t \<Rightarrow>
          if c = dquote then
            rbind (require_some JSONDecodeError (scan_string t)) (\<lambda>(x, r). Inr (PyStr x, r))
          else if c = CHR ''['' then
            (case skip_space t of
               [] \<Rightarrow> Inl JSONDecodeError
             | d # r \<Rightarrow>
                 if d = CHR '']'' then Inr (PyList [], r)
                 else rbind (scan_elems n fr (d # r)) (\<lambda>(vs, q). Inr (PyList vs, q)))
          else if c = CHR ''{'' then
            (case skip_space t of
               [] \<Rightarrow> Inl JSONDecodeError
             | d # r \<Rightarrow>
                 if d = CHR ''}'' then Inr (PyDict [], r)
                 else rbind (scan_items n fr (d # r))
                   (\<lambda>(ms, q). Inr (PyDict (fold (\<lambda>(k, v) m. dict_set m k v) ms []), q)))
          else
            (case find (\<lambda>(w, v). starts_with s w) json_words of
               Some (w, v) \<Rightarrow> Inr (v, drop (length w) s)
             | None \<Rightarrow> scan_number fr s))"
| "scan_elems 0 fr s = Inl JSONDecodeError"
| "scan_elems (Suc n) fr s =
     rbind (scan_value n fr s) (\<lambda>(v, r).
       case skip_space r of
         [] \<Rightarrow> Inl JSONDecodeError
       | c # q \<Rightarrow>
           if c = CHR '']'' then Inr ([v], q)
           else if c = CHR '','' then
             rbind (scan_elems n fr (skip_space q)) (\<lambda>(vs, z). Inr (v # vs, z))
           else Inl JSONDecodeError)"
| "scan_items 0 fr s = Inl JSONDecodeError"
| "scan_items (Suc n) fr s =
     (case s of
        [] \<Rightarrow> Inl JSONDecodeError
      | c # t \<Rightarrow>
          rbind (require_some JSONDecodeError (if c = dquote then scan_string t else None)) (\<lambda>(k, r).
          case skip_space r of
            [] \<Rightarrow> Inl JSONDecodeError
          | d # r1 \<Rightarrow>
              rbind (raise_if (d \<noteq> CHR '':'') JSONDecodeError) (\<lambda>_.
              rbind (scan_value n fr (skip_space r1)) (\<lambda>(v, r2).
              case skip_space r2 of
                [] \<Rightarrow> Inl JSONDecodeError
              | e # q \<Rightarrow>
                  if e = CHR ''}'' then Inr ([(k, v)], q)
                  else if e = CHR '','' then
                    rbind (scan_items n fr (skip_space q)) (\<lambda>(ms, z). Inr ((k, v) # ms, z))
                  else Inl JSONDecodeError))))"

text \<open>\<open>json.loads\<close> of a text.\<close>

definition byte_order_mark :: string where
  "byte_order_mark = [CHR 0xEF, CHR 0xBB, CHR 0xBF]"

definition read_text :: "(string \<Rightarrow> string) \<Rightarrow> string \<Rightarrow> pyval result" where
  "read_text fr s =
     rbind (scan_value (2 * length s) fr (skip_space s)) (\<lambda>(v, r).
       if skip_space r = [] then Inr v else Inl JSONDecodeError)"

definition loads :: "(string \<Rightarrow> string) \<Rightarrow> string \<Rightarrow> pyval result" where
  "loads fr s = (if starts_with s byte_order_mark then Inl JSONDecodeError else read_text fr s)"

section \<open>Bytes\<close>

text \<open>
  \<open>json.loads\<close> of bytes guesses the encoding from a byte order mark or from zero bytes and
  decodes with \<open>surrogatepass\<close>.
\<close>

datatype encoding = Utf8 | Utf8Sig | Utf16 bool | Utf32 bool   \<comment> \<open>big endian?\<close>

definition detect_encoding :: "string \<Rightarrow> encoding \<times> string" where
  "detect_encoding b =
     (let zero = (\<lambda>i. b ! i = CHR 0x00)
      in if starts_with b [CHR 0x00, CHR 0x00, CHR 0xFE, CHR 0xFF] then (Utf32 True, drop 4 b)
         else if starts_with b [CHR 0xFF, CHR 0xFE, CHR 0x00, CHR 0x00] then (Utf32 False, drop 4 b)
         else if starts_with b [CHR 0xFE, CHR 0xFF] then (Utf16 True, drop 2 b)
         else if starts_with b [CHR 0xFF, CHR 0xFE] then (Utf16 False, drop 2 b)
         else if starts_with b byte_order_mark then (Utf8Sig, drop 3 b)
         else if 4 \<le> length b \<and> zero 0 then (if zero 1 then Utf32 True else Utf16 True, b)
         else if 4 \<le> length b \<and> zero 1 then (if zero 2 \<and> zero 3 then Utf32 False else Utf16 False, b)
         else if length b = 2 \<and> zero 0 then (Utf16 True, b)
         else if length b = 2 \<and> zero 1 then (Utf16 False, b)
         else (Utf8, b))"

fun units16 :: "bool \<Rightarrow> string \<Rightarrow> nat list option" where
  "units16 big [] = Some []"
| "units16 big [a] = None"
| "units16 big (a # b # s) =
     map_option ((#) (if big then byte_of a * 0x100 + byte_of b else byte_of b * 0x100 + byte_of a)) (units16 big s)"

fun join_pairs :: "nat list \<Rightarrow> nat list" where
  "join_pairs (h # l # ns) =
     (if is_high h \<and> is_low l then (0x10000 + (h - 0xD800) * 0x400 + (l - 0xDC00)) # join_pairs ns
      else h # join_pairs (l # ns))"
| "join_pairs ns = ns"

fun units32 :: "bool \<Rightarrow> string \<Rightarrow> nat list option" where
  "units32 big [] = Some []"
| "units32 big (a # b # c # d # s) =
     (let n = foldl (\<lambda>n x. n * 0x100 + byte_of x) 0 (if big then [a, b, c, d] else [d, c, b, a])
      in if n < 0x110000 then map_option ((#) n) (units32 big s) else None)"
| "units32 big s = None"

text \<open>UTF-8 in which the three bytes of a surrogate are allowed.\<close>

function valid_surrogatepass :: "string \<Rightarrow> bool" where
  "valid_surrogatepass [] = True"
| "valid_surrogatepass (c # s) =
     (case (if byte_of c = 0xED then Some (0x80, 0xBF, 2) else lead_class (byte_of c)) of
        None \<Rightarrow> False
      | Some (lo, hi, n) \<Rightarrow> continuation lo hi n s = n \<and> valid_surrogatepass (drop n s))"
  by pat_completeness auto
termination
  by (relation "measure length") auto

definition decode_bytes :: "string \<Rightarrow> string option" where
  "decode_bytes b =
     (case detect_encoding b of (enc, s) \<Rightarrow>
        (case enc of
           Utf16 big \<Rightarrow> map_option (\<lambda>ns. concat (map utf8_char (join_pairs ns))) (units16 big s)
         | Utf32 big \<Rightarrow> map_option (\<lambda>ns. concat (map utf8_char ns)) (units32 big s)
         | _ \<Rightarrow> if valid_surrogatepass s then Some s else None))"

definition loads_bytes :: "(string \<Rightarrow> string) \<Rightarrow> string \<Rightarrow> pyval result" where
  "loads_bytes fr b = rbind (require_some UnicodeDecodeError (decode_bytes b)) (read_text fr)"

end
