(* ===== verification/JsonRoundTrip.thy ===== *)
theory JsonRoundTrip
  imports PyJson
begin

text \<open>
  What \<open>json.dumps\<close> prints, \<open>json.loads\<close> reads back: strings with and without
  \<open>ensure_ascii\<close>, numbers, and by one induction over values, lists and objects everything else.
  Then the bytes that a producer sends, and what \<open>loads\<close> can return.
\<close>

section \<open>Strings come back\<close>

lemma hex_digit_value: "hex_value (hex_digit n) = Some (n mod 16)"
proof -
  have "list_all (\<lambda>k. hex_value (''0123456789abcdef'' ! k) = Some k) [0..<16]" by code_simp
  from upt_allD [OF this, of "n mod 16"] show ?thesis by (simp add: hex_digit_def)
qed

lemma hex4_escape:
  assumes "n < 0x10000"
  shows "hex4 (drop 2 (escape_unit n) @ t) = Some n"
proof -
  let ?a = "n div 16" let ?b = "?a div 16" let ?c = "?b div 16"
  have parts: "n div 0x1000 = ?c" "n div 0x100 = ?b" by (simp_all flip: div_mult2_eq)
  have "?c mod 16 = ?c" using assms by (simp flip: div_mult2_eq)
  moreover have "?c * 16 + ?b mod 16 = ?b" "?b * 16 + ?a mod 16 = ?a" "?a * 16 + n mod 16 = n"
    by (rule div_mult_mod_eq)+
  ultimately have "((?c mod 16 * 16 + ?b mod 16) * 16 + ?a mod 16) * 16 + n mod 16 = n"
    by (simp only:)
  then show ?thesis by (simp only: hex4_def escape_unit_def parts) (simp add: hex_digit_value)
qed

lemma scan_string_unit:
  assumes "n < 0x10000" and "is_high n \<Longrightarrow> low_escape t = None"
  shows "scan_string (escape_unit n @ t) = map_option (\<lambda>(x, r). (utf8_char n @ x, r)) (scan_string t)"
proof -
  have "hex4 ([hex_digit (n div 0x1000), hex_digit (n div 0x100), hex_digit (n div 0x10), hex_digit n] @ t)
      = Some n" using hex4_escape [OF assms(1)] by (simp add: escape_unit_def)
  with assms(2) show ?thesis
    by (simp add: escape_unit_def dquote_def backslash_def)
qed

lemma scan_string_pair:
  assumes "is_high n" and "is_low m"
  shows "scan_string (escape_unit n @ escape_unit m @ t) =
    map_option (\<lambda>(x, r). (utf8_char (0x10000 + (n - 0xD800) * 0x400 + (m - 0xDC00)) @ x, r)) (scan_string t)"
proof -
  have "n < 0x10000" and "m < 0x10000" using assms by (auto simp: is_high_def is_low_def)
  from hex4_escape [OF this(1), of "escape_unit m @ t"] hex4_escape [OF this(2), of t]
  have "hex4 ([hex_digit (n div 0x1000), hex_digit (n div 0x100), hex_digit (n div 0x10), hex_digit n]
        @ escape_unit m @ t) = Some n"
    and "low_escape (escape_unit m @ t) = Some m"
    using assms(2) by (auto simp: escape_unit_def low_escape_def starts_with_def)
  then show ?thesis
    using assms(1) by (subst escape_unit_def) (simp add: dquote_def backslash_def escape_unit_def [of m])
qed

lemma scan_string_quote: "scan_string (dquote # t) = Some ([], t)"
  by simp

lemma short_escape_facts:
  assumes "short_escape c = Some e"
  shows "e \<noteq> CHR ''u'' \<and> long_escape e = Some c"
proof -
  have "list_all (\<lambda>(c, e). e \<noteq> CHR ''u'' \<and> long_escape e = Some c)
      [(CHR 0x22, CHR 0x22), (CHR 0x5C, CHR 0x5C), (CHR 0x0A, CHR ''n''), (CHR 0x0D, CHR ''r''),
       (CHR 0x09, CHR ''t''), (CHR 0x0C, CHR ''f''), (CHR 0x08, CHR ''b'')]" by code_simp
  from map_of_allD [OF this] assms show ?thesis by (simp add: short_escape_def)
qed

lemma short_escape_None: "short_escape c = None \<Longrightarrow> c \<noteq> dquote \<and> c \<noteq> backslash"
  by (auto simp: short_escape_def dquote_def backslash_def)

lemma scan_string_short:
  "short_escape c = Some e \<Longrightarrow> scan_string (backslash # e # t) = map_option (\<lambda>(x, r). (c # x, r)) (scan_string t)"
  using short_escape_facts [of c e] by (simp add: backslash_def dquote_def)

lemma scan_string_literal:
  "short_escape c = None \<Longrightarrow> 0x20 \<le> byte_of c \<Longrightarrow>
    scan_string (c # t) = map_option (\<lambda>(x, r). (c # x, r)) (scan_string t)"
  using short_escape_None [of c] by simp

declare scan_string.simps [simp del]

lemma utf8_char_ascii: "n < 0x80 \<Longrightarrow> utf8_char n = [char_of n]"
  by (simp add: utf8_char_def utf8_bytes_def)

lemma byte_char [simp]: "n < 256 \<Longrightarrow> byte_of (char_of n) = n"
  by (simp add: byte_of_def)

lemma char_byte [simp]: "char_of (byte_of c) = c"
  by (simp add: byte_of_def)

lemma not_high: "n < 0xD800 \<Longrightarrow> \<not> is_high n"
  by (simp add: is_high_def)

lemma scan_raw_char:
  "scan_string (raw_char c @ t) = map_option (\<lambda>(x, r). (c # x, r)) (scan_string t)"
proof (cases "short_escape c")
  case (Some e)
  then show ?thesis by (simp add: raw_char_def scan_string_short)
next
  case None
  show ?thesis
  proof (cases "byte_of c < 0x20")
    case True
    with None have "raw_char c = escape_unit (byte_of c)" by (simp add: raw_char_def)
    moreover have "utf8_char (byte_of c) = [c]" using True by (simp add: utf8_char_ascii)
    moreover have "byte_of c < 0x10000" "\<not> is_high (byte_of c)" using True by (simp_all add: is_high_def)
    ultimately show ?thesis using scan_string_unit [of "byte_of c" t] by simp
  next
    case False
    with None show ?thesis by (simp add: raw_char_def scan_string_literal)
  qed
qed

text \<open>A code point of a valid text.\<close>

definition scalar_value :: "nat \<Rightarrow> bool" where
  "scalar_value n \<longleftrightarrow> n < 0x110000 \<and> \<not> is_high n \<and> \<not> is_low n"

lemma scan_ascii_char:
  assumes "scalar_value n"
  shows "scan_string (ascii_char n @ t) = map_option (\<lambda>(x, r). (utf8_char n @ x, r)) (scan_string t)"
proof -
  consider (short) e where "n < 0x80" "short_escape (char_of n) = Some e"
    | (plain) "n < 0x80" "short_escape (char_of n) = None" "0x20 \<le> n \<and> n \<le> 0x7E"
    | (control) "n < 0x80" "short_escape (char_of n) = None" "\<not> (0x20 \<le> n \<and> n \<le> 0x7E)"
    | (unit) "0x80 \<le> n" "n < 0x10000"
    | (pair) "0x10000 \<le> n"
    by (cases "short_escape (char_of n)") (meson not_less)+
  then show ?thesis
  proof cases
    case short
    then show ?thesis by (simp add: ascii_char_def scan_string_short utf8_char_ascii)
  next
    case plain
    then show ?thesis by (simp add: ascii_char_def scan_string_literal utf8_char_ascii)
  next
    case control
    then have "ascii_char n = escape_unit n" by (simp only: ascii_char_def) simp
    with control(1) assms scan_string_unit [of n t] show ?thesis by (simp add: scalar_value_def)
  next
    case unit
    then have "ascii_char n = escape_unit n" by (simp only: ascii_char_def) simp
    with unit(2) assms scan_string_unit [of n t] show ?thesis by (simp add: scalar_value_def)
  next
    case pair
    let ?h = "0xD800 + (n - 0x10000) div 0x400" and ?l = "0xDC00 + (n - 0x10000) mod 0x400"
    have "n < 0x110000" using assms by (simp add: scalar_value_def)
    with pair have "is_high ?h" "is_low ?l"
      and joined: "0x10000 + (?h - 0xD800) * 0x400 + (?l - 0xDC00) = n"
      by (auto simp: is_high_def is_low_def less_mult_imp_div_less)
    from scan_string_pair [OF this(1,2), of t] joined pair show ?thesis by (simp add: ascii_char_def)
  qed
qed

text \<open>The characters of a valid text are the encodings of their code points.\<close>

lemma div_mod_sextet:
  fixes r :: nat
  assumes "r < 0x40"
  shows "(q * 0x40 + r) div 0x40 = q" and "(q * 0x40 + r) mod 0x40 = r"
  using assms by simp_all

lemma div_4096: "n div 0x1000 = n div 0x40 div (0x40 :: nat)"
  and div_262144: "n div 0x40000 = n div 0x1000 div (0x40 :: nat)"
  by (simp_all flip: div_mult2_eq)

lemma utf8_code_point_2:
  assumes "0xC2 \<le> a" "a < 0xE0" "0x80 \<le> b" "b \<le> 0xBF"
  shows "utf8_bytes ((a - 0xC0) * 0x40 + (b - 0x80)) = [a, b]" and "(a - 0xC0) * 0x40 + (b - 0x80) < (0xD800 :: nat)"
proof -
  let ?n = "(a - 0xC0) * 0x40 + (b - 0x80)"
  have "b - 0x80 < 0x40" using assms by simp
  then have "?n div 0x40 = a - 0xC0" "?n mod 0x40 = b - 0x80" by (rule div_mod_sextet)+
  moreover have "0x80 \<le> ?n" "?n < 0x800" using assms by simp_all
  ultimately show "utf8_bytes ?n = [a, b]" and "?n < 0xD800" using assms by (simp_all add: utf8_bytes_def)
qed

lemma utf8_bytes_3:
    "0x800 \<le> n \<and> n < 0x10000 \<and> q \<Longrightarrow>
       utf8_bytes n = [0xE0 + n div 0x1000, 0x80 + n div 0x40 mod 0x40, 0x80 + n mod 0x40]"
  and utf8_bytes_4: "0x10000 \<le> n \<and> n < 0x110000 \<Longrightarrow>
       utf8_bytes n = [0xF0 + n div 0x40000, 0x80 + n div 0x1000 mod 0x40, 0x80 + n div 0x40 mod 0x40, 0x80 + n mod 0x40]"
  and scalar_3: "l \<and> n < 0x10000 \<and> (n < 0xD800 \<or> 0xE000 \<le> n) \<Longrightarrow> scalar_value n"
  and scalar_4: "0x10000 \<le> n \<and> n < 0x110000 \<Longrightarrow> scalar_value n"
  by (auto simp: utf8_bytes_def scalar_value_def is_high_def is_low_def)

lemma range_3:
  fixes a b c :: nat
  assumes "a \<le> 15" "b < 0x40" "c < 0x40" "1 \<le> a \<or> 32 \<le> b" "a < 13 \<or> 13 < a \<or> a = 13 \<and> b < 32"
  shows "0x800 \<le> a * 0x1000 + b * 0x40 + c \<and> a * 0x1000 + b * 0x40 + c < 0x10000
    \<and> (a * 0x1000 + b * 0x40 + c < 0xD800 \<or> 0xE000 \<le> a * 0x1000 + b * 0x40 + c)"
  using assms(5) by (elim disjE; use assms(1-4) in auto)

lemma utf8_code_point_3:
  assumes "0xE0 \<le> a" "a < 0xF0" "0x80 \<le> b" "b \<le> 0xBF" "0x80 \<le> c" "c \<le> 0xBF"
    and "a = 0xE0 \<Longrightarrow> 0xA0 \<le> b" and "a = 0xED \<Longrightarrow> b \<le> 0x9F"
  defines "n \<equiv> (a - 0xE0) * 0x1000 + (b - 0x80) * 0x40 + (c - 0x80 :: nat)"
  shows "utf8_bytes n = [a, b, c]" and "scalar_value n"
proof -
  have n: "n = ((a - 0xE0) * 0x40 + (b - 0x80)) * 0x40 + (c - 0x80)" by (simp add: n_def algebra_simps)
  have low: "b - 0x80 < 0x40" "c - 0x80 < 0x40" using assms(3-6) by simp_all
  have one: "n div 0x40 = (a - 0xE0) * 0x40 + (b - 0x80)" "n mod 0x40 = c - 0x80"
    unfolding n by (rule div_mod_sextet [OF low(2)])+
  moreover have "n div 0x1000 = a - 0xE0" "n div 0x40 mod 0x40 = b - 0x80"
    by (simp_all only: div_4096 one div_mod_sextet [OF low(1)])
  moreover have "a - 0xE0 \<le> 15" "1 \<le> a - 0xE0 \<or> 32 \<le> b - 0x80"
    "a - 0xE0 < 13 \<or> 13 < a - 0xE0 \<or> a - 0xE0 = 13 \<and> b - 0x80 < 32"
    using assms(1-4,7,8) by (linarith, fastforce, fastforce)
  note range_3 [OF this(1) low this(2,3), folded n_def]
  moreover have "0xE0 + (a - 0xE0) = a" "0x80 + (b - 0x80) = b" "0x80 + (c - 0x80) = c" using assms(1-6) by simp_all
  ultimately show "utf8_bytes n = [a, b, c]" "scalar_value n"
    using one by (simp_all only: utf8_bytes_3 scalar_3)
qed

lemma range_4:
  fixes a b c d :: nat
  assumes "a \<le> 4" "b < 0x40" "c < 0x40" "d < 0x40" "a \<le> 3 \<or> b < 16" "1 \<le> a \<or> 16 \<le> b"
  shows "0x10000 \<le> a * 0x40000 + b * 0x1000 + c * 0x40 + d \<and> a * 0x40000 + b * 0x1000 + c * 0x40 + d < 0x110000"
  using assms by (elim disjE) linarith+

lemma utf8_code_point_4:
  assumes "0xF0 \<le> a" "a \<le> 0xF4" "0x80 \<le> b" "b \<le> 0xBF" "0x80 \<le> c" "c \<le> 0xBF" "0x80 \<le> d" "d \<le> 0xBF"
    and "a = 0xF0 \<Longrightarrow> 0x90 \<le> b" and "a = 0xF4 \<Longrightarrow> b \<le> 0x8F"
  defines "n \<equiv> (a - 0xF0) * 0x40000 + (b - 0x80) * 0x1000 + (c - 0x80) * 0x40 + (d - 0x80 :: nat)"
  shows "utf8_bytes n = [a, b, c, d]" and "scalar_value n"
proof -
  have n: "n = (((a - 0xF0) * 0x40 + (b - 0x80)) * 0x40 + (c - 0x80)) * 0x40 + (d - 0x80)"
    by (simp add: n_def algebra_simps)
  have low: "b - 0x80 < 0x40" "c - 0x80 < 0x40" "d - 0x80 < 0x40" using assms(3-8) by simp_all
  have one: "n div 0x40 = ((a - 0xF0) * 0x40 + (b - 0x80)) * 0x40 + (c - 0x80)" "n mod 0x40 = d - 0x80"
    unfolding n by (rule div_mod_sextet [OF low(3)])+
  have two: "n div 0x1000 = (a - 0xF0) * 0x40 + (b - 0x80)" "n div 0x40 mod 0x40 = c - 0x80"
    by (simp_all only: div_4096 one div_mod_sextet [OF low(2)])
  have three: "n div 0x40000 = a - 0xF0" "n div 0x1000 mod 0x40 = b - 0x80"
    by (simp_all only: div_262144 two div_mod_sextet [OF low(1)])
  have "a - 0xF0 \<le> 4" "a - 0xF0 \<le> 3 \<or> b - 0x80 < 16" "1 \<le> a - 0xF0 \<or> 16 \<le> b - 0x80"
    using assms(1-4,9,10) by fastforce+
  note range_4 [OF this(1) low this(2,3), folded n_def]
  moreover have "0xF0 + (a - 0xF0) = a" "0x80 + (b - 0x80) = b" "0x80 + (c - 0x80) = c" "0x80 + (d - 0x80) = d"
    using assms(1-8) by simp_all
  ultimately show "utf8_bytes n = [a, b, c, d]" "scalar_value n"
    using one two three by (simp_all only: utf8_bytes_4 scalar_4)
qed

definition faithful_char :: "string \<Rightarrow> bool" where
  "faithful_char c \<longleftrightarrow> utf8_char (code_point c) = c \<and> scalar_value (code_point c)"

lemma faithful_charI:
  "utf8_bytes (code_point c) = map byte_of c \<Longrightarrow> scalar_value (code_point c) \<Longrightarrow> faithful_char c"
  by (simp add: faithful_char_def utf8_char_def o_def)

lemma lead_cases:
  assumes "lead_class b = Some (lo, hi, n)"
  obtains "b < 0x80" "n = 0"
    | "n = 1" "0xC2 \<le> b" "b < 0xE0" "lo = 0x80" "hi = 0xBF"
    | "n = 2" "0xE0 \<le> b" "b < 0xF0" "0x80 \<le> lo" "hi \<le> 0xBF" "b = 0xE0 \<Longrightarrow> lo = 0xA0" "b = 0xED \<Longrightarrow> hi = 0x9F"
    | "n = 3" "0xF0 \<le> b" "b \<le> 0xF4" "0x80 \<le> lo" "hi \<le> 0xBF" "b = 0xF0 \<Longrightarrow> lo = 0x90" "b = 0xF4 \<Longrightarrow> hi = 0x8F"
  using assms unfolding lead_class_def by (force split: if_splits)

lemma faithful_lead:
  assumes "lead_class (byte_of c) = Some (lo, hi, n)" and run: "continuation lo hi n s = n"
  shows "faithful_char (c # take n s)"
  using assms(1)
proof (cases rule: lead_cases)
  case 1
  then show ?thesis
    by (intro faithful_charI) (simp_all add: code_point_def utf8_bytes_def scalar_value_def is_high_def is_low_def)
next
  case 2
  with run obtain d t where s: "s = d # t" "0x80 \<le> byte_of d" "byte_of d \<le> 0xBF"
    by (cases s) (auto split: if_splits)
  have cp: "code_point [c, d] = (byte_of c - 0xC0) * 0x40 + (byte_of d - 0x80)" by (simp add: code_point_def)
  note p = utf8_code_point_2 [OF 2(2,3) s(2,3)]
  have "scalar_value (code_point [c, d])" using p(2) cp by (simp add: scalar_value_def is_high_def is_low_def)
  with p(1) cp s(1) 2(1) show ?thesis by (intro faithful_charI) simp_all
next
  case 3
  with run obtain d t where s: "s = d # t" "lo \<le> byte_of d" "byte_of d \<le> hi" "continuation 0x80 0xBF 1 t = 1"
    by (cases s) (auto simp: numeral_2_eq_2 split: if_splits)
  from s(4) obtain e u where t: "t = e # u" "0x80 \<le> byte_of e" "byte_of e \<le> 0xBF"
    by (cases t) (auto split: if_splits)
  have cp: "code_point [c, d, e] = (byte_of c - 0xE0) * 0x1000 + (byte_of d - 0x80) * 0x40 + (byte_of e - 0x80)"
    by (simp add: code_point_def)
  have "0x80 \<le> byte_of d" "byte_of d \<le> 0xBF" "byte_of c = 0xE0 \<Longrightarrow> 0xA0 \<le> byte_of d"
    "byte_of c = 0xED \<Longrightarrow> byte_of d \<le> 0x9F" using 3 s(2,3) by auto
  note utf8_code_point_3 [OF 3(2,3) this(1,2) t(2,3) this(3,4), folded cp]
  then show ?thesis using 3(1) s(1) t(1) by (intro faithful_charI) (simp_all add: numeral_2_eq_2)
next
  case 4
  with run obtain d t where s: "s = d # t" "lo \<le> byte_of d" "byte_of d \<le> hi" "continuation 0x80 0xBF 2 t = 2"
    by (cases s) (auto simp: numeral_3_eq_3 numeral_2_eq_2 split: if_splits)
  from s(4) obtain e u where t: "t = e # u" "0x80 \<le> byte_of e" "byte_of e \<le> 0xBF" "continuation 0x80 0xBF 1 u = 1"
    by (cases t) (auto simp: numeral_2_eq_2 split: if_splits)
  from t(4) obtain f v where u: "u = f # v" "0x80 \<le> byte_of f" "byte_of f \<le> 0xBF"
    by (cases u) (auto split: if_splits)
  have cp: "code_point [c, d, e, f] = (byte_of c - 0xF0) * 0x40000 + (byte_of d - 0x80) * 0x1000
      + (byte_of e - 0x80) * 0x40 + (byte_of f - 0x80)"
    by (simp add: code_point_def)
  have "0x80 \<le> byte_of d" "byte_of d \<le> 0xBF" "byte_of c = 0xF0 \<Longrightarrow> 0x90 \<le> byte_of d"
    "byte_of c = 0xF4 \<Longrightarrow> byte_of d \<le> 0x8F" using 4 s(2,3) by auto
  note utf8_code_point_4 [OF 4(2,3) this(1,2) t(2,3) u(2,3) this(3,4), folded cp]
  then show ?thesis using 4(1) s(1) t(1) u(1) by (intro faithful_charI) (simp_all add: numeral_3_eq_3)
qed

lemma faithful_chars: "valid_utf8 s \<Longrightarrow> list_all faithful_char (chars_of s)"
proof (induction s rule: valid_utf8.induct)
  case (2 c s)
  then obtain lo hi n where l: "lead_class (byte_of c) = Some (lo, hi, n)"
    and k: "continuation lo hi n s = n" and v: "valid_utf8 (drop n s)"
    by (auto split: option.splits)
  with "2.IH" [OF l] faithful_lead [OF l k] show ?case by (simp add: Let_def)
qed simp

definition text_ok :: "bool \<Rightarrow> string \<Rightarrow> bool" where
  "text_ok ascii s \<longleftrightarrow> (ascii \<longrightarrow> valid_utf8 s)"

lemma scan_pieces:
  assumes "\<And>x t. x \<in> set xs \<Longrightarrow> scan_string (f x @ t) = map_option (\<lambda>(y, r). (g x @ y, r)) (scan_string t)"
  shows "scan_string (concat (map f xs) @ dquote # t) = Some (concat (map g xs), t)"
  using assms by (induction xs) (simp_all add: scan_string.simps)

lemma scan_json_string:
  assumes "text_ok ascii s"
  shows "scan_string (tl (json_string ascii s) @ t) = Some (s, t)"
proof (cases ascii)
  case False
  have "scan_string (raw_char c @ r) = map_option (\<lambda>(y, q). ([c] @ y, q)) (scan_string r)" for c r
    by (simp add: scan_raw_char)
  from scan_pieces [of s raw_char "\<lambda>c. [c]", OF this] False show ?thesis by (simp add: json_string_def)
next
  case True
  with assms have good: "list_all faithful_char (chars_of s)" by (simp add: text_ok_def faithful_chars)
  have "scan_string (concat (map (ascii_piece) (chars_of s)) @ dquote # t)
      = Some (concat (map (\<lambda>c. c) (chars_of s)), t)"
    using good by (intro scan_pieces) (auto simp: ascii_piece_def list_all_iff faithful_char_def scan_ascii_char)
  with True show ?thesis by (simp add: json_string_def)
qed

section \<open>Numbers come back\<close>

text \<open>What may follow a number.\<close>

definition number_char :: "char \<Rightarrow> bool" where
  "number_char c = (is_digit c \<or> c \<in> set ''+-.eE'')"

definition stops :: "string \<Rightarrow> bool" where
  "stops t = (case t of [] \<Rightarrow> True | c # u \<Rightarrow> \<not> number_char c)"

lemma takeWhile_stops: "stops t \<Longrightarrow> takeWhile is_digit (s @ t) = takeWhile is_digit s"
  by (induction s) (auto simp: stops_def number_char_def split: list.splits)

lemma int_part_stops: "stops t \<Longrightarrow> int_part (s @ t) = int_part s"
  using takeWhile_stops [of t] takeWhile_stops [of t "[]"]
  by (cases s; cases t) (auto simp: int_part_def stops_def number_char_def Let_def split: list.splits)

lemma fraction_part_stops: "stops t \<Longrightarrow> fraction_part (s @ t) = fraction_part s"
  using takeWhile_stops [of t]
  by (cases s; cases t) (auto simp: fraction_part_def stops_def number_char_def)

lemma exponent_part_stops: "stops t \<Longrightarrow> exponent_part (s @ t) = exponent_part s"
  using takeWhile_stops [of t] takeWhile_stops [of t "[]"]
  by (cases s; cases "tl s"; cases t)
    (auto simp: exponent_part_def stops_def number_char_def Let_def split: list.splits)

lemma number_part_lengths:
  "int_part s = Some ip \<Longrightarrow> length ip \<le> length s"
  "length (fraction_part s) \<le> length s"
  "length (exponent_part s) \<le> length s"
proof -
  have le: "length (takeWhile is_digit u) \<le> length u" for u by (rule length_takeWhile_le)
  show "int_part s = Some ip \<Longrightarrow> length ip \<le> length s"
    using le [of s] le [of "tl s"]
    by (cases s) (auto simp: int_part_def Let_def split: list.splits if_splits)
  show "length (fraction_part s) \<le> length s"
    using le [of "tl s"] by (cases s) (auto simp: fraction_part_def)
  show "length (exponent_part s) \<le> length s"
    using le [of "tl s"] le [of "tl (tl s)"]
    by (cases s; cases "tl s") (auto simp: exponent_part_def Let_def)
qed

lemma scan_number_stops:
  assumes "scan_number fr s = Inr (v, [])" and t: "stops t"
  shows "scan_number fr (s @ t) = Inr (v, t)"
proof -
  obtain ip where ip: "int_part s = Some ip"
    using assms(1) by (cases "int_part s") (auto simp: scan_number_def)
  let ?fp = "fraction_part (drop (length ip) s)"
  let ?ep = "exponent_part (drop (length ip + length ?fp) s)"
  have "drop (length ip + length ?fp + length ?ep) s = []"
    using assms(1) ip by (auto simp: scan_number_def Let_def rbind_eq_Inr split: if_splits)
  then have all: "length s \<le> length ip + length ?fp + length ?ep" by simp
  have "length ip \<le> length s" using number_part_lengths(1) [OF ip] .
  moreover have "length ip + length ?fp \<le> length s"
    using number_part_lengths(2) [of "drop (length ip) s"] \<open>length ip \<le> length s\<close> by simp
  moreover have "length ip + length ?fp + length ?ep = length s"
    using number_part_lengths(3) [of "drop (length ip + length ?fp) s"] all calculation by simp
  ultimately show ?thesis
    using assms(1) ip t
    by (auto simp: scan_number_def Let_def int_part_stops fraction_part_stops exponent_part_stops rbind_eq_Inr
        split: if_splits)
qed

lemma digits_show_nat: "0 \<le> n \<Longrightarrow> list_all is_digit (show_nat n)"
proof (induction n rule: show_nat.induct)
  case (1 n)
  then show ?case by (cases "n < 10"; subst show_nat.simps) simp_all
qed

lemma hd_show_nat: "0 < n \<Longrightarrow> hd (show_nat n) \<noteq> CHR ''0''"
proof (induction n rule: show_nat.induct)
  case (1 n)
  show ?case
  proof (cases "n < 10")
    case True
    with "1.prems" digit_cases [of n] show ?thesis by (subst show_nat.simps) (auto simp: digit_char_def)
  next
    case False
    with "1.IH" show ?thesis by (subst show_nat.simps) simp
  qed
qed

lemma int_part_show_nat:
  assumes "0 \<le> n"
  shows "int_part (show_nat n) = Some (show_nat n)"
    and "int_part (CHR ''-'' # show_nat n) = Some (CHR ''-'' # show_nat n)"
proof -
  obtain d ds where s: "show_nat n = d # ds" by (cases "show_nat n") simp_all
  from digits_show_nat [OF assms] have digits: "list_all is_digit (d # ds)" by (simp add: s)
  then have all: "takeWhile is_digit (d # ds) = d # ds" by (simp add: list_all_iff)
  have minus: "\<not> is_digit (CHR ''-'')" by (simp add: is_digit_def)
  have "d = CHR ''0'' \<Longrightarrow> ds = []"
    using hd_show_nat [of n] assms s show_nat.simps [of 0] by (cases "n = 0") auto
  then show "int_part (show_nat n) = Some (show_nat n)"
    and "int_part (CHR ''-'' # show_nat n) = Some (CHR ''-'' # show_nat n)"
    using all digits minus by (auto simp: int_part_def s Let_def)
qed

lemma scan_number_show_int:
  assumes "printable_int i"
  shows "scan_number fr (show_int i) = Inr (PyInt i, [])"
proof -
  have digits: "filter is_digit (show_nat n) = show_nat n" if "0 \<le> n" for n
    using digits_show_nat [OF that] by (simp add: filter_id_conv list_all_iff)
  have minus: "\<not> is_digit (CHR ''-'')" by (simp add: is_digit_def)
  have parts: "fraction_part [] = []" "exponent_part [] = []" by (simp_all add: fraction_part_def exponent_part_def)
  have pos: "scan_int (show_nat n) = Some n" if "0 \<le> n" for n
  proof -
    obtain d ds where s: "show_nat n = d # ds" by (cases "show_nat n") simp_all
    with digits_show_nat [OF that] minus have "d \<noteq> CHR ''-''" by auto
    with of_digits_show [OF that] s show ?thesis by (simp add: scan_int_def)
  qed
  show ?thesis
  proof (cases "i < 0")
    case True
    then show ?thesis
      using assms digits [of "- i"] minus
      by (simp add: scan_number_def show_int_def int_part_show_nat parts scan_int_def printable_int_def Let_def)
  next
    case False
    then show ?thesis
      using assms digits [of i] pos [of i]
      by (simp add: scan_number_def show_int_def int_part_show_nat parts printable_int_def Let_def)
  qed
qed

section \<open>Values come back\<close>

text \<open>
  The values that \<open>loads\<close> can return: texts as keys, none twice, and every float with the text
  that \<open>repr\<close> gives it.
\<close>

definition float_ok :: "(string \<Rightarrow> string) \<Rightarrow> string \<Rightarrow> bool" where
  "float_ok fr t =
     (json_float t \<noteq> t \<or> scan_number fr t = Inr (PyFloat t, []) \<and> list_all number_char t)"

fun json_ok :: "(string \<Rightarrow> string) \<Rightarrow> bool \<Rightarrow> pyval \<Rightarrow> bool"
  and elems_ok :: "(string \<Rightarrow> string) \<Rightarrow> bool \<Rightarrow> pyval list \<Rightarrow> bool"
  and items_ok :: "(string \<Rightarrow> string) \<Rightarrow> bool \<Rightarrow> (pykey \<times> pyval) list \<Rightarrow> bool"
where
  "json_ok fr asc (PyInt i) = printable_int i"
| "json_ok fr asc (PyFloat t) = float_ok fr t"
| "json_ok fr asc (PyStr s) = text_ok asc s"
| "json_ok fr asc (PyList xs) = elems_ok fr asc xs"
| "json_ok fr asc (PyDict d) = (distinct (map fst d) \<and> items_ok fr asc d)"
| "json_ok fr asc (PyDatetime t) = False"
| "json_ok fr asc _ = True"
| "elems_ok fr asc [] = True"
| "elems_ok fr asc (x # xs) = (json_ok fr asc x \<and> elems_ok fr asc xs)"
| "items_ok fr asc [] = True"
| "items_ok fr asc ((k, v) # d) =
     ((case k of KeyStr s \<Rightarrow> text_ok asc s | _ \<Rightarrow> False) \<and> json_ok fr asc v \<and> items_ok fr asc d)"

lemma int_part_head:
  assumes "int_part s = Some ip"
  obtains c u where "s = c # u" "is_digit c \<or> c = CHR ''-'' \<and> u \<noteq> [] \<and> is_digit (hd u)"
  using assms
  by (cases s; cases "tl s") (auto simp: int_part_def Let_def split: list.splits if_splits)

lemma word_heads: "list_all (\<lambda>(w, v). \<not> is_digit (hd w) \<and> (hd w = CHR ''-'' \<longrightarrow> \<not> is_digit (hd (tl w)))
    \<and> 2 \<le> length w) json_words"
  by code_simp

lemma digit_not_special:
  "is_digit c \<Longrightarrow> c \<notin> {dquote, CHR ''['', CHR '']'', CHR ''{'', CHR '','', CHR ''}''} \<and> \<not> json_space c \<and> is_ascii c"
  by (auto simp: is_digit_def dquote_def json_space_def is_ascii_def byte_of_def)

lemma starts_with_hd: "starts_with s w \<Longrightarrow> w = c # u \<Longrightarrow> \<exists>v. s = c # v \<and> starts_with v u"
  by (cases s) (auto simp: starts_with_def)

lemma scan_value_number:
  assumes "int_part s = Some ip"
  shows "scan_value (Suc n) fr s = scan_number fr s"
proof -
  obtain c u where s: "s = c # u" and c: "is_digit c \<or> c = CHR ''-'' \<and> u \<noteq> [] \<and> is_digit (hd u)"
    using int_part_head [OF assms] .
  have "\<not> starts_with s w" if "(w, v) \<in> set json_words" for w v
  proof
    assume *: "starts_with s w"
    from that word_heads have w: "\<not> is_digit (hd w)" "hd w = CHR ''-'' \<longrightarrow> \<not> is_digit (hd (tl w))" "2 \<le> length w"
      by (auto simp: list_all_iff)
    then obtain a b x where ab: "w = a # b # x" by (cases w; cases "tl w") auto
    from starts_with_hd [OF * ab] obtain v where v: "s = a # v" "starts_with v (b # x)" by blast
    from starts_with_hd [OF v(2) refl] obtain y where "v = b # y" by blast
    with w c s ab v(1) show False by auto
  qed
  then have "find (\<lambda>(w, v). starts_with s w) json_words = None" by (auto simp: find_None_iff)
  moreover have "c \<noteq> dquote" "c \<noteq> CHR ''[''" "c \<noteq> CHR ''{''"
    using c digit_not_special [of c] by (auto simp: dquote_def)
  ultimately show ?thesis by (simp only: s scan_value.simps list.case if_False option.case)
qed

lemma skip_space_here: "\<not> json_space c \<Longrightarrow> skip_space (c # s) = c # s"
  by (simp add: skip_space_def)

lemma skip_space_blank [simp]: "skip_space (CHR '' '' # s) = skip_space s"
  by (simp add: skip_space_def json_space_def)

lemma not_json_space [simp]:
  "\<not> json_space dquote" "\<not> json_space (CHR '':'')" "\<not> json_space (CHR '','')"
  "\<not> json_space (CHR '']'')" "\<not> json_space (CHR ''}'')"
  by (simp_all add: json_space_def dquote_def)

lemma stops_here [simp]: "stops (CHR '','' # t)" "stops (CHR '']'' # t)" "stops (CHR ''}'' # t)"
  by (simp_all add: stops_def number_char_def is_digit_def)

lemma show_int_part: "int_part (show_int i) = Some (show_int i)"
  by (simp add: show_int_def int_part_show_nat)

lemma float_part: "float_ok fr t \<Longrightarrow> json_float t = t \<Longrightarrow> \<exists>ip. int_part t = Some ip"
  by (cases "int_part t") (simp_all add: float_ok_def scan_number_def)

text \<open>A printed value starts with a character that is neither white space nor a closing bracket.\<close>

lemma json_text_head:
  assumes "json_ok fr asc v"
  obtains c u where "json_text asc v = c # u" "\<not> json_space c" "c \<noteq> CHR '']''" "c \<noteq> CHR ''}''" "is_ascii c"
proof -
  note found = that
  have minus: "\<not> json_space (CHR ''-'')" "is_ascii (CHR ''-'')" by (simp_all add: json_space_def is_ascii_def byte_of_def)
  have number: thesis if "int_part (json_text asc v) = Some ip" for ip
  proof -
    from int_part_head [OF that] obtain c u where s: "json_text asc v = c # u" and c: "is_digit c \<or> c = CHR ''-''"
      by blast
    from c digit_not_special [of c] minus have "\<not> json_space c" "c \<noteq> CHR '']''" "c \<noteq> CHR ''}''" "is_ascii c" by auto
    with s show thesis by (rule found)
  qed
  have letter: thesis if "json_text asc v = c # u" "c \<in> set (dquote # ''ntfNI-[{'')" for c u
  proof -
    have "list_all (\<lambda>c. \<not> json_space c \<and> c \<noteq> CHR '']'' \<and> c \<noteq> CHR ''}'' \<and> is_ascii c) (dquote # ''ntfNI-[{'')" by code_simp
    then have "\<not> json_space c \<and> c \<noteq> CHR '']'' \<and> c \<noteq> CHR ''}'' \<and> is_ascii c"
      using that(2) unfolding list_all_iff by blast
    with that(1) show thesis by (intro found [of c u]) simp_all
  qed
  show thesis
  proof (cases v)
    case (PyFloat t)
    show thesis
    proof (cases "json_float t = t")
      case True
      with assms PyFloat obtain ip where "int_part (json_text asc v) = Some ip" using float_part by auto
      then show thesis by (rule number)
    next
      case False
      then show thesis using PyFloat letter by (fastforce simp: json_float_def split: if_splits)
    qed
  next
    case (PyInt i)
    then show thesis using number show_int_part by simp
  next
    case (PyBool b)
    then show thesis using letter by (cases b) auto
  next
    case (PyDatetime t)
    with assms show thesis by simp
  qed (use letter in \<open>auto simp: json_string_def split: if_splits\<close>)
qed

lemma scan_value_bracket:
  "scan_value (Suc n) fr (dquote # t) =
     rbind (require_some JSONDecodeError (scan_string t)) (\<lambda>(x, r). Inr (PyStr x, r))"
  "\<not> json_space c \<Longrightarrow> scan_value (Suc n) fr (CHR ''['' # c # t) =
     (if c = CHR '']'' then Inr (PyList [], t)
      else rbind (scan_elems n fr (c # t)) (\<lambda>(vs, q). Inr (PyList vs, q)))"
  "\<not> json_space c \<Longrightarrow> scan_value (Suc n) fr (CHR ''{'' # c # t) =
     (if c = CHR ''}'' then Inr (PyDict [], t)
      else rbind (scan_items n fr (c # t))
             (\<lambda>(ms, q). Inr (PyDict (fold (\<lambda>(k, v) m. dict_set m k v) ms []), q)))"
  by (simp_all add: dquote_def skip_space_here)

lemma scan_value_word:
  "scan_value (Suc n) fr (''null'' @ t) = Inr (PyNone, t)"
  "scan_value (Suc n) fr (''true'' @ t) = Inr (PyBool True, t)"
  "scan_value (Suc n) fr (''false'' @ t) = Inr (PyBool False, t)"
  "scan_value (Suc n) fr (''NaN'' @ t) = Inr (PyFloat ''nan'', t)"
  "scan_value (Suc n) fr (''Infinity'' @ t) = Inr (PyFloat ''inf'', t)"
  "scan_value (Suc n) fr (''-Infinity'' @ t) = Inr (PyFloat ''-inf'', t)"
  by (simp_all add: json_words_def starts_with_def dquote_def)

declare scan_value.simps(2) [simp del]

lemma json_string_split: "json_string asc s @ t = dquote # tl (json_string asc s) @ t"
  by (simp add: json_string_def)

lemma scan_value_string: "text_ok asc s \<Longrightarrow> scan_value (Suc n) fr (json_string asc s @ t) = Inr (PyStr s, t)"
  by (subst json_string_split) (simp add: scan_value_bracket(1) scan_json_string)

lemma scan_value_float:
  assumes "float_ok fr x" and "stops t"
  shows "scan_value (Suc n) fr (json_float x @ t) = Inr (PyFloat x, t)"
proof (cases "json_float x = x")
  case True
  obtain ip where "int_part x = Some ip" using float_part [OF assms(1) True] by blast
  with assms True show ?thesis
    by (simp add: scan_value_number int_part_stops float_ok_def scan_number_stops)
next
  case False
  then consider "x = ''nan''" | "x = ''inf''" | "x = ''-inf''" by (auto simp: json_float_def split: if_splits)
  then show ?thesis
    by cases (use scan_value_word(4-6) [of n fr t] in \<open>simp_all add: json_float_def\<close>)
qed

lemma scan_value_int:
  "printable_int i \<Longrightarrow> stops t \<Longrightarrow> scan_value (Suc n) fr (show_int i @ t) = Inr (PyInt i, t)"
  by (simp add: scan_value_number [of _ "show_int i"] int_part_stops show_int_part scan_number_stops
      scan_number_show_int)

text \<open>A dictionary is built from its items in their order.\<close>

lemma update_new: "k \<notin> set (map fst d) \<Longrightarrow> AList.update k v d = d @ [(k, v)]"
  by (induction d) auto

lemma build_dict:
  "items_ok fr asc d \<Longrightarrow> distinct (map fst (acc @ d)) \<Longrightarrow>
     fold (\<lambda>(k, v) m. dict_set m k v) (map (\<lambda>(k, v). (json_key k, v)) d) acc = acc @ d"
proof (induction d arbitrary: acc)
  case (Cons x d)
  obtain s v where x: "x = (KeyStr s, v)" using Cons.prems(1) by (cases x) (auto split: pykey.splits)
  have "dict_set acc s v = acc @ [x]" using Cons.prems(2) x by (simp add: dict_set_def update_new)
  with Cons.IH [of "acc @ [x]"] Cons.prems x show ?case by simp
qed simp

lemma join_Cons: "join sep (w # ws) @ t = w @ (if ws = [] then t else sep @ join sep ws @ t)"
  by (cases ws) simp_all

lemma json_text_nonempty: "json_ok fr asc v \<Longrightarrow> json_text asc v \<noteq> []"
  using json_text_head by fastforce

lemma json_texts_nonempty [simp]: "json_elems asc xs = [] \<longleftrightarrow> xs = []" "json_items asc d = [] \<longleftrightarrow> d = []"
  by (cases xs; simp) (cases d; auto)

lemma scan_text:
  "json_ok fr asc v \<Longrightarrow> stops t \<Longrightarrow> 2 * length (json_text asc v @ t) \<le> n \<Longrightarrow>
     scan_value n fr (json_text asc v @ t) = Inr (v, t)"
  "elems_ok fr asc xs \<Longrightarrow> xs \<noteq> [] \<Longrightarrow> 2 * length (join '', '' (json_elems asc xs) @ '']'' @ t) < n \<Longrightarrow>
     scan_elems n fr (join '', '' (json_elems asc xs) @ '']'' @ t) = Inr (xs, t)"
  "items_ok fr asc d \<Longrightarrow> d \<noteq> [] \<Longrightarrow> 2 * length (join '', '' (json_items asc d) @ ''}'' @ t) < n \<Longrightarrow>
     scan_items n fr (join '', '' (json_items asc d) @ ''}'' @ t) = Inr (map (\<lambda>(k, v). (json_key k, v)) d, t)"
proof (induction asc v and asc xs and asc d arbitrary: n t and n t and n t
    rule: json_text_json_elems_json_items.induct)
  case (6 asc xs)
  show ?case
  proof (cases xs)
    case Nil
    with "6.prems" show ?thesis by (cases n) (auto simp: scan_value_bracket)
  next
    case (Cons x ys)
    then obtain m where n: "n = Suc m" using "6.prems"(3) by (cases n) auto
    have "json_ok fr asc x" using "6.prems"(1) Cons by simp
    then obtain c u where head: "json_text asc x = c # u" "\<not> json_space c" "c \<noteq> CHR '']''"
      using json_text_head by blast
    have "scan_elems m fr (join '', '' (json_elems asc xs) @ '']'' @ t) = Inr (xs, t)"
      using "6.prems" Cons n by (intro "6.IH") auto
    moreover obtain w where "join '', '' (json_elems asc xs) @ '']'' @ t = c # w"
      using head(1) Cons by (simp add: join_Cons)
    ultimately show ?thesis using head(2,3) n by (simp add: scan_value_bracket(2))
  qed
next
  case (7 asc d)
  show ?case
  proof (cases d)
    case Nil
    with "7.prems" show ?thesis by (cases n) (auto simp: scan_value_bracket)
  next
    case (Cons x e)
    then obtain m where n: "n = Suc m" using "7.prems"(3) by (cases n) auto
    have "scan_items m fr (join '', '' (json_items asc d) @ ''}'' @ t)
        = Inr (map (\<lambda>(k, v). (json_key k, v)) d, t)"
      using "7.prems" Cons n by (intro "7.IH") auto
    moreover obtain w where "join '', '' (json_items asc d) @ ''}'' @ t = dquote # w"
      using Cons by (cases x) (simp add: join_Cons json_string_def)
    moreover have "dquote \<noteq> CHR ''}''" by (simp add: dquote_def)
    ultimately show ?thesis using n "7.prems"(1) build_dict [of fr asc d "[]"] by (simp add: scan_value_bracket(3))
  qed
next
  case (10 asc x xs)
  then obtain m where n: "n = Suc m" by (cases n) auto
  let ?rest = "if xs = [] then '']'' @ t else '', '' @ join '', '' (json_elems asc xs) @ '']'' @ t"
  have all: "join '', '' (json_elems asc (x # xs)) @ '']'' @ t = json_text asc x @ ?rest"
    by (simp add: join_Cons)
  have "stops ?rest" by simp
  then have one: "scan_value m fr (json_text asc x @ ?rest) = Inr (x, ?rest)"
    using "10.prems" n unfolding all by (intro "10.IH"(1)) auto
  show ?case
  proof (cases "xs = []")
    case True
    with one show ?thesis unfolding all n by (simp add: skip_space_here)
  next
    case False
    then obtain y ys where xs: "xs = y # ys" by (cases xs) auto
    then have "json_ok fr asc y" using "10.prems"(1) by simp
    then obtain c u where head: "json_text asc y = c # u" "\<not> json_space c"
      using json_text_head by blast
    have "scan_elems m fr (join '', '' (json_elems asc xs) @ '']'' @ t) = Inr (xs, t)"
      using "10.prems" n False by (intro "10.IH"(2)) (auto simp: join_Cons)
    moreover have "skip_space (join '', '' (json_elems asc xs) @ '']'' @ t) = join '', '' (json_elems asc xs) @ '']'' @ t"
      using head xs by (simp add: join_Cons skip_space_here)
    ultimately show ?thesis using one False unfolding all n by (simp add: skip_space_here)
  qed
next
  case (12 asc k v d)
  then obtain m where n: "n = Suc m" by (cases n) auto
  obtain s where k: "k = KeyStr s" and s: "text_ok asc s" using "12.prems"(1) by (cases k) auto
  let ?rest = "if d = [] then ''}'' @ t else '', '' @ join '', '' (json_items asc d) @ ''}'' @ t"
  have all: "join '', '' (json_items asc ((k, v) # d)) @ ''}'' @ t
      = dquote # tl (json_string asc s) @ '': '' @ json_text asc v @ ?rest"
    by (simp add: join_Cons k json_string_split)
  have "json_ok fr asc v" using "12.prems"(1) by simp
  then obtain c u where head: "json_text asc v = c # u" "\<not> json_space c"
    using json_text_head by blast
  have "stops ?rest" by simp
  then have one: "scan_value m fr (json_text asc v @ ?rest) = Inr (v, ?rest)"
    using "12.prems" n unfolding all by (intro "12.IH"(1)) auto
  have key: "scan_string (tl (json_string asc s) @ r) = Some (s, r)" for r by (rule scan_json_string [OF s])
  have here: "skip_space (json_text asc v @ r) = json_text asc v @ r" for r
    using head by (simp add: skip_space_here)
  show ?case
  proof (cases "d = []")
    case True
    with one key here show ?thesis unfolding all n by (simp add: skip_space_here k)
  next
    case False
    have "scan_items m fr (join '', '' (json_items asc d) @ ''}'' @ t)
        = Inr (map (\<lambda>(k, v). (json_key k, v)) d, t)"
      using "12.prems" n False unfolding all by (intro "12.IH"(2)) auto
    moreover have "skip_space (join '', '' (json_items asc d) @ ''}'' @ t) = join '', '' (json_items asc d) @ ''}'' @ t"
      using False by (cases d) (auto simp: join_Cons json_string_def skip_space_here)
    ultimately show ?thesis using one key here False unfolding all n by (simp add: skip_space_here k)
  qed
next
  case (1 asc)
  then show ?case using scan_value_word(1) [of "n - 1" fr t] by (cases n) simp_all
next
  case (2 asc b)
  then show ?case using scan_value_word(2,3) [of "n - 1" fr t] by (cases n; cases b) simp_all
next
  case (3 asc i)
  then show ?case using json_text_nonempty [of fr asc "PyInt i"] scan_value_int by (cases n) simp_all
next
  case (4 asc x)
  then show ?case using json_text_nonempty [of fr asc "PyFloat x"] scan_value_float by (cases n) simp_all
next
  case (5 asc s)
  then show ?case using json_text_nonempty [of fr asc "PyStr s"] scan_value_string by (cases n) simp_all
qed simp_all

text \<open>
  What \<open>dumps\<close> prints, \<open>loads\<close> reads back, with \<open>ensure_ascii\<close> when the texts are valid and
  without it whatever their bytes are.
\<close>

lemma json_ok_serializable:
  "json_ok fr asc v \<Longrightarrow> serializable v"
  "elems_ok fr asc xs \<Longrightarrow> serializable_elems xs"
  "items_ok fr asc d \<Longrightarrow> serializable_items d"
  by (induction v and xs and d rule: serializable_serializable_elems_serializable_items.induct)
    (auto split: pykey.splits)

lemma loads_dumps:
  assumes "json_ok fr ascii v" and "dumps ascii v = Some s"
  shows "loads fr s = Inr v"
proof -
  have s: "s = json_text ascii v" using assms(2) by (simp add: dumps_def split: if_splits)
  obtain c u where head: "s = c # u" "\<not> json_space c" "is_ascii c"
    using json_text_head [OF assms(1)] s by blast
  have "\<not> is_ascii (hd byte_order_mark)" by code_simp
  with head(1,3) have "\<not> starts_with s byte_order_mark" by (auto simp: starts_with_def byte_order_mark_def)
  moreover have "skip_space s = s" using head by (simp add: skip_space_here)
  moreover have "skip_space [] = []" by (simp add: skip_space_def)
  ultimately show ?thesis using scan_text(1) [OF assms(1), of "[]" "2 * length s"] s
    by (simp add: loads_def read_text_def stops_def)
qed

section \<open>The bytes of a message\<close>

text \<open>With \<open>ensure_ascii\<close> the text has only ASCII characters and no zero byte.\<close>

definition plain :: "char \<Rightarrow> bool" where
  "plain c \<longleftrightarrow> is_ascii c \<and> byte_of c \<noteq> 0"

lemma plain_hex_digit: "plain (hex_digit n)"
proof -
  have "list_all (\<lambda>k. plain (''0123456789abcdef'' ! k)) [0..<16]" by code_simp
  from upt_allD [OF this, of "n mod 16"] show ?thesis by (simp add: hex_digit_def)
qed

lemma plain_consts [simp]:
  "plain dquote" "plain backslash" "plain (CHR ''u'')" "plain (CHR ''['')" "plain (CHR '']'')" "plain (CHR ''{'')"
  "plain (CHR ''}'')" "plain (CHR '','')" "plain (CHR '' '')" "plain (CHR '':'')" "plain (CHR ''-'')"
  by (simp_all add: plain_def is_ascii_def byte_of_def dquote_def backslash_def)

lemma plain_escape_unit: "list_all plain (escape_unit n)"
  by (simp add: escape_unit_def plain_hex_digit)

lemma plain_ascii_char: "list_all plain (ascii_char n)"
proof -
  have "plain e" if "short_escape c = Some e" for c e
  proof -
    have "list_all (\<lambda>(c, e). plain e)
        [(CHR 0x22, CHR 0x22), (CHR 0x5C, CHR 0x5C), (CHR 0x0A, CHR ''n''), (CHR 0x0D, CHR ''r''),
         (CHR 0x09, CHR ''t''), (CHR 0x0C, CHR ''f''), (CHR 0x08, CHR ''b'')]" by code_simp
    from map_of_allD [OF this] that show ?thesis by (simp add: short_escape_def)
  qed
  moreover have "plain (char_of n)" if "0x20 \<le> n" "n < 0x80" using that by (simp add: plain_def is_ascii_def)
  ultimately show ?thesis using plain_escape_unit by (auto simp: ascii_char_def split: option.split)
qed

lemma plain_json_string: "list_all plain (json_string True s)"
  using plain_ascii_char by (auto simp: json_string_def ascii_piece_def list_all_iff)

lemma plain_digits: "is_digit c \<Longrightarrow> plain c"
  by (auto simp: is_digit_def plain_def is_ascii_def byte_of_def)

lemma plain_number_char: "number_char c \<Longrightarrow> plain c"
  using plain_digits by (auto simp: number_char_def plain_def is_ascii_def byte_of_def)

lemma plain_show_int: "list_all plain (show_int i)"
  using digits_show_nat [of i] digits_show_nat [of "- i"] plain_digits
  by (auto simp: show_int_def list_all_iff)

lemma plain_join: "list_all plain sep \<Longrightarrow> list_all (list_all plain) ws \<Longrightarrow> list_all plain (join sep ws)"
  by (induction sep ws rule: join.induct) auto

lemma plain_float: "float_ok fr t \<Longrightarrow> list_all plain (json_float t)"
proof -
  have "list_all (list_all plain) [''NaN'', ''Infinity'', ''-Infinity'']" by code_simp
  then show "float_ok fr t \<Longrightarrow> list_all plain (json_float t)"
    using plain_number_char by (auto simp: float_ok_def json_float_def list_all_iff split: if_splits)
qed

lemma plain_words: "list_all plain ''null''" "list_all plain ''true''" "list_all plain ''false''"
  by code_simp+

lemma plain_json_text:
  "json_ok fr asc v \<Longrightarrow> asc \<Longrightarrow> list_all plain (json_text asc v)"
  "elems_ok fr asc xs \<Longrightarrow> asc \<Longrightarrow> list_all (list_all plain) (json_elems asc xs)"
  "items_ok fr asc d \<Longrightarrow> asc \<Longrightarrow> list_all (list_all plain) (json_items asc d)"
  by (induction fr asc v and fr asc xs and fr asc d rule: json_ok_elems_ok_items_ok.induct)
    (use plain_words in \<open>simp_all add: plain_show_int plain_float plain_json_string plain_join\<close>)

lemma valid_surrogatepass_plain: "list_all plain s \<Longrightarrow> valid_surrogatepass s"
proof (induction s)
  case (Cons c s)
  then have "is_ascii c" by (simp add: plain_def)
  with Cons show ?case by (simp add: is_ascii_def lead_class_def)
qed simp

lemma detect_encoding_plain:
  assumes "list_all plain s"
  shows "detect_encoding s = (Utf8, s)"
proof -
  have nz: "s ! i \<noteq> CHR 0x00" if "i < length s" for i
    using assms that by (auto simp: list_all_length plain_def byte_of_def)
  have mark: "\<not> starts_with s (c # cs)" if "\<not> plain c" for c cs
    using assms that by (cases s) (auto simp: starts_with_def)
  have odd: "\<not> plain (CHR 0x00)" "\<not> plain (CHR 0xFE)" "\<not> plain (CHR 0xFF)" "\<not> plain (CHR 0xEF)"
    by (simp_all add: plain_def is_ascii_def byte_of_def)
  have "\<not> starts_with s [CHR 0x00, CHR 0x00, CHR 0xFE, CHR 0xFF]" "\<not> starts_with s [CHR 0xFF, CHR 0xFE, CHR 0x00, CHR 0x00]"
    "\<not> starts_with s [CHR 0xFE, CHR 0xFF]" "\<not> starts_with s [CHR 0xFF, CHR 0xFE]" "\<not> starts_with s byte_order_mark"
    unfolding byte_order_mark_def by (rule mark, rule odd)+
  moreover have "\<not> (k \<le> length s \<and> s ! i = CHR 0x00)" "\<not> (length s = k \<and> s ! i = CHR 0x00)"
    if "i < k" for i k
    using nz [of i] that by (metis order_less_le_trans) (use nz [of i] that in metis)
  from this [of 0 4] this [of 1 4] this [of 0 2] this [of 1 2]
  have "\<not> (4 \<le> length s \<and> s ! 0 = CHR 0x00)" "\<not> (4 \<le> length s \<and> s ! 1 = CHR 0x00)"
    "\<not> (length s = 2 \<and> s ! 0 = CHR 0x00)" "\<not> (length s = 2 \<and> s ! 1 = CHR 0x00)"
    by (meson zero_less_numeral one_less_numeral_iff semiring_norm)+
  ultimately show ?thesis by (simp only: detect_encoding_def Let_def if_False)
qed

lemma loads_bytes_dumps:
  assumes ok: "json_ok fr True v" and printed: "dumps True v = Some s"
  shows "loads_bytes fr s = Inr v"
proof -
  have "s = json_text True v" using printed by (simp add: dumps_def split: if_splits)
  then have plain: "list_all plain s" using plain_json_text(1) [OF ok] by simp
  then have "decode_bytes s = Some s" by (simp add: decode_bytes_def detect_encoding_plain valid_surrogatepass_plain)
  moreover have "read_text fr s = Inr v"
    using loads_dumps [OF ok printed] by (simp add: loads_def split: if_splits)
  ultimately show ?thesis by (simp add: loads_bytes_def)
qed

section \<open>What loads returns\<close>

text \<open>Whatever is read can be printed again: an integer has at most 4300 digits.\<close>

lemma digit_val_range: "digit_val c = Some d \<Longrightarrow> 0 \<le> d \<and> d < 10 \<and> is_digit c"
proof -
  have "list_all (\<lambda>(c, d). 0 \<le> d \<and> d < 10 \<and> is_digit c) (zip digit_chars [0, 1, 2, 3, 4, 5, 6, 7, 8, 9 :: int])"
    by code_simp
  from map_of_allD [OF this] show "digit_val c = Some d \<Longrightarrow> 0 \<le> d \<and> d < 10 \<and> is_digit c"
    by (simp add: digit_val_def)
qed

lemma of_digits_acc_range:
  "of_digits_acc a s = Some n \<Longrightarrow> 0 \<le> a \<Longrightarrow> 0 \<le> n \<and> n < (a + 1) * 10 ^ length s \<and> list_all is_digit s"
proof (induction s arbitrary: a)
  case (Cons c s)
  then obtain d where d: "digit_val c = Some d" "0 \<le> d" "d < 10" "is_digit c"
    by (auto split: option.splits dest: digit_val_range)
  with Cons have ih: "0 \<le> n \<and> n < (10 * a + d + 1) * 10 ^ length s \<and> list_all is_digit s" by simp
  have "(10 * a + d + 1) * 10 ^ length s \<le> ((a + 1) * 10) * 10 ^ length s"
    using d by (intro mult_right_mono) auto
  also have "\<dots> = (a + 1) * 10 ^ length (c # s)" by (simp only: power_Suc mult.assoc list.size) simp
  finally have "(10 * a + d + 1) * 10 ^ length s \<le> (a + 1) * 10 ^ length (c # s)" .
  moreover have "list_all is_digit (c # s)" using ih d by simp
  ultimately show ?case using ih by linarith
qed simp

lemma of_digits_range: "of_digits s = Some n \<Longrightarrow> 0 \<le> n \<and> n < 10 ^ length s \<and> list_all is_digit s \<and> s \<noteq> []"
  using of_digits_acc_range [of 0 s n] by (auto simp: of_digits_def split: if_splits)

lemma show_nat_length: "0 \<le> n \<Longrightarrow> n < 10 ^ Suc k \<Longrightarrow> length (show_nat n) \<le> Suc k"
proof (induction n arbitrary: k rule: show_nat.induct)
  case (1 n)
  show ?case
  proof (cases "n < 10")
    case True
    then show ?thesis by (subst show_nat.simps) simp
  next
    case False
    with "1.prems" obtain j where k: "k = Suc j" by (cases k) auto
    with "1.prems" have "n div 10 < 10 ^ Suc j" by simp
    with "1.IH" [OF False, of j] "1.prems" False k show ?thesis by (subst show_nat.simps) simp
  qed
qed

lemma scan_int_printable:
  assumes "scan_int ip = Some i" and "int (length (filter is_digit ip)) \<le> 4300"
  shows "printable_int i"
proof -
  have few: "printable_int n" if "of_digits ds = Some n" "int (length (filter is_digit ds)) \<le> 4300" for ds n
  proof -
    note r = of_digits_range [OF that(1)]
    then have "filter is_digit ds = ds" by (simp add: filter_id_conv list_all_iff)
    moreover obtain k where "length ds = Suc k" using r by (cases ds) auto
    ultimately show ?thesis
      using r that(2) show_nat_length [of n k] by (simp add: printable_int_def)
  qed
  have "printable_int (- n)" if "printable_int n" for n using that by (simp add: printable_int_def)
  with assms few show ?thesis
    by (cases ip) (auto simp: scan_int_def split: if_splits)
qed

lemma serializable_items_update:
  "serializable_items d \<Longrightarrow> serializable v \<Longrightarrow> serializable_items (AList.update (KeyStr k) v d)"
  by (induction d) auto

lemma serializable_dict:
  "list_all (serializable \<circ> snd) ms \<Longrightarrow> serializable_items d \<Longrightarrow>
     serializable_items (fold (\<lambda>(k, v) m. dict_set m k v) ms d)"
  by (induction ms arbitrary: d) (auto simp: dict_set_def serializable_items_update)

lemma scan_number_serializable: "scan_number fr s = Inr (v, r) \<Longrightarrow> serializable v"
  by (auto simp: scan_number_def Let_def rbind_eq_Inr scan_int_printable not_less split: option.splits if_splits)

lemma json_words_serializable: "(w, v) \<in> set json_words \<Longrightarrow> serializable v"
  by (auto simp: json_words_def)

lemma scan_value_SucE:
  assumes "scan_value (Suc n) fr s = Inr (v, r)"
  obtains (string) x where "v = PyStr x"
    | (empty) "v = PyList [] \<or> v = PyDict []"
    | (elems) u vs where "v = PyList vs" "scan_elems n fr u = Inr (vs, r)"
    | (dict) u ms where "v = PyDict (fold (\<lambda>(k, v) m. dict_set m k v) ms [])" "scan_items n fr u = Inr (ms, r)"
    | (word) w where "(w, v) \<in> set json_words"
    | (number) "scan_number fr s = Inr (v, r)"
proof -
  obtain c t where s: "s = c # t" using assms by (cases s) (auto simp: scan_value.simps)
  consider "c = dquote" | "c \<noteq> dquote" "c = CHR ''[''" | "c \<noteq> dquote" "c = CHR ''{''"
    | "c \<noteq> dquote" "c \<noteq> CHR ''[''" "c \<noteq> CHR ''{''" by blast
  then show thesis
  proof cases
    case 1
    then show thesis using assms s string by (auto simp: scan_value.simps rbind_eq_Inr)
  next
    case 2
    with assms s obtain d u where "skip_space t = d # u" by (cases "skip_space t") (auto simp: scan_value.simps)
    with 2 assms s have "v = PyList [] \<or> (\<exists>vs. v = PyList vs \<and> scan_elems n fr (d # u) = Inr (vs, r))"
      by (auto simp: scan_value.simps rbind_eq_Inr split: if_splits)
    with empty elems show thesis by blast
  next
    case 3
    with assms s obtain d u where "skip_space t = d # u" by (cases "skip_space t") (auto simp: scan_value.simps)
    with 3 assms s have "v = PyDict [] \<or> (\<exists>ms. v = PyDict (fold (\<lambda>(k, v) m. dict_set m k v) ms [])
        \<and> scan_items n fr (d # u) = Inr (ms, r))"
      by (auto simp: scan_value.simps rbind_eq_Inr split: if_splits)
    with empty dict show thesis by blast
  next
    case 4
    show thesis
    proof (cases "find (\<lambda>(w, v). starts_with s w) json_words")
      case None
      with 4 assms s number show thesis by (simp add: scan_value.simps)
    next
      case (Some wv)
      then have "wv \<in> set json_words" by (simp add: find_Some_in)
      moreover have "snd wv = v" using Some 4 assms s by (cases wv) (simp add: scan_value.simps)
      ultimately show thesis using word [of "fst wv"] by auto
    qed
  qed
qed

lemma scan_elems_SucE:
  assumes "scan_elems (Suc n) fr s = Inr (vs, r)"
  obtains v q ws where "scan_value n fr s = Inr (v, q)" "vs = v # ws"
    "ws = [] \<or> (\<exists>u. scan_elems n fr u = Inr (ws, r))"
proof (cases "scan_value n fr s")
  case (Inr x)
  obtain v q where x: "x = (v, q)" by force
  from assms Inr x have "vs = [v] \<or> (\<exists>z ws. vs = v # ws \<and> scan_elems n fr z = Inr (ws, r))"
    by (cases "skip_space q") (auto simp: rbind_eq_Inr split: if_splits)
  with that Inr x show thesis by blast
qed (use assms in simp)

lemma scan_items_SucE:
  assumes "scan_items (Suc n) fr s = Inr (ms, r)"
  obtains k u v q ws where "scan_value n fr u = Inr (v, q)" "ms = (k, v) # ws"
    "ws = [] \<or> (\<exists>z. scan_items n fr z = Inr (ws, r))"
proof -
  obtain c t where s: "s = c # t" using assms by (cases s) auto
  obtain k q1 where k: "scan_string t = Some (k, q1)" "c = dquote"
    using assms s by (auto simp: rbind_eq_Inr split: if_splits)
  obtain r1 where r1: "skip_space q1 = CHR '':'' # r1"
    using assms s k by (cases "skip_space q1") (auto simp: rbind_eq_Inr)
  show thesis
  proof (cases "scan_value n fr (skip_space r1)")
    case (Inr x)
    obtain v q where x: "x = (v, q)" by force
    from assms s k r1 Inr x
    have "ms = [(k, v)] \<or> (\<exists>z ws. ms = (k, v) # ws \<and> scan_items n fr z = Inr (ws, r))"
      by (cases "skip_space q") (auto simp: rbind_eq_Inr split: if_splits)
    with that Inr x show thesis by blast
  qed (use assms s k r1 in simp)
qed

lemma scan_serializable:
  "scan_value n fr s = Inr (v, r) \<Longrightarrow> serializable v"
  "scan_elems n fr s = Inr (vs, r) \<Longrightarrow> serializable_elems vs"
  "scan_items n fr s = Inr (ms, r) \<Longrightarrow> list_all (serializable \<circ> snd) ms"
proof (induction n arbitrary: s v r vs ms)
  case (Suc n)
  {
    case 1
    then show ?case
    proof (cases rule: scan_value_SucE)
      case (dict u ms)
      from serializable_dict [OF Suc.IH(3) [OF dict(2)], of "[]"] dict(1) show ?thesis by simp
    qed (auto intro: Suc.IH json_words_serializable scan_number_serializable)
  next
    case 2
    then show ?case by (elim scan_elems_SucE) (auto dest: Suc.IH)
  next
    case 3
    then show ?case by (elim scan_items_SucE) (auto dest: Suc.IH)
  }
qed simp_all

lemma read_text_serializable: "read_text fr s = Inr v \<Longrightarrow> serializable v"
  by (auto simp: read_text_def rbind_eq_Inr dest: scan_serializable(1) split: if_splits prod.splits)

section \<open>Texts that can be encoded\<close>

text \<open>
  Without \<open>ensure_ascii\<close> the printed text holds the strings as they are, so writing it as UTF-8
  fails exactly when one of them has a lone surrogate.
\<close>

fun texts_valid :: "pyval \<Rightarrow> bool"
  and elems_valid :: "pyval list \<Rightarrow> bool"
  and items_valid :: "(pykey \<times> pyval) list \<Rightarrow> bool"
where
  "texts_valid (PyStr s) = valid_utf8 s"
| "texts_valid (PyFloat t) = list_all is_ascii t"
| "texts_valid (PyList xs) = elems_valid xs"
| "texts_valid (PyDict d) = items_valid d"
| "texts_valid _ = True"
| "elems_valid [] = True"
| "elems_valid (x # xs) = (texts_valid x \<and> elems_valid xs)"
| "items_valid [] = True"
| "items_valid ((k, v) # d) = (valid_utf8 (json_key k) \<and> texts_valid v \<and> items_valid d)"

lemma valid_ascii: "list_all is_ascii s \<Longrightarrow> valid_utf8 s"
  by (induction s) simp_all

lemma valid_plain: "list_all plain s \<Longrightarrow> valid_utf8 s"
  by (rule valid_ascii) (auto simp: plain_def list_all_iff)

lemma raw_char_nonempty: "raw_char c \<noteq> []"
  by (simp add: raw_char_def escape_unit_def split: option.split)

lemma raw_char_cases: "is_ascii c \<and> list_all plain (raw_char c) \<or> \<not> is_ascii c \<and> raw_char c = [c]"
proof (cases "is_ascii c")
  case True
  have "raw_char c = ascii_char (byte_of c) \<or> raw_char c = [c] \<and> 0x20 \<le> byte_of c"
    using True by (auto simp: raw_char_def ascii_char_def is_ascii_def split: option.split)
  with True plain_ascii_char [of "byte_of c"] show ?thesis by (auto simp: plain_def)
next
  case False
  have "list_all (\<lambda>(c, e). is_ascii c)
      [(CHR 0x22, CHR 0x22), (CHR 0x5C, CHR 0x5C), (CHR 0x0A, CHR ''n''), (CHR 0x0D, CHR ''r''),
       (CHR 0x09, CHR ''t''), (CHR 0x0C, CHR ''f''), (CHR 0x08, CHR ''b'')]" by code_simp
  from map_of_allD [OF this] False have "short_escape c = None"
    by (cases "short_escape c") (auto simp only: short_escape_def)
  with False show ?thesis by (simp add: raw_char_def is_ascii_def)
qed

lemma continuation_raw:
  "0x80 \<le> lo \<Longrightarrow> continuation lo hi n (concat (map raw_char s)) = continuation lo hi n s"
proof (induction lo hi n s rule: continuation.induct)
  case (3 lo hi n c s)
  show ?case
  proof (cases "is_ascii c")
    case True
    then obtain d t where "raw_char c = d # t" "is_ascii d"
      using raw_char_cases [of c] raw_char_nonempty [of c] by (cases "raw_char c") (auto simp: plain_def)
    with True "3.prems" show ?thesis by (simp add: is_ascii_def)
  next
    case False
    with 3 raw_char_cases [of c] show ?thesis by auto
  qed
qed simp_all

lemma raw_not_ascii: "list_all (\<lambda>c. \<not> is_ascii c) s \<Longrightarrow> concat (map raw_char s) = s"
  using raw_char_cases by (induction s) auto

lemma drop_raw:
  assumes "list_all (\<lambda>c. \<not> is_ascii c) (take n s)" and "n \<le> length s"
  shows "drop n (concat (map raw_char s)) = concat (map raw_char (drop n s))"
proof -
  have "concat (map raw_char s) = concat (map raw_char (take n s)) @ concat (map raw_char (drop n s))"
    by (simp flip: map_append concat_append)
  with raw_not_ascii [OF assms(1)] assms(2) show ?thesis by simp
qed

lemma valid_ascii_append: "list_all is_ascii s \<Longrightarrow> valid_utf8 (s @ t) = valid_utf8 t"
  by (induction s) simp_all

lemma valid_raw: "valid_utf8 (concat (map raw_char s)) = valid_utf8 s"
proof (induction s rule: valid_utf8.induct)
  case (2 c s)
  show ?case
  proof (cases "is_ascii c")
    case True
    then have l: "lead_class (byte_of c) = Some (0, 0, 0)" by simp
    have "list_all is_ascii (raw_char c)" using raw_char_cases [of c] True by (auto simp: plain_def list_all_iff)
    with "2.IH" [OF l] l show ?thesis by (simp add: valid_ascii_append)
  next
    case False
    then have raw: "concat (map raw_char (c # s)) = c # concat (map raw_char s)"
      using raw_char_cases [of c] by simp
    show ?thesis
    proof (cases "lead_class (byte_of c)")
      case None
      then show ?thesis unfolding raw by simp
    next
      case (Some x)
      obtain lo hi n where x: "x = (lo, hi, n)" by (cases x) auto
      have "n \<noteq> 0" using Some x False by (auto elim!: lead_cases simp: is_ascii_def)
      with lead_range Some x have lo: "0x80 \<le> lo" by blast
      show ?thesis
      proof (cases "continuation lo hi n s = n")
        case True
        have "drop n (concat (map raw_char s)) = concat (map raw_char (drop n s))"
          using continuation_not_ascii [OF True] lo continuation_length [OF True] by (intro drop_raw) auto
        with "2.IH" [OF Some [unfolded x] refl] True lo show ?thesis
          unfolding raw using Some x by (simp add: continuation_raw)
      next
        case False
        with lo show ?thesis unfolding raw using Some x by (simp add: continuation_raw)
      qed
    qed
  qed
qed simp

lemma valid_ascii_Cons: "is_ascii c \<Longrightarrow> valid_utf8 (c # s) = valid_utf8 s"
  by simp

declare valid_utf8.simps(2) [simp del]

lemma valid_around: "is_ascii c \<Longrightarrow> valid_utf8 (s @ c # t) \<longleftrightarrow> valid_utf8 s \<and> valid_utf8 t"
  using valid_utf8_cut [of s c t] valid_utf8_append [of s "c # t"] by (auto simp: valid_ascii_Cons)

lemma valid_ascii_end: "is_ascii c \<Longrightarrow> valid_utf8 (s @ [c]) = valid_utf8 s"
  using valid_around [of c s "[]"] by simp

lemma ascii_marks [simp]:
  "is_ascii dquote" "is_ascii (CHR '':'')" "is_ascii (CHR '','')" "is_ascii (CHR '' '')"
  "is_ascii (CHR ''['')" "is_ascii (CHR '']'')" "is_ascii (CHR ''{'')" "is_ascii (CHR ''}'')"
  using plain_consts by (simp_all add: plain_def)

lemma valid_json_string [simp]: "valid_utf8 (json_string False s @ t) \<longleftrightarrow> valid_utf8 s \<and> valid_utf8 t"
  by (simp add: json_string_def valid_ascii_Cons valid_around valid_raw)

lemma valid_json_string_only [simp]: "valid_utf8 (json_string False s) = valid_utf8 s"
  using valid_json_string [of s "[]"] by simp

lemma valid_joined: "is_ascii c \<Longrightarrow> is_ascii d \<Longrightarrow> valid_utf8 (join [c, d] ws) \<longleftrightarrow> list_all valid_utf8 ws"
  by (induction "[c, d]" ws rule: join.induct) (simp_all add: valid_around valid_ascii_Cons)

lemma valid_json_float: "list_all is_ascii t \<Longrightarrow> valid_utf8 (json_float t)"
proof -
  have "list_all (list_all is_ascii) [''NaN'', ''Infinity'', ''-Infinity'']" by code_simp
  then show "list_all is_ascii t \<Longrightarrow> valid_utf8 (json_float t)"
    by (auto simp: json_float_def intro!: valid_ascii)
qed

lemma valid_json_text:
  "texts_valid v \<Longrightarrow> valid_utf8 (json_text False v)"
  "elems_valid xs \<Longrightarrow> list_all valid_utf8 (json_elems False xs)"
  "items_valid d \<Longrightarrow> list_all valid_utf8 (json_items False d)"
proof (induction v and xs and d rule: texts_valid_elems_valid_items_valid.induct)
  case (3 xs)
  then show ?case by (simp add: valid_joined valid_ascii_Cons valid_ascii_end)
next
  case (4 d)
  then show ?case by (simp add: valid_joined valid_ascii_Cons valid_ascii_end)
qed (use plain_words in \<open>simp_all add: valid_json_float valid_plain plain_show_int valid_ascii_Cons\<close>)

text \<open>Times are printed in ASCII.\<close>

lemma plain_show_nat: "list_all plain (show_nat n)"
proof (induction n rule: show_nat.induct)
  case (1 n)
  have "is_digit (digit_char d)" if "d < 10" for d
    using that is_digit_char [of d] is_digit_char [of 0] by (cases "0 \<le> d") (simp_all add: digit_char_def)
  then have "plain (digit_char d)" if "d < 10" for d using that plain_digits by blast
  with 1 show ?case by (cases "n < 10"; subst show_nat.simps) simp_all
qed

lemma plain_pad_nat: "list_all plain (pad_nat w n)"
  using plain_show_nat [of n] plain_digits [of "CHR ''0''"]
  by (auto simp: pad_nat_def Let_def list_all_iff is_digit_def)

lemma plain_time_marks: "plain (CHR ''+'')" "plain (CHR ''.'')" "plain (CHR ''T'')"
  by (simp_all add: plain_def is_ascii_def byte_of_def)

lemma valid_show_instant: "valid_utf8 (show_instant i)"
  using plain_pad_nat plain_time_marks
  by (intro valid_plain)
    (simp add: show_instant_def isoformat_def isoformat_sep_def show_hms_def show_offset_def Let_def split: prod.split)

text \<open>One text that cannot be encoded makes the whole object unwritable.\<close>

lemma json_items_valid:
  "list_all valid_utf8 (json_items False d) \<Longrightarrow> (k, PyStr s) \<in> set d \<Longrightarrow> valid_utf8 s"
  by (induction d) (auto simp: valid_ascii_Cons)

lemma json_object_valid:
  "valid_utf8 (json_text False (PyDict d)) \<Longrightarrow> (k, PyStr s) \<in> set d \<Longrightarrow> valid_utf8 s"
  using json_items_valid by (simp add: valid_joined valid_ascii_Cons valid_ascii_end)

end
