(* ===== verification/Database.thy ===== *)
theory Database
  imports LatestWins Metrics Correlation JsonRoundTrip
begin

text \<open>
  The state that the service works on and the session of \<open>src/db/session.py\<close>. The database is
  the five tables of \<open>src/db/models.py\<close>; the world adds what the process keeps: telemetry, the
  accumulators, the correlation id, the DLQ file and the broker's committed messages. What is
  outside the code (clock, uuids, PostgreSQL's conversion to \<open>numeric(18, 2)\<close> and its row
  order, the rounding of floats, faults of the database, the file system and the broker) is the
  record \<open>platform\<close>.
\<close>

section \<open>The remaining rows of models.py\<close>

record admin_audit_log =
  aa_audit_id :: int
  aa_actor_id :: "string option"
  aa_actor_roles :: "string option"
  aa_action :: string
  aa_resource_type :: string
  aa_resource_id :: "string option"
  aa_result :: string
  aa_status_code :: int
  aa_ip :: "string option"
  aa_user_agent :: "string option"
  aa_request_method :: string
  aa_request_path :: string
  aa_request_query :: "string option"
  aa_requested_at :: instant
  aa_duration_ms :: "int option"
  aa_result_count :: "int option"

record consumer_dlq_event =
  dq_dlq_id :: int
  dq_topic :: string
  dq_partition :: "int option"
  dq_offset :: "int option"
  dq_key :: "string option"
  dq_payload :: "string option"
  dq_error :: string
  dq_correlation_id :: "string option"
  dq_ingested_at :: instant

record db =
  ledger_entries :: "ledger_entry list"
  payment_orders :: "payment_order list"
  payment_ledger_pairs :: "payment_pair list"
  admin_audit_logs :: "admin_audit_log list"
  consumer_dlq_events :: "consumer_dlq_event list"
  audit_seq :: int
  dlq_seq :: int

definition empty_db :: db where
  "empty_db = \<lparr>ledger_entries = [], payment_orders = [], payment_ledger_pairs = [],
     admin_audit_logs = [], consumer_dlq_events = [], audit_seq = 0, dlq_seq = 0\<rparr>"

section \<open>The world\<close>

record platform =
  clk :: "nat \<Rightarrow> instant"                               \<comment> \<open>the n-th reading of the clock\<close>
  uuid4 :: "nat \<Rightarrow> string"                              \<comment> \<open>the n-th generated uuid\<close>
  numeric_18_2 :: "decimal \<Rightarrow> decimal option"           \<comment> \<open>stored value, \<open>None\<close> out of range\<close>
  scan_order :: "ledger_entry list \<Rightarrow> ledger_entry list"  \<comment> \<open>rows of a query without ORDER BY\<close>
  float_repr :: "string \<Rightarrow> string"                     \<comment> \<open>\<open>repr(float(text))\<close> of the text of a number\<close>
  exc_text :: "py_error \<Rightarrow> string"                     \<comment> \<open>\<open>str(exc)\<close>\<close>
  monotonic :: "nat \<Rightarrow> int"                           \<comment> \<open>the n-th \<open>time.monotonic()\<close> or \<open>perf_counter()\<close>, microseconds\<close>
  db_fault :: "nat \<Rightarrow> bool"                             \<comment> \<open>the n-th statement or commit fails\<close>
  file_fault :: "nat \<Rightarrow> bool"                           \<comment> \<open>the n-th append to the DLQ file fails\<close>
  ack_fault :: "nat \<Rightarrow> bool"                            \<comment> \<open>the n-th commit of a message fails\<close>

record world =
  w_db :: db
  w_ticks :: nat
  w_uuids :: nat
  w_monos :: nat
  w_db_calls :: nat
  w_file_calls :: nat
  w_ack_calls :: nat
  w_telemetry :: telemetry
  w_tracker :: freshness_tracker
  w_counter :: version_missing_counter
  w_pairing :: pairing_metrics
  w_correlation :: string
  w_dlq_file :: "string list"
  w_acked :: "(string \<times> int \<times> int) list"

type_synonym 'a action = "(world, py_error, 'a) prog"

text \<open>A process that has just started on a database.\<close>

definition start_world :: "db \<Rightarrow> world" where
  "start_world d =
     \<lparr>w_db = d, w_ticks = 0, w_uuids = 0, w_monos = 0, w_db_calls = 0, w_file_calls = 0, w_ack_calls = 0,
      w_telemetry = \<lparr>emitted = [], kafka_lag_values = [], freshness_values = []\<rparr>,
      w_tracker = [], w_counter = new_version_counter, w_pairing = new_pairing_metrics,
      w_correlation = ''-'', w_dlq_file = [], w_acked = []\<rparr>"

definition read_clock :: "platform \<Rightarrow> instant action" where
  "read_clock p w = (Inr (clk p (w_ticks w)), w\<lparr>w_ticks := Suc (w_ticks w)\<rparr>)"

definition read_monotonic :: "platform \<Rightarrow> int action" where
  "read_monotonic p w = (Inr (monotonic p (w_monos w)), w\<lparr>w_monos := Suc (w_monos w)\<rparr>)"

definition measure_with :: "(telemetry \<Rightarrow> telemetry) \<Rightarrow> unit action" where
  "measure_with f = pmodify (\<lambda>w. w\<lparr>w_telemetry := f (w_telemetry w)\<rparr>)"

section \<open>Statements\<close>

definition db_call :: "platform \<Rightarrow> unit action" where
  "db_call p w =
     (if db_fault p (w_db_calls w) then Inl DatabaseError else Inr (),
      w\<lparr>w_db_calls := Suc (w_db_calls w)\<rparr>)"

definition db_query :: "platform \<Rightarrow> (db \<Rightarrow> 'a result) \<Rightarrow> 'a action" where
  "db_query p f = pbind (db_call p) (\<lambda>_ w. (f (w_db w), w))"

definition db_execute :: "platform \<Rightarrow> (db \<Rightarrow> db result) \<Rightarrow> unit action" where
  "db_execute p f = pbind (db_call p)
     (\<lambda>_ w. case f (w_db w) of
              Inl e \<Rightarrow> (Inl e, w)
            | Inr d \<Rightarrow> (Inr (), w\<lparr>w_db := d\<rparr>))"

text \<open>\<open>scalar_one_or_none()\<close>: more than one row is an error.\<close>

fun scalar_one_or_none :: "'r list \<Rightarrow> 'r option result" where
  "scalar_one_or_none [] = Inr None"
| "scalar_one_or_none [r] = Inr (Some r)"
| "scalar_one_or_none (r # s # rs) = Inl DatabaseError"

text \<open>
  What PostgreSQL and its driver accept: a \<open>bigint\<close> has 64 bits, a \<open>text\<close> can be encoded and has
  no zero byte, and a number is rounded to the column's scale or refused.
\<close>

definition fits_bigint :: "int \<Rightarrow> bool" where
  "fits_bigint i = (- (2 ^ 63) \<le> i \<and> i < 2 ^ 63)"

definition sql_text_ok :: "string \<Rightarrow> bool" where
  "sql_text_ok s = (list_all (\<lambda>c. c \<noteq> CHR 0x00) s \<and> valid_utf8 s)"

definition sql_check :: "bool \<Rightarrow> unit result" where
  "sql_check b = raise_if (\<not> b) DatabaseError"

definition store_numeric :: "platform \<Rightarrow> decimal \<Rightarrow> decimal result" where
  "store_numeric p d = require_some DatabaseError (numeric_18_2 p d)"

definition store_numeric_opt :: "platform \<Rightarrow> decimal option \<Rightarrow> decimal option result" where
  "store_numeric_opt p x =
     (case x of None \<Rightarrow> Inr None | Some d \<Rightarrow> rbind (store_numeric p d) (\<lambda>d'. Inr (Some d')))"

definition store_ledger :: "platform \<Rightarrow> ledger_entry \<Rightarrow> ledger_entry result" where
  "store_ledger p v =
     rbind (sql_check (sql_text_ok (le_tx_id v) \<and> sql_text_ok (le_wallet_id v)
              \<and> sql_text_ok (le_entry_type v) \<and> opt_all sql_text_ok (le_related_id v)
              \<and> opt_all sql_text_ok (le_related_type v)
              \<and> opt_all fits_bigint (le_source_version v))) (\<lambda>_.
     rbind (store_numeric p (le_amount v)) (\<lambda>amount.
     rbind (store_numeric_opt p (le_amount_signed v)) (\<lambda>amount_signed.
       Inr (v\<lparr>le_amount := amount, le_amount_signed := amount_signed\<rparr>))))"

definition store_order :: "platform \<Rightarrow> payment_order \<Rightarrow> payment_order result" where
  "store_order p v =
     rbind (sql_check (sql_text_ok (po_order_id v) \<and> opt_all sql_text_ok (po_user_id v)
              \<and> opt_all sql_text_ok (po_merchant_name v) \<and> sql_text_ok (po_status v)
              \<and> opt_all fits_bigint (po_source_version v))) (\<lambda>_.
     rbind (store_numeric p (po_amount v)) (\<lambda>amount. Inr (v\<lparr>po_amount := amount\<rparr>)))"

definition store_pair :: "platform \<Rightarrow> payment_pair \<Rightarrow> payment_pair result" where
  "store_pair p v =
     rbind (sql_check (sql_text_ok (pp_payment_order_id v) \<and> opt_all sql_text_ok (pp_payment_tx_id v)
              \<and> opt_all sql_text_ok (pp_receive_tx_id v)
              \<and> opt_all sql_text_ok (pp_payer_wallet_id v)
              \<and> opt_all sql_text_ok (pp_payee_wallet_id v)
              \<and> opt_all sql_text_ok (pp_status v))) (\<lambda>_.
     rbind (store_numeric_opt p (pp_amount v)) (\<lambda>amount. Inr (v\<lparr>pp_amount := amount\<rparr>)))"

section \<open>session_scope\<close>

text \<open>Rolling back restores the tables; the sequences behind identity columns do not go back.\<close>

definition rollback :: "db \<Rightarrow> db \<Rightarrow> db" where
  "rollback before now = before\<lparr>audit_seq := audit_seq now, dlq_seq := dlq_seq now\<rparr>"

definition session_scope :: "platform \<Rightarrow> 'a action \<Rightarrow> 'a action" where
  "session_scope p body w =
     (case pbind body (\<lambda>x. pbind (db_call p) (\<lambda>_. preturn x)) w of
        (Inr x, w') \<Rightarrow> (Inr x, w')
      | (Inl e, w') \<Rightarrow> (Inl e, w'\<lparr>w_db := rollback (w_db w) (w_db w')\<rparr>))"

section \<open>correlation_context\<close>

definition correlation_context :: "platform \<Rightarrow> string option \<Rightarrow> 'a action \<Rightarrow> 'a action" where
  "correlation_context p value_opt body w =
     (let cid = correlation_or_fresh value_opt (uuid4 p (w_uuids w));
          n = (case Option.bind value_opt stripped_or_none of
                 None \<Rightarrow> Suc (w_uuids w) | Some _ \<Rightarrow> w_uuids w)
      in case body (w\<lparr>w_correlation := cid, w_uuids := n\<rparr>) of
           (r, w') \<Rightarrow> (r, w'\<lparr>w_correlation := w_correlation w\<rparr>))"

section \<open>Runs\<close>

lemma pbind_run:
  "pbind m f w = (case m w of (Inl e, w') \<Rightarrow> (Inl e, w') | (Inr x, w') \<Rightarrow> f x w')"
  by (simp add: pbind_def)

lemma read_clock_run [simp]:
  "pbind (read_clock p) f w = f (clk p (w_ticks w)) (w\<lparr>w_ticks := Suc (w_ticks w)\<rparr>)"
  by (simp add: pbind_def read_clock_def)

lemma measure_run [simp]:
  "pbind (measure_with g) f w = f () (w\<lparr>w_telemetry := g (w_telemetry w)\<rparr>)"
  by (simp add: measure_with_def)

lemma db_call_run:
  "pbind (db_call p) f w =
     (if db_fault p (w_db_calls w) then (Inl DatabaseError, w\<lparr>w_db_calls := Suc (w_db_calls w)\<rparr>)
      else f () (w\<lparr>w_db_calls := Suc (w_db_calls w)\<rparr>))"
  by (simp add: pbind_def db_call_def)

lemma db_query_run:
  "pbind (db_query p g) f w =
     (if db_fault p (w_db_calls w) then (Inl DatabaseError, w\<lparr>w_db_calls := Suc (w_db_calls w)\<rparr>)
      else (case g (w_db w) of
              Inl e \<Rightarrow> (Inl e, w\<lparr>w_db_calls := Suc (w_db_calls w)\<rparr>)
            | Inr x \<Rightarrow> f x (w\<lparr>w_db_calls := Suc (w_db_calls w)\<rparr>)))"
  by (simp add: db_query_def db_call_def pbind_def split: sum.splits)

lemma db_execute_run:
  "db_execute p g w =
     (if db_fault p (w_db_calls w) then (Inl DatabaseError, w\<lparr>w_db_calls := Suc (w_db_calls w)\<rparr>)
      else (case g (w_db w) of
              Inl e \<Rightarrow> (Inl e, w\<lparr>w_db_calls := Suc (w_db_calls w)\<rparr>)
            | Inr d \<Rightarrow> (Inr (), w\<lparr>w_db_calls := Suc (w_db_calls w), w_db := d\<rparr>)))"
  by (simp add: db_execute_def db_call_run split: sum.splits)

text \<open>
  A session ends in one of two ways: with the value and the state of its body, one commit
  later, or with an exception and the tables as they were.
\<close>

definition same_tables :: "db \<Rightarrow> db \<Rightarrow> bool" where
  "same_tables d e \<longleftrightarrow>
     ledger_entries d = ledger_entries e \<and> payment_orders d = payment_orders e
     \<and> payment_ledger_pairs d = payment_ledger_pairs e
     \<and> admin_audit_logs d = admin_audit_logs e \<and> consumer_dlq_events d = consumer_dlq_events e"

lemma same_tables_refl [simp]: "same_tables d d"
  by (simp add: same_tables_def)

lemma same_tables_rollback [simp]: "same_tables (rollback d e) d"
  by (simp add: same_tables_def rollback_def)

lemma session_scope_cases:
  assumes "session_scope p body w = (res, w')"
  obtains (committed) x v where "res = Inr x" "body w = (Inr x, v)"
      "w' = v\<lparr>w_db_calls := Suc (w_db_calls v)\<rparr>"
    | (rolled_back) e b v n where "res = Inl e" "body w = (b, v)"
      "w' = v\<lparr>w_db_calls := n, w_db := rollback (w_db w) (w_db v)\<rparr>"
proof -
  obtain b v where bv: "body w = (b, v)" by force
  show thesis
  proof (cases b)
    case (Inl e)
    with assms bv show thesis
      by (intro rolled_back [of e b v "w_db_calls v"]) (auto simp: session_scope_def pbind_def)
  next
    case (Inr x)
    show thesis
    proof (cases "db_fault p (w_db_calls v)")
      case True
      with assms bv Inr show thesis
        by (intro rolled_back [of DatabaseError b v "Suc (w_db_calls v)"])
          (auto simp: session_scope_def pbind_def db_call_def)
    next
      case False
      with assms bv Inr show thesis
        by (intro committed [of x v]) (auto simp: session_scope_def pbind_def db_call_def)
    qed
  qed
qed

lemma session_scope_error_tables:
  assumes "session_scope p body w = (Inl e, w')"
  shows "same_tables (w_db w') (w_db w)"
  using assms by (cases rule: session_scope_cases) simp_all

text \<open>The body runs under its own id, and afterwards the variable is as it was.\<close>

lemma correlation_context_run:
  assumes "correlation_context p v body w = (r, w')"
  obtains n u where
    "body (w\<lparr>w_correlation := correlation_or_fresh v (uuid4 p (w_uuids w)), w_uuids := n\<rparr>) = (r, u)"
    "w' = u\<lparr>w_correlation := w_correlation w\<rparr>"
  using assms by (auto simp: correlation_context_def Let_def split: prod.splits)

end
