(* ===== verification/Pairing.thy ===== *)
theory Pairing
  imports Database
begin

text \<open>
  \<open>src/consumer/pairing.py\<close>: the payment pair of an order computed from the ledger entries
  that name it, and its upsert, which never replaces a complete pair by an incomplete one.
\<close>

record ledger_snapshot =
  ls_tx_id :: string
  ls_wallet_id :: string
  ls_entry_type :: string
  ls_amount :: decimal
  ls_event_time :: instant

record order_snapshot =
  os_order_id :: string
  os_amount :: decimal
  os_status :: string

record pairing_snapshot =
  ps_payment_order_id :: string
  ps_payment_tx_id :: "string option"
  ps_receive_tx_id :: "string option"
  ps_payer_wallet_id :: "string option"
  ps_payee_wallet_id :: "string option"
  ps_amount :: "decimal option"
  ps_status :: "string option"
  ps_event_time :: "instant option"
  ps_complete :: bool
  ps_incomplete_age :: "int option"
  ps_skipped :: bool

definition as_snapshot :: "ledger_entry \<Rightarrow> ledger_snapshot" where
  "as_snapshot e =
     \<lparr>ls_tx_id = le_tx_id e, ls_wallet_id = le_wallet_id e, ls_entry_type = le_entry_type e,
      ls_amount = le_amount e, ls_event_time = le_event_time e\<rparr>"

text \<open>The loop for the newest event time.\<close>

definition newest_event_time :: "ledger_snapshot list \<Rightarrow> instant option" where
  "newest_event_time entries =
     foldl (\<lambda>t e. case t of
              None \<Rightarrow> Some (ls_event_time e)
            | Some u \<Rightarrow> if u < ls_event_time e then Some (ls_event_time e) else Some u) None entries"

definition compute_pairing ::
  "string \<Rightarrow> ledger_snapshot list \<Rightarrow> order_snapshot option \<Rightarrow> instant \<Rightarrow> pairing_snapshot" where
  "compute_pairing payment_order_id entries payment_order now =
     (let payment_entry = find (\<lambda>e. ls_entry_type e = ''PAYMENT'') entries;
          receive_entry = find (\<lambda>e. ls_entry_type e = ''RECEIVE'') entries;
          complete = (payment_entry \<noteq> None \<and> receive_entry \<noteq> None);
          event_time = newest_event_time entries;
          incomplete_age =
            (if complete then None else map_option (\<lambda>t. max 0 (elapsed now t)) event_time);
          amount =
            (case payment_order of
               Some po \<Rightarrow> Some (os_amount po)
             | None \<Rightarrow>
                 (case payment_entry of
                    Some e \<Rightarrow> Some (ls_amount e)
                  | None \<Rightarrow> map_option ls_amount receive_entry));
          status = map_option os_status payment_order
      in \<lparr>ps_payment_order_id = payment_order_id,
          ps_payment_tx_id = map_option ls_tx_id payment_entry,
          ps_receive_tx_id = map_option ls_tx_id receive_entry,
          ps_payer_wallet_id = map_option ls_wallet_id payment_entry,
          ps_payee_wallet_id = map_option ls_wallet_id receive_entry,
          ps_amount = amount,
          ps_status = status,
          ps_event_time = event_time,
          ps_complete = complete,
          ps_incomplete_age = incomplete_age,
          ps_skipped = False\<rparr>)"

definition should_update_pair :: "bool \<Rightarrow> bool \<Rightarrow> bool" where
  "should_update_pair existing_complete new_complete =
     (if existing_complete \<and> \<not> new_complete then False else True)"

definition order_as_snapshot :: "payment_order \<Rightarrow> order_snapshot" where
  "order_as_snapshot o' =
     \<lparr>os_order_id = po_order_id o', os_amount = po_amount o', os_status = po_status o'\<rparr>"

definition pair_complete :: "payment_pair \<Rightarrow> bool" where
  "pair_complete r = (pp_payment_tx_id r \<noteq> None \<and> pp_receive_tx_id r \<noteq> None)"

definition pair_of_snapshot :: "pairing_snapshot \<Rightarrow> instant \<Rightarrow> payment_pair" where
  "pair_of_snapshot s ingested_at =
     \<lparr>pp_payment_order_id = ps_payment_order_id s,
      pp_payment_tx_id = ps_payment_tx_id s,
      pp_receive_tx_id = ps_receive_tx_id s,
      pp_payer_wallet_id = ps_payer_wallet_id s,
      pp_payee_wallet_id = ps_payee_wallet_id s,
      pp_amount = ps_amount s,
      pp_status = ps_status s,
      pp_event_time = ps_event_time s,
      pp_updated_at = ingested_at,
      pp_ingested_at = ingested_at\<rparr>"

definition execute_pair_upsert :: "platform \<Rightarrow> payment_pair \<Rightarrow> unit action" where
  "execute_pair_upsert p v =
     db_execute p (\<lambda>d. rbind (store_pair p v) (\<lambda>r.
       Inr (d\<lparr>payment_ledger_pairs := pair_upsert r (payment_ledger_pairs d)\<rparr>)))"

definition update_pairing_for_related_id :: "platform \<Rightarrow> string \<Rightarrow> pairing_snapshot option action" where
  "update_pairing_for_related_id p related_id =
     pbind (db_query p (\<lambda>d. Inr (scan_order p
              (filter (\<lambda>e. le_related_id e = Some related_id) (ledger_entries d))))) (\<lambda>entries.
     if entries = [] then preturn None
     else
       pbind (db_query p (\<lambda>d. scalar_one_or_none
                (filter (\<lambda>r. po_order_id r = related_id) (payment_orders d)))) (\<lambda>payment_order.
       pbind (read_clock p) (\<lambda>now.
       (let snapshot = compute_pairing related_id (map as_snapshot entries)
                         (map_option order_as_snapshot payment_order) now
        in
        pbind (db_query p (\<lambda>d. scalar_one_or_none
                 (filter (\<lambda>r. pp_payment_order_id r = related_id) (payment_ledger_pairs d))))
          (\<lambda>existing_pair.
        if \<not> should_update_pair (opt_all pair_complete existing_pair \<and> existing_pair \<noteq> None)
               (ps_complete snapshot)
        then preturn (Some (snapshot\<lparr>ps_skipped := True\<rparr>))
        else
          pbind (read_clock p) (\<lambda>ingested_at.
          pbind (execute_pair_upsert p (pair_of_snapshot snapshot ingested_at)) (\<lambda>_.
          preturn (Some snapshot))))))))"

section \<open>compute_pairing\<close>

lemma newest_event_time_snoc:
  "newest_event_time (es @ [e]) =
     Some (case newest_event_time es of None \<Rightarrow> ls_event_time e | Some u \<Rightarrow> max u (ls_event_time e))"
  by (auto simp: newest_event_time_def max_def not_less split: option.splits)

lemma newest_event_time_None: "newest_event_time es = None \<longleftrightarrow> es = []"
  by (cases es rule: rev_cases) (simp_all add: newest_event_time_snoc, simp add: newest_event_time_def)

lemma newest_event_time_Max:
  "es \<noteq> [] \<Longrightarrow> newest_event_time es = Some (Max (ls_event_time ` set es))"
proof (induction es rule: rev_induct)
  case (snoc e es)
  show ?case
  proof (cases "es = []")
    case True
    then show ?thesis by (simp add: newest_event_time_def)
  next
    case False
    with snoc.IH show ?thesis
      by (simp add: newest_event_time_snoc max.commute)
  qed
qed simp

lemma newest_event_time_set:
  "set es = set fs \<Longrightarrow> newest_event_time es = newest_event_time fs"
  by (cases "es = []"; cases "fs = []") (simp_all add: newest_event_time_Max)

lemma compute_pairing_complete:
  "ps_complete (compute_pairing oid es po now) \<longleftrightarrow>
     (\<exists>e\<in>set es. ls_entry_type e = ''PAYMENT'') \<and> (\<exists>e\<in>set es. ls_entry_type e = ''RECEIVE'')"
  by (simp add: compute_pairing_def Let_def find_found)

lemma compute_pairing_complete_ids:
  "ps_complete (compute_pairing oid es po now) \<longleftrightarrow>
     ps_payment_tx_id (compute_pairing oid es po now) \<noteq> None
     \<and> ps_receive_tx_id (compute_pairing oid es po now) \<noteq> None"
  by (simp add: compute_pairing_def Let_def)

lemma compute_pairing_order_id [simp]:
  "ps_payment_order_id (compute_pairing oid es po now) = oid"
  by (simp add: compute_pairing_def Let_def)

lemma compute_pairing_payment_source:
  "ps_payment_tx_id (compute_pairing oid es po now) = Some t \<Longrightarrow>
     \<exists>e\<in>set es. ls_entry_type e = ''PAYMENT'' \<and> ls_tx_id e = t
        \<and> ps_payer_wallet_id (compute_pairing oid es po now) = Some (ls_wallet_id e)"
  by (auto simp: compute_pairing_def Let_def dest: find_Some_in)

lemma compute_pairing_receive_source:
  "ps_receive_tx_id (compute_pairing oid es po now) = Some t \<Longrightarrow>
     \<exists>e\<in>set es. ls_entry_type e = ''RECEIVE'' \<and> ls_tx_id e = t
        \<and> ps_payee_wallet_id (compute_pairing oid es po now) = Some (ls_wallet_id e)"
  by (auto simp: compute_pairing_def Let_def dest: find_Some_in)

lemma compute_pairing_order_free:
  assumes same: "set es = set fs"
    and one: "\<And>e f. e \<in> set es \<Longrightarrow> f \<in> set es \<Longrightarrow> ls_entry_type e = ls_entry_type f \<Longrightarrow>
                ls_entry_type e \<in> {''PAYMENT'', ''RECEIVE''} \<Longrightarrow> e = f"
  shows "compute_pairing oid es po now = compute_pairing oid fs po now"
proof -
  have "find (\<lambda>e. ls_entry_type e = ''PAYMENT'') es = find (\<lambda>e. ls_entry_type e = ''PAYMENT'') fs"
    by (rule find_perm_unique [OF same]) (use one in auto)
  moreover have "find (\<lambda>e. ls_entry_type e = ''RECEIVE'') es = find (\<lambda>e. ls_entry_type e = ''RECEIVE'') fs"
    by (rule find_perm_unique [OF same]) (use one in auto)
  ultimately show ?thesis
    by (simp add: compute_pairing_def Let_def newest_event_time_set [OF same])
qed

end
