(* ===== verification/Processor.thy ===== *)
theory Processor
  imports Pairing Config
begin

text \<open>
  \<open>src/consumer/processor.py\<close>: writing one event, and the invariants of the database that all
  its writers keep. \<open>db_step\<close> is the abstract machine of the consumer's tables: one accepted
  statement. The operations are shown to be sequences of such steps, so that a property of the
  tables is proved once, by induction on the steps.
\<close>

section \<open>Operations\<close>

definition row_of_ledger_event :: "ledger_event \<Rightarrow> instant \<Rightarrow> ledger_entry" where
  "row_of_ledger_event ev ingested_at =
     \<lparr>le_tx_id = ev_tx_id ev, le_wallet_id = ev_wallet_id ev, le_entry_type = ev_entry_type ev,
      le_amount = ev_amount ev, le_amount_signed = ev_amount_signed ev,
      le_related_id = ev_related_id ev, le_related_type = ev_related_type ev,
      le_event_time = ev_event_time ev, le_created_at = ev_created_at ev,
      le_updated_at = ev_updated_at ev, le_source_version = ev_source_version ev,
      le_ingested_at = ingested_at\<rparr>"

definition row_of_order_event :: "order_event \<Rightarrow> instant \<Rightarrow> payment_order" where
  "row_of_order_event ev ingested_at =
     \<lparr>po_order_id = oe_order_id ev, po_user_id = oe_user_id ev,
      po_merchant_name = oe_merchant_name ev, po_amount = oe_amount ev,
      po_status = oe_status ev, po_created_at = oe_created_at ev,
      po_updated_at = oe_updated_at ev, po_source_version = oe_source_version ev,
      po_ingested_at = ingested_at\<rparr>"

definition execute_ledger_upsert :: "platform \<Rightarrow> ledger_entry \<Rightarrow> unit action" where
  "execute_ledger_upsert p v =
     db_execute p (\<lambda>d. rbind (store_ledger p v) (\<lambda>r.
       Inr (d\<lparr>ledger_entries := ledger_upsert r (ledger_entries d)\<rparr>)))"

definition execute_order_upsert :: "platform \<Rightarrow> payment_order \<Rightarrow> unit action" where
  "execute_order_upsert p v =
     db_execute p (\<lambda>d. rbind (store_order p v) (\<lambda>r.
       Inr (d\<lparr>payment_orders := order_upsert r (payment_orders d)\<rparr>)))"

definition ingested_now :: "platform \<Rightarrow> instant action" where
  "ingested_now = read_clock"

definition is_payment_order_type :: "string option \<Rightarrow> bool" where
  "is_payment_order_type t = (t = None \<or> t = Some ''PAYMENT_ORDER'')"

definition upsert_ledger_entry ::
  "platform \<Rightarrow> ledger_event \<Rightarrow> (bool \<times> pairing_snapshot option) action" where
  "upsert_ledger_entry p event =
     pbind (ingested_now p) (\<lambda>ingested_at.
     pbind (execute_ledger_upsert p (row_of_ledger_event event ingested_at)) (\<lambda>_.
     (let missing_version = (ev_updated_at event = None \<and> ev_source_version event = None)
      in
      if truthy (ev_related_id event) \<and> is_payment_order_type (ev_related_type event) then
        pbind (update_pairing_for_related_id p (the (ev_related_id event)))
          (\<lambda>snapshot. preturn (missing_version, snapshot))
      else if truthy (ev_related_id event) then
        pbind (measure_with (emit (PairingSkippedTotal
                 (case ev_related_type event of None \<Rightarrow> [] | Some t \<Rightarrow> t))))
          (\<lambda>_. preturn (missing_version, None))
      else preturn (missing_version, None))))"

definition upsert_payment_order :: "platform \<Rightarrow> order_event \<Rightarrow> bool action" where
  "upsert_payment_order p event =
     pbind (ingested_now p) (\<lambda>ingested_at.
     pbind (execute_order_upsert p (row_of_order_event event ingested_at)) (\<lambda>_.
     preturn (oe_updated_at event = None \<and> oe_source_version event = None)))"

definition upsert_payment_pair ::
  "platform \<Rightarrow> string \<Rightarrow> string option \<Rightarrow> string option \<Rightarrow> string option \<Rightarrow> string option
     \<Rightarrow> decimal option \<Rightarrow> string option \<Rightarrow> instant option \<Rightarrow> unit action" where
  "upsert_payment_pair p payment_order_id payment_tx_id receive_tx_id payer_wallet_id
     payee_wallet_id amount status event_time =
     pbind (ingested_now p) (\<lambda>ingested_at.
       execute_pair_upsert p
         \<lparr>pp_payment_order_id = payment_order_id, pp_payment_tx_id = payment_tx_id,
          pp_receive_tx_id = receive_tx_id, pp_payer_wallet_id = payer_wallet_id,
          pp_payee_wallet_id = payee_wallet_id, pp_amount = amount, pp_status = status,
          pp_event_time = event_time, pp_updated_at = ingested_at, pp_ingested_at = ingested_at\<rparr>)"

section \<open>Steps of the tables\<close>

definition entries_of :: "string \<Rightarrow> db \<Rightarrow> ledger_entry list" where
  "entries_of k d = filter (\<lambda>e. le_related_id e = Some k) (ledger_entries d)"

definition order_of :: "string \<Rightarrow> db \<Rightarrow> payment_order option" where
  "order_of k d = row_of po_order_id k (payment_orders d)"

definition pair_of :: "string \<Rightarrow> db \<Rightarrow> payment_pair option" where
  "pair_of k d = row_of pp_payment_order_id k (payment_ledger_pairs d)"

definition entry_of :: "string \<Rightarrow> db \<Rightarrow> ledger_entry option" where
  "entry_of t d = row_of le_tx_id t (ledger_entries d)"

text \<open>The snapshot the pairing computes on a database, the rows in the order PostgreSQL gives them.\<close>

definition pairing_on :: "platform \<Rightarrow> string \<Rightarrow> db \<Rightarrow> instant \<Rightarrow> pairing_snapshot" where
  "pairing_on p k d now =
     compute_pairing k (map as_snapshot (scan_order p (entries_of k d)))
       (map_option order_as_snapshot (order_of k d)) now"

inductive db_step :: "platform \<Rightarrow> db \<Rightarrow> db \<Rightarrow> bool" for p :: platform where
  ledger_step:
    "store_ledger p v = Inr r \<Longrightarrow>
       db_step p d (d\<lparr>ledger_entries := ledger_upsert r (ledger_entries d)\<rparr>)"
| order_step:
    "store_order p v = Inr r \<Longrightarrow>
       db_step p d (d\<lparr>payment_orders := order_upsert r (payment_orders d)\<rparr>)"
| pair_step:
    "s = pairing_on p k d now \<Longrightarrow>
       should_update_pair (\<exists>x. pair_of k d = Some x \<and> pair_complete x) (ps_complete s) \<Longrightarrow>
       store_pair p (pair_of_snapshot s t) = Inr r \<Longrightarrow>
       db_step p d (d\<lparr>payment_ledger_pairs := pair_upsert r (payment_ledger_pairs d)\<rparr>)"
| other_step:
    "ledger_entries d' = ledger_entries d \<Longrightarrow> payment_orders d' = payment_orders d \<Longrightarrow>
       payment_ledger_pairs d' = payment_ledger_pairs d \<Longrightarrow> db_step p d d'"

inductive_cases db_stepE: "db_step p d d'"

definition db_steps :: "platform \<Rightarrow> db \<Rightarrow> db \<Rightarrow> bool" where
  "db_steps p = (db_step p)\<^sup>*\<^sup>*"

lemma db_steps_refl [intro!, simp]: "db_steps p d d"
  by (simp add: db_steps_def)

lemma db_steps_trans: "db_steps p d e \<Longrightarrow> db_steps p e f \<Longrightarrow> db_steps p d f"
  unfolding db_steps_def by (rule rtranclp_trans)

lemma db_step_steps: "db_step p d e \<Longrightarrow> db_steps p d e"
  unfolding db_steps_def by blast

section \<open>Primary keys\<close>

definition db_ok :: "db \<Rightarrow> bool" where
  "db_ok d \<longleftrightarrow>
     distinct (map le_tx_id (ledger_entries d)) \<and> distinct (map po_order_id (payment_orders d))
     \<and> distinct (map pp_payment_order_id (payment_ledger_pairs d))"

lemma db_ok_empty [simp]: "db_ok empty_db"
  by (simp add: db_ok_def empty_db_def)

lemma db_step_ok: "db_step p d d' \<Longrightarrow> db_ok d \<Longrightarrow> db_ok d'"
  by (cases rule: db_step.cases)
    (auto simp: db_ok_def intro: ledger_store.upsert_distinct order_store.upsert_distinct
      pair_store.upsert_distinct)

lemma db_steps_induct [consumes 1, case_names refl step]:
  assumes "db_steps p d d'" and "P d"
    and "\<And>e f. db_steps p d e \<Longrightarrow> db_step p e f \<Longrightarrow> P e \<Longrightarrow> P f"
  shows "P d'"
  using assms unfolding db_steps_def by (induction rule: rtranclp_induct) auto

lemma db_steps_ok: "db_steps p d d' \<Longrightarrow> db_ok d \<Longrightarrow> db_ok d'"
  by (induction rule: db_steps_induct) (auto intro: db_step_ok)

lemma scalar_unique:
  "distinct (map key rows) \<Longrightarrow> scalar_one_or_none (filter (\<lambda>r. key r = k) rows) = Inr (row_of key k rows)"
proof (induction rows)
  case (Cons r rows)
  show ?case
  proof (cases "key r = k")
    case True
    with Cons.prems have "filter (\<lambda>r. key r = k) rows = []"
      by (force simp: filter_empty_conv image_iff)
    with True show ?thesis by simp
  next
    case False
    with Cons show ?thesis by simp
  qed
qed simp

section \<open>The operations are sequences of steps\<close>

definition db_rel :: "platform \<Rightarrow> world \<Rightarrow> world \<Rightarrow> bool" where
  "db_rel p w w' \<longleftrightarrow> (db_ok (w_db w) \<longrightarrow> db_steps p (w_db w) (w_db w'))"

interpretation db_action: action_relation "db_rel p" for p
  by unfold_locales (auto simp: db_rel_def intro: db_steps_trans dest: db_steps_ok)

lemma db_rel_same: "w_db w' = w_db w \<Longrightarrow> db_rel p w w'"
  by (simp add: db_rel_def)

lemma db_rel_step: "(db_ok (w_db w) \<Longrightarrow> db_step p (w_db w) (w_db w')) \<Longrightarrow> db_rel p w w'"
  by (simp add: db_rel_def db_step_steps)

lemma obeys_read_clock: "obeys (db_rel p) (read_clock q)"
  by (simp add: obeys_def read_clock_def db_rel_same)

lemma obeys_measure: "obeys (db_rel p) (measure_with f)"
  by (simp add: obeys_def measure_with_def db_rel_same)

lemma obeys_query: "obeys (db_rel p) (db_query q g)"
  using db_query_run [of q g preturn]
  by (auto simp: obeys_def db_query_def pbind_def db_call_def db_rel_same split: sum.splits)

lemma obeys_execute:
  assumes "\<And>d d'. db_ok d \<Longrightarrow> g d = Inr d' \<Longrightarrow> db_step p d d'"
  shows "obeys (db_rel p) (db_execute q g)"
  unfolding obeys_def
  by (auto simp: db_execute_run intro: db_rel_same split: sum.splits)
    (auto intro!: db_rel_step intro: assms)

lemma obeys_ledger_upsert: "obeys (db_rel p) (execute_ledger_upsert p v)"
  unfolding execute_ledger_upsert_def
  by (rule obeys_execute) (auto simp: rbind_eq_Inr intro: ledger_step)

lemma obeys_order_upsert: "obeys (db_rel p) (execute_order_upsert p v)"
  unfolding execute_order_upsert_def
  by (rule obeys_execute) (auto simp: rbind_eq_Inr intro: order_step)

lemma complete_option:
  "opt_all pair_complete x \<and> x \<noteq> None \<longleftrightarrow> (\<exists>y. x = Some y \<and> pair_complete y)"
  by (cases x) auto

text \<open>
  The pairing runs through its reads without changing the tables; if it writes, what it writes
  is the pairing computed on the tables it started from.
\<close>

lemma update_pairing_cases:
  assumes run: "update_pairing_for_related_id p k w = (res, w')" and ok: "db_ok (w_db w)"
  obtains (unchanged) "w_db w' = w_db w"
        "\<forall>s. res = Inr (Some s) \<longrightarrow> ps_skipped s \<and> \<not> ps_complete s"
    | (written) s t r where "s = pairing_on p k (w_db w) (clk p (w_ticks w))"
        "t = clk p (Suc (w_ticks w))"
        "should_update_pair (\<exists>x. pair_of k (w_db w) = Some x \<and> pair_complete x) (ps_complete s)"
        "store_pair p (pair_of_snapshot s t) = Inr r"
        "w_db w' = (w_db w)\<lparr>payment_ledger_pairs := pair_upsert r (payment_ledger_pairs (w_db w))\<rparr>"
        "res = Inr (Some s)" "scan_order p (entries_of k (w_db w)) \<noteq> []"
proof -
  have u: "scalar_one_or_none (filter (\<lambda>r. po_order_id r = k) (payment_orders (w_db w)))
             = Inr (order_of k (w_db w))"
      "scalar_one_or_none (filter (\<lambda>r. pp_payment_order_id r = k) (payment_ledger_pairs (w_db w)))
             = Inr (pair_of k (w_db w))"
    using ok by (simp_all add: scalar_unique db_ok_def order_of_def pair_of_def)
  have "w_db w' = w_db w \<and> (\<forall>s. res = Inr (Some s) \<longrightarrow> ps_skipped s \<and> \<not> ps_complete s) \<or>
        (\<exists>s t r. s = pairing_on p k (w_db w) (clk p (w_ticks w)) \<and> t = clk p (Suc (w_ticks w))
          \<and> should_update_pair (\<exists>x. pair_of k (w_db w) = Some x \<and> pair_complete x) (ps_complete s)
          \<and> store_pair p (pair_of_snapshot s t) = Inr r
          \<and> w_db w' = (w_db w)\<lparr>payment_ledger_pairs := pair_upsert r (payment_ledger_pairs (w_db w))\<rparr>
          \<and> res = Inr (Some s) \<and> scan_order p (entries_of k (w_db w)) \<noteq> [])"
    using run
    unfolding update_pairing_for_related_id_def Let_def complete_option
    by (auto simp: db_query_run u pairing_on_def [symmetric] entries_of_def [symmetric]
        execute_pair_upsert_def pbind_run [of "db_execute p g" for g] db_execute_run rbind_eq_Inr
        should_update_pair_def split: if_splits sum.splits)
  then show thesis using unchanged written by blast
qed

lemma obeys_update_pairing: "obeys (db_rel p) (update_pairing_for_related_id p k)"
proof (rule obeysI)
  fix w r w' assume run: "update_pairing_for_related_id p k w = (r, w')"
  show "db_rel p w w'"
  proof (cases "db_ok (w_db w)")
    case True
    from run True show ?thesis
    proof (cases rule: update_pairing_cases)
      case unchanged
      show ?thesis using unchanged(1) by (rule db_rel_same)
    next
      case (written s t r')
      show ?thesis
        by (rule db_rel_step, unfold written(5), rule pair_step [OF written(1,3,4)])
    qed
  qed (simp add: db_rel_def)
qed

lemmas action_obeys = obeys_read_clock obeys_measure obeys_query obeys_ledger_upsert
  obeys_order_upsert obeys_update_pairing

lemma obeys_upsert_ledger_entry: "obeys (db_rel p) (upsert_ledger_entry p ev)"
  unfolding upsert_ledger_entry_def ingested_now_def Let_def
  by (intro db_action.obeys_intros action_obeys)

lemma obeys_upsert_payment_order: "obeys (db_rel p) (upsert_payment_order p ev)"
  unfolding upsert_payment_order_def ingested_now_def
  by (intro db_action.obeys_intros action_obeys)

section \<open>What the steps keep\<close>

lemma store_ledger_keeps:
  "store_ledger p v = Inr r \<Longrightarrow> le_tx_id r = le_tx_id v \<and> ledger_meta r = ledger_meta v
     \<and> le_wallet_id r = le_wallet_id v \<and> le_entry_type r = le_entry_type v
     \<and> le_related_id r = le_related_id v \<and> le_related_type r = le_related_type v
     \<and> le_event_time r = le_event_time v \<and> le_ingested_at r = le_ingested_at v"
  by (auto simp: store_ledger_def rbind_eq_Inr ledger_meta_def)

lemma store_order_keeps:
  "store_order p v = Inr r \<Longrightarrow> po_order_id r = po_order_id v \<and> order_meta r = order_meta v
     \<and> po_status r = po_status v"
  by (auto simp: store_order_def rbind_eq_Inr order_meta_def)

lemma store_pair_keeps:
  "store_pair p v = Inr r \<Longrightarrow> pp_payment_order_id r = pp_payment_order_id v
     \<and> pp_payment_tx_id r = pp_payment_tx_id v \<and> pp_receive_tx_id r = pp_receive_tx_id v
     \<and> pp_payer_wallet_id r = pp_payer_wallet_id v \<and> pp_payee_wallet_id r = pp_payee_wallet_id v
     \<and> pp_status r = pp_status v \<and> pp_event_time r = pp_event_time v
     \<and> pp_updated_at r = pp_updated_at v"
  by (auto simp: store_pair_def rbind_eq_Inr)

lemma pairing_on_complete:
  "ps_complete (pairing_on p k d now) \<longleftrightarrow>
     ps_payment_tx_id (pairing_on p k d now) \<noteq> None \<and> ps_receive_tx_id (pairing_on p k d now) \<noteq> None"
  unfolding pairing_on_def by (rule compute_pairing_complete_ids)

lemma pairing_on_order_id [simp]: "ps_payment_order_id (pairing_on p k d now) = k"
  by (simp add: pairing_on_def)

text \<open>The stored row of a snapshot, and when it counts as complete.\<close>

lemma stored_snapshot:
  assumes "store_pair p (pair_of_snapshot (pairing_on p k d now) t) = Inr r"
  shows "pp_payment_order_id r = k"
    and "pair_complete r \<longleftrightarrow> ps_complete (pairing_on p k d now)"
    and "pp_payment_tx_id r = ps_payment_tx_id (pairing_on p k d now)"
    and "pp_receive_tx_id r = ps_receive_tx_id (pairing_on p k d now)"
  using store_pair_keeps [OF assms] pairing_on_complete [of p k d now]
  by (simp_all add: pair_of_snapshot_def pair_complete_def)

lemma db_step_pair_complete:
  assumes "db_step p d d'" and "pair_of k d = Some x" and "pair_complete x"
  shows "\<exists>y. pair_of k d' = Some y \<and> pair_complete y"
  using assms(1)
proof (cases rule: db_step.cases)
  case (pair_step s k' now t r)
  note r = stored_snapshot [OF pair_step(4) [unfolded pair_step(2)]]
  show ?thesis
  proof (cases "k = k'")
    case True
    with assms(2,3) pair_step(2,3) r(2) have "pair_complete r"
      by (auto simp: should_update_pair_def split: if_splits)
    with True assms(2,3) r(1) pair_step(1) show ?thesis
      by (auto simp: pair_of_def pair_store.upsert_lookup)
  next
    case False
    with assms(2,3) r(1) pair_step(1) show ?thesis
      by (auto simp: pair_of_def pair_store.upsert_lookup)
  qed
qed (use assms(2,3) in \<open>auto simp: pair_of_def\<close>)

lemma db_steps_pair_complete:
  "db_steps p d d' \<Longrightarrow> \<exists>x. pair_of k d = Some x \<and> pair_complete x \<Longrightarrow>
     \<exists>y. pair_of k d' = Some y \<and> pair_complete y"
  by (induction rule: db_steps_induct) (auto dest: db_step_pair_complete)

lemma db_step_entry: "db_step p d d' \<Longrightarrow> entry_of t d \<noteq> None \<Longrightarrow> entry_of t d' \<noteq> None"
  by (cases rule: db_step.cases) (auto simp: entry_of_def ledger_store.upsert_lookup)

lemma db_steps_entry: "db_steps p d d' \<Longrightarrow> entry_of t d \<noteq> None \<Longrightarrow> entry_of t d' \<noteq> None"
  by (induction rule: db_steps_induct) (auto dest: db_step_entry)

text \<open>Rows are never deleted, and a row with ordering data keeps having some.\<close>

definition has_metadata :: "lww_meta \<Rightarrow> bool" where
  "has_metadata m = (m_updated m \<noteq> None \<or> m_version m \<noteq> None)"

lemma lww_wins_metadata: "lww_wins a b \<Longrightarrow> has_metadata b \<Longrightarrow> has_metadata a"
  by (auto simp: lww_wins_def has_metadata_def split: option.splits)

lemma db_step_metadata:
  assumes "db_step p d d'" and "entry_of t d = Some a" and "has_metadata (ledger_meta a)"
  shows "\<exists>b. entry_of t d' = Some b \<and> has_metadata (ledger_meta b)"
  using assms
  by (cases rule: db_step.cases)
    (auto simp: entry_of_def ledger_store.upsert_lookup ledger_wins_def, metis lww_wins_metadata)

lemma db_steps_metadata:
  "db_steps p d d' \<Longrightarrow> \<exists>a. entry_of t d = Some a \<and> has_metadata (ledger_meta a) \<Longrightarrow>
     \<exists>b. entry_of t d' = Some b \<and> has_metadata (ledger_meta b)"
  by (induction rule: db_steps_induct) (auto dest: db_step_metadata)

text \<open>The transaction ids of a pair are those of stored ledger entries.\<close>

definition scan_sound :: "platform \<Rightarrow> bool" where
  "scan_sound p \<longleftrightarrow> (\<forall>rows. mset (scan_order p rows) = mset rows)"

lemma scan_soundD: "scan_sound p \<Longrightarrow> set (scan_order p rows) = set rows"
  unfolding scan_sound_def by (metis mset_eq_setD)

definition pair_refs :: "db \<Rightarrow> bool" where
  "pair_refs d \<longleftrightarrow>
     (\<forall>r\<in>set (payment_ledger_pairs d).
        opt_all (\<lambda>t. entry_of t d \<noteq> None) (pp_payment_tx_id r)
        \<and> opt_all (\<lambda>t. entry_of t d \<noteq> None) (pp_receive_tx_id r))"

lemma entry_of_in: "e \<in> set (ledger_entries d) \<Longrightarrow> entry_of (le_tx_id e) d \<noteq> None"
  by (simp add: entry_of_def row_of_None)

lemma pairing_on_refs:
  assumes "scan_sound p"
  shows "opt_all (\<lambda>t. entry_of t d \<noteq> None) (ps_payment_tx_id (pairing_on p k d now))"
    and "opt_all (\<lambda>t. entry_of t d \<noteq> None) (ps_receive_tx_id (pairing_on p k d now))"
proof -
  let ?s = "pairing_on p k d now"
  have src: "entry_of (ls_tx_id e) d \<noteq> None"
    if "e \<in> set (map as_snapshot (scan_order p (entries_of k d)))" for e
    using that entry_of_in [of _ d]
    by (auto simp: scan_soundD [OF assms] entries_of_def as_snapshot_def)
  show "opt_all (\<lambda>t. entry_of t d \<noteq> None) (ps_payment_tx_id ?s)"
    by (cases "ps_payment_tx_id ?s")
      (use src in \<open>auto simp: pairing_on_def dest!: compute_pairing_payment_source\<close>)
  show "opt_all (\<lambda>t. entry_of t d \<noteq> None) (ps_receive_tx_id ?s)"
    by (cases "ps_receive_tx_id ?s")
      (use src in \<open>auto simp: pairing_on_def dest!: compute_pairing_receive_source\<close>)
qed

lemma upsert_members: "r \<in> set (pair_upsert v rows) \<Longrightarrow> r = v \<or> r \<in> set rows"
  by (auto simp: pair_upsert_is_replacement replace_or_insert_def split: if_splits)

lemma opt_all_mono: "opt_all P x \<Longrightarrow> (\<And>y. P y \<Longrightarrow> Q y) \<Longrightarrow> opt_all Q x"
  by (cases x) auto

lemma db_step_refs:
  assumes "db_step p d d'" and "scan_sound p" and "pair_refs d"
  shows "pair_refs d'"
proof -
  let ?ok = "\<lambda>d r. opt_all (\<lambda>t. entry_of t d \<noteq> None) (pp_payment_tx_id r)
                 \<and> opt_all (\<lambda>t. entry_of t d \<noteq> None) (pp_receive_tx_id r)"
  have grow: "?ok d r \<Longrightarrow> ?ok d' r" for r
    using db_step_entry [OF assms(1)] by (auto elim!: opt_all_mono)
  have "\<forall>r\<in>set (payment_ledger_pairs d'). ?ok d r"
    using assms(1)
  proof (cases rule: db_step.cases)
    case (pair_step s k now t r)
    have "?ok d r"
      using stored_snapshot(3,4) [OF pair_step(4) [unfolded pair_step(2)]]
        pairing_on_refs [OF assms(2), of d k now] by simp
    then show ?thesis
      using assms(3) pair_step(1) by (auto simp: pair_refs_def dest!: upsert_members)
  qed (use assms(3) in \<open>auto simp: pair_refs_def\<close>)
  then have "\<forall>r\<in>set (payment_ledger_pairs d'). ?ok d' r" using grow by blast
  then show ?thesis unfolding pair_refs_def .
qed

lemma db_steps_refs: "db_steps p d d' \<Longrightarrow> scan_sound p \<Longrightarrow> pair_refs d \<Longrightarrow> pair_refs d'"
  by (induction rule: db_steps_induct) (auto intro: db_step_refs)

end
