(* ===== verification/Dlq.thy ===== *)
theory Dlq
  imports Processor
begin

text \<open>
  \<open>src/consumer/dlq.py\<close>: the dead-letter sink, as table rows or as lines of a file, and the
  deletion of old rows.
\<close>

definition to_text :: "pyval \<Rightarrow> string option" where
  "to_text v =
     (case v of
        PyNone \<Rightarrow> None
      | PyStr s \<Rightarrow> Some s
      | _ \<Rightarrow> Some (case dumps False v of Some t \<Rightarrow> t | None \<Rightarrow> py_str v))"

definition write_dlq_file :: "platform \<Rightarrow> pydict \<Rightarrow> unit action" where
  "write_dlq_file p payload w =
     (let w' = w\<lparr>w_file_calls := Suc (w_file_calls w)\<rparr>
      in if file_fault p (w_file_calls w) then (Inl RuntimeError, w')
         else case dumps False (PyDict payload) of
                None \<Rightarrow> (Inl TypeError, w')
              | Some line \<Rightarrow>
                  if valid_utf8 line then (Inr (), w'\<lparr>w_dlq_file := w_dlq_file w' @ [line]\<rparr>)
                  else (Inl UnicodeEncodeError, w'))"

text \<open>\<open>str(payload.get(key) or "").strip() or "unknown"\<close>\<close>

definition text_or_unknown :: "pyval \<Rightarrow> string" where
  "text_or_unknown v = (let t = text_field v in if t = [] then ''unknown'' else t)"

text \<open>An integer column of the given number of bits takes an integer in range or NULL.\<close>

definition sql_integer :: "nat \<Rightarrow> pyval \<Rightarrow> int option result" where
  "sql_integer bits v =
     (case v of
        PyNone \<Rightarrow> Inr None
      | PyInt i \<Rightarrow> rbind (sql_check (- (2 ^ (bits - 1)) \<le> i \<and> i < 2 ^ (bits - 1))) (\<lambda>_. Inr (Some i))
      | _ \<Rightarrow> Inl DatabaseError)"

definition dlq_row :: "pydict \<Rightarrow> instant \<Rightarrow> int \<Rightarrow> consumer_dlq_event result" where
  "dlq_row payload now dlq_id =
     rbind (sql_integer 32 (dict_get payload ''partition'')) (\<lambda>part.
     rbind (sql_integer 64 (dict_get payload ''offset'')) (\<lambda>off.
     (let row = \<lparr>dq_dlq_id = dlq_id,
                 dq_topic = text_or_unknown (dict_get payload ''topic''),
                 dq_partition = part,
                 dq_offset = off,
                 dq_key = to_text (dict_get payload ''key''),
                 dq_payload = to_text (dict_get payload ''payload''),
                 dq_error = text_or_unknown (dict_get payload ''error''),
                 dq_correlation_id = to_text (dict_get payload ''correlation_id''),
                 dq_ingested_at = now\<rparr>
      in rbind (sql_check (sql_text_ok (dq_topic row) \<and> sql_text_ok (dq_error row)
                  \<and> opt_all sql_text_ok (dq_key row) \<and> opt_all sql_text_ok (dq_payload row)
                  \<and> opt_all sql_text_ok (dq_correlation_id row))) (\<lambda>_. Inr row))))"

definition write_dlq_db :: "platform \<Rightarrow> pydict \<Rightarrow> unit action" where
  "write_dlq_db p payload =
     pbind (read_clock p) (\<lambda>now.
       db_execute p (\<lambda>d. rbind (dlq_row payload now (dlq_seq d + 1)) (\<lambda>row.
         Inr (d\<lparr>consumer_dlq_events := consumer_dlq_events d @ [row], dlq_seq := dlq_seq d + 1\<rparr>))))"

definition minus_days :: "instant \<Rightarrow> int \<Rightarrow> instant result" where
  "minus_days now days =
     (let u = usec now - days * usec_per_day
      in rbind (raise_if (u < 0) OverflowError) (\<lambda>_. Inr (Utc u)))"

definition prune_dlq_db :: "platform \<Rightarrow> int \<Rightarrow> int action" where
  "prune_dlq_db p retention_days =
     (let days = max 0 retention_days
      in if days \<le> 0 then preturn 0
         else
           pbind (read_clock p) (\<lambda>now.
           pbind (plift (minus_days now days)) (\<lambda>cutoff.
           pbind (db_query p (\<lambda>d.
                    Inr (int (length (filter (\<lambda>e. dq_ingested_at e < cutoff) (consumer_dlq_events d))))))
             (\<lambda>rowcount.
           pbind (pmodify (\<lambda>w. w\<lparr>w_db := (w_db w)\<lparr>consumer_dlq_events :=
                    filter (\<lambda>e. \<not> dq_ingested_at e < cutoff) (consumer_dlq_events (w_db w))\<rparr>\<rparr>))
             (\<lambda>_. preturn rowcount)))))"

section \<open>Lemmas\<close>

text \<open>Neither sink touches the tables of the transactions.\<close>

lemma obeys_write_dlq_file: "obeys (db_rel p) (write_dlq_file q payload)"
  by (auto simp: obeys_def write_dlq_file_def Let_def db_rel_same split: option.splits)

lemma obeys_write_dlq_db: "obeys (db_rel p) (write_dlq_db q payload)"
  unfolding write_dlq_db_def
  by (intro db_action.obeys_intros obeys_read_clock obeys_execute)
    (auto simp: rbind_eq_Inr intro!: other_step)

lemma obeys_prune_dlq_db: "obeys (db_rel p) (prune_dlq_db q days)"
  unfolding prune_dlq_db_def Let_def
  by (intro db_action.obeys_intros action_obeys db_action.obeys_modify)
    (auto simp: db_rel_def intro!: db_step_steps other_step)

lemma write_dlq_db_row:
  assumes "write_dlq_db p payload w = (Inr u, w')"
  shows "\<exists>row. dlq_row payload (clk p (w_ticks w)) (dlq_seq (w_db w) + 1) = Inr row
    \<and> consumer_dlq_events (w_db w') = consumer_dlq_events (w_db w) @ [row]"
  using assms
  by (auto simp: write_dlq_db_def db_execute_run rbind_eq_Inr split: if_splits sum.splits)

lemma text_or_unknown_nonempty [simp]: "text_or_unknown v \<noteq> []"
  by (simp add: text_or_unknown_def Let_def)

lemma dlq_row_fields:
  assumes "dlq_row payload now i = Inr row"
  shows "dq_topic row \<noteq> []" and "dq_error row \<noteq> []" and "dq_ingested_at row = now"
    and "dq_error row = text_or_unknown (dict_get payload ''error'')"
    and "dq_payload row = to_text (dict_get payload ''payload'')"
    and "dq_correlation_id row = to_text (dict_get payload ''correlation_id'')"
  using assms by (auto simp: dlq_row_def rbind_eq_Inr Let_def)

lemma prune_dlq_db_keeps:
  assumes "prune_dlq_db p days w = (Inr n, w')" and "0 < days"
  shows "\<exists>cutoff. minus_days (clk p (w_ticks w)) days = Inr cutoff
    \<and> consumer_dlq_events (w_db w') =
        filter (\<lambda>e. cutoff \<le> dq_ingested_at e) (consumer_dlq_events (w_db w))
    \<and> n = int (length (consumer_dlq_events (w_db w))) - int (length (consumer_dlq_events (w_db w')))"
proof -
  let ?d = "w_db w"
  obtain cutoff where c: "minus_days (clk p (w_ticks w)) days = Inr cutoff"
    using assms by (cases "minus_days (clk p (w_ticks w)) days") (auto simp: prune_dlq_db_def)
  let ?old = "\<lambda>e. dq_ingested_at e < cutoff"
  have "consumer_dlq_events (w_db w') = filter (\<lambda>e. \<not> ?old e) (consumer_dlq_events ?d)"
    and "n = int (length (filter ?old (consumer_dlq_events ?d)))"
    using assms c by (auto simp: prune_dlq_db_def db_query_run split: if_splits)
  then show ?thesis
    using c sum_length_filter_compl [of ?old "consumer_dlq_events ?d"] by (auto simp: not_less)
qed

end
