(* ===== verification/Consumer.thy ===== *)
theory Consumer
  imports Dlq
begin

text \<open>
  \<open>src/consumer/main.py\<close>: the Kafka consumer. One message is normalised, parsed and written in
  one database session and then acknowledged; whatever goes wrong on the way sends the message
  to the dead-letter sink and acknowledges it. The broker is the list of what its \<open>poll\<close> calls
  return.
\<close>

section \<open>Runtime and sinks\<close>

record consumer_runtime =
  rt_config :: app_config
  rt_profile :: event_contract_profile

definition build_runtime :: "(string \<times> pyval) list \<Rightarrow> app_config \<Rightarrow> consumer_runtime result" where
  "build_runtime profiles config =
     rbind (load_event_contract_profile profiles (cf_event_profile_id config)
              (cf_effective_ledger_topic config) (cf_effective_payment_order_topic config)) (\<lambda>profile.
     rbind (raise_if (tp_ledger (topics profile) = tp_payment_order (topics profile))
              (ValueError ''effective ledger/payment topics must be distinct'')) (\<lambda>_.
       Inr \<lparr>rt_config = config, rt_profile = profile\<rparr>))"

definition maybe_prune_dlq :: "platform \<Rightarrow> app_config \<Rightarrow> unit action" where
  "maybe_prune_dlq p config =
     (if cf_dlq_backend config \<noteq> ''db'' then preturn ()
      else pcatch
             (pbind (session_scope p (prune_dlq_db p (cf_dlq_retention_days config))) (\<lambda>_. preturn ()))
             (\<lambda>_. preturn ()))"

definition write_dlq_payload :: "platform \<Rightarrow> app_config \<Rightarrow> pydict \<Rightarrow> unit action" where
  "write_dlq_payload p config payload =
     (let to_file = pcatch (write_dlq_file p payload) (\<lambda>_. preturn ())
      in if cf_dlq_backend config = ''db''
         then pcatch (session_scope p (write_dlq_db p payload)) (\<lambda>_. to_file)
         else to_file)"

definition parse_iso_datetime :: "string option \<Rightarrow> instant option result" where
  "parse_iso_datetime v =
     (case v of
        None \<Rightarrow> Inr None
      | Some s \<Rightarrow>
          rbind (require_some (ValueError ''Invalid isoformat string'')
                   (fromisoformat (replace_zulu (strip s)))) (\<lambda>t.
          rbind (require_some OverflowError (to_utc t)) (\<lambda>i. Inr (Some i))))"

definition classify_error :: "py_error \<Rightarrow> string" where
  "classify_error e =
     (case e of
        ContractCoreViolationError _ _ _ _ \<Rightarrow> ''contract_core_violation''
      | UnsupportedTopicError _ _ \<Rightarrow> ''unsupported_topic''
      | JSONDecodeError \<Rightarrow> ''parse_error''
      | EventValidationError _ \<Rightarrow> ''parse_error''
      | _ \<Rightarrow> ''internal_error'')"

section \<open>Handling one payload\<close>

definition record_contract_metrics ::
  "string \<Rightarrow> consumer_runtime \<Rightarrow> (string \<times> string) list \<Rightarrow> unit action" where
  "record_contract_metrics topic rt hits =
     measure_with (fold (\<lambda>(canonical_key, alias_key).
       record_contract_alias_hit topic (profile_id (rt_profile rt)) canonical_key alias_key) hits)"

definition lag_measured :: "platform \<Rightarrow> string \<Rightarrow> instant \<Rightarrow> unit action" where
  "lag_measured p topic event_time =
     pbind (read_clock p) (\<lambda>now. measure_with (record_event_lag now topic event_time))"

definition freshness_measured :: "platform \<Rightarrow> string \<Rightarrow> instant \<Rightarrow> unit action" where
  "freshness_measured p topic event_time =
     pbind (read_clock p) (\<lambda>now. pmodify (\<lambda>w.
       case freshness_record now topic event_time (w_tracker w, w_telemetry w) of
         (tracker, t) \<Rightarrow> w\<lparr>w_tracker := tracker, w_telemetry := t\<rparr>))"

definition pairing_measured :: "pairing_snapshot option \<Rightarrow> unit action" where
  "pairing_measured snapshot =
     (case snapshot of
        None \<Rightarrow> preturn ()
      | Some s \<Rightarrow> pmodify (\<lambda>w.
          case pairing_metrics_record (ps_complete s) (ps_incomplete_age s) (w_pairing w, w_telemetry w) of
            (_, pm, t) \<Rightarrow> w\<lparr>w_pairing := pm, w_telemetry := t\<rparr>))"

definition version_counted :: "bool \<Rightarrow> unit action" where
  "version_counted missing =
     pmodify (\<lambda>w. w\<lparr>w_counter := snd (version_counter_record missing (w_counter w))\<rparr>)"

definition handle_ledger :: "platform \<Rightarrow> bool \<Rightarrow> string \<Rightarrow> pydict \<Rightarrow> bool action" where
  "handle_ledger p track topic payload =
     pbind (plift (ledger_from_dict payload)) (\<lambda>event.
     pbind (lag_measured p topic (ev_event_time event)) (\<lambda>_.
     pbind (if track then freshness_measured p topic (ev_event_time event) else preturn ()) (\<lambda>_.
     pbind (upsert_ledger_entry p event) (\<lambda>(missing_version, snapshot).
     pbind (pairing_measured snapshot) (\<lambda>_.
     preturn missing_version)))))"

definition order_event_time :: "order_event \<Rightarrow> instant" where
  "order_event_time ev = (case oe_updated_at ev of Some u \<Rightarrow> u | None \<Rightarrow> oe_created_at ev)"

definition handle_order :: "platform \<Rightarrow> bool \<Rightarrow> string \<Rightarrow> pydict \<Rightarrow> bool action" where
  "handle_order p track topic payload =
     pbind (plift (order_from_dict payload)) (\<lambda>event.
     pbind (lag_measured p topic (order_event_time event)) (\<lambda>_.
     pbind (if track then freshness_measured p topic (order_event_time event) else preturn ()) (\<lambda>_.
     upsert_payment_order p event)))"

definition handle_payload ::
  "platform \<Rightarrow> consumer_runtime \<Rightarrow> bool \<Rightarrow> string \<Rightarrow> pydict \<Rightarrow> unit action" where
  "handle_payload p rt track topic payload =
     (let profile = rt_profile rt; unsupported = UnsupportedTopicError topic (profile_id profile) in
      pbind (plift (raise_if (topic_kind profile topic = None) unsupported)) (\<lambda>_.
      pbind (measure_with (record_contract_profile_message topic (profile_id profile))) (\<lambda>_.
      pbind (plift (normalize_payload_for_topic topic payload profile)) (\<lambda>normalized.
      pbind (record_contract_metrics topic rt (np_alias_hits normalized)) (\<lambda>_.
      pbind (session_scope p
               (if np_topic_kind normalized = ''ledger''
                then handle_ledger p track topic (np_payload normalized)
                else if np_topic_kind normalized = ''payment_order''
                then handle_order p track topic (np_payload normalized)
                else plift (Inl unsupported))) (\<lambda>missing_version.
      pbind (measure_with (record_version_missing topic missing_version)) (\<lambda>_.
      version_counted missing_version)))))))"

section \<open>Handling one message\<close>

record kafka_message =
  km_topic :: string
  km_partition :: int
  km_offset :: int
  km_key :: "string option"
  km_value :: "string option"
  km_headers :: "(string \<times> string option) list option"
  km_watermarks :: "(int \<times> int) option result"   \<comment> \<open>what \<open>get_watermark_offsets\<close> does\<close>

definition kafka_lag :: "kafka_message \<Rightarrow> int" where
  "kafka_lag msg =
     (case km_watermarks msg of
        Inr (Some (low, high)) \<Rightarrow> max 0 (high - km_offset msg - 1)
      | _ \<Rightarrow> 0)"

text \<open>\<open>json.loads(msg.value() or b"{}")\<close> and the check for an object.\<close>

definition load_payload :: "platform \<Rightarrow> string option \<Rightarrow> pydict result" where
  "load_payload p v =
     rbind (loads_bytes (float_repr p) (if truthy v then the v else ''{}'')) (\<lambda>loaded.
       case loaded of PyDict d \<Rightarrow> Inr d | _ \<Rightarrow> Inl (EventValidationError NotAnObject))"

definition message_correlation_id :: "kafka_message \<Rightarrow> pydict result \<Rightarrow> string option" where
  "message_correlation_id msg loaded =
     (case extract_correlation_id_from_headers (km_headers msg) of
        Some t \<Rightarrow> Some t
      | None \<Rightarrow> (case loaded of Inr payload \<Rightarrow> extract_correlation_id_from_payload payload | Inl _ \<Rightarrow> None))"

definition commit_message :: "platform \<Rightarrow> kafka_message \<Rightarrow> unit action" where
  "commit_message p msg w =
     (let w' = w\<lparr>w_ack_calls := Suc (w_ack_calls w)\<rparr>
      in if ack_fault p (w_ack_calls w) then (Inl KafkaException, w')
         else (Inr (), w'\<lparr>w_acked := w_acked w' @ [(km_topic msg, km_partition msg, km_offset msg)]\<rparr>))"

definition opt_str :: "string option \<Rightarrow> pyval" where
  "opt_str x = (case x of None \<Rightarrow> PyNone | Some s \<Rightarrow> PyStr s)"

definition decoded_key :: "kafka_message \<Rightarrow> pyval result" where
  "decoded_key msg =
     (if truthy (km_key msg)
      then rbind (require_some UnicodeDecodeError (decode_strict (the (km_key msg)))) (\<lambda>s. Inr (PyStr s))
      else Inr PyNone)"

definition dlq_payload_of ::
  "platform \<Rightarrow> consumer_runtime \<Rightarrow> kafka_message \<Rightarrow> pyval \<Rightarrow> py_error \<Rightarrow> string option \<Rightarrow> instant \<Rightarrow> pydict" where
  "dlq_payload_of p rt msg key e cid now =
     [(KeyStr ''topic'', PyStr (km_topic msg)),
      (KeyStr ''partition'', PyInt (km_partition msg)),
      (KeyStr ''offset'', PyInt (km_offset msg)),
      (KeyStr ''key'', key),
      (KeyStr ''payload'',
         if truthy (km_value msg) then PyStr (decode_replace (the (km_value msg))) else PyNone),
      (KeyStr ''error'', PyStr (classify_error e)),
      (KeyStr ''error_detail'', PyStr (exc_text p e)),
      (KeyStr ''profile_id'', PyStr (profile_id (rt_profile rt))),
      (KeyStr ''correlation_id'', opt_str cid),
      (KeyStr ''ingested_at'', PyStr (show_instant now))]"

definition count_failure :: "consumer_runtime \<Rightarrow> string \<Rightarrow> py_error \<Rightarrow> unit action" where
  "count_failure rt topic e =
     pbind (measure_with (record_consumer_message topic ''error'')) (\<lambda>_.
     pbind (measure_with (record_dlq topic)) (\<lambda>_.
     if classify_error e = ''contract_core_violation''
     then measure_with (record_contract_core_violation topic (profile_id (rt_profile rt)))
     else preturn ()))"

text \<open>The \<open>except\<close> branch; what raises in it ends the consumer.\<close>

definition dead_letter ::
  "platform \<Rightarrow> consumer_runtime \<Rightarrow> kafka_message \<Rightarrow> string option \<Rightarrow> py_error \<Rightarrow> unit action" where
  "dead_letter p rt msg cid e =
     pbind (correlation_context p cid (count_failure rt (km_topic msg) e)) (\<lambda>_.
     pbind (plift (decoded_key msg)) (\<lambda>key.
     pbind (read_clock p) (\<lambda>now.
     pbind (write_dlq_payload p (rt_config rt) (dlq_payload_of p rt msg key e cid now)) (\<lambda>_.
     commit_message p msg))))"

definition process_message ::
  "platform \<Rightarrow> consumer_runtime \<Rightarrow> kafka_message \<Rightarrow> string option \<Rightarrow> pydict result \<Rightarrow> unit action" where
  "process_message p rt msg cid loaded =
     pbind (plift loaded) (\<lambda>payload.
     correlation_context p cid
       (pbind (handle_payload p rt True (km_topic msg) payload) (\<lambda>_.
        pbind (commit_message p msg) (\<lambda>_.
        measure_with (record_consumer_message (km_topic msg) ''success'')))))"

text \<open>The value says whether the message counts as processed.\<close>

definition consume_message :: "platform \<Rightarrow> consumer_runtime \<Rightarrow> kafka_message \<Rightarrow> bool action" where
  "consume_message p rt msg =
     (let loaded = load_payload p (km_value msg);
          cid = message_correlation_id msg loaded
      in
      pbind (measure_with (record_kafka_lag (km_topic msg) (km_partition msg) (kafka_lag msg))) (\<lambda>_.
      pcatch (pbind (process_message p rt msg cid loaded) (\<lambda>_. preturn True))
        (\<lambda>e. pbind (dead_letter p rt msg cid e) (\<lambda>_. preturn False))))"

section \<open>The loop\<close>

datatype poll =
    NoMessage
  | PartitionEof
  | PollError
  | Message kafka_message

text \<open>How the loop ends; \<open>StillPolling\<close> when the list of poll results is used up.\<close>

datatype loop_end = ReachedMaximum | IdleExpired | StillPolling

definition idle_expired :: "platform \<Rightarrow> int option \<Rightarrow> int \<Rightarrow> bool action" where
  "idle_expired p max_idle_seconds last_message_at =
     (case max_idle_seconds of
        None \<Rightarrow> preturn False
      | Some m \<Rightarrow> pbind (read_monotonic p) (\<lambda>now. preturn (m * usec_per_sec \<le> now - last_message_at)))"

fun consume_loop ::
  "platform \<Rightarrow> consumer_runtime \<Rightarrow> int option \<Rightarrow> int option \<Rightarrow> poll list \<Rightarrow> int \<Rightarrow> int
     \<Rightarrow> (loop_end \<times> int) action"
where
  "consume_loop p rt max_messages max_idle [] processed last_at =
     preturn (if opt_all (\<lambda>m. m \<le> processed) max_messages \<and> max_messages \<noteq> None
              then ReachedMaximum else StillPolling, processed)"
| "consume_loop p rt max_messages max_idle (poll # polls) processed last_at =
     (if opt_all (\<lambda>m. m \<le> processed) max_messages \<and> max_messages \<noteq> None
      then preturn (ReachedMaximum, processed)
      else
        (case poll of
           PollError \<Rightarrow> plift (Inl KafkaException)
         | Message msg \<Rightarrow>
             pbind (consume_message p rt msg) (\<lambda>done_now.
               if done_now
               then pbind (read_monotonic p)
                      (\<lambda>now. consume_loop p rt max_messages max_idle polls (processed + 1) now)
               else consume_loop p rt max_messages max_idle polls processed last_at)
         | _ \<Rightarrow>
             pbind (idle_expired p max_idle last_at) (\<lambda>expired.
               if expired then preturn (IdleExpired, processed)
               else consume_loop p rt max_messages max_idle polls processed last_at)))"

definition run_consumer ::
  "platform \<Rightarrow> app_config result \<Rightarrow> (string \<times> pyval) list \<Rightarrow> int option \<Rightarrow> int option \<Rightarrow> poll list
     \<Rightarrow> (loop_end \<times> int) action" where
  "run_consumer p config profiles max_messages max_idle polls =
     pbind (plift (rbind config (build_runtime profiles))) (\<lambda>rt.
     pbind (maybe_prune_dlq p (rt_config rt)) (\<lambda>_.
     pbind (pmodify (\<lambda>w. w\<lparr>w_counter := new_version_counter, w_pairing := new_pairing_metrics,
                            w_tracker := []\<rparr>)) (\<lambda>_.
     pbind (read_monotonic p) (\<lambda>now.
     consume_loop p rt max_messages max_idle polls 0 now))))"

section \<open>Backfill\<close>

text \<open>\<open>_iter_json_lines\<close>, one line at a time: \<open>None\<close> for a blank line.\<close>

definition json_line :: "platform \<Rightarrow> string \<Rightarrow> pydict option result" where
  "json_line p line =
     (if strip line = [] then Inr None
      else rbind (loads (float_repr p) line) (\<lambda>loaded.
        case loaded of PyDict d \<Rightarrow> Inr (Some d) | _ \<Rightarrow> Inl (EventValidationError NotAnObject)))"

definition within_range :: "instant option \<Rightarrow> instant option \<Rightarrow> instant \<Rightarrow> bool" where
  "within_range since_time until_time t =
     (\<not> (\<exists>s\<in>set_option since_time. t < s) \<and> \<not> (\<exists>u\<in>set_option until_time. u < t))"

definition normalized_for ::
  "string \<Rightarrow> consumer_runtime \<Rightarrow> pydict \<Rightarrow> pydict action" where
  "normalized_for topic rt payload =
     pbind (measure_with (record_contract_profile_message topic (profile_id (rt_profile rt)))) (\<lambda>_.
     pbind (plift (normalize_payload_for_topic topic payload (rt_profile rt))) (\<lambda>normalized.
     pbind (record_contract_metrics topic rt (np_alias_hits normalized)) (\<lambda>_.
     preturn (np_payload normalized))))"

definition event_recorded :: "platform \<Rightarrow> string \<Rightarrow> instant \<Rightarrow> bool \<Rightarrow> unit action" where
  "event_recorded p topic event_time missing =
     pbind (lag_measured p topic event_time) (\<lambda>_.
     pbind (freshness_measured p topic event_time) (\<lambda>_.
     pbind (measure_with (record_version_missing topic missing)) (\<lambda>_.
     pbind (measure_with (record_consumer_message topic ''success'')) (\<lambda>_.
     version_counted missing))))"

definition backfill_ledger ::
  "platform \<Rightarrow> consumer_runtime \<Rightarrow> instant option \<Rightarrow> instant option \<Rightarrow> pydict \<Rightarrow> unit action" where
  "backfill_ledger p rt since_time until_time payload =
     (let topic = tp_ledger (topics (rt_profile rt)) in
      pbind (normalized_for topic rt payload) (\<lambda>normalized.
      pbind (plift (ledger_from_dict normalized)) (\<lambda>event.
      if \<not> within_range since_time until_time (ev_event_time event) then preturn ()
      else
        correlation_context p (extract_correlation_id_from_payload payload)
          (pbind (session_scope p (upsert_ledger_entry p event)) (\<lambda>(missing, snapshot).
           pbind (event_recorded p topic (ev_event_time event) missing) (\<lambda>_.
           pairing_measured snapshot))))))"

definition backfill_order ::
  "platform \<Rightarrow> consumer_runtime \<Rightarrow> instant option \<Rightarrow> instant option \<Rightarrow> pydict \<Rightarrow> unit action" where
  "backfill_order p rt since_time until_time payload =
     (let topic = tp_payment_order (topics (rt_profile rt)) in
      pbind (normalized_for topic rt payload) (\<lambda>normalized.
      pbind (plift (order_from_dict normalized)) (\<lambda>event.
      if \<not> within_range since_time until_time (order_event_time event) then preturn ()
      else
        correlation_context p (extract_correlation_id_from_payload payload)
          (pbind (session_scope p (upsert_payment_order p event)) (\<lambda>missing.
           event_recorded p topic (order_event_time event) missing)))))"

text \<open>The \<open>except\<close> branch of the two loops; \<open>label\<close> is the topic the metrics name.\<close>

definition backfill_failed ::
  "platform \<Rightarrow> consumer_runtime \<Rightarrow> string \<Rightarrow> string \<Rightarrow> pydict \<Rightarrow> py_error \<Rightarrow> unit action" where
  "backfill_failed p rt label topic payload e =
     pbind (measure_with (record_consumer_message label ''error'')) (\<lambda>_.
     pbind (measure_with (record_dlq label)) (\<lambda>_.
     pbind (if classify_error e = ''contract_core_violation''
            then measure_with (record_contract_core_violation topic (profile_id (rt_profile rt)))
            else preturn ()) (\<lambda>_.
     pbind (read_clock p) (\<lambda>now.
     write_dlq_payload p (rt_config rt)
       [(KeyStr ''topic'', PyStr label),
        (KeyStr ''payload'', PyDict payload),
        (KeyStr ''error'', PyStr (classify_error e)),
        (KeyStr ''error_detail'', PyStr (exc_text p e)),
        (KeyStr ''profile_id'', PyStr (profile_id (rt_profile rt))),
        (KeyStr ''correlation_id'', opt_str (extract_correlation_id_from_payload payload)),
        (KeyStr ''ingested_at'', PyStr (show_instant now))]))))"

text \<open>A line that is no JSON object raises outside the loop's \<open>try\<close> and ends the backfill.\<close>

fun backfill_lines ::
  "platform \<Rightarrow> (pydict \<Rightarrow> unit action) \<Rightarrow> (pydict \<Rightarrow> py_error \<Rightarrow> unit action) \<Rightarrow> string list \<Rightarrow> unit action"
where
  "backfill_lines p body failed [] = preturn ()"
| "backfill_lines p body failed (line # lines) =
     pbind (plift (json_line p line)) (\<lambda>loaded.
     pbind (case loaded of
              None \<Rightarrow> preturn ()
            | Some payload \<Rightarrow> pcatch (body payload) (failed payload)) (\<lambda>_.
     backfill_lines p body failed lines))"

definition run_backfill ::
  "platform \<Rightarrow> app_config result \<Rightarrow> (string \<times> pyval) list \<Rightarrow> string list option \<Rightarrow> string list option
     \<Rightarrow> instant option \<Rightarrow> instant option \<Rightarrow> unit action" where
  "run_backfill p config profiles ledger_file payment_order_file since_time until_time =
     pbind (plift (rbind config (build_runtime profiles))) (\<lambda>rt.
     pbind (maybe_prune_dlq p (rt_config rt)) (\<lambda>_.
     pbind (pmodify (\<lambda>w. w\<lparr>w_counter := new_version_counter, w_pairing := new_pairing_metrics,
                            w_tracker := []\<rparr>)) (\<lambda>_.
     pbind (case ledger_file of
              None \<Rightarrow> preturn ()
            | Some lines \<Rightarrow>
                backfill_lines p (backfill_ledger p rt since_time until_time)
                  (backfill_failed p rt ''backfill-ledger'' (tp_ledger (topics (rt_profile rt)))) lines)
       (\<lambda>_.
     (case payment_order_file of
        None \<Rightarrow> preturn ()
      | Some lines \<Rightarrow>
          backfill_lines p (backfill_order p rt since_time until_time)
            (backfill_failed p rt ''backfill-payment-order''
               (tp_payment_order (topics (rt_profile rt)))) lines)))))"

end
