(* ===== verification/Publishing.thy ===== *)
theory Publishing
  imports Consumer
begin

text \<open>
  The Kafka producer of the scripts. What has been handed to \<open>produce\<close> waits in a queue until
  \<open>flush\<close>; a script that raises before it has delivered nothing for certain.
\<close>

record outgoing =
  og_topic :: string
  og_key :: "string option"
  og_value :: string

record sender =
  sn_world :: world
  sn_settings :: "(string \<times> string) list"
  sn_queue :: "outgoing list"
  sn_delivered :: "outgoing list"

type_synonym 'a sending = "(sender, py_error, 'a) prog"

definition on_world :: "'a action \<Rightarrow> 'a sending" where
  "on_world a s = (case a (sn_world s) of (r, w) \<Rightarrow> (r, s\<lparr>sn_world := w\<rparr>))"

definition open_producer :: "app_config \<Rightarrow> unit sending" where
  "open_producer config = pmodify (\<lambda>s. s\<lparr>sn_settings := build_kafka_client_config config\<rparr>)"

definition produce :: "string \<Rightarrow> string option \<Rightarrow> string \<Rightarrow> unit sending" where
  "produce topic key v =
     pmodify (\<lambda>s. s\<lparr>sn_queue := sn_queue s @ [\<lparr>og_topic = topic, og_key = key, og_value = v\<rparr>]\<rparr>)"

definition flush :: "unit sending" where
  "flush = pmodify (\<lambda>s. s\<lparr>sn_delivered := sn_delivered s @ sn_queue s, sn_queue := []\<rparr>)"

definition start_sender :: "world \<Rightarrow> sender" where
  "start_sender w = \<lparr>sn_world = w, sn_settings = [], sn_queue = [], sn_delivered = []\<rparr>"

text \<open>\<open>str.encode("utf-8")\<close>; a lone surrogate cannot be encoded.\<close>

definition encode_utf8 :: "string \<Rightarrow> string result" where
  "encode_utf8 s = (if valid_utf8 s then Inr s else Inl UnicodeEncodeError)"

text \<open>\<open>json.dumps(value).encode("utf-8")\<close>\<close>

definition json_value :: "pyval \<Rightarrow> string result" where
  "json_value v = require_some TypeError (dumps True v)"

lemma json_value_valid: "json_value v = Inr s \<Longrightarrow> json_ok fr True v \<Longrightarrow> valid_utf8 s"
  using plain_json_text(1) [of fr True v] by (auto simp: json_value_def dumps_def valid_plain split: if_splits)

lemma produce_run [simp]:
  "pbind (produce topic key v) f s =
     f () (s\<lparr>sn_queue := sn_queue s @ [\<lparr>og_topic = topic, og_key = key, og_value = v\<rparr>]\<rparr>)"
  by (simp add: produce_def)

lemma flush_run [simp]: "flush s = (Inr (), s\<lparr>sn_delivered := sn_delivered s @ sn_queue s, sn_queue := []\<rparr>)"
  by (simp add: flush_def)

end
