(* ===== verification/Replay.thy ===== *)
theory Replay
  imports Publishing "HOL-Library.Product_Lexorder"
begin

text \<open>
  \<open>scripts/replay_dlq.py\<close>: sends the records of the dead-letter sink to their topics again, from
  the lines of the file or from the table. Whether the attributes of a row can be read once its
  session has been committed and closed is SQLAlchemy's: the argument \<open>read_row\<close>.
\<close>

section \<open>From the file\<close>

text \<open>\<open>topic in topics\<close>: a list or a dictionary cannot be looked up in a set.\<close>

definition in_topics :: "string list option \<Rightarrow> pyval \<Rightarrow> bool result" where
  "in_topics wanted topic =
     (case wanted of
        None \<Rightarrow> Inr True
      | Some ts \<Rightarrow>
          (case topic of
             PyStr t \<Rightarrow> Inr (t \<in> set ts)
           | PyList _ \<Rightarrow> Inl TypeError
           | PyDict _ \<Rightarrow> Inl TypeError
           | _ \<Rightarrow> Inr False))"

definition replay_value :: "pyval \<Rightarrow> string result" where
  "replay_value payload = (case payload of PyStr s \<Rightarrow> encode_utf8 s | _ \<Rightarrow> json_value payload)"

text \<open>\<open>producer.produce(topic, value=value)\<close> takes a text as topic.\<close>

definition produce_to :: "pyval \<Rightarrow> string \<Rightarrow> unit sending" where
  "produce_to topic v = (case topic of PyStr t \<Rightarrow> produce t None v | _ \<Rightarrow> plift (Inl TypeError))"

definition used_up :: "int option \<Rightarrow> bool" where
  "used_up remaining = (case remaining of None \<Rightarrow> False | Some n \<Rightarrow> n \<le> 0)"

fun replay_lines ::
  "platform \<Rightarrow> string list option \<Rightarrow> int option \<Rightarrow> string list \<Rightarrow> unit sending"
where
  "replay_lines p wanted remaining [] = preturn ()"
| "replay_lines p wanted remaining (line # rest) =
     (if strip line = [] then replay_lines p wanted remaining rest
      else
        pbind (plift (loads (float_repr p) line)) (\<lambda>loaded.
        case loaded of
          PyDict d \<Rightarrow>
            (let topic = dict_get d ''topic''; payload = dict_get d ''payload'' in
             if \<not> py_true topic \<or> payload = PyNone then replay_lines p wanted remaining rest
             else
               pbind (plift (in_topics wanted topic)) (\<lambda>chosen.
               if \<not> chosen then replay_lines p wanted remaining rest
               else if used_up remaining then preturn ()
               else
                 pbind (plift (replay_value payload)) (\<lambda>v.
                 pbind (produce_to topic v) (\<lambda>_.
                 replay_lines p wanted (map_option (\<lambda>n. n - 1) remaining) rest))))
        | _ \<Rightarrow> plift (Inl AttributeError)))"

definition replay_file ::
  "platform \<Rightarrow> app_config result \<Rightarrow> string list result \<Rightarrow> string list option \<Rightarrow> int option \<Rightarrow> unit sending" where
  "replay_file p config dlq_file wanted limit =
     pbind (plift config) (\<lambda>c.
     pbind (open_producer c) (\<lambda>_.
     pbind (plift dlq_file) (\<lambda>lines.
     pbind (replay_lines p wanted (map_option (max 0) limit) lines) (\<lambda>_.
     flush))))"

section \<open>From the table\<close>

record dlq_filter =
  df_topics :: "string list option"
  df_since :: "instant option"
  df_until :: "instant option"
  df_min_id :: "int option"
  df_max_id :: "int option"
  df_limit :: "int option"

definition selected :: "dlq_filter \<Rightarrow> consumer_dlq_event \<Rightarrow> bool" where
  "selected f e =
     (opt_all (\<lambda>ts. dq_topic e \<in> set ts) (df_topics f)
      \<and> opt_all (\<lambda>t. t \<le> dq_ingested_at e) (df_since f) \<and> opt_all (\<lambda>t. dq_ingested_at e \<le> t) (df_until f)
      \<and> opt_all (\<lambda>i. i \<le> dq_dlq_id e) (df_min_id f) \<and> opt_all (\<lambda>i. dq_dlq_id e \<le> i) (df_max_id f))"

definition at_most :: "int option \<Rightarrow> 'a list \<Rightarrow> 'a list" where
  "at_most limit xs = (case limit of None \<Rightarrow> xs | Some n \<Rightarrow> take (nat (max 0 n)) xs)"

definition select_events :: "dlq_filter \<Rightarrow> db \<Rightarrow> consumer_dlq_event list" where
  "select_events f d =
     at_most (df_limit f)
       (sort_key (\<lambda>e. (dq_ingested_at e, dq_dlq_id e)) (filter (selected f) (consumer_dlq_events d)))"

fun replay_rows ::
  "(consumer_dlq_event \<Rightarrow> consumer_dlq_event result) \<Rightarrow> consumer_dlq_event list \<Rightarrow> unit sending"
where
  "replay_rows read_row [] = preturn ()"
| "replay_rows read_row (e # es) =
     pbind (plift (read_row e)) (\<lambda>row.
     (case (dq_topic row, dq_payload row) of
        (t # ts, Some payload) \<Rightarrow>
          pbind (plift (encode_utf8 payload)) (\<lambda>v.
          pbind (produce (t # ts) None v) (\<lambda>_. replay_rows read_row es))
      | _ \<Rightarrow> replay_rows read_row es))"

definition replay_db ::
  "(consumer_dlq_event \<Rightarrow> consumer_dlq_event result) \<Rightarrow> platform \<Rightarrow> app_config result \<Rightarrow> dlq_filter
     \<Rightarrow> unit sending" where
  "replay_db read_row p config f =
     pbind (plift config) (\<lambda>c.
     pbind (open_producer c) (\<lambda>_.
     pbind (on_world (session_scope p (db_query p (\<lambda>d.
              rbind (sql_check (opt_all (list_all sql_text_ok) (df_topics f))) (\<lambda>_. Inr (select_events f d))))))
       (\<lambda>rows.
     pbind (replay_rows read_row rows) (\<lambda>_.
     flush))))"

section \<open>The command\<close>

record replay_args =
  ra_backend :: "string option"
  ra_file :: "string list result option"   \<comment> \<open>the lines of \<open>--dlq-file\<close>\<close>
  ra_limit :: "int option"
  ra_topics :: "string list"
  ra_since :: "string option"
  ra_until :: "string option"
  ra_min_id :: "int option"
  ra_max_id :: "int option"

definition replay_iso_datetime :: "string \<Rightarrow> instant result" where
  "replay_iso_datetime v =
     rbind (require_some (ValueError ''Invalid isoformat string'') (fromisoformat (replace_zulu (strip v)))) (\<lambda>t.
     require_some OverflowError (to_utc t))"

text \<open>\<open>_parse_iso_datetime(x) if x else None\<close>\<close>

definition time_arg :: "string option \<Rightarrow> instant option result" where
  "time_arg x = (case x of Some (c # cs) \<Rightarrow> rbind (replay_iso_datetime (c # cs)) (\<lambda>i. Inr (Some i)) | _ \<Rightarrow> Inr None)"

definition replay_main ::
  "(consumer_dlq_event \<Rightarrow> consumer_dlq_event result) \<Rightarrow> platform \<Rightarrow> app_config result \<Rightarrow> string list result
     \<Rightarrow> replay_args \<Rightarrow> unit sending" where
  "replay_main read_row p config configured_file args =
     pbind (plift config) (\<lambda>c.
       let backend = lower (if truthy (ra_backend args) then the (ra_backend args) else cf_dlq_backend c);
           wanted = (if ra_topics args = [] then None else Some (ra_topics args))
       in if backend = ''db'' then
            pbind (plift (time_arg (ra_since args))) (\<lambda>since_time.
            pbind (plift (time_arg (ra_until args))) (\<lambda>until_time.
            replay_db read_row p config
              \<lparr>df_topics = wanted, df_since = since_time, df_until = until_time,
               df_min_id = ra_min_id args, df_max_id = ra_max_id args, df_limit = ra_limit args\<rparr>))
          else
            replay_file p config (case ra_file args of None \<Rightarrow> configured_file | Some f \<Rightarrow> f)
              wanted (ra_limit args))"

end
