(* ===== verification/Scenarios.thy ===== *)
theory Scenarios
  imports Replay
begin

text \<open>
  \<open>scripts/publish_synthetic_events.py\<close> and \<open>scripts/publish_sample_events.py\<close>: the events that
  the scripts publish to try the service out.
\<close>

section \<open>Texts\<close>

text \<open>\<open>s.replace(old, new)\<close> for an \<open>old\<close> that is not empty.\<close>

function replace_all :: "string \<Rightarrow> string \<Rightarrow> string \<Rightarrow> string" where
  "replace_all old new [] = []"
| "replace_all old new (c # s) =
     (if old \<noteq> [] \<and> starts_with (c # s) old
      then new @ replace_all old new (drop (length old) (c # s))
      else c # replace_all old new s)"
  by pat_completeness auto

termination
  by (relation "measure (\<lambda>(old, new, s). length s)") (auto simp: neq_Nil_conv)

text \<open>\<open>_iso\<close>: whole seconds, with \<open>Z\<close>.\<close>

definition iso_seconds :: "instant \<Rightarrow> string" where
  "iso_seconds v = replace_all ''+00:00'' ''Z'' (show_instant (Utc (usec v - usec v mod usec_per_sec)))"

section \<open>Synthetic events\<close>

definition synthetic_ledger_event ::
  "string \<Rightarrow> string \<Rightarrow> string \<Rightarrow> string \<Rightarrow> string \<Rightarrow> instant \<Rightarrow> int \<Rightarrow> pydict" where
  "synthetic_ledger_event tx_id wallet_id entry_type amount related_id event_time version =
     (let signed = (if entry_type = ''RECEIVE'' then amount else ''-'' @ amount);
          ts = iso_seconds event_time
      in [(KeyStr ''tx_id'', PyStr tx_id), (KeyStr ''wallet_id'', PyStr wallet_id),
          (KeyStr ''entry_type'', PyStr entry_type), (KeyStr ''amount'', PyStr amount),
          (KeyStr ''amount_signed'', PyStr signed), (KeyStr ''related_id'', PyStr related_id),
          (KeyStr ''related_type'', PyStr ''PAYMENT_ORDER''), (KeyStr ''event_time'', PyStr ts),
          (KeyStr ''created_at'', PyStr ts), (KeyStr ''updated_at'', PyStr ts),
          (KeyStr ''version'', PyInt version)])"

definition synthetic_order_event :: "string \<Rightarrow> string \<Rightarrow> instant \<Rightarrow> int \<Rightarrow> pydict" where
  "synthetic_order_event order_id amount event_time version =
     (let ts = iso_seconds event_time
      in [(KeyStr ''order_id'', PyStr order_id), (KeyStr ''user_id'', PyStr ''user-synthetic''),
          (KeyStr ''merchant_name'', PyStr ''MERCHANT-SYNTHETIC''), (KeyStr ''amount'', PyStr amount),
          (KeyStr ''status'', PyStr ''SETTLED''), (KeyStr ''created_at'', PyStr ts),
          (KeyStr ''updated_at'', PyStr ts), (KeyStr ''version'', PyInt version)])"

text \<open>The stream, the key and the payload of one event.\<close>

type_synonym scenario_record = "string \<times> string \<times> pydict"

definition order_trio :: "string \<Rightarrow> string \<Rightarrow> instant \<Rightarrow> int \<Rightarrow> scenario_record list" where
  "order_trio run_id amount event_time version =
     (let order_id = ''po-'' @ run_id; payment_tx = ''tx-pay-'' @ run_id; receive_tx = ''tx-rec-'' @ run_id
      in [(''ledger'', payment_tx,
            synthetic_ledger_event payment_tx ''wallet-payer'' ''PAYMENT'' amount order_id event_time version),
          (''ledger'', receive_tx,
            synthetic_ledger_event receive_tx ''wallet-payee'' ''RECEIVE'' amount order_id event_time version),
          (''payment'', order_id, synthetic_order_event order_id amount event_time version)])"

definition minus_minutes :: "instant \<Rightarrow> int \<Rightarrow> instant result" where
  "minus_minutes t minutes =
     (let u = usec t - minutes * 60 * usec_per_sec
      in rbind (raise_if (u < 0) OverflowError) (\<lambda>_. Inr (Utc u)))"

definition invalid_records :: "string \<Rightarrow> instant \<Rightarrow> scenario_record list" where
  "invalid_records run_id now =
     [(''ledger'', ''tx-invalid-ledger-'' @ run_id,
        [(KeyStr ''tx_id'', PyStr (''tx-invalid-ledger-'' @ run_id)), (KeyStr ''entry_type'', PyStr ''PAYMENT''),
         (KeyStr ''amount'', PyStr ''not-a-number''), (KeyStr ''related_id'', PyStr (''po-'' @ run_id)),
         (KeyStr ''created_at'', PyStr (iso_seconds now))]),
      (''payment'', ''po-invalid-'' @ run_id,
        [(KeyStr ''order_id'', PyStr (''po-invalid-'' @ run_id)), (KeyStr ''amount'', PyStr ''100.00''),
         (KeyStr ''created_at'', PyStr (iso_seconds now))])]"

definition scenario_metadata :: "string \<Rightarrow> pydict" where
  "scenario_metadata run_id =
     [(KeyStr ''order_id'', PyStr (''po-'' @ run_id)), (KeyStr ''payment_tx_id'', PyStr (''tx-pay-'' @ run_id)),
      (KeyStr ''receive_tx_id'', PyStr (''tx-rec-'' @ run_id))]"

definition build_scenario_records ::
  "string \<Rightarrow> string \<Rightarrow> instant \<Rightarrow> (scenario_record list \<times> pydict) result" where
  "build_scenario_records scenario run_id now =
     (let metadata = scenario_metadata run_id; happy = order_trio run_id ''100.00'' now 1
      in if scenario = ''happy'' then Inr (happy, metadata)
         else if scenario = ''duplicate'' then Inr (happy @ happy, metadata)
         else if scenario = ''out_of_order'' then
           rbind (minus_minutes now 3) (\<lambda>older.
             Inr (order_trio run_id ''200.00'' now 2 @ order_trio run_id ''150.00'' older 1, metadata))
         else if scenario = ''error'' then Inr (invalid_records run_id now, metadata)
         else Inl (ValueError (''Unsupported scenario: '' @ scenario)))"

section \<open>Publishing\<close>

text \<open>The client sends a text key as UTF-8.\<close>

definition produce_keyed :: "string \<Rightarrow> string \<Rightarrow> pydict \<Rightarrow> unit sending" where
  "produce_keyed topic key payload =
     pbind (plift (json_value (PyDict payload))) (\<lambda>v.
     pbind (plift (encode_utf8 key)) (\<lambda>k. produce topic (Some k) v))"

definition topic_of_stream :: "app_config \<Rightarrow> string \<Rightarrow> string" where
  "topic_of_stream config stream =
     (if stream = ''ledger'' then cf_ledger_topic config else cf_payment_order_topic config)"

fun publish_records :: "app_config \<Rightarrow> scenario_record list \<Rightarrow> unit sending" where
  "publish_records config [] = preturn ()"
| "publish_records config ((stream, key, payload) # rest) =
     pbind (produce_keyed (topic_of_stream config stream) key payload) (\<lambda>_. publish_records config rest)"

definition publish_scenario ::
  "platform \<Rightarrow> app_config result \<Rightarrow> string \<Rightarrow> string \<Rightarrow> pydict sending" where
  "publish_scenario p config scenario run_id =
     pbind (plift config) (\<lambda>c.
     pbind (open_producer c) (\<lambda>_.
     pbind (on_world (read_clock p)) (\<lambda>now.
     pbind (plift (build_scenario_records scenario run_id now)) (\<lambda>(records, metadata).
     pbind (publish_records c records) (\<lambda>_.
     pbind flush (\<lambda>_.
     preturn metadata))))))"

text \<open>\<open>main\<close>: the exit code and the printed line; the argument parser allows four scenarios.\<close>

definition scenario_choices :: "string list" where
  "scenario_choices = [''happy'', ''duplicate'', ''out_of_order'', ''error'']"

definition synthetic_main ::
  "platform \<Rightarrow> app_config result \<Rightarrow> string \<Rightarrow> string \<Rightarrow> (int \<times> string) sending" where
  "synthetic_main p config scenario run_id =
     (if scenario \<notin> set scenario_choices then plift (Inl (SystemExit ''invalid choice''))
      else
        pbind (publish_scenario p config scenario run_id) (\<lambda>metadata.
        pbind (plift (json_value (PyDict ([(KeyStr ''scenario'', PyStr scenario),
                 (KeyStr ''run_id'', PyStr run_id)] @ metadata)))) (\<lambda>line.
        preturn (0, line))))"

section \<open>Sample events\<close>

definition sample_ledger_payment :: "string \<Rightarrow> pydict" where
  "sample_ledger_payment now =
     [(KeyStr ''tx_id'', PyStr ''tx-payment-002''), (KeyStr ''wallet_id'', PyStr ''wallet-001''),
      (KeyStr ''entry_type'', PyStr ''PAYMENT''), (KeyStr ''amount'', PyStr ''12000.00''),
      (KeyStr ''amount_signed'', PyStr ''-12000.00''), (KeyStr ''related_id'', PyStr ''po-002''),
      (KeyStr ''related_type'', PyStr ''PAYMENT_ORDER''), (KeyStr ''event_time'', PyStr now),
      (KeyStr ''created_at'', PyStr now), (KeyStr ''updated_at'', PyStr now), (KeyStr ''version'', PyInt 2)]"

definition sample_ledger_receive :: "string \<Rightarrow> pydict" where
  "sample_ledger_receive now =
     [(KeyStr ''tx_id'', PyStr ''tx-receive-002''), (KeyStr ''wallet_id'', PyStr ''wallet-002''),
      (KeyStr ''entry_type'', PyStr ''RECEIVE''), (KeyStr ''amount'', PyStr ''12000.00''),
      (KeyStr ''amount_signed'', PyStr ''12000.00''), (KeyStr ''related_id'', PyStr ''po-002''),
      (KeyStr ''related_type'', PyStr ''PAYMENT_ORDER''), (KeyStr ''event_time'', PyStr now),
      (KeyStr ''created_at'', PyStr now), (KeyStr ''updated_at'', PyStr now), (KeyStr ''version'', PyInt 2)]"

definition sample_payment_order :: "string \<Rightarrow> pydict" where
  "sample_payment_order now =
     [(KeyStr ''order_id'', PyStr ''po-002''), (KeyStr ''user_id'', PyStr ''user-002''),
      (KeyStr ''merchant_name'', PyStr ''MERCHANT-002''), (KeyStr ''amount'', PyStr ''12000.00''),
      (KeyStr ''status'', PyStr ''SETTLED''), (KeyStr ''created_at'', PyStr now),
      (KeyStr ''updated_at'', PyStr now), (KeyStr ''version'', PyInt 2)]"

definition publish_sample :: "platform \<Rightarrow> app_config result \<Rightarrow> unit sending" where
  "publish_sample p config =
     pbind (plift config) (\<lambda>c.
     pbind (open_producer c) (\<lambda>_.
     pbind (on_world (read_clock p)) (\<lambda>now.
     (let now_text = show_instant now in
      pbind (produce_keyed (cf_ledger_topic c) ''tx-payment-002'' (sample_ledger_payment now_text)) (\<lambda>_.
      pbind (produce_keyed (cf_ledger_topic c) ''tx-receive-002'' (sample_ledger_receive now_text)) (\<lambda>_.
      pbind (produce_keyed (cf_payment_order_topic c) ''po-002'' (sample_payment_order now_text)) (\<lambda>_.
      flush)))))))"

end
