(* ===== verification/Auth.thy ===== *)
theory Auth
  imports Config PyUrl
begin

text \<open>
  \<open>src/api/auth.py\<close>: who may read, and what of a query string may be written down. A request
  is what the handlers read of it; its header names are in lower case, as Starlette keeps
  them. Fetching the key and checking the token (PyJWT) is the argument \<open>verify\<close>, of the key
  server's address, the algorithm, the audience, the issuer and the token.
\<close>

section \<open>Constants and data\<close>

definition ADMIN_READ_ROLE :: string where "ADMIN_READ_ROLE = ''ADMIN_READ''"
definition ADMIN_AUDIT_ROLE :: string where "ADMIN_AUDIT_ROLE = ''ADMIN_AUDIT''"

definition auth_required_roles :: "string list" where
  "auth_required_roles = [ADMIN_READ_ROLE, ADMIN_AUDIT_ROLE]"

record actor_context =
  ac_actor_id :: "string option"
  ac_actor_roles :: "string list"

record request =
  rq_method :: string
  rq_path :: string
  rq_query :: string
  rq_headers :: "(string \<times> string) list"
  rq_client_host :: "string option"

definition request_header :: "request \<Rightarrow> string \<Rightarrow> string option" where
  "request_header rq key = map_of (rq_headers rq) (lower key)"

type_synonym token_verifier = "string \<Rightarrow> string \<Rightarrow> string \<Rightarrow> string \<Rightarrow> string \<Rightarrow> pydict result"

section \<open>Claims\<close>

definition split_csv :: "string option \<Rightarrow> string list" where
  "split_csv v =
     (if \<not> truthy v then []
      else filter (\<lambda>item. item \<noteq> []) (map strip (split_on (CHR '','') (the v))))"

definition normalize_roles :: "pyval \<Rightarrow> string list" where
  "normalize_roles v =
     (case v of
        PyStr s \<Rightarrow> filter (\<lambda>item. item \<noteq> []) (split_ws s)
      | PyList items \<Rightarrow> filter (\<lambda>item. item \<noteq> []) (map py_str items)
      | _ \<Rightarrow> [])"

definition extract_roles :: "pydict \<Rightarrow> string list \<Rightarrow> string list" where
  "extract_roles claims role_claims =
     dedupe (concat (map (\<lambda>claim. normalize_roles (dict_get claims claim)) role_claims))"

fun extract_actor_id :: "pydict \<Rightarrow> string list \<Rightarrow> string option" where
  "extract_actor_id claims [] = None"
| "extract_actor_id claims (claim # rest) =
     (case dict_get claims claim of
        PyStr s \<Rightarrow> if strip s \<noteq> [] then Some (strip s) else extract_actor_id claims rest
      | _ \<Rightarrow> extract_actor_id claims rest)"

section \<open>Query strings\<close>

definition mask_pair :: "string list \<Rightarrow> string \<times> string \<Rightarrow> string \<times> string" where
  "mask_pair sensitive kv =
     (case kv of (key, v) \<Rightarrow> if lower key \<in> set sensitive then (key, ''***'') else (key, v))"

definition mask_query :: "string option \<Rightarrow> string list \<Rightarrow> string option" where
  "mask_query query sensitive_keys =
     (if \<not> truthy query then None
      else Some (urlencode (map (mask_pair (map lower sensitive_keys)) (parse_qsl (the query)))))"

section \<open>Tokens\<close>

definition decode_token :: "token_verifier \<Rightarrow> app_config result \<Rightarrow> string \<Rightarrow> pydict result" where
  "decode_token verify config token =
     rbind config (\<lambda>c.
     rbind (raise_if (cf_auth_issuer c = [] \<or> cf_auth_audience c = [] \<or> cf_auth_jwks_url c = [])
              (AuthError ''OIDC settings missing'')) (\<lambda>_.
     verify (cf_auth_jwks_url c) (cf_auth_algorithm c) (cf_auth_audience c) (cf_auth_issuer c) token))"

definition extract_bearer :: "request \<Rightarrow> string result" where
  "extract_bearer rq =
     (let auth_header = request_header rq ''authorization'' in
      if \<not> truthy auth_header then Inl (AuthError ''Authorization header missing'')
      else
        (case split_ws (the auth_header) of
           [scheme, token] \<Rightarrow>
             if lower scheme = ''bearer'' then Inr token
             else Inl (AuthError ''Authorization header must be Bearer token'')
         | _ \<Rightarrow> Inl (AuthError ''Authorization header must be Bearer token'')))"

text \<open>The two \<open>except\<close> clauses; other exceptions pass.\<close>

definition as_unauthorized :: "py_error \<Rightarrow> py_error" where
  "as_unauthorized e =
     (case e of
        AuthError detail \<Rightarrow> HTTPException 401 detail
      | PyJWTError \<Rightarrow> HTTPException 401 ''Invalid token''
      | _ \<Rightarrow> e)"

definition or_default :: "string list \<Rightarrow> string \<Rightarrow> string list" where
  "or_default xs dflt = (if xs = [] then [dflt] else xs)"

text \<open>The value is also what \<open>request.state\<close> holds afterwards.\<close>

definition require_admin_read :: "token_verifier \<Rightarrow> app_config result \<Rightarrow> request \<Rightarrow> actor_context result" where
  "require_admin_read verify config rq =
     rbind config (\<lambda>c.
     if cf_auth_mode c = ''disabled''
     then Inr \<lparr>ac_actor_id = request_header rq ''X-Actor-Id'',
               ac_actor_roles = split_csv (request_header rq ''X-Actor-Roles'')\<rparr>
     else
       (case rbind (extract_bearer rq) (decode_token verify config) of
          Inl e \<Rightarrow> Inl (as_unauthorized e)
        | Inr claims \<Rightarrow>
            (let roles = extract_roles claims
                   (or_default (split_csv (Some (cf_auth_roles_claim c))) ''roles'');
                 actor_id = extract_actor_id claims
                   (or_default (split_csv (Some (cf_auth_actor_id_claims c))) ''sub'')
             in rbind (raise_if (set roles \<inter> set auth_required_roles = {})
                         (HTTPException 403 ''Forbidden'')) (\<lambda>_.
                Inr \<lparr>ac_actor_id = actor_id, ac_actor_roles = roles\<rparr>))))"

section \<open>Lemmas\<close>

lemma split_csv_items:
  "item \<in> set (split_csv v) \<Longrightarrow> item \<noteq> [] \<and> strip item = item"
  by (auto simp: split_csv_def split: if_splits)

lemma dedupe_foldl:
  "distinct acc \<Longrightarrow> distinct (foldl (\<lambda>acc x. if x \<in> set acc then acc else acc @ [x]) acc xs)
     \<and> set (foldl (\<lambda>acc x. if x \<in> set acc then acc else acc @ [x]) acc xs) = set acc \<union> set xs"
  by (induction xs arbitrary: acc) auto

lemma distinct_dedupe [simp]: "distinct (dedupe xs)"
  using dedupe_foldl [of "[]" xs] by (simp add: dedupe_def)

lemma set_dedupe [simp]: "set (dedupe xs) = set xs"
  using dedupe_foldl [of "[]" xs] by (simp add: dedupe_def)

lemma normalize_roles_nonempty: "[] \<notin> set (normalize_roles v)"
  by (cases v) (auto simp: normalize_roles_def)

lemma extract_actor_id_claim:
  "extract_actor_id claims ks = Some a \<Longrightarrow>
     \<exists>k\<in>set ks. \<exists>s. dict_get claims k = PyStr s \<and> a = strip s \<and> a \<noteq> []"
  by (induction ks) (auto split: pyval.splits if_splits)

lemma mask_pair_valid:
  "list_all (\<lambda>(k, v). valid_utf8 k \<and> valid_utf8 v) ps \<Longrightarrow>
     list_all (\<lambda>(k, v). valid_utf8 k \<and> valid_utf8 v) (map (mask_pair ks) ps)"
proof -
  have "valid_utf8 ''***''" by code_simp
  then show "list_all (\<lambda>(k, v). valid_utf8 k \<and> valid_utf8 v) ps \<Longrightarrow>
     list_all (\<lambda>(k, v). valid_utf8 k \<and> valid_utf8 v) (map (mask_pair ks) ps)"
    by (induction ps) (auto simp: mask_pair_def simp del: valid_utf8.simps split: if_splits)
qed

lemma mask_query_parse:
  assumes "mask_query (Some q) ks = Some r" and "valid_utf8 q"
  shows "parse_qsl r = map (mask_pair (map lower ks)) (parse_qsl q)"
proof -
  have "r = urlencode (map (mask_pair (map lower ks)) (parse_qsl q))"
    using assms(1) by (auto simp: mask_query_def split: if_splits)
  then show ?thesis
    by (simp only: parse_urlencode [OF mask_pair_valid [OF valid_parse_qsl [OF assms(2)]]])
qed

text \<open>With authentication on, access needs a token that the verifier accepts and a role.\<close>

lemma require_admin_read_oidc:
  assumes "require_admin_read verify (Inr c) rq = Inr a" and "cf_auth_mode c \<noteq> ''disabled''"
  obtains token claims where "extract_bearer rq = Inr token"
    "verify (cf_auth_jwks_url c) (cf_auth_algorithm c) (cf_auth_audience c) (cf_auth_issuer c) token
       = Inr claims"
    "ac_actor_roles a = extract_roles claims (or_default (split_csv (Some (cf_auth_roles_claim c))) ''roles'')"
    "ac_actor_id a = extract_actor_id claims
       (or_default (split_csv (Some (cf_auth_actor_id_claims c))) ''sub'')"
    "set (ac_actor_roles a) \<inter> set auth_required_roles \<noteq> {}"
proof -
  obtain claims where c: "rbind (extract_bearer rq) (decode_token verify (Inr c)) = Inr claims"
    using assms by (auto simp: require_admin_read_def split: sum.splits)
  then obtain token where t: "extract_bearer rq = Inr token" "decode_token verify (Inr c) token = Inr claims"
    by (auto simp: rbind_eq_Inr)
  show thesis
    by (rule that [OF t(1), of claims])
      (use assms c t(2) in \<open>auto simp: require_admin_read_def decode_token_def Let_def rbind_eq_Inr\<close>)
qed

lemma require_admin_read_error:
  assumes "require_admin_read verify (Inr c) rq = Inl e"
    and "\<And>a b d f t x. verify a b d f t = Inl x \<Longrightarrow> x = PyJWTError"
  shows "\<exists>detail. e \<in> {HTTPException 401 detail, HTTPException 403 detail}"
  using assms(1)
  by (auto simp: require_admin_read_def decode_token_def extract_bearer_def as_unauthorized_def Let_def
      rbind_eq_Inl rbind_eq_Inr dest: assms(2) split: sum.splits if_splits list.splits)

end
