(* ===== verification/AdminTx.thy ===== *)
theory AdminTx
  imports Processor
begin

text \<open>
  \<open>src/db/admin_tx.py\<close>: the queries behind the admin endpoints. The order of texts under the
  database's collation is the argument \<open>collate\<close>. Each lookup is the sequence of its statements;
  \<open>tx_context_of\<close>, \<open>order_context_of\<close> and \<open>wallet_entries_of\<close> say what they find in a database
  that does not change meanwhile.
\<close>

section \<open>Query pieces\<close>

text \<open>\<open>ORDER BY event_time DESC, tx_id\<close>, by insertion.\<close>

definition entry_before :: "(string \<Rightarrow> string \<Rightarrow> bool) \<Rightarrow> ledger_entry \<Rightarrow> ledger_entry \<Rightarrow> bool" where
  "entry_before collate a b =
     (le_event_time b < le_event_time a
      \<or> (le_event_time a = le_event_time b \<and> collate (le_tx_id a) (le_tx_id b)))"

fun insert_entry :: "(string \<Rightarrow> string \<Rightarrow> bool) \<Rightarrow> ledger_entry \<Rightarrow> ledger_entry list \<Rightarrow> ledger_entry list" where
  "insert_entry collate x [] = [x]"
| "insert_entry collate x (y # ys) =
     (if entry_before collate x y then x # y # ys else y # insert_entry collate x ys)"

definition newest_first :: "(string \<Rightarrow> string \<Rightarrow> bool) \<Rightarrow> ledger_entry list \<Rightarrow> ledger_entry list" where
  "newest_first collate xs = foldr (insert_entry collate) xs []"

text \<open>\<open>.first()\<close>, and the right-hand side of a \<open>LEFT OUTER JOIN\<close>.\<close>

fun first_row :: "'a list \<Rightarrow> 'a option" where
  "first_row [] = None"
| "first_row (x # xs) = Some x"

definition outer_rows :: "'a list \<Rightarrow> 'a option list" where
  "outer_rows rows = (if rows = [] then [None] else map Some rows)"

section \<open>Lookup of a transaction\<close>

record admin_tx_context =
  tc_ledger_entry :: ledger_entry
  tc_payment_order :: "payment_order option"
  tc_payment_pair :: "payment_pair option"
  tc_peer_entry :: "ledger_entry option"

definition joined_rows :: "db \<Rightarrow> string \<Rightarrow> (ledger_entry \<times> payment_order option \<times> payment_pair option) list" where
  "joined_rows d tx_id =
     concat (map (\<lambda>e.
       concat (map (\<lambda>o'.
         map (\<lambda>pr. (e, o', pr))
           (outer_rows (filter (\<lambda>r. Some (pp_payment_order_id r) = le_related_id e)
                          (payment_ledger_pairs d))))
         (outer_rows (filter (\<lambda>r. Some (po_order_id r) = le_related_id e) (payment_orders d)))))
       (filter (\<lambda>e. le_tx_id e = tx_id) (ledger_entries d)))"

definition needs_peer :: "payment_pair option \<Rightarrow> bool" where
  "needs_peer pair =
     (case pair of
        None \<Rightarrow> True
      | Some r \<Rightarrow> \<not> (truthy (pp_payment_tx_id r) \<and> truthy (pp_receive_tx_id r)))"

definition opposite_type :: "string \<Rightarrow> string" where
  "opposite_type entry_type = (if entry_type = ''PAYMENT'' then ''RECEIVE'' else ''PAYMENT'')"

definition peer_of :: "(string \<Rightarrow> string \<Rightarrow> bool) \<Rightarrow> db \<Rightarrow> ledger_entry \<Rightarrow> ledger_entry option" where
  "peer_of collate d e =
     first_row (newest_first collate
       (filter (\<lambda>x. le_related_id x = le_related_id e \<and> le_tx_id x \<noteq> le_tx_id e
                   \<and> le_entry_type x = opposite_type (le_entry_type e)) (ledger_entries d)))"

text \<open>A text with a zero byte is refused as a parameter.\<close>

definition with_text_param :: "string \<Rightarrow> 'a \<Rightarrow> 'a result" where
  "with_text_param s x = rbind (sql_check (sql_text_ok s)) (\<lambda>_. Inr x)"

definition fetch_admin_tx_context ::
  "platform \<Rightarrow> (string \<Rightarrow> string \<Rightarrow> bool) \<Rightarrow> string \<Rightarrow> admin_tx_context option action" where
  "fetch_admin_tx_context p collate tx_id =
     pbind (db_query p (\<lambda>d. with_text_param tx_id (first_row (joined_rows d tx_id)))) (\<lambda>row.
     case row of
       None \<Rightarrow> preturn None
     | Some (e, order, pair) \<Rightarrow>
         pbind (if truthy (le_related_id e) \<and> needs_peer pair
                then db_query p (\<lambda>d. Inr (peer_of collate d e))
                else preturn None) (\<lambda>peer.
         preturn (Some \<lparr>tc_ledger_entry = e, tc_payment_order = order, tc_payment_pair = pair,
                        tc_peer_entry = peer\<rparr>)))"

definition tx_context_of ::
  "(string \<Rightarrow> string \<Rightarrow> bool) \<Rightarrow> db \<Rightarrow> string \<Rightarrow> admin_tx_context option" where
  "tx_context_of collate d tx_id =
     map_option (\<lambda>e.
       (let pair = Option.bind (le_related_id e) (\<lambda>k. pair_of k d) in
        \<lparr>tc_ledger_entry = e,
         tc_payment_order = Option.bind (le_related_id e) (\<lambda>k. order_of k d),
         tc_payment_pair = pair,
         tc_peer_entry =
           (if truthy (le_related_id e) \<and> needs_peer pair then peer_of collate d e else None)\<rparr>))
       (entry_of tx_id d)"

section \<open>Lookup of an order and of a wallet\<close>

record admin_order_context =
  oc_payment_order :: payment_order
  oc_ledger_entries :: "ledger_entry list"
  oc_payment_pair :: "payment_pair option"

definition entries_of_order :: "(string \<Rightarrow> string \<Rightarrow> bool) \<Rightarrow> string \<Rightarrow> db \<Rightarrow> ledger_entry list" where
  "entries_of_order collate order_id d =
     newest_first collate (filter (\<lambda>e. le_related_id e = Some order_id) (ledger_entries d))"

definition fetch_admin_order_context ::
  "platform \<Rightarrow> (string \<Rightarrow> string \<Rightarrow> bool) \<Rightarrow> string \<Rightarrow> admin_order_context option action" where
  "fetch_admin_order_context p collate order_id =
     pbind (db_query p (\<lambda>d. with_text_param order_id
              (first_row (filter (\<lambda>r. po_order_id r = order_id) (payment_orders d))))) (\<lambda>order.
     case order of
       None \<Rightarrow> preturn None
     | Some o' \<Rightarrow>
         pbind (db_query p (\<lambda>d. Inr (entries_of_order collate order_id d))) (\<lambda>entries.
         pbind (db_query p (\<lambda>d. Inr (first_row
                  (filter (\<lambda>r. pp_payment_order_id r = order_id) (payment_ledger_pairs d))))) (\<lambda>pair.
         preturn (Some \<lparr>oc_payment_order = o', oc_ledger_entries = entries, oc_payment_pair = pair\<rparr>))))"

definition order_context_of ::
  "(string \<Rightarrow> string \<Rightarrow> bool) \<Rightarrow> db \<Rightarrow> string \<Rightarrow> admin_order_context option" where
  "order_context_of collate d order_id =
     map_option (\<lambda>order. \<lparr>oc_payment_order = order,
                          oc_ledger_entries = entries_of_order collate order_id d,
                          oc_payment_pair = pair_of order_id d\<rparr>)
       (order_of order_id d)"

definition in_window :: "string \<Rightarrow> instant option \<Rightarrow> instant option \<Rightarrow> ledger_entry \<Rightarrow> bool" where
  "in_window wallet_id from_time to_time e =
     (le_wallet_id e = wallet_id
      \<and> opt_all (\<lambda>t. t \<le> le_event_time e) from_time
      \<and> opt_all (\<lambda>t. le_event_time e \<le> t) to_time)"

definition wallet_entries_of ::
  "(string \<Rightarrow> string \<Rightarrow> bool) \<Rightarrow> db \<Rightarrow> string \<Rightarrow> instant option \<Rightarrow> instant option \<Rightarrow> int \<Rightarrow> ledger_entry list" where
  "wallet_entries_of collate d wallet_id from_time to_time limit =
     take (nat limit) (newest_first collate
       (filter (in_window wallet_id from_time to_time) (ledger_entries d)))"

text \<open>PostgreSQL refuses a negative limit.\<close>

definition fetch_admin_wallet_tx ::
  "platform \<Rightarrow> (string \<Rightarrow> string \<Rightarrow> bool) \<Rightarrow> string \<Rightarrow> instant option \<Rightarrow> instant option \<Rightarrow> int
     \<Rightarrow> ledger_entry list action" where
  "fetch_admin_wallet_tx p collate wallet_id from_time to_time limit =
     db_query p (\<lambda>d.
       rbind (sql_check (0 \<le> limit)) (\<lambda>_.
       with_text_param wallet_id (wallet_entries_of collate d wallet_id from_time to_time limit)))"

section \<open>Lemmas\<close>

lemma mset_insert_entry [simp]: "mset (insert_entry collate x ys) = add_mset x (mset ys)"
  by (induction ys) auto

lemma mset_newest_first [simp]: "mset (newest_first collate xs) = mset xs"
  by (induction xs) (auto simp: newest_first_def)

lemma set_newest_first [simp]: "set (newest_first collate xs) = set xs"
  by (metis mset_newest_first set_mset_mset)

lemma length_newest_first [simp]: "length (newest_first collate xs) = length xs"
  by (metis mset_newest_first size_mset)

abbreviation descending :: "ledger_entry list \<Rightarrow> bool" where
  "descending \<equiv> sorted_wrt (\<lambda>a b. le_event_time b \<le> le_event_time a)"

lemma set_insert_entry [simp]: "set (insert_entry collate x ys) = insert x (set ys)"
  by (induction ys) auto

lemma descending_insert: "descending ys \<Longrightarrow> descending (insert_entry collate x ys)"
  by (induction ys) (auto simp: entry_before_def intro: order.trans)

lemma descending_newest_first: "descending (newest_first collate xs)"
  by (induction xs) (simp_all add: newest_first_def descending_insert)

lemma sorted_wrt_take_drop:
  "sorted_wrt R xs \<Longrightarrow> x \<in> set (take n xs) \<Longrightarrow> y \<in> set (drop n xs) \<Longrightarrow> R x y"
  by (metis append_take_drop_id sorted_wrt_append)

lemma first_row_None: "first_row xs = None \<longleftrightarrow> xs = []"
  by (cases xs) auto

lemma first_row_Some: "first_row xs = Some x \<Longrightarrow> x \<in> set xs"
  by (cases xs) auto

lemma first_row_filter: "first_row (filter (\<lambda>r. key r = k) rows) = row_of key k rows"
  by (induction rows) auto

lemma first_row_outer: "first_row (outer_rows rows) = Some (first_row rows)"
  by (cases rows) (auto simp: outer_rows_def)

lemma first_row_concat:
  "(\<And>x. x \<in> set xs \<Longrightarrow> f x \<noteq> []) \<Longrightarrow>
     first_row (concat (map f xs)) = Option.bind (first_row xs) (\<lambda>x. first_row (f x))"
proof (cases xs)
  case (Cons x ys)
  assume "\<And>x. x \<in> set xs \<Longrightarrow> f x \<noteq> []"
  with Cons show ?thesis by (cases "f x") auto
qed simp

lemma first_row_map: "first_row (map f xs) = map_option f (first_row xs)"
  by (cases xs) auto

lemma outer_rows_nonempty [simp]: "outer_rows rows \<noteq> []"
  by (simp add: outer_rows_def)

lemma first_row_joined:
  "first_row (joined_rows d tx_id) =
     map_option (\<lambda>e. (e, Option.bind (le_related_id e) (\<lambda>k. order_of k d),
                        Option.bind (le_related_id e) (\<lambda>k. pair_of k d)))
       (entry_of tx_id d)"
proof -
  have sel: "row_of (\<lambda>r. Some (key r)) k rows = Option.bind k (\<lambda>j. row_of key j rows)"
    for key :: "'a \<Rightarrow> string" and k rows
    by (cases k) (simp_all add: row_of_def find_None_iff)
  show ?thesis
    unfolding joined_rows_def
    by (subst first_row_concat; cases "row_of le_tx_id tx_id (ledger_entries d)")
      (simp_all add: first_row_concat first_row_map first_row_outer first_row_filter sel entry_of_def
        order_of_def pair_of_def)
qed

lemma joined_context:
  "first_row (joined_rows d tx_id) = None \<longleftrightarrow> tx_context_of collate d tx_id = None"
  by (simp add: first_row_joined tx_context_of_def)

text \<open>The lookups read only, and what they return is what the database holds.\<close>

lemma with_text_param_Inr: "with_text_param s x = Inr y \<longleftrightarrow> sql_text_ok s \<and> y = x"
  by (auto simp: with_text_param_def sql_check_def rbind_eq_Inr)

lemma db_query_result:
  "db_query p g w = (Inr x, w') \<longleftrightarrow>
     \<not> db_fault p (w_db_calls w) \<and> g (w_db w) = Inr x \<and> w' = w\<lparr>w_db_calls := Suc (w_db_calls w)\<rparr>"
  by (auto simp: db_query_def db_call_run)

lemma keeps_db_query: "obeys (keeps w_db) (db_query p g)"
  by (simp add: obeys_def keeps_def db_query_def db_call_run)

lemma keeps_lookups:
  "obeys (keeps w_db) (fetch_admin_tx_context p collate i)"
  "obeys (keeps w_db) (fetch_admin_order_context p collate j)"
  "obeys (keeps w_db) (fetch_admin_wallet_tx p collate k from_time to_time limit)"
  unfolding fetch_admin_tx_context_def fetch_admin_order_context_def fetch_admin_wallet_tx_def
  by (auto intro!: keeping.obeys_intros keeps_db_query split: option.splits)

lemma fetch_admin_tx_context_result:
  assumes "fetch_admin_tx_context p collate tx_id w = (Inr c, w')"
  shows "c = tx_context_of collate (w_db w) tx_id"
  using assms
  by (auto simp: fetch_admin_tx_context_def pbind_eq_Inr db_query_result with_text_param_Inr first_row_joined
      tx_context_of_def Let_def split: option.splits if_splits)

lemma fetch_admin_order_context_result:
  assumes "fetch_admin_order_context p collate order_id w = (Inr c, w')"
  shows "c = order_context_of collate (w_db w) order_id"
  using assms
  by (auto simp: fetch_admin_order_context_def pbind_eq_Inr db_query_result with_text_param_Inr
      first_row_filter order_context_of_def order_of_def pair_of_def split: option.splits)

lemma fetch_admin_wallet_tx_result:
  assumes "fetch_admin_wallet_tx p collate wallet_id from_time to_time limit w = (Inr es, w')"
  shows "es = wallet_entries_of collate (w_db w) wallet_id from_time to_time limit"
  using assms
  by (auto simp: fetch_admin_wallet_tx_def db_query_result with_text_param_Inr rbind_eq_Inr)

text \<open>The page of a wallet.\<close>

lemma wallet_entries_facts:
  "set (wallet_entries_of collate d wid f t n) \<subseteq> {e \<in> set (ledger_entries d). in_window wid f t e}"
  "descending (wallet_entries_of collate d wid f t n)"
  "int (length (wallet_entries_of collate d wid f t n)) \<le> max 0 n"
  using descending_newest_first [of collate "filter (in_window wid f t) (ledger_entries d)"]
  by (auto simp: wallet_entries_of_def sorted_wrt_take dest: in_set_takeD)

lemma wallet_entries_page:
  "mset (wallet_entries_of collate d wid f t n) \<subseteq># mset (filter (in_window wid f t) (ledger_entries d))"
  "length (wallet_entries_of collate d wid f t n) = min (nat n) (length (filter (in_window wid f t) (ledger_entries d)))"
  "\<forall>x\<in>#mset (filter (in_window wid f t) (ledger_entries d)) - mset (wallet_entries_of collate d wid f t n).
     list_all (\<lambda>e. le_event_time x \<le> le_event_time e) (wallet_entries_of collate d wid f t n)"
proof -
  let ?all = "newest_first collate (filter (in_window wid f t) (ledger_entries d))"
  have page: "wallet_entries_of collate d wid f t n = take (nat n) ?all" by (simp add: wallet_entries_of_def)
  have split: "mset (filter (in_window wid f t) (ledger_entries d)) = mset (take (nat n) ?all) + mset (drop (nat n) ?all)"
    by (metis append_take_drop_id mset_append mset_newest_first)
  show "mset (wallet_entries_of collate d wid f t n) \<subseteq># mset (filter (in_window wid f t) (ledger_entries d))"
    by (simp only: page split mset_subset_eq_add_left)
  show "length (wallet_entries_of collate d wid f t n) = min (nat n) (length (filter (in_window wid f t) (ledger_entries d)))"
    by (simp add: page)
  have "list_all (\<lambda>e. le_event_time x \<le> le_event_time e) (take (nat n) ?all)" if "x \<in> set (drop (nat n) ?all)" for x
    using that sorted_wrt_take_drop [OF descending_newest_first] by (auto simp: list_all_iff)
  then show "\<forall>x\<in>#mset (filter (in_window wid f t) (ledger_entries d)) - mset (wallet_entries_of collate d wid f t n).
     list_all (\<lambda>e. le_event_time x \<le> le_event_time e) (wallet_entries_of collate d wid f t n)"
    by (simp only: page split add_diff_cancel_left' set_mset_mset) blast
qed

end
