(* ===== verification/Service.thy ===== *)
theory Service
  imports AdminTx
begin

text \<open>
  \<open>src/api/service.py\<close> and the response types of \<open>src/api/schemas.py\<close>: from the rows that a
  query found to the answer of an endpoint. The pure part takes the reading of the clock as the
  argument \<open>now\<close>; the actions read it once for each data lag.
\<close>

datatype pairing_status = COMPLETE | INCOMPLETE | UNKNOWN

record related_info =
  ri_related_id :: "string option"
  ri_related_type :: string

record admin_tx_response =
  tr_tx_id :: string
  tr_event_time :: instant
  tr_entry_type :: string
  tr_amount :: decimal
  tr_amount_signed :: "decimal option"
  tr_status :: "string option"
  tr_status_group :: string
  tr_sender_wallet_id :: "string option"
  tr_receiver_wallet_id :: "string option"
  tr_related :: "related_info option"
  tr_paired_tx_id :: "string option"
  tr_merchant_name :: "string option"
  tr_pairing_status :: pairing_status
  tr_data_lag_sec :: "int option"

record ledger_entry_item =
  li_tx_id :: string
  li_event_time :: instant
  li_entry_type :: string
  li_amount :: decimal
  li_amount_signed :: "decimal option"
  li_wallet_id :: string
  li_status :: "string option"
  li_status_group :: string
  li_paired_tx_id :: "string option"
  li_pairing_status :: pairing_status
  li_data_lag_sec :: "int option"

record payment_order_detail =
  pd_order_id :: string
  pd_user_id :: "string option"
  pd_merchant_name :: "string option"
  pd_amount :: decimal
  pd_status :: string
  pd_status_group :: string
  pd_created_at :: instant

record admin_order_response =
  or_order :: payment_order_detail
  or_ledger_entries :: "ledger_entry_item list"
  or_pairing_status :: pairing_status

record admin_wallet_tx_response =
  wr_wallet_id :: string
  wr_entries :: "ledger_entry_item list"
  wr_count :: int

section \<open>The transaction endpoint\<close>

definition resolve_related_type :: "admin_tx_context \<Rightarrow> string" where
  "resolve_related_type c =
     (if truthy (le_related_type (tc_ledger_entry c)) then the (le_related_type (tc_ledger_entry c))
      else if tc_payment_order c \<noteq> None then ''PAYMENT_ORDER''
      else ''UNKNOWN'')"

text \<open>
  The four ids, filled from the pair, then from the peer, then from the entry itself: payment
  transaction, receive transaction, payer wallet, payee wallet.
\<close>

type_synonym pair_ids = "string option \<times> string option \<times> string option \<times> string option"

definition ids_from_pair :: "payment_pair option \<Rightarrow> pair_ids" where
  "ids_from_pair pair =
     (case pair of
        None \<Rightarrow> (None, None, None, None)
      | Some r \<Rightarrow> (pp_payment_tx_id r, pp_receive_tx_id r, pp_payer_wallet_id r, pp_payee_wallet_id r))"

definition ids_with_entry :: "ledger_entry \<Rightarrow> pair_ids \<Rightarrow> pair_ids" where
  "ids_with_entry e ids =
     (case ids of (payment_tx, receive_tx, payer, payee) \<Rightarrow>
        if le_entry_type e = ''PAYMENT''
        then (por payment_tx (Some (le_tx_id e)), receive_tx, por payer (Some (le_wallet_id e)), payee)
        else if le_entry_type e = ''RECEIVE''
        then (payment_tx, por receive_tx (Some (le_tx_id e)), payer, por payee (Some (le_wallet_id e)))
        else ids)"

definition resolve_pairing ::
  "admin_tx_context \<Rightarrow> pairing_status \<times> string option \<times> string option \<times> string option" where
  "resolve_pairing c =
     (let ledger = tc_ledger_entry c; related_type = resolve_related_type c in
      if \<not> truthy (le_related_id ledger) \<or> related_type \<noteq> ''PAYMENT_ORDER''
      then (UNKNOWN, None, None, None)
      else
        (let ids = ids_from_pair (tc_payment_pair c);
             ids = (case tc_peer_entry c of None \<Rightarrow> ids | Some e \<Rightarrow> ids_with_entry e ids)
         in case ids_with_entry ledger ids of (payment_tx, receive_tx, payer, payee) \<Rightarrow>
              (if truthy payment_tx \<and> truthy receive_tx then COMPLETE else INCOMPLETE,
               if le_entry_type ledger = ''PAYMENT'' then receive_tx
               else if le_entry_type ledger = ''RECEIVE'' then payment_tx
               else None,
               payer, payee)))"

definition data_lag :: "instant \<Rightarrow> ledger_entry \<Rightarrow> int" where
  "data_lag now e = max 0 (whole_seconds (elapsed now (max (le_ingested_at e) (le_event_time e))))"

definition compute_data_lag_sec :: "instant \<Rightarrow> admin_tx_context \<Rightarrow> int option" where
  "compute_data_lag_sec now c = Some (data_lag now (tc_ledger_entry c))"

definition resolve_status_group :: "string option \<Rightarrow> string" where
  "resolve_status_group status =
     (if \<not> truthy status then ''UNKNOWN''
      else
        (let normalized = upper (strip (the status)) in
         if normalized \<in> set [''SETTLED'', ''COMPLETED'', ''SUCCESS'', ''SUCCEEDED'', ''PAID'']
         then ''SUCCESS''
         else if normalized \<in> set [''FAILED'', ''CANCELLED'', ''CANCELED'', ''REJECTED'', ''DECLINED'']
         then ''FAIL''
         else if normalized \<in> set [''CREATED'', ''PENDING'', ''PROCESSING'', ''AUTHORIZED'']
         then ''IN_PROGRESS''
         else ''UNKNOWN''))"

definition tx_response_at :: "instant \<Rightarrow> admin_tx_context \<Rightarrow> admin_tx_response" where
  "tx_response_at now c =
     (let ledger = tc_ledger_entry c;
          status = map_option po_status (tc_payment_order c)
      in case resolve_pairing c of (pairing, paired_tx_id, sender, receiver) \<Rightarrow>
        \<lparr>tr_tx_id = le_tx_id ledger,
         tr_event_time = le_event_time ledger,
         tr_entry_type = le_entry_type ledger,
         tr_amount = le_amount ledger,
         tr_amount_signed = le_amount_signed ledger,
         tr_status = status,
         tr_status_group = resolve_status_group status,
         tr_sender_wallet_id = sender,
         tr_receiver_wallet_id = receiver,
         tr_related =
           (if truthy (le_related_id ledger)
            then Some \<lparr>ri_related_id = le_related_id ledger, ri_related_type = resolve_related_type c\<rparr>
            else None),
         tr_paired_tx_id = paired_tx_id,
         tr_merchant_name = Option.bind (tc_payment_order c) po_merchant_name,
         tr_pairing_status = pairing,
         tr_data_lag_sec = compute_data_lag_sec now c\<rparr>)"

definition build_admin_tx_response :: "platform \<Rightarrow> admin_tx_context \<Rightarrow> admin_tx_response action" where
  "build_admin_tx_response p c = pbind (read_clock p) (\<lambda>now. preturn (tx_response_at now c))"

section \<open>The order and the wallet endpoint\<close>

definition compute_entry_data_lag_sec :: "instant \<Rightarrow> ledger_entry \<Rightarrow> int option" where
  "compute_entry_data_lag_sec now e = Some (data_lag now e)"

definition pair_has_both :: "payment_pair option \<Rightarrow> bool" where
  "pair_has_both pair =
     (case pair of
        None \<Rightarrow> False
      | Some r \<Rightarrow> truthy (pp_payment_tx_id r) \<and> truthy (pp_receive_tx_id r))"

definition entry_item_at ::
  "instant \<Rightarrow> payment_pair option \<Rightarrow> payment_order option \<Rightarrow> ledger_entry \<Rightarrow> ledger_entry_item" where
  "entry_item_at now payment_pair payment_order e =
     (let status = map_option po_status payment_order;
          (paired_tx_id, pairing) =
            (if truthy (le_related_id e) then
               (if pair_has_both payment_pair then
                  (if le_entry_type e = ''PAYMENT'' then pp_receive_tx_id (the payment_pair)
                   else if le_entry_type e = ''RECEIVE'' then pp_payment_tx_id (the payment_pair)
                   else None,
                   COMPLETE)
                else if payment_pair \<noteq> None \<or> is_payment_order_type (le_related_type e)
                then (None, INCOMPLETE)
                else (None, UNKNOWN))
             else (None, UNKNOWN))
      in \<lparr>li_tx_id = le_tx_id e,
          li_event_time = le_event_time e,
          li_entry_type = le_entry_type e,
          li_amount = le_amount e,
          li_amount_signed = le_amount_signed e,
          li_wallet_id = le_wallet_id e,
          li_status = status,
          li_status_group = resolve_status_group status,
          li_paired_tx_id = paired_tx_id,
          li_pairing_status = pairing,
          li_data_lag_sec = compute_entry_data_lag_sec now e\<rparr>)"

definition build_ledger_entry_item ::
  "platform \<Rightarrow> payment_pair option \<Rightarrow> payment_order option \<Rightarrow> ledger_entry \<Rightarrow> ledger_entry_item action" where
  "build_ledger_entry_item p payment_pair payment_order e =
     pbind (read_clock p) (\<lambda>now. preturn (entry_item_at now payment_pair payment_order e))"

fun build_items ::
  "platform \<Rightarrow> payment_pair option \<Rightarrow> payment_order option \<Rightarrow> ledger_entry list
     \<Rightarrow> ledger_entry_item list action" where
  "build_items p payment_pair payment_order [] = preturn []"
| "build_items p payment_pair payment_order (e # es) =
     pbind (build_ledger_entry_item p payment_pair payment_order e) (\<lambda>item.
     pbind (build_items p payment_pair payment_order es) (\<lambda>items.
     preturn (item # items)))"

definition order_detail :: "payment_order \<Rightarrow> payment_order_detail" where
  "order_detail order =
     \<lparr>pd_order_id = po_order_id order,
      pd_user_id = po_user_id order,
      pd_merchant_name = po_merchant_name order,
      pd_amount = po_amount order,
      pd_status = po_status order,
      pd_status_group = resolve_status_group (Some (po_status order)),
      pd_created_at = po_created_at order\<rparr>"

definition overall_pairing :: "admin_order_context \<Rightarrow> pairing_status" where
  "overall_pairing c =
     (if pair_has_both (oc_payment_pair c) then COMPLETE
      else if oc_ledger_entries c \<noteq> [] then INCOMPLETE
      else UNKNOWN)"

definition build_admin_order_response :: "platform \<Rightarrow> admin_order_context \<Rightarrow> admin_order_response action" where
  "build_admin_order_response p c =
     pbind (build_items p (oc_payment_pair c) (Some (oc_payment_order c)) (oc_ledger_entries c)) (\<lambda>items.
     preturn \<lparr>or_order = order_detail (oc_payment_order c),
              or_ledger_entries = items,
              or_pairing_status = overall_pairing c\<rparr>)"

definition build_admin_wallet_tx_response ::
  "platform \<Rightarrow> string \<Rightarrow> ledger_entry list \<Rightarrow> admin_wallet_tx_response action" where
  "build_admin_wallet_tx_response p wallet_id entries =
     pbind (build_items p None None entries) (\<lambda>items.
     preturn \<lparr>wr_wallet_id = wallet_id, wr_entries = items, wr_count = int (length items)\<rparr>)"

section \<open>Lemmas\<close>

lemma data_lag_nonneg [simp]: "0 \<le> data_lag now e"
  by (simp add: data_lag_def)

lemma resolve_status_group_range:
  "resolve_status_group s \<in> set [''SUCCESS'', ''FAIL'', ''IN_PROGRESS'', ''UNKNOWN'']"
  by (simp add: resolve_status_group_def Let_def)

lemma resolve_status_group_strip:
  "resolve_status_group (Some (strip s)) = resolve_status_group (Some s) \<or> strip s = []"
  by (auto simp: resolve_status_group_def)

lemma wallet_item_pairing:
  "li_pairing_status (entry_item_at now None None e) \<noteq> COMPLETE
   \<and> li_status (entry_item_at now None None e) = None
   \<and> li_paired_tx_id (entry_item_at now None None e) = None"
  by (simp add: entry_item_at_def pair_has_both_def)

text \<open>What the actions return, with the number of the first clock reading as an argument.\<close>

definition items_at ::
  "platform \<Rightarrow> nat \<Rightarrow> payment_pair option \<Rightarrow> payment_order option \<Rightarrow> ledger_entry list \<Rightarrow> ledger_entry_item list" where
  "items_at p n pair order es =
     map (\<lambda>i. entry_item_at (clk p (n + i)) pair order (es ! i)) [0..<length es]"

definition order_response_at :: "platform \<Rightarrow> nat \<Rightarrow> admin_order_context \<Rightarrow> admin_order_response" where
  "order_response_at p n c =
     \<lparr>or_order = order_detail (oc_payment_order c),
      or_ledger_entries = items_at p n (oc_payment_pair c) (Some (oc_payment_order c)) (oc_ledger_entries c),
      or_pairing_status = overall_pairing c\<rparr>"

definition wallet_response_at :: "platform \<Rightarrow> nat \<Rightarrow> string \<Rightarrow> ledger_entry list \<Rightarrow> admin_wallet_tx_response" where
  "wallet_response_at p n wallet_id es =
     \<lparr>wr_wallet_id = wallet_id, wr_entries = items_at p n None None es, wr_count = int (length es)\<rparr>"

lemma length_items_at [simp]: "length (items_at p n pair order es) = length es"
  by (simp add: items_at_def)

lemma items_at_Cons:
  "items_at p n pair order (e # es) = entry_item_at (clk p n) pair order e # items_at p (Suc n) pair order es"
  by (simp add: items_at_def map_upt_Suc del: upt_Suc)

lemma items_at_member:
  "item \<in> set (items_at p n pair order es) \<Longrightarrow> \<exists>e\<in>set es. \<exists>now. item = entry_item_at now pair order e"
  by (auto simp: items_at_def intro: nth_mem)

lemma build_items_run:
  "build_items p pair order es w =
     (Inr (items_at p (w_ticks w) pair order es), w\<lparr>w_ticks := w_ticks w + length es\<rparr>)"
proof (induction es arbitrary: w)
  case Nil
  then show ?case by (simp add: items_at_def)
next
  case (Cons e es)
  then show ?case
    by (simp add: build_ledger_entry_item_def pbind_run [of "pbind a f" for a f]
        pbind_run [of "build_items p pair order es"] items_at_Cons)
qed

lemma build_responses_run:
  "build_admin_order_response p c w =
     (Inr (order_response_at p (w_ticks w) c), w\<lparr>w_ticks := w_ticks w + length (oc_ledger_entries c)\<rparr>)"
  "build_admin_wallet_tx_response p wid es w =
     (Inr (wallet_response_at p (w_ticks w) wid es), w\<lparr>w_ticks := w_ticks w + length es\<rparr>)"
  by (simp_all add: build_admin_order_response_def build_admin_wallet_tx_response_def order_response_at_def
      wallet_response_at_def pbind_run [of "build_items p a b c" for a b c] build_items_run)

lemma keeps_builders:
  "obeys (keeps w_db) (build_admin_tx_response p c)"
  "obeys (keeps w_db) (build_admin_order_response p oc)"
  "obeys (keeps w_db) (build_admin_wallet_tx_response p wid es)"
  by (simp_all add: obeys_def keeps_def build_admin_tx_response_def build_responses_run)

text \<open>
  When one side of the payment is known: its transaction id is in the pair, or in a peer of that
  type, or the entry itself has that type.
\<close>

definition side_known :: "(payment_pair \<Rightarrow> string option) \<Rightarrow> string \<Rightarrow> admin_tx_context \<Rightarrow> bool" where
  "side_known get ty c \<longleftrightarrow>
     truthy (Option.bind (tc_payment_pair c) get)
     \<or> list_ex (\<lambda>e. le_entry_type e = ty \<and> le_tx_id e \<noteq> [])
         (tc_ledger_entry c # (case tc_peer_entry c of None \<Rightarrow> [] | Some e \<Rightarrow> [e]))"

lemma resolve_pairing_status:
  "fst (resolve_pairing c) =
     (if \<not> truthy (le_related_id (tc_ledger_entry c)) \<or> resolve_related_type c \<noteq> ''PAYMENT_ORDER''
      then UNKNOWN
      else if side_known pp_payment_tx_id ''PAYMENT'' c \<and> side_known pp_receive_tx_id ''RECEIVE'' c
      then COMPLETE else INCOMPLETE)"
  by (cases "tc_payment_pair c"; cases "tc_peer_entry c")
    (auto simp: resolve_pairing_def ids_from_pair_def ids_with_entry_def side_known_def Let_def)

text \<open>The ids of the pair come first.\<close>

lemma resolve_pairing_pair:
  assumes "tc_payment_pair c = Some r" and "truthy (pp_payment_tx_id r)" and "truthy (pp_receive_tx_id r)"
    and "truthy (le_related_id (tc_ledger_entry c))" and "resolve_related_type c = ''PAYMENT_ORDER''"
  shows "fst (resolve_pairing c) = COMPLETE"
    and "fst (snd (resolve_pairing c)) =
           (if le_entry_type (tc_ledger_entry c) = ''PAYMENT'' then pp_receive_tx_id r
            else if le_entry_type (tc_ledger_entry c) = ''RECEIVE'' then pp_payment_tx_id r
            else None)"
  using assms
  by (auto simp: resolve_pairing_def ids_from_pair_def ids_with_entry_def por_def Let_def
      split: option.splits)

end
