(* ===== verification/AuditLog.thy ===== *)
theory AuditLog
  imports Auth AdminTx Service
begin

text \<open>
  \<open>src/api/audit.py\<close> and \<open>src/db/audit.py\<close>: the row that each lookup leaves in
  \<open>admin_audit_logs\<close>. The fields are a row whose id the table has not given yet.
\<close>

section \<open>Building the fields\<close>

record audit_actor =
  au_actor_id :: "string option"
  au_actor_roles :: "string option"

text \<open>\<open>request.state\<close> holds what \<open>require_admin_read\<close> returned, the argument \<open>state\<close>.\<close>

definition extract_actor :: "actor_context option \<Rightarrow> request \<Rightarrow> audit_actor" where
  "extract_actor state rq =
     \<lparr>au_actor_id = por (Option.bind state ac_actor_id) (request_header rq ''X-Actor-Id''),
      au_actor_roles =
        (case state of
           Some a \<Rightarrow>
             if ac_actor_roles a \<noteq> [] then Some (join '','' (ac_actor_roles a))
             else request_header rq ''X-Actor-Roles''
         | None \<Rightarrow> request_header rq ''X-Actor-Roles'')\<rparr>"

text \<open>The keys of the setting; the same expression as \<open>_split_csv\<close> on a text that is there.\<close>

definition audit_mask_keys :: "app_config \<Rightarrow> string list" where
  "audit_mask_keys c =
     filter (\<lambda>k. k \<noteq> []) (map strip (split_on (CHR '','') (cf_audit_mask_query_keys c)))"

definition build_audit_fields ::
  "app_config \<Rightarrow> instant \<Rightarrow> audit_actor \<Rightarrow> string \<Rightarrow> string \<Rightarrow> string option \<Rightarrow> string \<Rightarrow> int \<Rightarrow> request
     \<Rightarrow> int option \<Rightarrow> int option \<Rightarrow> admin_audit_log" where
  "build_audit_fields config now actor action resource_type resource_id outcome status_code rq
     duration_ms result_count =
     (let query = mask_query (Some (rq_query rq)) (audit_mask_keys config) in
      \<lparr>aa_audit_id = 0,
       aa_actor_id = au_actor_id actor,
       aa_actor_roles = au_actor_roles actor,
       aa_action = action,
       aa_resource_type = resource_type,
       aa_resource_id = resource_id,
       aa_result = outcome,
       aa_status_code = status_code,
       aa_ip = rq_client_host rq,
       aa_user_agent = request_header rq ''user-agent'',
       aa_request_method = rq_method rq,
       aa_request_path = rq_path rq,
       aa_request_query = (if truthy query then query else None),
       aa_requested_at = now,
       aa_duration_ms = duration_ms,
       aa_result_count = result_count\<rparr>)"

section \<open>Writing the row\<close>

definition fits_integer :: "int \<Rightarrow> bool" where
  "fits_integer i = (- (2 ^ 31) \<le> i \<and> i < 2 ^ 31)"

definition store_audit :: "admin_audit_log \<Rightarrow> unit result" where
  "store_audit v =
     sql_check (opt_all sql_text_ok (aa_actor_id v) \<and> opt_all sql_text_ok (aa_actor_roles v)
       \<and> sql_text_ok (aa_action v) \<and> sql_text_ok (aa_resource_type v)
       \<and> opt_all sql_text_ok (aa_resource_id v) \<and> sql_text_ok (aa_result v)
       \<and> opt_all sql_text_ok (aa_ip v) \<and> opt_all sql_text_ok (aa_user_agent v)
       \<and> sql_text_ok (aa_request_method v) \<and> sql_text_ok (aa_request_path v)
       \<and> opt_all sql_text_ok (aa_request_query v) \<and> fits_integer (aa_status_code v)
       \<and> opt_all fits_integer (aa_duration_ms v) \<and> opt_all fits_integer (aa_result_count v))"

definition audit_logged :: "admin_audit_log \<Rightarrow> db \<Rightarrow> db" where
  "audit_logged row d =
     d\<lparr>admin_audit_logs := admin_audit_logs d @ [row\<lparr>aa_audit_id := audit_seq d + 1\<rparr>],
       audit_seq := audit_seq d + 1\<rparr>"

definition record_admin_audit :: "platform \<Rightarrow> admin_audit_log \<Rightarrow> unit action" where
  "record_admin_audit p row =
     db_execute p (\<lambda>d. rbind (store_audit row) (\<lambda>_. Inr (audit_logged row d)))"

section \<open>Lemmas\<close>

lemma audit_mask_keys_split: "audit_mask_keys c = split_csv (Some (cf_audit_mask_query_keys c))"
  by (simp add: audit_mask_keys_def split_csv_def)

lemma record_admin_audit_run:
  assumes "record_admin_audit p row w = (Inr u, w')"
  shows "w_db w' = audit_logged row (w_db w)"
  using assms
  by (auto simp: record_admin_audit_def db_execute_run rbind_eq_Inr split: if_splits sum.splits)

end
