(* ===== verification/ApiMetrics.thy ===== *)
theory ApiMetrics
  imports AuditLog
begin

text \<open>
  \<open>src/common/metrics.py\<close> and \<open>src/api/observability.py\<close>: the measurements of requests and
  statements, the pool and replication gauges, and the two middlewares around a handler.
\<close>

section \<open>Recording\<close>

definition observe_api_request :: "string \<Rightarrow> string \<Rightarrow> int \<Rightarrow> int \<Rightarrow> telemetry \<Rightarrow> telemetry" where
  "observe_api_request req_method route status_code duration t =
     emit (ApiRequestsTotal req_method route (show_int status_code))
       (emit (ApiRequestLatency req_method route (show_int status_code) duration) t)"

definition observe_db_query :: "string \<Rightarrow> string \<Rightarrow> int \<Rightarrow> bool \<Rightarrow> telemetry \<Rightarrow> telemetry" where
  "observe_db_query operation table duration success t =
     (let s = (if success then ''true'' else ''false'')
      in emit (DbQueriesTotal operation table s) (emit (DbQueryLatency operation table s duration) t))"

section \<open>Gauges of the pool\<close>

text \<open>What a SQLAlchemy pool answers; the list holds at most the engine registered last.\<close>

record pool_engine =
  pe_size :: int
  pe_checkedout :: int
  pe_overflow :: int
  pe_checkedin :: int

definition register_pool_engine :: "pool_engine \<Rightarrow> pool_engine list \<Rightarrow> pool_engine list" where
  "register_pool_engine engine engines = [engine]"

definition pool_gauge :: "(pool_engine \<Rightarrow> int) \<Rightarrow> pool_engine list \<Rightarrow> int list" where
  "pool_gauge reading engines = (if engines \<noteq> [] then [reading (hd engines)] else [])"

definition pool_size_cb :: "pool_engine list \<Rightarrow> int list" where
  "pool_size_cb = pool_gauge pe_size"

definition pool_checked_out_cb :: "pool_engine list \<Rightarrow> int list" where
  "pool_checked_out_cb = pool_gauge pe_checkedout"

definition pool_overflow_cb :: "pool_engine list \<Rightarrow> int list" where
  "pool_overflow_cb = pool_gauge pe_overflow"

definition pool_checked_in_cb :: "pool_engine list \<Rightarrow> int list" where
  "pool_checked_in_cb = pool_gauge pe_checkedin"

text \<open>The provider is absent, raises, or gives a lag in microseconds or none.\<close>

definition db_replication_lag_cb :: "(unit \<Rightarrow> int option result) option \<Rightarrow> int list" where
  "db_replication_lag_cb provider =
     (case provider of
        None \<Rightarrow> []
      | Some f \<Rightarrow> (case f () of Inr (Some lag) \<Rightarrow> [max 0 lag] | _ \<Rightarrow> []))"

section \<open>Middleware\<close>

definition CORRELATION_ID_HEADER :: string where "CORRELATION_ID_HEADER = ''X-Correlation-ID''"

record 'b http_response =
  hr_status :: int
  hr_headers :: "(string \<times> string) list"
  hr_body :: 'b

definition resolve_route_template :: "string option \<Rightarrow> string" where
  "resolve_route_template route = (case route of Some path \<Rightarrow> path | None \<Rightarrow> ''unmatched'')"

definition correlation_middleware ::
  "platform \<Rightarrow> request \<Rightarrow> 'b http_response action \<Rightarrow> 'b http_response action" where
  "correlation_middleware p rq call_next =
     correlation_context p (request_header rq CORRELATION_ID_HEADER)
       (pbind call_next (\<lambda>response w.
          (Inr (response\<lparr>hr_headers :=
             AList.update (lower CORRELATION_ID_HEADER) (w_correlation w) (hr_headers response)\<rparr>), w)))"

text \<open>The argument \<open>route\<close> is \<open>request.scope.get("route")\<close> before the handler is called.\<close>

definition metrics_middleware ::
  "platform \<Rightarrow> request \<Rightarrow> string option \<Rightarrow> 'b http_response action \<Rightarrow> 'b http_response action" where
  "metrics_middleware p rq route_scope call_next =
     (let route = resolve_route_template route_scope in
      pbind (measure_with (emit (ApiRequestsInflight 1 (rq_method rq) route))) (\<lambda>_.
      pbind (read_monotonic p) (\<lambda>start w.
        case call_next w of
          (res, w1) \<Rightarrow>
            (let status_code = (case res of Inr response \<Rightarrow> hr_status response | Inl _ \<Rightarrow> 500) in
             pbind (read_monotonic p) (\<lambda>now.
             pbind (measure_with (observe_api_request (rq_method rq) route status_code (now - start))) (\<lambda>_.
             pbind (measure_with (emit (ApiRequestsInflight (-1) (rq_method rq) route))) (\<lambda>_.
             plift res))) w1))))"

text \<open>The middleware that is registered last is the outer one.\<close>

definition observed_call ::
  "platform \<Rightarrow> request \<Rightarrow> string option \<Rightarrow> 'b http_response action \<Rightarrow> 'b http_response action" where
  "observed_call p rq route_scope call_next =
     metrics_middleware p rq route_scope (correlation_middleware p rq call_next)"

section \<open>Lemmas\<close>

text \<open>The number of requests in flight, as the up-down counter adds it up.\<close>

fun inflight_change :: "measurement \<Rightarrow> int" where
  "inflight_change (ApiRequestsInflight n m r) = n"
| "inflight_change _ = 0"

definition inflight :: "telemetry \<Rightarrow> int" where
  "inflight t = sum_list (map inflight_change (emitted t))"

lemma inflight_emit [simp]: "inflight (emit m t) = inflight t + inflight_change m"
  by (simp add: inflight_def emit_def)

text \<open>The requests that were counted, with their labels, in order.\<close>

fun is_request_count :: "measurement \<Rightarrow> bool" where
  "is_request_count (ApiRequestsTotal req_method route status) = True"
| "is_request_count _ = False"

definition request_counts :: "telemetry \<Rightarrow> measurement list" where
  "request_counts t = filter is_request_count (emitted t)"

lemma request_counts_emit [simp]:
  "request_counts (emit m t) = request_counts t @ (if is_request_count m then [m] else [])"
  by (simp add: request_counts_def emit_def)

lemma correlation_middleware_run:
  assumes "correlation_middleware p rq call_next w = (res, w')"
  obtains n u answer where
    "call_next (w\<lparr>w_correlation :=
         correlation_or_fresh (request_header rq CORRELATION_ID_HEADER) (uuid4 p (w_uuids w)),
       w_uuids := n\<rparr>) = (answer, u)"
    "w' = u\<lparr>w_correlation := w_correlation w\<rparr>"
    "res = map_sum id (\<lambda>r. r\<lparr>hr_headers :=
       AList.update (lower CORRELATION_ID_HEADER) (w_correlation u) (hr_headers r)\<rparr>) answer"
proof -
  from assms obtain n v where run:
    "pbind call_next (\<lambda>response w.
          (Inr (response\<lparr>hr_headers :=
             AList.update (lower CORRELATION_ID_HEADER) (w_correlation w) (hr_headers response)\<rparr>), w))
       (w\<lparr>w_correlation := correlation_or_fresh (request_header rq CORRELATION_ID_HEADER) (uuid4 p (w_uuids w)),
          w_uuids := n\<rparr>) = (res, v)"
    "w' = v\<lparr>w_correlation := w_correlation w\<rparr>"
    unfolding correlation_middleware_def by (rule correlation_context_run)
  obtain answer u where call: "call_next (w\<lparr>w_correlation :=
      correlation_or_fresh (request_header rq CORRELATION_ID_HEADER) (uuid4 p (w_uuids w)),
      w_uuids := n\<rparr>) = (answer, u)" by force
  show thesis
    by (rule that [OF call]) (use run call in \<open>auto simp: pbind_def split: sum.splits\<close>)
qed

lemma metrics_middleware_run:
  assumes "metrics_middleware p rq route_scope call_next w = (res, w')"
  obtains w1 w2 where "call_next w1 = (res, w2)" "w_db w1 = w_db w"
    "inflight (w_telemetry w1) = inflight (w_telemetry w) + 1"
    "inflight (w_telemetry w') = inflight (w_telemetry w2) - 1"
    "w_correlation w1 = w_correlation w" "w_correlation w' = w_correlation w2"
    "w_uuids w1 = w_uuids w" "w_db w' = w_db w2"
    "request_counts (w_telemetry w1) = request_counts (w_telemetry w)"
    "request_counts (w_telemetry w') = request_counts (w_telemetry w2)
       @ [ApiRequestsTotal (rq_method rq) (resolve_route_template route_scope)
            (show_int (case res of Inr r \<Rightarrow> hr_status r | Inl _ \<Rightarrow> 500))]"
  using assms
  by (auto simp: metrics_middleware_def Let_def pbind_run [of "read_monotonic p"] read_monotonic_def
      observe_api_request_def split: prod.splits)

end
