(* ===== verification/DbObservability.thy ===== *)
theory DbObservability
  imports ApiMetrics
begin

text \<open>
  \<open>src/db/observability.py\<close>: labels and log lines for SQL statements, the hooks around their
  execution, and the sampler of the replication lag. Readings of \<open>perf_counter\<close> are arguments,
  in microseconds.
\<close>

section \<open>Cutting a text\<close>

text \<open>\<open>text[:k]\<close>; a negative \<open>k\<close> counts from the end.\<close>

definition prefix_chars :: "int \<Rightarrow> string \<Rightarrow> string" where
  "prefix_chars k s =
     (let cs = chars_of s
      in concat (take (nat (if 0 \<le> k then k else int (length cs) + k)) cs))"

section \<open>Statements\<close>

definition strip_char :: "char \<Rightarrow> string \<Rightarrow> string" where
  "strip_char c s = rev (dropWhile (\<lambda>x. x = c) (rev (dropWhile (\<lambda>x. x = c) s)))"

definition normalize_identifier :: "string \<Rightarrow> string" where
  "normalize_identifier v = strip_char (CHR ''`'') (strip_char (CHR 0x22) (strip v))"

text \<open>The token after the first one that is the keyword in lower case.\<close>

fun token_after :: "string \<Rightarrow> string list \<Rightarrow> string option" where
  "token_after keyword [] = None"
| "token_after keyword (t # ts) =
     (if lower t = keyword then (case ts of [] \<Rightarrow> None | u # us \<Rightarrow> Some u) else token_after keyword ts)"

definition or_unknown :: "string option \<Rightarrow> string" where
  "or_unknown x = (case x of None \<Rightarrow> ''unknown'' | Some t \<Rightarrow> t)"

definition parse_statement :: "string \<Rightarrow> string \<times> string" where
  "parse_statement statement =
     (case split_ws (strip statement) of
        [] \<Rightarrow> (''UNKNOWN'', ''unknown'')
      | first_token # rest \<Rightarrow>
          (let tokens = first_token # rest;
               op = upper first_token;
               table = or_unknown
                 (if op = ''SELECT'' then token_after ''from'' tokens
                  else if op = ''INSERT'' then token_after ''into'' tokens
                  else if op = ''UPDATE'' then (case rest of [] \<Rightarrow> None | u # us \<Rightarrow> Some u)
                  else if op = ''DELETE'' then token_after ''from'' tokens
                  else None);
               table = normalize_identifier table;
               table = (if CHR ''.'' \<in> set table then last (split_on (CHR ''.'') table) else table)
           in (op, if table = [] then ''unknown'' else table)))"

definition truncate_sql :: "string \<Rightarrow> int \<Rightarrow> string" where
  "truncate_sql statement limit =
     (let sql = join '' '' (split_ws (strip statement))
      in if int (length (chars_of sql)) \<le> limit then sql
         else prefix_chars (limit - 3) sql @ ''...'')"

section \<open>Hooks\<close>

record db_log_line =
  dl_slow :: bool
  dl_duration :: int
  dl_operation :: string
  dl_table :: string
  dl_sql :: "string option"

text \<open>
  \<open>now\<close> is the first reading in the expression for the duration, \<open>later\<close> the one that is taken
  as the default start when the statement has none.
\<close>

definition after_cursor_execute ::
  "int \<Rightarrow> int \<Rightarrow> int \<Rightarrow> int option \<Rightarrow> string \<Rightarrow> telemetry \<Rightarrow> telemetry \<times> db_log_line list" where
  "after_cursor_execute slow_query_ms now later start statement t =
     (let slow = 1000 * max 0 slow_query_ms;
          duration = now - (case start of Some s \<Rightarrow> s | None \<Rightarrow> later)
      in case parse_statement statement of (op, table) \<Rightarrow>
           (observe_db_query op table duration True t,
            if slow \<noteq> 0 \<and> slow \<le> duration
            then [\<lparr>dl_slow = True, dl_duration = duration, dl_operation = op, dl_table = table,
                   dl_sql = Some (truncate_sql statement 300)\<rparr>]
            else []))"

definition handle_db_error ::
  "int \<Rightarrow> int \<Rightarrow> int option \<Rightarrow> string option \<Rightarrow> telemetry \<Rightarrow> telemetry \<times> db_log_line list" where
  "handle_db_error start_default now start statement t =
     (let sql = (case statement of Some s \<Rightarrow> s | None \<Rightarrow> []);
          duration = now - (case start of Some s \<Rightarrow> s | None \<Rightarrow> start_default)
      in case parse_statement sql of (op, table) \<Rightarrow>
           (observe_db_query op table duration False t,
            [\<lparr>dl_slow = False, dl_duration = duration, dl_operation = op, dl_table = table,
              dl_sql = None\<rparr>]))"

text \<open>
  What an engine carries: its listeners, the threshold for slow statements they were made with,
  and the mark of the installation. Installing loads the configuration, which may raise, before
  anything is attached; installing a second time does nothing. The registration of the lag
  provider is in the state of \<open>Startup\<close>.
\<close>

record engine_hooks =
  eh_before :: nat
  eh_after :: nat
  eh_error :: nat
  eh_slow_ms :: int
  eh_installed :: bool

definition install_sqlalchemy_observability :: "app_config result \<Rightarrow> (engine_hooks, py_error, unit) prog" where
  "install_sqlalchemy_observability config e =
     (if eh_installed e then (Inr (), e)
      else pbind (plift config) (\<lambda>c.
             (let slow_ms = max 0 (cf_db_slow_query_ms c) in
              pmodify (\<lambda>e. e\<lparr>eh_before := eh_before e + 1, eh_after := eh_after e + 1,
                               eh_error := eh_error e + 1, eh_slow_ms := slow_ms, eh_installed := True\<rparr>))) e)"

section \<open>Replication lag\<close>

text \<open>\<open>float(value)\<close> is the argument \<open>to_float\<close>: microseconds, or none when it raises.\<close>

definition to_lag_seconds :: "(pyval \<Rightarrow> int option) \<Rightarrow> pyval \<Rightarrow> int option" where
  "to_lag_seconds to_float v = (if v = PyNone then None else map_option (max 0) (to_float v))"

datatype lag_source = Primary | Standby

record replication_sampler =
  rs_warned_primary :: bool
  rs_warned_standby :: bool

text \<open>The result of a query, the lag, and the warning that is logged the first time it fails.\<close>

definition sample_primary ::
  "(pyval \<Rightarrow> int option) \<Rightarrow> pyval result \<Rightarrow> replication_sampler
     \<Rightarrow> int option \<times> lag_source list \<times> replication_sampler" where
  "sample_primary to_float answer s =
     (case answer of
        Inr lag \<Rightarrow> (to_lag_seconds to_float lag, [], s)
      | Inl e \<Rightarrow> (None, if rs_warned_primary s then [] else [Primary], s\<lparr>rs_warned_primary := True\<rparr>))"

definition sample_standby ::
  "(pyval \<Rightarrow> int option) \<Rightarrow> pyval result \<Rightarrow> replication_sampler
     \<Rightarrow> int option \<times> lag_source list \<times> replication_sampler" where
  "sample_standby to_float answer s =
     (case answer of
        Inr lag \<Rightarrow> (to_lag_seconds to_float lag, [], s)
      | Inl e \<Rightarrow> (None, if rs_warned_standby s then [] else [Standby], s\<lparr>rs_warned_standby := True\<rparr>))"

definition sample_lag ::
  "(pyval \<Rightarrow> int option) \<Rightarrow> pyval result \<times> pyval result \<Rightarrow> replication_sampler
     \<Rightarrow> int option \<times> lag_source list \<times> replication_sampler" where
  "sample_lag to_float answers s =
     (case sample_primary to_float (fst answers) s of
        (Some lag, warnings, s1) \<Rightarrow> (Some lag, warnings, s1)
      | (None, warnings, s1) \<Rightarrow>
          (case sample_standby to_float (snd answers) s1 of
             (lag, others, s2) \<Rightarrow> (lag, warnings @ others, s2)))"

definition new_sampler :: replication_sampler where
  "new_sampler = \<lparr>rs_warned_primary = False, rs_warned_standby = False\<rparr>"

text \<open>The lags and warnings of a sequence of samples.\<close>

fun sample_all ::
  "(pyval \<Rightarrow> int option) \<Rightarrow> (pyval result \<times> pyval result) list \<Rightarrow> replication_sampler
     \<Rightarrow> int option list \<times> lag_source list" where
  "sample_all to_float [] s = ([], [])"
| "sample_all to_float (a # rest) s =
     (case sample_lag to_float a s of
        (lag, warnings, s1) \<Rightarrow>
          (case sample_all to_float rest s1 of (lags, others) \<Rightarrow> (lag # lags, warnings @ others)))"

section \<open>Lemmas\<close>

lemma join_nonempty_parts: "join '' '' ws = [] \<Longrightarrow> [] \<notin> set ws \<Longrightarrow> ws = []"
  by (induction "'' ''" ws rule: join.induct) auto

lemma split_ws_acc_nonempty: "[] \<notin> set (split_ws_acc s w)"
  by (induction s w rule: split_ws_acc.induct) auto

lemma split_ws_nonempty: "[] \<notin> set (split_ws s)"
  by (simp add: split_ws_def split_ws_acc_nonempty)

lemma parse_statement_nonempty:
  "fst (parse_statement s) \<noteq> []" and "snd (parse_statement s) \<noteq> []"
  using split_ws_nonempty [of "strip s"]
  by (auto simp: parse_statement_def upper_def Let_def split: list.splits)

text \<open>Cutting a text after some of its characters leaves those characters.\<close>

lemma chars_of_take: "chars_of (concat (take k (chars_of s)) @ t) = take k (chars_of s) @ chars_of t
    \<or> length (chars_of s) \<le> k"
proof (induction s arbitrary: k rule: chars_of.induct)
  case (2 c s)
  let ?n = "case lead_class (byte_of c) of Some (lo, hi, j) \<Rightarrow> j | None \<Rightarrow> 0"
  show ?case
  proof (cases k)
    case (Suc j)
    show ?thesis
    proof (cases "?n \<le> length s")
      case True
      from "2.IH" [OF refl, of j] show ?thesis
        using Suc True by (auto simp: Let_def)
    next
      case False
      then show ?thesis using Suc by (simp add: Let_def)
    qed
  qed simp
qed simp

lemma truncate_sql_length:
  assumes "3 \<le> limit"
  shows "int (length (chars_of (truncate_sql s limit))) \<le> limit"
proof (cases "int (length (chars_of (join '' '' (split_ws (strip s))))) \<le> limit")
  case True
  then show ?thesis by (simp add: truncate_sql_def)
next
  case False
  let ?sql = "join '' '' (split_ws (strip s))"
  have dots: "chars_of ''...'' = [''.'', ''.'', ''.'']" by code_simp
  have "\<not> length (chars_of ?sql) \<le> nat (limit - 3)" using False assms by (simp add: le_nat_iff)
  with chars_of_take [of "nat (limit - 3)" ?sql "''...''"]
  have "chars_of (concat (take (nat (limit - 3)) (chars_of ?sql)) @ ''...'')
      = take (nat (limit - 3)) (chars_of ?sql) @ [''.'', ''.'', ''.'']" by (simp only: dots) blast
  then have "length (chars_of (truncate_sql s limit)) \<le> nat (limit - 3) + 3"
    using False assms by (simp only: truncate_sql_def prefix_chars_def Let_def) simp
  with assms show ?thesis by linarith
qed

text \<open>Each source is warned about at most once.\<close>

definition unwarned :: "replication_sampler \<Rightarrow> lag_source list" where
  "unwarned s = (if rs_warned_primary s then [] else [Primary]) @ (if rs_warned_standby s then [] else [Standby])"

lemma sample_lag_warnings:
  assumes "sample_lag to_float a s = (lag, warnings, s1)"
  shows "mset warnings + mset (unwarned s1) \<subseteq># mset (unwarned s)"
    and "lag = Some l \<Longrightarrow> 0 \<le> l"
  using assms
  by (auto simp: sample_lag_def sample_primary_def sample_standby_def unwarned_def to_lag_seconds_def
      split: sum.splits option.splits if_splits)

lemma sample_all_warnings: "mset (snd (sample_all to_float answers s)) \<subseteq># mset (unwarned s)"
proof (induction answers arbitrary: s)
  case (Cons a rest)
  obtain lag warnings s1 where one: "sample_lag to_float a s = (lag, warnings, s1)"
    by (cases "sample_lag to_float a s") auto
  have "mset warnings + mset (snd (sample_all to_float rest s1)) \<subseteq># mset warnings + mset (unwarned s1)"
    using Cons.IH by simp
  also note sample_lag_warnings(1) [OF one]
  finally show ?case using one by (cases "sample_all to_float rest s1") simp
qed simp

end
