(* ===== verification/Startup.thy ===== *)
theory Startup
  imports Consumer DbObservability
begin

text \<open>
  What the processes set up once: the log handlers (\<open>src/common/logging.py\<close>), the telemetry
  exporter (\<open>src/common/otel.py\<close>), the engine and the session factory (\<open>src/db/session.py\<close>), the
  Kafka consumer, and the command line of \<open>src/consumer/main.py\<close>. The globals of the modules are
  the fields of a state. What SQLAlchemy makes of the settings is an argument.
\<close>

section \<open>Logging\<close>

definition LOG_FORMAT :: string where
  "LOG_FORMAT = ''%(asctime)sZ %(levelname)s %(name)s corr=%(correlation_id)s %(message)s''"

definition LOG_DATEFMT :: string where
  "LOG_DATEFMT = ''%Y-%m-%dT%H:%M:%S''"

record log_formatter =
  lf_format :: string
  lf_datefmt :: string
  lf_utc :: bool

record log_handler =
  lh_formatter :: "log_formatter option"
  lh_correlation_filters :: nat

record root_logger =
  rl_level :: int
  rl_handlers :: "log_handler list"

definition utc_formatter :: log_formatter where
  "utc_formatter = \<lparr>lf_format = LOG_FORMAT, lf_datefmt = LOG_DATEFMT, lf_utc = True\<rparr>"

text \<open>
  \<open>getattr(logging, level_name, logging.INFO)\<close>, as \<open>setLevel\<close> takes it: two names in capitals
  belong to attributes of the module that are no levels.
\<close>

definition log_levels :: "(string \<times> int) list" where
  "log_levels =
     [(''CRITICAL'', 50), (''FATAL'', 50), (''ERROR'', 40), (''WARNING'', 30), (''WARN'', 30), (''INFO'', 20),
      (''DEBUG'', 10), (''NOTSET'', 0)]"

definition level_of :: "string \<Rightarrow> int result" where
  "level_of level_name =
     (case map_of log_levels level_name of
        Some l \<Rightarrow> Inr l
      | None \<Rightarrow> if level_name = ''BASIC_FORMAT'' then Inl (ValueError ''Unknown level'')
                else if level_name = ''_STYLES'' then Inl TypeError else Inr 20)"

text \<open>\<open>logging.basicConfig\<close> does nothing when the root logger has handlers.\<close>

definition basic_config :: "int result \<Rightarrow> log_handler \<Rightarrow> (root_logger, py_error, unit) prog" where
  "basic_config level handler r =
     (if rl_handlers r \<noteq> [] then (Inr (), r)
      else (let r' = r\<lparr>rl_handlers := [handler]\<rparr>
            in case level of Inl e \<Rightarrow> (Inl e, r') | Inr l \<Rightarrow> (Inr (), r'\<lparr>rl_level := l\<rparr>)))"

definition with_correlation_filter :: "log_handler \<Rightarrow> log_handler" where
  "with_correlation_filter h =
     (if lh_correlation_filters h = 0 then h\<lparr>lh_correlation_filters := 1\<rparr> else h)"

definition configure_logging :: "app_config result \<Rightarrow> (root_logger, py_error, unit) prog" where
  "configure_logging config =
     pbind (plift config) (\<lambda>c.
     pbind (basic_config (level_of (upper (cf_log_level c)))
              \<lparr>lh_formatter = Some utc_formatter, lh_correlation_filters = 1\<rparr>) (\<lambda>_.
     pmodify (\<lambda>r. r\<lparr>rl_handlers := map with_correlation_filter (rl_handlers r)\<rparr>)))"

section \<open>Telemetry export and the engine\<close>

record engine_settings =
  es_url :: string
  es_pool_pre_ping :: bool
  es_pool_size :: int
  es_max_overflow :: int
  es_pool_timeout :: int
  es_pool_recycle :: int

record db_engine =
  en_settings :: engine_settings
  en_hooks :: engine_hooks

record startup =
  su_azure_configured :: bool
  su_exporters :: "string list"
  su_engine :: "db_engine option"
  su_lag_provider :: "engine_settings option"
  su_pool_engine :: "engine_settings list"
  su_session_factory :: "engine_settings option"

type_synonym 'a starting = "(startup, py_error, 'a) prog"

text \<open>\<open>configure_azure_monitor\<close> may refuse the connection string; it has then set up nothing.\<close>

definition init_azure_monitor :: "(string \<Rightarrow> unit result) \<Rightarrow> app_config result \<Rightarrow> unit starting" where
  "init_azure_monitor configure config s =
     (if su_azure_configured s then (Inr (), s)
      else pbind (plift config) (\<lambda>c.
             (let conn_str = cf_appinsights_connection_string c in
              if conn_str = [] then preturn ()
              else pbind (plift (configure conn_str)) (\<lambda>_.
                   pmodify (\<lambda>s. s\<lparr>su_exporters := su_exporters s @ [conn_str],
                                   su_azure_configured := True\<rparr>)))) s)"

definition engine_settings_of :: "app_config \<Rightarrow> engine_settings" where
  "engine_settings_of c =
     \<lparr>es_url = cf_database_url c, es_pool_pre_ping = True, es_pool_size = cf_db_pool_size c,
      es_max_overflow = cf_db_max_overflow c, es_pool_timeout = cf_db_pool_timeout c,
      es_pool_recycle = cf_db_pool_recycle c\<rparr>"

definition new_hooks :: engine_hooks where
  "new_hooks = \<lparr>eh_before = 0, eh_after = 0, eh_error = 0, eh_slow_ms = 0, eh_installed = False\<rparr>"

text \<open>\<open>install_sqlalchemy_observability(_ENGINE)\<close>, with the registration of the lag provider.\<close>

definition observe_engine :: "app_config result \<Rightarrow> unit starting" where
  "observe_engine config s =
     (case su_engine s of
        None \<Rightarrow> (Inr (), s)
      | Some e \<Rightarrow>
          (case install_sqlalchemy_observability config (en_hooks e) of
             (r, hooks) \<Rightarrow>
               (r, s\<lparr>su_engine := Some (e\<lparr>en_hooks := hooks\<rparr>),
                     su_lag_provider := (if eh_installed hooks \<and> \<not> eh_installed (en_hooks e)
                                         then Some (en_settings e) else su_lag_provider s)\<rparr>)))"

text \<open>
  \<open>create_engine\<close> may refuse the settings. The global is assigned before the hooks are installed,
  and the installation loads the configuration a second time: \<open>config\<close> and \<open>reload\<close> are what the
  two calls of \<open>load_config\<close> do.
\<close>

definition get_engine ::
  "(engine_settings \<Rightarrow> unit result) \<Rightarrow> app_config result \<Rightarrow> app_config result \<Rightarrow> db_engine starting" where
  "get_engine create config reload s =
     (case su_engine s of
        Some e \<Rightarrow> (Inr e, s)
      | None \<Rightarrow>
          pbind (plift config) (\<lambda>c.
          (let settings = engine_settings_of c in
           pbind (plift (create settings)) (\<lambda>_.
           pbind (pmodify (\<lambda>s. s\<lparr>su_engine := Some \<lparr>en_settings = settings, en_hooks = new_hooks\<rparr>\<rparr>)) (\<lambda>_.
           pbind (observe_engine reload) (\<lambda>_.
           pbind (pmodify (\<lambda>s. s\<lparr>su_pool_engine := [settings]\<rparr>)) (\<lambda>_ s.
           (Inr (the (su_engine s)), s))))))) s)"

definition get_session_factory ::
  "(engine_settings \<Rightarrow> unit result) \<Rightarrow> app_config result \<Rightarrow> app_config result \<Rightarrow> engine_settings starting" where
  "get_session_factory create config reload s =
     (case su_session_factory s of
        Some f \<Rightarrow> (Inr f, s)
      | None \<Rightarrow>
          pbind (get_engine create config reload) (\<lambda>e.
          pbind (pmodify (\<lambda>s. s\<lparr>su_session_factory := Some (en_settings e)\<rparr>)) (\<lambda>_.
          preturn (en_settings e))) s)"

section \<open>The consumer process\<close>

definition consumer_settings :: "app_config \<Rightarrow> (string \<times> pyval) list" where
  "consumer_settings c =
     fold (\<lambda>(k, v). AList.update k v)
       [(''group.id'', PyStr (cf_consumer_group_id c)), (''enable.auto.commit'', PyBool False),
        (''auto.offset.reset'', PyStr (cf_consumer_offset_reset c))]
       (map (\<lambda>(k, v). (k, PyStr v)) (build_kafka_client_config c))"

definition consumer_topics :: "consumer_runtime \<Rightarrow> string list" where
  "consumer_topics rt = [tp_ledger (topics (rt_profile rt)), tp_payment_order (topics (rt_profile rt))]"

text \<open>What the argument parser has accepted; the files are given by their lines.\<close>

datatype consumer_command =
    Consume "int option" "int option"
  | Backfill "string list option" "string list option" "string option" "string option"
  | NoCommand

definition iso_arg :: "string option \<Rightarrow> instant option result" where
  "iso_arg v = (if truthy v then parse_iso_datetime v else Inr None)"

definition run_command ::
  "platform \<Rightarrow> app_config result \<Rightarrow> (string \<times> pyval) list \<Rightarrow> poll list \<Rightarrow> consumer_command \<Rightarrow> unit action" where
  "run_command p config profiles polls command =
     (case command of
        Backfill ledger_file payment_order_file since until_arg \<Rightarrow>
          pbind (plift (iso_arg since)) (\<lambda>since_time.
          pbind (plift (iso_arg until_arg)) (\<lambda>until_time.
          run_backfill p config profiles ledger_file payment_order_file since_time until_time))
      | Consume max_messages max_idle_seconds \<Rightarrow>
          pbind (run_consumer p config profiles max_messages max_idle_seconds polls) (\<lambda>_. preturn ())
      | NoCommand \<Rightarrow> preturn ())"

definition consumer_main ::
  "platform \<Rightarrow> app_config result \<Rightarrow> (string \<times> pyval) list \<Rightarrow> poll list \<Rightarrow> consumer_command
     \<Rightarrow> root_logger \<times> world \<Rightarrow> unit result \<times> root_logger \<times> world" where
  "consumer_main p config profiles polls command s =
     (case s of (r, w) \<Rightarrow>
        (case configure_logging config r of
           (Inl e, r') \<Rightarrow> (Inl e, r', w)
         | (Inr _, r') \<Rightarrow>
             (case run_command p config profiles polls command w of (res, w') \<Rightarrow> (res, r', w'))))"

section \<open>Once\<close>

definition startup_ok :: "startup \<Rightarrow> bool" where
  "startup_ok s \<longleftrightarrow>
     length (su_exporters s) = (if su_azure_configured s then 1 else 0)
     \<and> (case su_engine s of
          None \<Rightarrow> su_lag_provider s = None \<and> su_pool_engine s = [] \<and> su_session_factory s = None
        | Some e \<Rightarrow> opt_all (\<lambda>f. f = en_settings e) (su_session_factory s)
            \<and> (if eh_installed (en_hooks e)
               then eh_before (en_hooks e) = 1 \<and> eh_after (en_hooks e) = 1 \<and> eh_error (en_hooks e) = 1
                 \<and> su_lag_provider s = Some (en_settings e) \<and> su_pool_engine s = [en_settings e]
               else en_hooks e = new_hooks \<and> su_lag_provider s = None \<and> su_pool_engine s = []))"

text \<open>What is there stays, and the state stays consistent.\<close>

definition set_up :: "startup \<Rightarrow> startup \<Rightarrow> bool" where
  "set_up s s' \<longleftrightarrow>
     (startup_ok s \<longrightarrow> startup_ok s') \<and> (\<forall>e. su_engine s = Some e \<longrightarrow> su_engine s' = Some e)
     \<and> (\<forall>f. su_session_factory s = Some f \<longrightarrow> su_session_factory s' = Some f)
     \<and> (su_azure_configured s \<longrightarrow> su_azure_configured s' \<and> su_exporters s' = su_exporters s)"

interpretation setting_up: action_relation set_up
  by unfold_locales (auto simp: set_up_def)

text \<open>The calls, each with what its loads of the configuration do.\<close>

datatype startup_call =
    InitAzure "app_config result"
  | GetEngine "app_config result" "app_config result"
  | GetSessionFactory "app_config result" "app_config result"

fun startup_step :: "(string \<Rightarrow> unit result) \<Rightarrow> (engine_settings \<Rightarrow> unit result) \<Rightarrow> startup_call \<Rightarrow> startup \<Rightarrow> startup" where
  "startup_step configure create (InitAzure config) s = snd (init_azure_monitor configure config s)"
| "startup_step configure create (GetEngine config reload) s = snd (get_engine create config reload s)"
| "startup_step configure create (GetSessionFactory config reload) s = snd (get_session_factory create config reload s)"

fun reload_fails :: "startup_call \<Rightarrow> bool" where
  "reload_fails (InitAzure config) = False"
| "reload_fails (GetEngine config reload) = isl reload"
| "reload_fails (GetSessionFactory config reload) = isl reload"

definition nothing_set_up :: startup where
  "nothing_set_up =
     \<lparr>su_azure_configured = False, su_exporters = [], su_engine = None, su_lag_provider = None,
      su_pool_engine = [], su_session_factory = None\<rparr>"

lemma obeys_init_azure: "obeys set_up (init_azure_monitor configure config)"
  by (auto simp: obeys_def set_up_def startup_ok_def init_azure_monitor_def pbind_def Let_def split: sum.splits option.splits)

text \<open>The three ways in which a call ends.\<close>

lemma get_engine_cases:
  obtains (present) e where "su_engine s = Some e" "get_engine create config reload s = (Inr e, s)"
  | (refused) err where "su_engine s = None" "get_engine create config reload s = (Inl err, s)"
  | (bare) settings err where "su_engine s = None" "reload = Inl err"
      "get_engine create config reload s =
         (Inl err, s\<lparr>su_engine := Some \<lparr>en_settings = settings, en_hooks = new_hooks\<rparr>\<rparr>)"
  | (fresh) e where "su_engine s = None" "eh_installed (en_hooks e)" "eh_before (en_hooks e) = 1"
      "eh_after (en_hooks e) = 1" "eh_error (en_hooks e) = 1"
      "get_engine create config reload s = (Inr e, s\<lparr>su_engine := Some e,
         su_lag_provider := Some (en_settings e), su_pool_engine := [en_settings e]\<rparr>)"
proof (cases "su_engine s")
  case (Some e)
  then show thesis by (intro present) (simp_all add: get_engine_def)
next
  case None
  show thesis
  proof (cases config)
    case (Inl err)
    then show thesis using None by (intro refused) (simp_all add: get_engine_def)
  next
    case (Inr c)
    show thesis
    proof (cases "create (engine_settings_of c)")
      case (Inl err)
      then show thesis using None Inr by (intro refused) (simp_all add: get_engine_def Let_def)
    next
      case made: (Inr u)
      show thesis
      proof (cases reload)
        case (Inl err)
        then show thesis
          by (intro bare [of err "engine_settings_of c"] None)
            (simp_all add: None Inr made get_engine_def Let_def pbind_run [of "observe_engine r" for r] observe_engine_def
              install_sqlalchemy_observability_def new_hooks_def)
      next
        case (Inr c')
        let ?e = "\<lparr>en_settings = engine_settings_of c, en_hooks = \<lparr>eh_before = 1, eh_after = 1, eh_error = 1,
            eh_slow_ms = max 0 (cf_db_slow_query_ms c'), eh_installed = True\<rparr>\<rparr>"
        show thesis
          by (rule fresh [of ?e])
            (simp_all add: None Inr \<open>config = Inr c\<close> made get_engine_def Let_def pbind_run [of "observe_engine r" for r]
              observe_engine_def install_sqlalchemy_observability_def new_hooks_def)
      qed
    qed
  qed
qed

lemma obeys_get_engine: "obeys set_up (get_engine create config reload)"
  unfolding obeys_def
proof
  fix s
  show "set_up s (snd (get_engine create config reload s))"
    by (cases rule: get_engine_cases [of s create config reload])
      (auto simp: set_up_def startup_ok_def new_hooks_def)
qed

lemma get_engine_keeps_factory:
  "get_engine create config reload s = (Inr e, s') \<Longrightarrow> su_engine s' = Some e \<and> su_session_factory s' = su_session_factory s"
  by (cases rule: get_engine_cases [of s create config reload]) auto

lemma obeys_get_session_factory: "obeys set_up (get_session_factory create config reload)"
  unfolding obeys_def
proof
  fix s
  have engine: "set_up s (snd (get_engine create config reload s))" using obeys_get_engine by (simp add: obeys_def)
  show "set_up s (snd (get_session_factory create config reload s))"
  proof (cases "su_session_factory s")
    case None
    obtain r s' where run: "get_engine create config reload s = (r, s')" by force
    show ?thesis
    proof (cases r)
      case (Inl e)
      with None run engine show ?thesis by (simp add: get_session_factory_def pbind_def)
    next
      case (Inr e)
      with None run engine get_engine_keeps_factory [of create config reload s e s'] show ?thesis
        by (auto simp: get_session_factory_def pbind_def set_up_def startup_ok_def)
    qed
  qed (simp add: get_session_factory_def setting_up.R_refl)
qed

lemma startup_step_set_up: "set_up s (startup_step configure create c s)"
  using obeys_init_azure obeys_get_engine obeys_get_session_factory by (cases c) (simp_all add: obeys_def)

lemma startup_steps_set_up: "set_up s (fold (startup_step configure create) cs s)"
  by (induction cs arbitrary: s) (auto intro: setting_up.R_refl setting_up.R_trans startup_step_set_up)

text \<open>A call makes an engine with its hooks, unless its second load of the configuration fails.\<close>

lemma startup_step_hooks:
  assumes "su_engine (startup_step configure create c s) = Some e"
  shows "su_engine s = Some e \<or> eh_installed (en_hooks e) \<or> reload_fails c"
proof -
  have engine: "su_engine s = Some e \<or> eh_installed (en_hooks e) \<or> isl reload"
    if "su_engine (snd (get_engine create config reload s)) = Some e" for config reload
    using that by (cases rule: get_engine_cases [of s create config reload]) auto
  have factory: "su_engine (snd (get_session_factory create config reload s)) =
      su_engine (if su_session_factory s = None then snd (get_engine create config reload s) else s)" for config reload
    by (cases "get_engine create config reload s") (auto simp: get_session_factory_def pbind_def split: sum.splits option.splits)
  have azure: "su_engine (snd (init_azure_monitor configure config s)) = su_engine s" for config
    by (auto simp: init_azure_monitor_def pbind_def Let_def split: sum.splits)
  show ?thesis
    using assms engine by (cases c) (auto simp: azure factory split: if_splits)
qed

lemma startup_steps_hooks:
  "su_engine (fold (startup_step configure create) cs s) = Some e \<Longrightarrow>
     su_engine s = Some e \<or> eh_installed (en_hooks e) \<or> list_ex reload_fails cs"
  by (induction cs arbitrary: s) (auto dest!: startup_step_hooks)


text \<open>
  When the second load fails, the call raises, but the engine is there: every later call returns
  it, without hooks, and installs nothing.
\<close>

lemma engine_without_hooks_stays:
  assumes "su_engine s = None" and "create (engine_settings_of c) = Inr ()"
  shows "\<exists>e. get_engine create (Inr c) (Inl err) s = (Inl err, s\<lparr>su_engine := Some e\<rparr>) \<and> en_hooks e = new_hooks
    \<and> get_engine create config reload (s\<lparr>su_engine := Some e\<rparr>) = (Inr e, s\<lparr>su_engine := Some e\<rparr>)"
  using assms
  by (intro exI [of _ "\<lparr>en_settings = engine_settings_of c, en_hooks = new_hooks\<rparr>"])
    (simp add: get_engine_def Let_def pbind_run [of "observe_engine r" for r] observe_engine_def
      install_sqlalchemy_observability_def new_hooks_def)

lemma configure_logging_covers:
  "configure_logging config r = (Inr (), r') \<Longrightarrow>
     list_all (\<lambda>h. lh_correlation_filters h \<noteq> 0) (rl_handlers r') \<and> rl_handlers r' \<noteq> []"
  by (auto simp: configure_logging_def basic_config_def pbind_def with_correlation_filter_def list_all_iff Let_def
      split: sum.splits if_splits)

lemma configure_logging_once:
  assumes "configure_logging config r = (Inr (), r')"
  shows "snd (configure_logging config' r') = r'"
proof -
  have "map with_correlation_filter (rl_handlers r') = rl_handlers r'" "rl_handlers r' \<noteq> []"
    using configure_logging_covers [OF assms] by (auto simp: with_correlation_filter_def list_all_iff intro: map_idI)
  then show ?thesis by (cases config') (simp_all add: configure_logging_def basic_config_def pbind_def)
qed

end
