(* ===== verification/EndToEnd.thy ===== *)
theory EndToEnd
  imports Scenarios Startup
begin

text \<open>
  \<open>scripts/e2e_pairing_check.py\<close>: publishes a payment, its counterpart and their order under
  topics of its own, runs the consumer on them and checks the stored pair. The broker is the
  argument \<open>deliver\<close>: what the consumer's polls return for the messages that were delivered.
\<close>

definition e2e_ledger_event :: "string \<Rightarrow> string \<Rightarrow> string \<Rightarrow> string \<Rightarrow> string \<Rightarrow> string \<Rightarrow> pydict" where
  "e2e_ledger_event tx_id wallet_id entry_type amount_signed order_id now =
     [(KeyStr ''tx_id'', PyStr tx_id), (KeyStr ''wallet_id'', PyStr wallet_id),
      (KeyStr ''entry_type'', PyStr entry_type), (KeyStr ''amount'', PyStr ''15.00''),
      (KeyStr ''amount_signed'', PyStr amount_signed), (KeyStr ''related_id'', PyStr order_id),
      (KeyStr ''related_type'', PyStr ''PAYMENT_ORDER''), (KeyStr ''event_time'', PyStr now),
      (KeyStr ''created_at'', PyStr now), (KeyStr ''updated_at'', PyStr now), (KeyStr ''version'', PyInt 1)]"

definition e2e_payment_order :: "string \<Rightarrow> string \<Rightarrow> pydict" where
  "e2e_payment_order order_id now =
     [(KeyStr ''order_id'', PyStr order_id), (KeyStr ''user_id'', PyStr ''user-e2e-1''),
      (KeyStr ''merchant_name'', PyStr ''MERCHANT-E2E''), (KeyStr ''amount'', PyStr ''15.00''),
      (KeyStr ''status'', PyStr ''SETTLED''), (KeyStr ''created_at'', PyStr now),
      (KeyStr ''updated_at'', PyStr now), (KeyStr ''version'', PyInt 1)]"

definition e2e_publish_events ::
  "platform \<Rightarrow> app_config result \<Rightarrow> string \<Rightarrow> string \<Rightarrow> string \<Rightarrow> unit sending" where
  "e2e_publish_events p config order_id payment_tx receive_tx =
     pbind (plift config) (\<lambda>c.
     pbind (open_producer c) (\<lambda>_.
     pbind (on_world (read_clock p)) (\<lambda>t.
     (let now = show_instant t in
      pbind (produce_keyed (cf_ledger_topic c) payment_tx
               (e2e_ledger_event payment_tx ''wallet-e2e-1'' ''PAYMENT'' ''-15.00'' order_id now)) (\<lambda>_.
      pbind (produce_keyed (cf_ledger_topic c) receive_tx
               (e2e_ledger_event receive_tx ''wallet-e2e-2'' ''RECEIVE'' ''15.00'' order_id now)) (\<lambda>_.
      pbind (produce_keyed (cf_payment_order_topic c) order_id (e2e_payment_order order_id now)) (\<lambda>_.
      flush)))))))"

definition assert_pairing :: "platform \<Rightarrow> string \<Rightarrow> unit action" where
  "assert_pairing p order_id =
     pbind (session_scope p
       (pbind (db_query p (\<lambda>d. rbind (sql_check (sql_text_ok order_id)) (\<lambda>_.
                 scalar_one_or_none (filter (\<lambda>r. pp_payment_order_id r = order_id) (payment_ledger_pairs d)))))
          (\<lambda>pair.
        case pair of
          None \<Rightarrow> plift (Inl (SystemExit ''Pair row not found''))
        | Some r \<Rightarrow> preturn (pp_payment_tx_id r, pp_receive_tx_id r))))
       (\<lambda>(payment_tx_id, receive_tx_id).
     plift (raise_if (\<not> truthy payment_tx_id \<or> \<not> truthy receive_tx_id) (SystemExit ''Pair row incomplete'')))"

text \<open>\<open>int(time.time())\<close>, from the same clock as \<open>datetime.now\<close>; 719162 days before 1970.\<close>

definition epoch_seconds :: "instant \<Rightarrow> int" where
  "epoch_seconds t = whole_seconds (usec t - 719162 * usec_per_day)"

definition e2e_environ :: "string \<Rightarrow> environ \<Rightarrow> environ" where
  "e2e_environ suffix os_environ =
     fold (\<lambda>(k, v). AList.update k v)
       [(''KAFKA_GROUP_ID'', ''bo-sync-consumer-e2e-'' @ suffix),
        (''LEDGER_TOPIC'', ''ledger.entry.upserted.e2e.'' @ suffix),
        (''PAYMENT_ORDER_TOPIC'', ''payment.order.upserted.e2e.'' @ suffix),
        (''CONSUMER_OFFSET_RESET'', ''earliest'')] os_environ"

text \<open>
  \<open>root\<close> is the root logger that \<open>configure_logging\<close> finds; it reads the settings before the
  script overwrites four of them.
\<close>

definition e2e_main ::
  "platform \<Rightarrow> root_logger \<Rightarrow> environ \<Rightarrow> (string \<times> pyval) list \<Rightarrow> (outgoing list \<Rightarrow> poll list) \<Rightarrow> unit sending" where
  "e2e_main p root os_environ event_profiles deliver =
     pbind (plift (fst (configure_logging (load_config None os_environ (Inr event_profiles)) root))) (\<lambda>_.
     pbind (on_world (read_clock p)) (\<lambda>t.
     (let suffix = show_int (epoch_seconds t);
          order_id = ''po-e2e-'' @ suffix;
          payment_tx = ''tx-pay-e2e-'' @ suffix;
          receive_tx = ''tx-rec-e2e-'' @ suffix;
          config = load_config None (e2e_environ suffix os_environ) (Inr event_profiles)
      in
      pbind (e2e_publish_events p config order_id payment_tx receive_tx) (\<lambda>_.
      pbind (\<lambda>s. on_world (run_consumer p config event_profiles (Some 3) (Some 10) (deliver (sn_delivered s))) s) (\<lambda>_.
      on_world (assert_pairing p order_id))))))"

end
