(* ===== verification/TimeRoundTrip.thy ===== *)
theory TimeRoundTrip
  imports JsonRoundTrip Events
begin

text \<open>
  Times printed by \<open>isoformat\<close> are read back as the same instant: the calendar conversion is
  inverted by the day count, and the parser recovers every field of the printed text.
\<close>

section \<open>The calendar\<close>

lemma days_before_year_bounds:
  "146097 * (y - 1) - 699 \<le> 400 * days_before_year y" "400 * days_before_year y \<le> 146097 * (y - 1) + 396"
proof -
  have "4 * ((y - 1) div 4) \<le> y - 1" "y - 1 < 4 * ((y - 1) div 4) + 4"
    "100 * ((y - 1) div 100) \<le> y - 1" "y - 1 < 100 * ((y - 1) div 100) + 100"
    "400 * ((y - 1) div 400) \<le> y - 1" "y - 1 < 400 * ((y - 1) div 400) + 400"
    by presburger+
  then show "146097 * (y - 1) - 699 \<le> 400 * days_before_year y" "400 * days_before_year y \<le> 146097 * (y - 1) + 396"
    by (simp_all add: days_before_year_def)
qed

lemma div_step:
  fixes y k :: int
  assumes "0 < k"
  shows "y div k = (y - 1) div k + (if y mod k = 0 then 1 else 0)"
proof -
  let ?q = "(y - 1) div k" and ?r = "(y - 1) mod k"
  have y: "y = k * ?q + (?r + 1)" and r: "0 \<le> ?r" "?r < k"
    using assms mult_div_mod_eq [of k "y - 1"] by simp_all
  show ?thesis
  proof (cases "?r + 1 = k")
    case True
    then have "y = k * (?q + 1) + 0" using y by (simp add: distrib_left)
    then show ?thesis using int_div_pos_eq [of y k "?q + 1" 0] int_mod_pos_eq [of y k "?q + 1" 0] assms by simp
  next
    case False
    then show ?thesis using int_div_pos_eq [OF y] int_mod_pos_eq [OF y] r by simp
  qed
qed

lemma days_before_next_year:
  "days_before_year (y + 1) = days_before_year y + (if is_leap y then 366 else 365)"
proof -
  have cancel: "y mod 100 mod 4 = y mod 4" "y mod 400 mod 100 = y mod 100"
    by (simp_all add: mod_mod_cancel)
  have leap: "is_leap y \<longleftrightarrow> (y mod 4 = 0) \<and> (y mod 100 = 0 \<longrightarrow> y mod 400 = 0)"
    by (auto simp: is_leap_def)
  have fours: "y mod 100 = 0 \<Longrightarrow> y mod 4 = 0" "y mod 400 = 0 \<Longrightarrow> y mod 100 = 0"
    using cancel by (metis mod_0)+
  have "days_before_year (y + 1) = y * 365 + y div 4 - y div 100 + y div 400"
    by (simp add: days_before_year_def)
  also have "\<dots> = y * 365 + ((y - 1) div 4 + (if y mod 4 = 0 then 1 else 0))
      - ((y - 1) div 100 + (if y mod 100 = 0 then 1 else 0)) + ((y - 1) div 400 + (if y mod 400 = 0 then 1 else 0))"
    by (simp only: div_step [of 4 y] div_step [of 100 y] div_step [of 400 y] zero_less_numeral)
  also have "\<dots> = days_before_year y + (if is_leap y then 366 else 365)"
    using fours by (cases "y mod 4 = 0"; cases "y mod 100 = 0"; cases "y mod 400 = 0") (simp_all add: days_before_year_def leap)
  finally show ?thesis .
qed

lemma year_of_ord_spec:
  assumes "1 \<le> n" and "n \<le> max_ordinal"
  shows "1 \<le> year_of_ord n" "year_of_ord n \<le> 9999"
    and "days_before_year (year_of_ord n) < n" "n \<le> days_before_year (year_of_ord n + 1)"
proof -
  define q where "q = ((n - 1) * 400) div 146097"
  have q: "146097 * q \<le> 400 * (n - 1)" "400 * (n - 1) < 146097 * q + 146097" "0 \<le> q"
    using assms(1) div_mult_mod_eq [of "(n - 1) * 400" 146097] pos_mod_bound [of 146097 "(n - 1) * 400"]
      pos_mod_sign [of 146097 "(n - 1) * 400"] by (simp_all add: q_def [symmetric] q_def [symmetric, THEN sym] pos_imp_zdiv_nonneg_iff)
  have low: "days_before_year (q + 1) < n"
    using days_before_year_bounds(2) [of "q + 1"] q(1) by simp
  have high: "n \<le> days_before_year (q + 2) + 2"
  proof -
    define days where "days = days_before_year (q + 2)"
    then show ?thesis using days_before_year_bounds(1) [of "q + 2"] q(2) by simp
  qed
  have y: "year_of_ord n = (if days_before_year (q + 2) < n then q + 2 else q + 1)"
    using low unfolding year_of_ord_def q_def [symmetric] Let_def by (simp add: add.assoc)
  show "1 \<le> year_of_ord n" using q(3) by (simp add: y)
  show below: "days_before_year (year_of_ord n) < n" using low by (simp add: y)
  show "n \<le> days_before_year (year_of_ord n + 1)"
    using high days_before_next_year [of "q + 2"] by (auto simp: y add.commute [of q] split: if_splits)
  show "year_of_ord n \<le> 9999"
    using below days_before_year_bounds(1) [of "year_of_ord n"] assms(2) by (simp add: max_ordinal_def)
qed

lemma month_of_day_spec:
  assumes "1 \<le> r" and "r \<le> (if is_leap y then 366 else 365)" and "m = month_of_day y r"
  shows "1 \<le> m \<and> m \<le> 12 \<and> days_before_month y m < r \<and> r - days_before_month y m \<le> days_in_month y m"
  using assms
  by (cases "is_leap y") (auto simp: month_of_day_def days_before_month_def days_in_month_def split: if_splits)

lemma ord2ymd_spec:
  assumes "1 \<le> n" and "n \<le> max_ordinal" and "ord2ymd n = (y, m, d)"
  shows "valid_ymd y m d" and "ymd2ord y m d = n"
proof -
  note year = year_of_ord_spec [OF assms(1,2)]
  have y: "y = year_of_ord n" and m: "m = month_of_day y (n - days_before_year y)"
    and d: "d = n - days_before_year y - days_before_month y m"
    using assms(3) by (auto simp: ord2ymd_def Let_def)
  have "1 \<le> n - days_before_year y" "n - days_before_year y \<le> (if is_leap y then 366 else 365)"
    using year days_before_next_year [of y] by (simp_all add: y)
  note month = month_of_day_spec [OF this m]
  show "valid_ymd y m d" using month year by (simp add: valid_ymd_def d y)
  show "ymd2ord y m d = n" by (simp add: ymd2ord_def d)
qed

section \<open>Numbers of a fixed width\<close>

lemma of_digits_zeros: "of_digits_acc 0 (replicate k (CHR ''0'') @ s) = of_digits_acc 0 s"
  by (induction k) (simp_all add: digit_val_def)

lemma of_digits_pad: "0 \<le> n \<Longrightarrow> of_digits (pad_nat w n) = Some n"
  by (simp add: of_digits_def pad_nat_def Let_def of_digits_zeros of_digits_acc_show)

lemma length_pad: "0 \<le> n \<Longrightarrow> n < 10 ^ w \<Longrightarrow> 0 < w \<Longrightarrow> length (pad_nat w n) = w"
  using show_nat_length [of n "w - 1"] by (simp add: pad_nat_def Let_def)

lemma digits_pad: "0 \<le> n \<Longrightarrow> list_all is_digit (pad_nat w n)"
  using of_digits_pad [of n w] by (auto dest: of_digits_range)

lemma pad_2:
  assumes "0 \<le> n" and "n < 100"
  obtains a b where "pad_nat 2 n = [a, b]" "is_digit a" "is_digit b" "of_digits [a, b] = Some n"
proof -
  have "length (pad_nat 2 n) = 2" using length_pad [of n 2] assms by simp
  then obtain a b where "pad_nat 2 n = [a, b]" by (auto simp: numeral_2_eq_2 length_Suc_conv)
  with digits_pad [OF assms(1), of 2] of_digits_pad [OF assms(1), of 2] show thesis by (intro that) simp_all
qed

lemma pad_4:
  assumes "0 \<le> n" and "n < 10000"
  obtains a b c d where "pad_nat 4 n = [a, b, c, d]" "is_digit a" "of_digits [a, b, c, d] = Some n"
proof -
  have "length (pad_nat 4 n) = 4" using length_pad [of n 4] assms by simp
  then obtain a b c d where "pad_nat 4 n = [a, b, c, d]" by (auto simp: eval_nat_numeral length_Suc_conv)
  with digits_pad [OF assms(1), of 4] of_digits_pad [OF assms(1), of 4] show thesis by (intro that) simp_all
qed

lemma length_show_hms: "8 \<le> length (show_hms u)"
proof -
  have "2 \<le> length (pad_nat 2 n)" for n by (simp add: pad_nat_def Let_def)
  from this [of "u div usec_per_sec div 3600"] this [of "u div usec_per_sec div 60 mod 60"]
    this [of "u div usec_per_sec mod 60"]
  show ?thesis by (simp add: show_hms_def Let_def)
qed

section \<open>The date\<close>

lemma digit_is_not:
  "is_digit c \<Longrightarrow> c \<noteq> CHR ''W''" "is_digit c \<Longrightarrow> c \<noteq> CHR '':''" "is_digit c \<Longrightarrow> \<not> is_zone_char c"
  "is_digit c \<Longrightarrow> c \<noteq> CHR ''Z''" "is_digit c \<Longrightarrow> \<not> is_space c"
  by (auto simp: is_digit_def is_zone_char_def is_space_def)

lemma parse_printed_date:
  assumes "valid_ymd y m d"
  shows "parse_iso_date (pad_nat 4 y @ ''-'' @ pad_nat 2 m @ ''-'' @ pad_nat 2 d) = Some (ymd2ord y m d)"
    and "10 \<le> length t \<Longrightarrow> date_length (pad_nat 4 y @ ''-'' @ pad_nat 2 m @ ''-'' @ pad_nat 2 d @ t) = Some 10"
proof -
  have range: "0 \<le> y" "y < 10000" "0 \<le> m" "m < 100" "0 \<le> d" "d < 100"
    using assms by (auto simp: valid_ymd_def days_in_month_def split: if_splits)
  obtain a b c e where y: "pad_nat 4 y = [a, b, c, e]" "is_digit a" "of_digits [a, b, c, e] = Some y"
    by (rule pad_4 [OF range(1,2)])
  obtain m1 m2 where m: "pad_nat 2 m = [m1, m2]" "is_digit m1" "of_digits [m1, m2] = Some m"
    by (rule pad_2 [OF range(3,4)])
  obtain d1 d2 where d: "pad_nat 2 d = [d1, d2]" "is_digit d1" "of_digits [d1, d2] = Some d"
    by (rule pad_2 [OF range(5,6)])
  show "parse_iso_date (pad_nat 4 y @ ''-'' @ pad_nat 2 m @ ''-'' @ pad_nat 2 d) = Some (ymd2ord y m d)"
    using y m d assms digit_is_not(1) [OF m(2)]
    by (simp add: parse_iso_date_def num_at_def char_at_def ord_of_ymd_def eval_nat_numeral)
  show "date_length (pad_nat 4 y @ ''-'' @ pad_nat 2 m @ ''-'' @ pad_nat 2 d @ t) = Some 10" if "10 \<le> length t"
    using that y(1) m(1) d(1) digit_is_not(1) [OF m(2)]
    by (simp add: date_length_def char_at_def)
qed

section \<open>The time of day\<close>

lemma clock_fields:
  assumes "0 \<le> u" and "u < usec_per_day"
  defines "sc \<equiv> u div usec_per_sec" and "us \<equiv> u mod usec_per_sec"
  shows "0 \<le> sc div 3600" "sc div 3600 < 24" "0 \<le> sc div 60 mod 60" "sc div 60 mod 60 < 60"
    "0 \<le> sc mod 60" "sc mod 60 < 60" "0 \<le> us" "us < 1000000"
    and "usec_of_hms (sc div 3600) (sc div 60 mod 60) (sc mod 60) us = u"
proof -
  have sc: "0 \<le> sc" "sc < 86400" "u = sc * 1000000 + us" "0 \<le> us" "us < 1000000"
    using assms(1,2) div_mult_mod_eq [of u usec_per_sec]
    by (simp_all add: sc_def us_def usec_per_sec_def usec_per_day_def pos_imp_zdiv_nonneg_iff)
  show "0 \<le> sc div 3600" "sc div 3600 < 24" "0 \<le> sc div 60 mod 60" "sc div 60 mod 60 < 60"
    "0 \<le> sc mod 60" "sc mod 60 < 60" "0 \<le> us" "us < 1000000"
    using sc by (simp_all add: pos_imp_zdiv_nonneg_iff)
  have "sc div 3600 = sc div 60 div 60" using zdiv_zmult2_eq [of 60 sc 60] by simp
  then have "(sc div 3600 * 60 + sc div 60 mod 60) * 60 + sc mod 60 = sc"
    using div_mult_mod_eq [of "sc div 60" 60] div_mult_mod_eq [of sc 60] by simp
  then show "usec_of_hms (sc div 3600) (sc div 60 mod 60) (sc mod 60) us = u"
    using sc(3) by (simp only: usec_of_hms_def usec_per_sec_def)
qed

lemma parse_printed_clock:
  assumes "0 \<le> u" and "u < usec_per_day"
  shows "list_all (\<lambda>c. \<not> is_zone_char c) (show_hms u)"
    and "\<exists>h m sc us. parse_hmsf (show_hms u) = Some (h, m, sc, us) \<and> h < 24 \<and> m < 60 \<and> sc < 60
          \<and> usec_of_hms h m sc us = u"
proof -
  let ?sc = "u div usec_per_sec" and ?us = "u mod usec_per_sec"
  note field = clock_fields [OF assms]
  obtain h1 h2 where h: "pad_nat 2 (?sc div 3600) = [h1, h2]" "is_digit h1" "is_digit h2" "of_digits [h1, h2] = Some (?sc div 3600)"
    by (rule pad_2 [of "?sc div 3600"]) (use field(1-6) in linarith)+
  obtain m1 m2 where m: "pad_nat 2 (?sc div 60 mod 60) = [m1, m2]" "is_digit m1" "is_digit m2" "of_digits [m1, m2] = Some (?sc div 60 mod 60)"
    by (rule pad_2 [of "?sc div 60 mod 60"]) (use field(1-6) in linarith)+
  obtain s1 s2 where s: "pad_nat 2 (?sc mod 60) = [s1, s2]" "is_digit s1" "is_digit s2" "of_digits [s1, s2] = Some (?sc mod 60)"
    by (rule pad_2 [of "?sc mod 60"]) (use field(1-6) in linarith)+
  have us: "length (pad_nat 6 ?us) = 6" "list_all is_digit (pad_nat 6 ?us)" "of_digits (pad_nat 6 ?us) = Some ?us"
    using length_pad [of ?us 6] digits_pad [of ?us 6] of_digits_pad [of ?us 6] field(7,8) by simp_all
  define f where "f = (if ?us = 0 then [] else ''.'' @ pad_nat 6 ?us)"
  have shown: "show_hms u = [h1, h2, CHR '':'', m1, m2, CHR '':'', s1, s2] @ f"
    by (simp add: show_hms_def Let_def h(1) m(1) s(1) f_def)
  have fraction: "parse_fraction f = Some ?us"
    using us by (simp add: f_def parse_fraction_def)
  have mark: "\<not> is_zone_char (CHR '':'')" "\<not> is_zone_char (CHR ''.'')" by (simp_all add: is_zone_char_def)
  then show "list_all (\<lambda>c. \<not> is_zone_char c) (show_hms u)"
    using h m s us(2) digit_is_not(3) by (auto simp: shown f_def list_all_iff)
  have "parse_comps 3 True (show_hms u) = Some ([?sc div 3600, ?sc div 60 mod 60, ?sc mod 60], f)"
    using h(4) m(4) s(4) by (simp add: shown num_at_def eval_nat_numeral)
  then have "parse_hmsf (show_hms u) = Some (?sc div 3600, ?sc div 60 mod 60, ?sc mod 60, ?us)"
    using fraction by (simp add: parse_hmsf_def char_at_def shown)
  with field show "\<exists>h m sc us. parse_hmsf (show_hms u) = Some (h, m, sc, us) \<and> h < 24 \<and> m < 60 \<and> sc < 60
      \<and> usec_of_hms h m sc us = u" by auto
qed

lemma parse_printed_time:
  assumes "0 \<le> u" and "u < usec_per_day" and "z = ''Z'' \<or> z = ''+00:00''"
  shows "parse_iso_time (show_hms u @ z) = Some (u, Some 0)"
proof -
  have zone: "parse_zone ''Z'' = Some (Some 0)" "parse_zone ''+00:00'' = Some (Some 0)" by code_simp+
  note clock = parse_printed_clock [OF assms(1,2)]
  have "takeWhile (\<lambda>c. \<not> is_zone_char c) z = []" "dropWhile (\<lambda>c. \<not> is_zone_char c) z = z"
    using assms(3) by (auto simp: is_zone_char_def)
  then have "takeWhile (\<lambda>c. \<not> is_zone_char c) (show_hms u @ z) = show_hms u"
    "dropWhile (\<lambda>c. \<not> is_zone_char c) (show_hms u @ z) = z"
    using clock(1) by (simp_all add: list_all_iff takeWhile_append dropWhile_append)
  with clock(2) zone assms(3) show ?thesis by (auto simp: parse_iso_time_def)
qed

section \<open>Round trips\<close>

text \<open>The printed text of an instant up to its zone.\<close>

definition local_text :: "int \<Rightarrow> string" where
  "local_text u =
     (case ord2ymd (u div usec_per_day + 1) of (y, m, d) \<Rightarrow>
        pad_nat 4 y @ ''-'' @ pad_nat 2 m @ ''-'' @ pad_nat 2 d @ ''T'' @ show_hms (u mod usec_per_day))"

lemma show_instant_local: "show_instant i = local_text (usec i) @ ''+00:00''"
proof -
  have "show_offset 0 = ''+00:00''" by code_simp
  then show ?thesis
    by (simp add: show_instant_def isoformat_def isoformat_sep_def local_text_def split: prod.split)
qed

definition in_calendar :: "instant \<Rightarrow> bool" where
  "in_calendar i = (0 \<le> usec i \<and> usec i < max_usec)"

lemma fromisoformat_local:
  assumes "0 \<le> u" and "u < max_usec" and "z = ''Z'' \<or> z = ''+00:00''"
  shows "fromisoformat (local_text u @ z) = Some (DateTime u (Some 0))"
proof -
  let ?n = "u div usec_per_day + 1"
  obtain y m d where ymd: "ord2ymd ?n = (y, m, d)" by (metis prod_cases3)
  have n: "1 \<le> ?n" "?n \<le> max_ordinal"
    using assms(1,2) by (simp_all add: max_usec_eq usec_per_day_def max_ordinal_def pos_imp_zdiv_nonneg_iff)
  note date = ord2ymd_spec [OF n ymd]
  let ?t = "''T'' @ show_hms (u mod usec_per_day) @ z"
  have time: "0 \<le> u mod usec_per_day" "u mod usec_per_day < usec_per_day" by (simp_all add: usec_per_day_def)
  have whole: "local_text u @ z = (pad_nat 4 y @ ''-'' @ pad_nat 2 m @ ''-'' @ pad_nat 2 d) @ ?t"
    by (simp add: local_text_def ymd)
  have range: "0 \<le> y" "y < 10000" "0 \<le> m" "m < 100" "0 \<le> d" "d < 100"
    using date(1) by (auto simp: valid_ymd_def days_in_month_def split: if_splits)
  then have ten: "length (pad_nat 4 y @ ''-'' @ pad_nat 2 m @ ''-'' @ pad_nat 2 d) = 10"
    using length_pad [of y 4] length_pad [of m 2] length_pad [of d 2] by simp
  have "8 \<le> length (show_hms (u mod usec_per_day))" by (rule length_show_hms)
  then have "10 \<le> length ?t" using assms(3) by auto
  then have length_10: "date_length (local_text u @ z) = Some 10"
    using parse_printed_date(2) [OF date(1), of ?t] by (simp add: whole)
  define date_text where "date_text = pad_nat 4 y @ ''-'' @ pad_nat 2 m @ ''-'' @ pad_nat 2 d"
  have "take 10 (local_text u @ z) = date_text"
    "drop (10 + 1) (local_text u @ z) = show_hms (u mod usec_per_day) @ z" "\<not> length (local_text u @ z) \<le> 10"
    using ten unfolding whole date_text_def [symmetric] by simp_all
  with length_10 show ?thesis
    using parse_printed_date(1) [OF date(1)] parse_printed_time [OF time assms(3)] date(2)
      div_mult_mod_eq [of u usec_per_day]
    by (simp add: fromisoformat_def Let_def date_text_def)
qed

lemma local_text_ends:
  assumes "0 \<le> u" and "u < max_usec"
  shows "\<exists>c t. local_text u = c # t \<and> is_digit c"
proof -
  obtain y m d where ymd: "ord2ymd (u div usec_per_day + 1) = (y, m, d)" by (metis prod_cases3)
  have n: "1 \<le> u div usec_per_day + 1" "u div usec_per_day + 1 \<le> max_ordinal"
    using assms by (simp_all add: max_usec_eq usec_per_day_def max_ordinal_def pos_imp_zdiv_nonneg_iff)
  have "0 \<le> y" "y < 10000" using ord2ymd_spec(1) [OF n ymd] by (simp_all add: valid_ymd_def)
  from pad_4 [OF this] obtain a b c e where "pad_nat 4 y = [a, b, c, e]" "is_digit a" by metis
  then show ?thesis by (simp add: local_text_def ymd)
qed

lemma strip_local:
  assumes "0 \<le> u" and "u < max_usec" and "z = ''Z'' \<or> z = ''+00:00''"
  shows "strip (local_text u @ z) = local_text u @ z"
proof (rule strip_id, rule disjI2, rule conjI)
  show "\<not> is_space (hd (local_text u @ z))" using local_text_ends [OF assms(1,2)] digit_is_not(5) by auto
  have "\<not> is_space (CHR ''Z'')" "\<not> is_space (CHR ''0'')" by (simp_all add: is_space_def)
  then show "\<not> is_space (last (local_text u @ z))" using assms(3) by auto
qed

lemma parse_local:
  assumes "0 \<le> u" and "u < max_usec" and "z = ''Z'' \<or> z = ''+00:00''"
  shows "parse_datetime (PyStr (local_text u @ z)) f = Inr (Utc u)"
proof -
  have "replace_zulu (local_text u @ z) = local_text u @ ''+00:00''"
    using assms(3) by (auto simp: replace_zulu_def ends_with_char_def butlast_append)
  with fromisoformat_local [OF assms(1,2), of "''+00:00''"] strip_local [OF assms] show ?thesis
    using assms(1,2) by (simp add: parse_datetime_def to_utc_def)
qed

text \<open>
  C39. An instant of the years 1 to 9999 that is printed with \<open>isoformat\<close>, as in the messages of
  the scripts and in dead-letter records, is read back by the event parser as the same instant.
\<close>

theorem printed_time_is_read_back:
  assumes "in_calendar i"
  shows "parse_datetime (PyStr (show_instant i)) field = Inr i"
  using assms parse_local [of "usec i" "''+00:00''" field] by (cases i) (simp add: show_instant_local in_calendar_def)

theorem printed_time_is_read_back_witness:
  "parse_datetime (PyStr (show_instant (Utc 63905000000000001))) ''created_at'' = Inr (Utc 63905000000000001)"
  by (rule printed_time_is_read_back) (simp add: in_calendar_def max_usec_def)

end
