(* ===== verification/ConsumerFrames.thy ===== *)
theory ConsumerFrames
  imports Consumer
begin

text \<open>
  What the consumer's actions leave alone and which steps of the tables they make. A part of
  the world is given by a projection; the locale \<open>world_part\<close> states on which fields it does
  not depend, and its lemmas carry that to the actions. The interpretations are the
  acknowledged messages, the DLQ file and the tables of the transactions.
\<close>

locale world_part =
  fixes part :: "world \<Rightarrow> 'x"
  assumes part_ticks: "part (w\<lparr>w_ticks := n\<rparr>) = part w"
    and part_uuids: "part (w\<lparr>w_uuids := n\<rparr>) = part w"
    and part_monos: "part (w\<lparr>w_monos := n\<rparr>) = part w"
    and part_db_calls: "part (w\<lparr>w_db_calls := n\<rparr>) = part w"
    and part_telemetry: "part (w\<lparr>w_telemetry := t\<rparr>) = part w"
    and part_tracker: "part (w\<lparr>w_tracker := tr\<rparr>) = part w"
    and part_counter: "part (w\<lparr>w_counter := c\<rparr>) = part w"
    and part_pairing: "part (w\<lparr>w_pairing := pm\<rparr>) = part w"
    and part_correlation: "part (w\<lparr>w_correlation := s\<rparr>) = part w"
begin

lemmas part_simps = part_ticks part_uuids part_monos part_db_calls part_telemetry part_tracker
  part_counter part_pairing part_correlation

lemma keeps_read_clock: "obeys (keeps part) (read_clock p)"
  by (simp add: obeys_def keeps_def read_clock_def part_simps)

lemma keeps_read_monotonic: "obeys (keeps part) (read_monotonic p)"
  by (simp add: obeys_def keeps_def read_monotonic_def part_simps)

lemma keeps_measure: "obeys (keeps part) (measure_with f)"
  by (simp add: obeys_def keeps_def measure_with_def part_simps)

lemma keeps_query: "obeys (keeps part) (db_query p g)"
  by (simp add: obeys_def keeps_def db_query_def db_call_def pbind_def part_simps)

lemma keeps_contract_metrics: "obeys (keeps part) (record_contract_metrics topic rt hits)"
  unfolding record_contract_metrics_def by (rule keeps_measure)

lemma keeps_lag: "obeys (keeps part) (lag_measured p topic t)"
  unfolding lag_measured_def by (intro keeping.obeys_intros keeps_read_clock keeps_measure)

lemma keeps_freshness: "obeys (keeps part) (freshness_measured p topic t)"
  unfolding freshness_measured_def
  by (intro keeping.obeys_intros keeps_read_clock keeping.obeys_modify)
    (auto simp: keeps_def part_simps split: prod.splits)

lemma keeps_pairing_measured: "obeys (keeps part) (pairing_measured s)"
  unfolding pairing_measured_def
  by (intro keeping.obeys_intros keeping.obeys_modify)
    (auto simp: keeps_def part_simps split: prod.splits)

lemma keeps_version_counted: "obeys (keeps part) (version_counted m)"
  unfolding version_counted_def
  by (intro keeping.obeys_modify) (simp add: keeps_def part_simps)

lemma keeps_correlation_context:
  "obeys (keeps part) a \<Longrightarrow> obeys (keeps part) (correlation_context p v a)"
  by (auto simp: obeys_def keeps_def correlation_context_def Let_def part_simps split: prod.splits)
    (metis part_correlation part_uuids snd_conv)

lemma keeps_count_failure: "obeys (keeps part) (count_failure rt topic e)"
  unfolding count_failure_def by (intro keeping.obeys_intros keeps_measure)

lemmas keeps_observations = keeps_read_clock keeps_read_monotonic keeps_measure keeps_query
  keeps_contract_metrics keeps_lag keeps_freshness keeps_pairing_measured keeps_version_counted
  keeps_count_failure

end

text \<open>Parts that do not depend on the database either.\<close>

locale process_part = world_part +
  assumes part_db: "part (w\<lparr>w_db := d\<rparr>) = part w"
begin

lemma keeps_execute: "obeys (keeps part) (db_execute p g)"
  by (auto simp: obeys_def keeps_def db_execute_run part_simps part_db split: sum.splits)

lemma keeps_session_scope:
  "obeys (keeps part) a \<Longrightarrow> obeys (keeps part) (session_scope p a)"
proof (rule obeysI)
  fix w r w' assume a: "obeys (keeps part) a" and run: "session_scope p a w = (r, w')"
  from run show "keeps part w w'"
    by (cases rule: session_scope_cases)
      (auto simp: keeps_def part_simps part_db dest: keepsD [OF a])
qed

lemma keeps_update_pairing: "obeys (keeps part) (update_pairing_for_related_id p k)"
  unfolding update_pairing_for_related_id_def execute_pair_upsert_def Let_def
  by (intro keeping.obeys_intros keeps_observations keeps_execute)

lemma keeps_upserts:
  "obeys (keeps part) (upsert_ledger_entry p ev)"
  "obeys (keeps part) (upsert_payment_order p oe)"
  unfolding upsert_ledger_entry_def upsert_payment_order_def execute_ledger_upsert_def
    execute_order_upsert_def ingested_now_def Let_def
  by (intro keeping.obeys_intros keeps_observations keeps_execute keeps_update_pairing)+

lemma keeps_handle_payload: "obeys (keeps part) (handle_payload p rt track topic payload)"
  unfolding handle_payload_def handle_ledger_def handle_order_def Let_def
  by (intro keeping.obeys_intros keeps_observations keeps_session_scope keeps_upserts)
    (auto intro!: keeping.obeys_intros keeps_observations)

lemma keeps_write_dlq_db: "obeys (keeps part) (session_scope p (write_dlq_db p payload))"
  unfolding write_dlq_db_def
  by (intro keeps_session_scope keeping.obeys_intros keeps_observations keeps_execute)

end

interpretation acked_part: process_part w_acked
  by unfold_locales simp_all

interpretation ack_calls_part: process_part w_ack_calls
  by unfold_locales simp_all

interpretation dlq_file_part: process_part w_dlq_file
  by unfold_locales simp_all

text \<open>The three tables of the transactions.\<close>

definition business :: "db \<Rightarrow> ledger_entry list \<times> payment_order list \<times> payment_pair list" where
  "business d = (ledger_entries d, payment_orders d, payment_ledger_pairs d)"

interpretation business_part: world_part "\<lambda>w. business (w_db w)"
  by unfold_locales simp_all

text \<open>A table that the handling of a payload does not write.\<close>

locale other_table = world_part "\<lambda>w. g (w_db w)" for g :: "db \<Rightarrow> 'y" +
  assumes g_ledger: "g (d\<lparr>ledger_entries := x\<rparr>) = g d"
    and g_orders: "g (d\<lparr>payment_orders := y\<rparr>) = g d"
    and g_pairs: "g (d\<lparr>payment_ledger_pairs := z\<rparr>) = g d"
    and g_rollback: "g (rollback d e) = g d"
begin

lemma keeps_table_execute:
  assumes "\<And>d d'. f d = Inr d' \<Longrightarrow> g d' = g d"
  shows "obeys (keeps (\<lambda>w. g (w_db w))) (db_execute p f)"
  by (auto simp: obeys_def keeps_def db_execute_run dest: assms split: sum.splits)

lemma keeps_table_session:
  assumes "obeys (keeps (\<lambda>w. g (w_db w))) a"
  shows "obeys (keeps (\<lambda>w. g (w_db w))) (session_scope p a)"
proof (rule obeysI)
  fix w r w' assume "session_scope p a w = (r, w')"
  then show "keeps (\<lambda>w. g (w_db w)) w w'"
    by (cases rule: session_scope_cases)
      (auto simp: keeps_def g_rollback dest: keepsD [OF assms])
qed

lemma keeps_table_upserts:
  "obeys (keeps (\<lambda>w. g (w_db w))) (execute_ledger_upsert p v)"
  "obeys (keeps (\<lambda>w. g (w_db w))) (execute_order_upsert p o')"
  "obeys (keeps (\<lambda>w. g (w_db w))) (execute_pair_upsert p r)"
  unfolding execute_ledger_upsert_def execute_order_upsert_def execute_pair_upsert_def
  by (rule keeps_table_execute; auto simp: rbind_eq_Inr g_ledger g_orders g_pairs)+

lemma keeps_table_events:
  "obeys (keeps (\<lambda>w. g (w_db w))) (upsert_ledger_entry p ev)"
  "obeys (keeps (\<lambda>w. g (w_db w))) (upsert_payment_order p oe)"
  unfolding upsert_ledger_entry_def upsert_payment_order_def ingested_now_def Let_def
    update_pairing_for_related_id_def
  by (intro keeping.obeys_intros keeps_observations keeps_table_upserts)+

lemma keeps_table_handle_payload:
  "obeys (keeps (\<lambda>w. g (w_db w))) (handle_payload p rt track topic payload)"
  unfolding handle_payload_def handle_ledger_def handle_order_def Let_def
  by (intro keeping.obeys_intros keeps_observations keeps_table_session keeps_table_events)
    (auto intro!: keeping.obeys_intros keeps_observations)

end

interpretation dlq_rows_part: other_table consumer_dlq_events
  by unfold_locales (simp_all add: rollback_def)

interpretation audit_part: other_table admin_audit_logs
  by unfold_locales (simp_all add: rollback_def)

section \<open>Steps of the tables\<close>

lemma obeys_session_scope:
  assumes "obeys (db_rel p) a"
  shows "obeys (db_rel p) (session_scope q a)"
proof (rule obeysI)
  fix w r w' assume run: "session_scope q a w = (r, w')"
  from run show "db_rel p w w'"
  proof (cases rule: session_scope_cases)
    case (committed x v)
    with obeysD [OF assms committed(2)] show ?thesis by (simp add: db_rel_def)
  next
    case (rolled_back e b v n)
    then show ?thesis by (auto simp: rollback_def intro!: db_rel_step other_step)
  qed
qed

lemma obeys_correlation_context:
  assumes "obeys (db_rel p) a"
  shows "obeys (db_rel p) (correlation_context q v a)"
proof (rule obeysI)
  fix w r w' assume "correlation_context q v a w = (r, w')"
  then show "db_rel p w w'"
    by (rule correlation_context_run) (use obeysD [OF assms] in \<open>fastforce simp: db_rel_def\<close>)
qed

lemma obeys_contract_metrics: "obeys (db_rel p) (record_contract_metrics topic rt hits)"
  unfolding record_contract_metrics_def by (rule obeys_measure)

lemma obeys_lag: "obeys (db_rel p) (lag_measured q topic t)"
  unfolding lag_measured_def by (intro db_action.obeys_intros action_obeys)

lemma obeys_freshness: "obeys (db_rel p) (freshness_measured q topic t)"
  unfolding freshness_measured_def
  by (intro db_action.obeys_intros action_obeys db_action.obeys_modify)
    (auto intro!: db_rel_same split: prod.splits)

lemma obeys_pairing_measured: "obeys (db_rel p) (pairing_measured s)"
  unfolding pairing_measured_def
  by (intro db_action.obeys_intros db_action.obeys_modify) (auto intro!: db_rel_same split: prod.splits)

lemma obeys_version_counted: "obeys (db_rel p) (version_counted m)"
  unfolding version_counted_def by (intro db_action.obeys_modify db_rel_same) simp

lemma obeys_count_failure: "obeys (db_rel p) (count_failure rt topic e)"
  unfolding count_failure_def by (intro db_action.obeys_intros action_obeys)

lemma obeys_commit_message: "obeys (db_rel p) (commit_message q msg)"
  by (auto simp: obeys_def commit_message_def Let_def intro!: db_rel_same)

lemma obeys_read_monotonic: "obeys (db_rel p) (read_monotonic q)"
  by (simp add: obeys_def read_monotonic_def db_rel_same)

lemma obeys_write_dlq_payload: "obeys (db_rel p) (write_dlq_payload q config payload)"
  unfolding write_dlq_payload_def Let_def
  by (intro db_action.obeys_intros obeys_session_scope obeys_write_dlq_db obeys_write_dlq_file)

lemma obeys_maybe_prune_dlq: "obeys (db_rel p) (maybe_prune_dlq q config)"
  unfolding maybe_prune_dlq_def
  by (intro db_action.obeys_intros obeys_session_scope obeys_prune_dlq_db)

lemmas consumer_obeys = action_obeys obeys_contract_metrics obeys_lag obeys_freshness
  obeys_pairing_measured obeys_version_counted obeys_count_failure obeys_commit_message
  obeys_read_monotonic obeys_write_dlq_payload obeys_maybe_prune_dlq obeys_upsert_ledger_entry
  obeys_upsert_payment_order

lemma obeys_handle_payload: "obeys (db_rel p) (handle_payload p rt track topic payload)"
  unfolding handle_payload_def handle_ledger_def handle_order_def Let_def
  by (intro db_action.obeys_intros consumer_obeys obeys_session_scope)
    (auto intro!: db_action.obeys_intros consumer_obeys)

lemma obeys_dead_letter: "obeys (db_rel p) (dead_letter p rt msg cid e)"
  unfolding dead_letter_def
  by (intro db_action.obeys_intros consumer_obeys obeys_correlation_context)

lemma obeys_consume_message: "obeys (db_rel p) (consume_message p rt msg)"
  unfolding consume_message_def process_message_def Let_def
  by (intro db_action.obeys_intros consumer_obeys obeys_correlation_context obeys_handle_payload
      obeys_dead_letter)

lemma obeys_idle_expired: "obeys (db_rel p) (idle_expired q m t)"
  unfolding idle_expired_def by (intro db_action.obeys_intros consumer_obeys)

lemma obeys_consume_loop: "obeys (db_rel p) (consume_loop p rt mm mi polls processed last_at)"
proof (induction polls arbitrary: processed last_at)
  case (Cons poll polls)
  show ?case
    by (cases poll)
      (auto intro!: db_action.obeys_intros consumer_obeys obeys_idle_expired obeys_consume_message Cons.IH)
qed (simp add: db_action.obeys_return)

lemma obeys_reset: "obeys (db_rel p)
    (pmodify (\<lambda>w. w\<lparr>w_counter := c, w_pairing := pm, w_tracker := tr\<rparr>))"
  by (intro db_action.obeys_modify db_rel_same) simp

lemma obeys_run_consumer: "obeys (db_rel p) (run_consumer p config profiles mm mi polls)"
  unfolding run_consumer_def
  by (intro db_action.obeys_intros consumer_obeys obeys_reset obeys_consume_loop)

lemma obeys_normalized_for: "obeys (db_rel p) (normalized_for topic rt payload)"
  unfolding normalized_for_def by (intro db_action.obeys_intros consumer_obeys)

lemma obeys_event_recorded: "obeys (db_rel p) (event_recorded q topic t missing)"
  unfolding event_recorded_def by (intro db_action.obeys_intros consumer_obeys)

lemma obeys_backfill_event:
  "obeys (db_rel p) (backfill_ledger p rt since_time until_time payload)"
  "obeys (db_rel p) (backfill_order p rt since_time until_time payload)"
  unfolding backfill_ledger_def backfill_order_def Let_def
  by (auto intro!: db_action.obeys_intros consumer_obeys obeys_normalized_for obeys_event_recorded
      obeys_session_scope obeys_correlation_context)

lemma obeys_backfill_failed: "obeys (db_rel p) (backfill_failed q rt label topic payload e)"
  unfolding backfill_failed_def by (intro db_action.obeys_intros consumer_obeys)

lemma obeys_backfill_lines:
  "(\<And>x. obeys (db_rel p) (body x)) \<Longrightarrow> (\<And>x e. obeys (db_rel p) (failed x e)) \<Longrightarrow>
     obeys (db_rel p) (backfill_lines q body failed lines)"
  by (induction lines) (auto intro!: db_action.obeys_intros)

lemma obeys_run_backfill:
  "obeys (db_rel p) (run_backfill p config profiles lf pf since_time until_time)"
  unfolding run_backfill_def
  by (intro db_action.obeys_intros consumer_obeys obeys_reset obeys_backfill_lines
      obeys_backfill_event obeys_backfill_failed)

section \<open>One payload: all or nothing\<close>

lemma handle_payload_error:
  assumes "handle_payload p rt track topic payload w = (Inl e, w')"
  shows "same_tables (w_db w') (w_db w)"
proof (cases "topic_kind (rt_profile rt) topic = None")
  case True
  with assms show ?thesis by (auto simp: handle_payload_def Let_def)
next
  case False
  note kind = False
  show ?thesis
  proof (cases "normalize_payload_for_topic topic payload (rt_profile rt)")
    case (Inl x)
    with assms kind show ?thesis by (auto simp: handle_payload_def Let_def)
  next
    case (Inr n)
    have no_error: "version_counted m u \<noteq> (Inl e, w')" for m u
      by (simp add: version_counted_def)
    show ?thesis
      using assms kind Inr session_scope_error_tables
      by (auto simp: handle_payload_def Let_def record_contract_metrics_def
          pbind_run [of "session_scope p a" for a] no_error split: prod.splits sum.splits)
        force+
  qed
qed

lemma same_tables_business: "same_tables d e \<Longrightarrow> business d = business e"
  by (simp add: same_tables_def business_def)

section \<open>The dead-letter sink\<close>

lemma write_dlq_payload_total: "\<exists>w'. write_dlq_payload p config payload w = (Inr (), w')"
  by (auto simp: write_dlq_payload_def pcatch_def Let_def split: prod.splits sum.splits)

lemma write_dlq_payload_parts:
  "obeys (keeps w_acked) (write_dlq_payload p config payload)"
  "obeys (keeps w_ack_calls) (write_dlq_payload p config payload)"
proof -
  have "obeys (keeps w_acked) (write_dlq_file p payload)"
      "obeys (keeps w_ack_calls) (write_dlq_file p payload)"
    by (auto simp: obeys_def keeps_def write_dlq_file_def Let_def split: option.splits)
  note to_file = this
  show "obeys (keeps w_acked) (write_dlq_payload p config payload)"
    unfolding write_dlq_payload_def Let_def
    by (intro keeping.obeys_intros acked_part.keeps_write_dlq_db to_file)
  show "obeys (keeps w_ack_calls) (write_dlq_payload p config payload)"
    unfolding write_dlq_payload_def Let_def
    by (intro keeping.obeys_intros ack_calls_part.keeps_write_dlq_db to_file)
qed

text \<open>
  One call leaves at most one record, in the table or in the file; exactly one when the file
  can be written.
\<close>

definition file_ok :: "platform \<Rightarrow> bool" where
  "file_ok p \<longleftrightarrow> (\<forall>n. \<not> file_fault p n)"

definition writable :: "pydict \<Rightarrow> bool" where
  "writable payload \<longleftrightarrow>
     serializable (PyDict payload) \<and> valid_utf8 (json_text False (PyDict payload))"

lemma write_dlq_file_ok:
  "file_ok p \<Longrightarrow> writable payload \<Longrightarrow> \<exists>line. dumps False (PyDict payload) = Some line
     \<and> write_dlq_file p payload w = (Inr (), w\<lparr>w_file_calls := Suc (w_file_calls w),
          w_dlq_file := w_dlq_file w @ [line]\<rparr>)"
  by (simp add: file_ok_def writable_def write_dlq_file_def dumps_def Let_def)

lemma write_dlq_payload_record:
  assumes run: "write_dlq_payload p config payload w = (r, w')" and ok: "file_ok p" "writable payload"
  shows "(\<exists>row. consumer_dlq_events (w_db w') = consumer_dlq_events (w_db w) @ [row]
            \<and> dq_error row = text_or_unknown (dict_get payload ''error'')
            \<and> dq_payload row = to_text (dict_get payload ''payload'')
            \<and> dq_correlation_id row = to_text (dict_get payload ''correlation_id'')
            \<and> cf_dlq_backend config = ''db'' \<and> w_dlq_file w' = w_dlq_file w)
     \<or> (\<exists>line. w_dlq_file w' = w_dlq_file w @ [line] \<and> dumps False (PyDict payload) = Some line
            \<and> consumer_dlq_events (w_db w') = consumer_dlq_events (w_db w))"
proof (cases "cf_dlq_backend config = ''db''")
  case False
  with run write_dlq_file_ok [OF ok, of w] show ?thesis
    by (auto simp: write_dlq_payload_def pcatch_def)
next
  case True
  obtain x v where s: "session_scope p (write_dlq_db p payload) w = (x, v)" by force
  from s show ?thesis
  proof (cases rule: session_scope_cases)
    case (committed y u)
    have "obeys (keeps w_dlq_file) (write_dlq_db p payload)"
      unfolding write_dlq_db_def
      by (intro keeping.obeys_intros dlq_file_part.keeps_read_clock dlq_file_part.keeps_execute)
    from keepsD [OF this committed(2)] have "w_dlq_file u = w_dlq_file w" .
    with committed True run s write_dlq_db_row [of p payload w y u] show ?thesis
      by (auto simp: write_dlq_payload_def pcatch_def dest: dlq_row_fields)
  next
    case (rolled_back e b u n)
    have "obeys (keeps w_dlq_file) (write_dlq_db p payload)"
      unfolding write_dlq_db_def
      by (intro keeping.obeys_intros dlq_file_part.keeps_read_clock dlq_file_part.keeps_execute)
    from keepsD [OF this rolled_back(2)] have "w_dlq_file v = w_dlq_file w"
      using rolled_back(3) by simp
    with rolled_back True run s write_dlq_file_ok [OF ok, of v] show ?thesis
      by (auto simp: write_dlq_payload_def pcatch_def rollback_def)
  qed
qed

text \<open>
  With a correlation id that cannot be encoded both sinks refuse the record, and the refusal is
  only logged.
\<close>

lemma write_dlq_payload_lost:
  assumes run: "write_dlq_payload p config payload w = (r, w')"
    and bad: "dict_get payload ''correlation_id'' = PyStr s" "\<not> valid_utf8 s"
  shows "consumer_dlq_events (w_db w') = consumer_dlq_events (w_db w) \<and> w_dlq_file w' = w_dlq_file w"
proof -
  have "(KeyStr ''correlation_id'', PyStr s) \<in> set payload"
    using bad(1) by (auto simp: dict_get_def split: option.splits dest: map_of_SomeD)
  with json_object_valid bad(2) have unwritable: "\<not> valid_utf8 (json_text False (PyDict payload))" by blast
  have no_line: "\<exists>e. write_dlq_file p payload v = (Inl e, v\<lparr>w_file_calls := Suc (w_file_calls v)\<rparr>)" for v
    using unwritable by (auto simp: write_dlq_file_def dumps_def Let_def)
  have row: "\<exists>e. dlq_row payload now i = Inl e" for now i
    using bad by (cases "dlq_row payload now i") (auto simp: dlq_row_def rbind_eq_Inr Let_def to_text_def sql_check_def sql_text_ok_def)
  show ?thesis
  proof (cases "cf_dlq_backend config = ''db''")
    case False
    with run no_line [of w] show ?thesis by (auto simp: write_dlq_payload_def pcatch_def)
  next
    case True
    obtain x v where s: "session_scope p (write_dlq_db p payload) w = (x, v)" by force
    have kept: "obeys (keeps w_dlq_file) (write_dlq_db p payload)"
      unfolding write_dlq_db_def
      by (intro keeping.obeys_intros dlq_file_part.keeps_read_clock dlq_file_part.keeps_execute)
    from s show ?thesis
    proof (cases rule: session_scope_cases)
      case (committed y u)
      from write_dlq_db_row [OF committed(2)] row show ?thesis by (metis Inl_Inr_False)
    next
      case (rolled_back e b u n)
      have "w_dlq_file v = w_dlq_file w" using keepsD [OF kept rolled_back(2)] rolled_back(3) by simp
      with rolled_back True run s no_line [of v] show ?thesis
        by (auto simp: write_dlq_payload_def pcatch_def rollback_def)
    qed
  qed
qed

lemma business_session:
  assumes "obeys (keeps (\<lambda>w. business (w_db w))) a"
  shows "obeys (keeps (\<lambda>w. business (w_db w))) (session_scope p a)"
proof (rule obeysI)
  fix w r w' assume "session_scope p a w = (r, w')"
  then show "keeps (\<lambda>w. business (w_db w)) w w'"
    by (cases rule: session_scope_cases)
      (auto simp: keeps_def business_def rollback_def dest: keepsD [OF assms])
qed

lemma business_write_dlq_payload:
  "obeys (keeps (\<lambda>w. business (w_db w))) (write_dlq_payload p config payload)"
proof -
  have "obeys (keeps (\<lambda>w. business (w_db w))) (write_dlq_file p payload)"
    by (auto simp: obeys_def keeps_def write_dlq_file_def Let_def split: option.splits)
  moreover have "obeys (keeps (\<lambda>w. business (w_db w))) (write_dlq_db p payload)"
    unfolding write_dlq_db_def
    by (intro keeping.obeys_bind business_part.keeps_read_clock)
      (auto simp: obeys_def keeps_def db_execute_run rbind_eq_Inr business_def split: sum.splits)
  ultimately show ?thesis
    unfolding write_dlq_payload_def Let_def by (intro keeping.obeys_intros business_session)
qed

end
