(* ===== verification/ConsumerOutcome.thy ===== *)
theory ConsumerOutcome
  imports ConsumerFrames
begin

text \<open>
  What becomes of a message: either it is applied and acknowledged, or the tables are as
  before and it goes to the dead-letter sink and is acknowledged; the exceptions that end the
  loop; and, from there, the acknowledgements of a whole run.
\<close>

definition message_id :: "kafka_message \<Rightarrow> string \<times> int \<times> int" where
  "message_id msg = (km_topic msg, km_partition msg, km_offset msg)"

lemma commit_message_ok:
  "commit_message p msg w = (Inr u, w') \<Longrightarrow>
     \<not> ack_fault p (w_ack_calls w) \<and> w_acked w' = w_acked w @ [message_id msg]
     \<and> w_ack_calls w' = Suc (w_ack_calls w) \<and> w_db w' = w_db w \<and> w_dlq_file w' = w_dlq_file w"
  by (auto simp: commit_message_def Let_def message_id_def split: if_splits)

lemma commit_message_error:
  "commit_message p msg w = (Inl e, w') \<Longrightarrow>
     ack_fault p (w_ack_calls w) \<and> e = KafkaException \<and> w_acked w' = w_acked w
     \<and> w_ack_calls w' = Suc (w_ack_calls w)"
  by (auto simp: commit_message_def Let_def split: if_splits)

lemma measure_with_result:
  "measure_with f w = (r, w') \<Longrightarrow> r = Inr () \<and> w' = w\<lparr>w_telemetry := f (w_telemetry w)\<rparr>"
  by (auto simp: measure_with_def)

lemma process_message_okE:
  assumes "process_message p rt msg cid loaded w = (Inr u, w')"
  obtains payload n v1 v2 where "loaded = Inr payload"
    "handle_payload p rt True (km_topic msg) payload
       (w\<lparr>w_correlation := correlation_or_fresh cid (uuid4 p (w_uuids w)), w_uuids := n\<rparr>) = (Inr (), v1)"
    "commit_message p msg v1 = (Inr (), v2)"
    "w' = v2\<lparr>w_telemetry := record_consumer_message (km_topic msg) ''success'' (w_telemetry v2),
             w_correlation := w_correlation w\<rparr>"
proof -
  obtain payload where payload: "loaded = Inr payload"
    and ctx: "correlation_context p cid (pbind (handle_payload p rt True (km_topic msg) payload) (\<lambda>_.
        pbind (commit_message p msg) (\<lambda>_.
        measure_with (record_consumer_message (km_topic msg) ''success'')))) w = (Inr u, w')"
    using assms by (auto simp: process_message_def pbind_eq_Inr)
  from ctx show thesis
    by (rule correlation_context_run)
      (auto simp: pbind_eq_Inr dest!: measure_with_result intro!: that [OF payload])
qed

lemma process_message_ok:
  assumes "process_message p rt msg cid loaded w = (Inr u, w')"
  shows "w_acked w' = w_acked w @ [message_id msg]" and "w_ack_calls w' = Suc (w_ack_calls w)"
    and "w_dlq_file w' = w_dlq_file w"
    and "\<exists>rest. emitted (w_telemetry w') = rest @ [ConsumerMessagesTotal (km_topic msg) ''success'']"
proof -
  obtain payload n v1 v2 where run:
    "handle_payload p rt True (km_topic msg) payload
       (w\<lparr>w_correlation := correlation_or_fresh cid (uuid4 p (w_uuids w)), w_uuids := n\<rparr>) = (Inr (), v1)"
    "commit_message p msg v1 = (Inr (), v2)"
    "w' = v2\<lparr>w_telemetry := record_consumer_message (km_topic msg) ''success'' (w_telemetry v2),
             w_correlation := w_correlation w\<rparr>"
    using assms by (rule process_message_okE)
  note parts = keepsD [OF acked_part.keeps_handle_payload run(1)]
    keepsD [OF ack_calls_part.keeps_handle_payload run(1)]
    keepsD [OF dlq_file_part.keeps_handle_payload run(1)]
  from parts commit_message_ok [OF run(2)]
  show "w_acked w' = w_acked w @ [message_id msg]" "w_ack_calls w' = Suc (w_ack_calls w)"
    "w_dlq_file w' = w_dlq_file w"
    "\<exists>rest. emitted (w_telemetry w') = rest @ [ConsumerMessagesTotal (km_topic msg) ''success'']"
    by (simp_all add: run(3) record_consumer_message_def)
qed

lemma process_message_error:
  assumes "process_message p rt msg cid loaded w = (Inl e, w')"
  shows "w_acked w' = w_acked w"
    and "(same_tables (w_db w') (w_db w) \<and> w_ack_calls w' = w_ack_calls w)
         \<or> (ack_fault p (w_ack_calls w) \<and> e = KafkaException
            \<and> w_ack_calls w' = Suc (w_ack_calls w))"
proof -
  let ?A = "w_acked w' = w_acked w \<and>
       ((same_tables (w_db w') (w_db w) \<and> w_ack_calls w' = w_ack_calls w)
         \<or> (ack_fault p (w_ack_calls w) \<and> e = KafkaException \<and> w_ack_calls w' = Suc (w_ack_calls w)))"
  have ?A
  proof (cases loaded)
    case (Inl x)
    with assms show ?thesis by (auto simp: process_message_def)
  next
    case (Inr payload)
    then have "correlation_context p cid (pbind (handle_payload p rt True (km_topic msg) payload) (\<lambda>_.
        pbind (commit_message p msg) (\<lambda>_.
        measure_with (record_consumer_message (km_topic msg) ''success'')))) w = (Inl e, w')"
      using assms by (simp add: process_message_def)
    then show ?thesis
    proof (rule correlation_context_run)
      fix n u
      assume "pbind (handle_payload p rt True (km_topic msg) payload) (\<lambda>_.
          pbind (commit_message p msg) (\<lambda>_.
          measure_with (record_consumer_message (km_topic msg) ''success'')))
          (w\<lparr>w_correlation := correlation_or_fresh cid (uuid4 p (w_uuids w)), w_uuids := n\<rparr>) = (Inl e, u)"
        and w': "w' = u\<lparr>w_correlation := w_correlation w\<rparr>"
      then show ?thesis
        unfolding pbind_eq_Inl w'
        by (auto dest!: commit_message_error measure_with_result
            dest: handle_payload_error keepsD [OF acked_part.keeps_handle_payload]
              keepsD [OF ack_calls_part.keeps_handle_payload])
    qed
  qed
  then show "w_acked w' = w_acked w"
    "(same_tables (w_db w') (w_db w) \<and> w_ack_calls w' = w_ack_calls w)
         \<or> (ack_fault p (w_ack_calls w) \<and> e = KafkaException
            \<and> w_ack_calls w' = Suc (w_ack_calls w))" by simp_all
qed

text \<open>The \<open>except\<close> branch, step by step.\<close>

definition dead_letter_record :: "world \<Rightarrow> world \<Rightarrow> bool" where
  "dead_letter_record w w' \<longleftrightarrow>
     length (consumer_dlq_events (w_db w')) + length (w_dlq_file w') =
       Suc (length (consumer_dlq_events (w_db w)) + length (w_dlq_file w))"

lemma count_failure_run:
  assumes "correlation_context p cid (count_failure rt topic e) w = (r, v)"
  shows "r = Inr () \<and> w_acked v = w_acked w \<and> w_ack_calls v = w_ack_calls w
    \<and> w_dlq_file v = w_dlq_file w \<and> w_db v = w_db w"
proof -
  from assms obtain n u where u: "count_failure rt topic e
      (w\<lparr>w_correlation := correlation_or_fresh cid (uuid4 p (w_uuids w)), w_uuids := n\<rparr>) = (r, u)"
    and v: "v = u\<lparr>w_correlation := w_correlation w\<rparr>"
    by (rule correlation_context_run)
  from u show ?thesis
    by (auto simp: v count_failure_def measure_with_def split: if_splits)
qed

lemma dead_letter_cases:
  assumes "dead_letter p rt msg cid e w = (res, w')"
  obtains (bad_key) "decoded_key msg = Inl UnicodeDecodeError" "res = Inl UnicodeDecodeError"
      "w_acked w' = w_acked w" "w_db w' = w_db w" "w_dlq_file w' = w_dlq_file w"
    | (sunk) key v1 v2 v3 now where "decoded_key msg = Inr key"
      "w_acked v1 = w_acked w" "w_ack_calls v1 = w_ack_calls w"
      "w_dlq_file v1 = w_dlq_file w" "w_db v1 = w_db w" "v2 = v1\<lparr>w_ticks := Suc (w_ticks v1)\<rparr>"
      "write_dlq_payload p (rt_config rt) (dlq_payload_of p rt msg key e cid now) v2 = (Inr (), v3)"
      "commit_message p msg v3 = (res, w')"
proof -
  obtain r v1 where c: "correlation_context p cid (count_failure rt (km_topic msg) e) w = (r, v1)"
    by force
  note c' = count_failure_run [OF c]
  have dec: "decoded_key msg = Inl x \<Longrightarrow> x = UnicodeDecodeError" for x
    by (auto simp: decoded_key_def rbind_eq_Inl require_some_eq_Inl split: if_splits)
  show thesis
  proof (cases "decoded_key msg")
    case (Inl x)
    with assms c c' show thesis
      by (intro bad_key) (auto simp: dead_letter_def pbind_run dest: dec)
  next
    case (Inr key)
    let ?v2 = "v1\<lparr>w_ticks := Suc (w_ticks v1)\<rparr>"
    obtain v3 where v3: "write_dlq_payload p (rt_config rt)
        (dlq_payload_of p rt msg key e cid (clk p (w_ticks v1))) ?v2 = (Inr (), v3)"
      using write_dlq_payload_total by blast
    from assms c c' Inr v3 have "commit_message p msg v3 = (res, w')"
      by (simp add: dead_letter_def pbind_run [of "correlation_context p cid a" for a]
          pbind_run [of "write_dlq_payload p c d" for c d])
    with Inr c' v3 show thesis by (intro sunk [of key v1 ?v2]) auto
  qed
qed

lemma dead_letter_business:
  assumes "dead_letter p rt msg cid e w = (res, w')"
  shows "business (w_db w') = business (w_db w)"
  using assms
proof (cases rule: dead_letter_cases)
  case (sunk key v1 v2 v3 now)
  have "w_db w' = w_db v3"
    using sunk(8) by (auto simp: commit_message_def Let_def split: if_splits)
  then show ?thesis
    using sunk(5,6) keepsD [OF business_write_dlq_payload sunk(7)] by simp
qed simp

text \<open>
  A record can be written when the file can be and its texts can be encoded; of the message that
  asks something of the topic and of the correlation id.
\<close>

definition sinks_ok :: "platform \<Rightarrow> consumer_runtime \<Rightarrow> bool" where
  "sinks_ok p rt \<longleftrightarrow>
     file_ok p \<and> (\<forall>e. valid_utf8 (exc_text p e)) \<and> valid_utf8 (profile_id (rt_profile rt))"

definition recordable :: "kafka_message \<Rightarrow> string option \<Rightarrow> bool" where
  "recordable msg cid \<longleftrightarrow>
     valid_utf8 (km_topic msg) \<and> opt_all valid_utf8 cid
     \<and> printable_int (km_partition msg) \<and> printable_int (km_offset msg)"

lemma decoded_key_valid: "decoded_key msg = Inr key \<Longrightarrow> texts_valid key \<and> serializable key"
  by (auto simp: decoded_key_def decode_strict_def split: if_splits)

lemma valid_classified: "valid_utf8 (classify_error e)"
proof -
  have "list_all valid_utf8 [''contract_core_violation'', ''unsupported_topic'', ''parse_error'', ''internal_error'']"
    by code_simp
  then show ?thesis by (simp add: classify_error_def split: py_error.split)
qed

lemma dlq_payload_writable:
  assumes "sinks_ok p rt" and "recordable msg cid" and "decoded_key msg = Inr key"
  shows "writable (dlq_payload_of p rt msg key e cid now)"
proof -
  have names: "list_all valid_utf8 [''topic'', ''partition'', ''offset'', ''key'', ''payload'', ''error'',
      ''error_detail'', ''profile_id'', ''correlation_id'', ''ingested_at'']" by code_simp
  have "texts_valid (opt_str cid)" "serializable (opt_str cid)"
    using assms(2) by (auto simp: opt_str_def recordable_def split: option.split)
  then show ?thesis
    unfolding writable_def
    using assms(1,2) names decoded_key_valid [OF assms(3)] valid_classified [of e] valid_show_instant [of now]
    by (intro conjI valid_json_text)
      (simp_all add: dlq_payload_of_def sinks_ok_def recordable_def valid_decode_replace)
qed

lemma dead_letter_ok:
  assumes "dead_letter p rt msg cid e w = (Inr u, w')"
  shows "w_acked w' = w_acked w @ [message_id msg]" and "w_ack_calls w' = Suc (w_ack_calls w)"
    and "sinks_ok p rt \<Longrightarrow> recordable msg cid \<Longrightarrow> dead_letter_record w w'"
proof -
  have "w_acked w' = w_acked w @ [message_id msg] \<and> w_ack_calls w' = Suc (w_ack_calls w)
        \<and> (sinks_ok p rt \<and> recordable msg cid \<longrightarrow> dead_letter_record w w')"
    using assms
  proof (cases rule: dead_letter_cases)
    case (sunk key v1 v2 v3 now)
    note keeps = keepsD [OF write_dlq_payload_parts(1) sunk(7)]
      keepsD [OF write_dlq_payload_parts(2) sunk(7)]
    from commit_message_ok [OF sunk(8)] keeps
      write_dlq_payload_record [OF sunk(7) _ dlq_payload_writable [OF _ _ sunk(1)]]
    show ?thesis
      using sunk(2-6) by (auto simp: dead_letter_record_def sinks_ok_def)
  qed simp
  then show "w_acked w' = w_acked w @ [message_id msg]" "w_ack_calls w' = Suc (w_ack_calls w)"
    "sinks_ok p rt \<Longrightarrow> recordable msg cid \<Longrightarrow> dead_letter_record w w'" by simp_all
qed

lemma dead_letter_error:
  assumes "dead_letter p rt msg cid e w = (Inl x, w')"
  shows "decoded_key msg = Inl UnicodeDecodeError \<and> x = UnicodeDecodeError
         \<or> ack_fault p (w_ack_calls w) \<and> x = KafkaException"
    and "w_acked w' = w_acked w"
proof -
  have "(decoded_key msg = Inl UnicodeDecodeError \<and> x = UnicodeDecodeError
         \<or> ack_fault p (w_ack_calls w) \<and> x = KafkaException) \<and> w_acked w' = w_acked w"
    using assms
  proof (cases rule: dead_letter_cases)
    case (sunk key v1 v2 v3 now)
    from commit_message_error [OF sunk(8)] show ?thesis
      using sunk(2,3,6) keepsD [OF write_dlq_payload_parts(1) sunk(7)]
        keepsD [OF write_dlq_payload_parts(2) sunk(7)] by simp
  qed auto
  then show "decoded_key msg = Inl UnicodeDecodeError \<and> x = UnicodeDecodeError
         \<or> ack_fault p (w_ack_calls w) \<and> x = KafkaException" "w_acked w' = w_acked w" by simp_all
qed

section \<open>One message\<close>

lemma process_message_dlq_rows:
  assumes "process_message p rt msg cid loaded w = (res, w')"
  shows "consumer_dlq_events (w_db w') = consumer_dlq_events (w_db w)"
    and "w_dlq_file w' = w_dlq_file w"
proof -
  have commit: "obeys (keeps (\<lambda>w. consumer_dlq_events (w_db w))) (commit_message p msg)"
      "obeys (keeps w_dlq_file) (commit_message p msg)"
    by (auto simp: obeys_def keeps_def commit_message_def Let_def)
  have "obeys (keeps (\<lambda>w. consumer_dlq_events (w_db w))) (process_message p rt msg cid loaded)"
    unfolding process_message_def
    by (intro keeping.obeys_intros dlq_rows_part.keeps_correlation_context
        dlq_rows_part.keeps_table_handle_payload dlq_rows_part.keeps_measure commit)
  from keepsD [OF this assms] show "consumer_dlq_events (w_db w') = consumer_dlq_events (w_db w)" .
  have "obeys (keeps w_dlq_file) (process_message p rt msg cid loaded)"
    unfolding process_message_def
    by (intro keeping.obeys_intros dlq_file_part.keeps_correlation_context
        dlq_file_part.keeps_handle_payload dlq_file_part.keeps_measure commit)
  from keepsD [OF this assms] show "w_dlq_file w' = w_dlq_file w" .
qed

text \<open>The three ways one message can end, with the state \<open>v\<close> after the \<open>try\<close> block.\<close>

lemma consume_message_cases:
  assumes "consume_message p rt msg w = (res, w')"
  obtains (applied) u where "res = Inr True"
      "process_message p rt msg (message_correlation_id msg (load_payload p (km_value msg)))
         (load_payload p (km_value msg)) u = (Inr (), w')"
      "u = w\<lparr>w_telemetry := record_kafka_lag (km_topic msg) (km_partition msg) (kafka_lag msg)
                               (w_telemetry w)\<rparr>"
    | (failed) u v e dl where
      "process_message p rt msg (message_correlation_id msg (load_payload p (km_value msg)))
         (load_payload p (km_value msg)) u = (Inl e, v)"
      "u = w\<lparr>w_telemetry := record_kafka_lag (km_topic msg) (km_partition msg) (kafka_lag msg)
                               (w_telemetry w)\<rparr>"
      "dead_letter p rt msg (message_correlation_id msg (load_payload p (km_value msg))) e v = (dl, w')"
      "res = (case dl of Inl x \<Rightarrow> Inl x | Inr _ \<Rightarrow> Inr False)"
proof -
  let ?cid = "message_correlation_id msg (load_payload p (km_value msg))"
  let ?u = "w\<lparr>w_telemetry := record_kafka_lag (km_topic msg) (km_partition msg) (kafka_lag msg)
                               (w_telemetry w)\<rparr>"
  obtain r v where r: "process_message p rt msg ?cid (load_payload p (km_value msg)) ?u = (r, v)"
    by force
  show thesis
  proof (cases r)
    case (Inl e)
    obtain dl z where "dead_letter p rt msg ?cid e v = (dl, z)" by force
    with assms r Inl show thesis
      by (intro failed [of ?u e v dl])
        (auto simp: consume_message_def Let_def pcatch_def
          pbind_run [of "process_message p rt msg c l" for c l]
          pbind_run [of "dead_letter p rt msg c e" for c e] split: sum.splits)
  next
    case (Inr x)
    with assms r show thesis
      by (intro applied [of ?u])
        (auto simp: consume_message_def Let_def pcatch_def
          pbind_run [of "process_message p rt msg c l" for c l])
  qed
qed

lemma consume_message_applied:
  assumes "consume_message p rt msg w = (Inr True, w')"
  shows "w_acked w' = w_acked w @ [message_id msg]" and "w_dlq_file w' = w_dlq_file w"
    and "consumer_dlq_events (w_db w') = consumer_dlq_events (w_db w)"
  using assms
  by (cases rule: consume_message_cases;
      auto simp: process_message_ok process_message_dlq_rows split: sum.splits)+

text \<open>A message that the contract refuses is dead-lettered.\<close>

lemma refused_message_dead_lettered:
  assumes "rbind (load_payload p (km_value msg))
      (\<lambda>payload. normalize_payload_for_topic (km_topic msg) payload (rt_profile rt)) = Inl e"
    and "decoded_key msg = Inr key" and "\<forall>n. \<not> ack_fault p n"
  shows "\<exists>w'. consume_message p rt msg w = (Inr False, w')"
proof -
  obtain res w' where run: "consume_message p rt msg w = (res, w')" by force
  then show ?thesis
  proof (cases rule: consume_message_cases)
    case (applied u)
    then obtain payload v r where "load_payload p (km_value msg) = Inr payload"
      "handle_payload p rt True (km_topic msg) payload v = (Inr (), r)"
      by (cases "load_payload p (km_value msg)")
        (auto simp: process_message_def pbind_eq_Inr elim!: correlation_context_run)
    then show ?thesis
      using assms(1) by (auto simp: handle_payload_def Let_def pbind_eq_Inr measure_with_def raise_if_def split: if_splits)
  next
    case (failed u v x dl)
    with dead_letter_error(1) [of p rt msg _ x v _ w'] assms(2,3) run show ?thesis
      by (cases dl) auto
  qed
qed

definition message_recordable :: "platform \<Rightarrow> kafka_message \<Rightarrow> bool" where
  "message_recordable p msg \<longleftrightarrow> recordable msg (message_correlation_id msg (load_payload p (km_value msg)))"

lemma consume_message_failed:
  assumes "consume_message p rt msg w = (Inr False, w')"
  shows "w_acked w' = w_acked w @ [message_id msg]"
    and "\<not> ack_fault p (w_ack_calls w) \<Longrightarrow> business (w_db w') = business (w_db w)"
    and "sinks_ok p rt \<Longrightarrow> message_recordable p msg \<Longrightarrow> dead_letter_record w w'"
proof -
  have "w_acked w' = w_acked w @ [message_id msg]
      \<and> (\<not> ack_fault p (w_ack_calls w) \<longrightarrow> business (w_db w') = business (w_db w))
      \<and> (sinks_ok p rt \<and> message_recordable p msg \<longrightarrow> dead_letter_record w w')"
    using assms
  proof (cases rule: consume_message_cases)
    case (failed u v e dl)
    then obtain x where dl: "dl = Inr x" by (auto split: sum.splits)
    note d = dead_letter_ok [OF failed(3) [unfolded dl]]
    note q = process_message_error [OF failed(1)] process_message_dlq_rows [OF failed(1)]
    show ?thesis
      using d q dead_letter_business [OF failed(3)] failed(2)
      by (auto simp: dead_letter_record_def message_recordable_def dest: same_tables_business)
  qed simp
  then show "w_acked w' = w_acked w @ [message_id msg]"
    "\<not> ack_fault p (w_ack_calls w) \<Longrightarrow> business (w_db w') = business (w_db w)"
    "sinks_ok p rt \<Longrightarrow> message_recordable p msg \<Longrightarrow> dead_letter_record w w'" by simp_all
qed

lemma consume_message_fatal:
  assumes "consume_message p rt msg w = (Inl e, w')"
  shows "w_acked w' = w_acked w"
    and "(decoded_key msg = Inl UnicodeDecodeError \<and> e = UnicodeDecodeError)
         \<or> ((\<exists>n. ack_fault p n) \<and> e = KafkaException)"
proof -
  have "w_acked w' = w_acked w \<and> ((decoded_key msg = Inl UnicodeDecodeError \<and> e = UnicodeDecodeError)
         \<or> ((\<exists>n. ack_fault p n) \<and> e = KafkaException))"
    using assms
  proof (cases rule: consume_message_cases)
    case (failed u v e' dl)
    then have dl: "dl = Inl e" by (auto split: sum.splits)
    note d = dead_letter_error [OF failed(3) [unfolded dl]]
    show ?thesis
      using d process_message_error(1) [OF failed(1)] failed(2) by auto
  qed simp
  then show "w_acked w' = w_acked w"
    "(decoded_key msg = Inl UnicodeDecodeError \<and> e = UnicodeDecodeError)
         \<or> ((\<exists>n. ack_fault p n) \<and> e = KafkaException)" by simp_all
qed

section \<open>A run\<close>

fun polled :: "poll list \<Rightarrow> kafka_message list" where
  "polled [] = []"
| "polled (Message m # ps) = m # polled ps"
| "polled (_ # ps) = polled ps"

definition dlq_size :: "world \<Rightarrow> nat" where
  "dlq_size w = length (consumer_dlq_events (w_db w)) + length (w_dlq_file w)"

definition maximum_reached :: "int option \<Rightarrow> int \<Rightarrow> bool" where
  "maximum_reached mm processed \<longleftrightarrow> opt_all (\<lambda>m. m \<le> processed) mm \<and> mm \<noteq> None"

lemma idle_expired_run:
  "idle_expired p mi t w = (r, v) \<Longrightarrow>
     (\<exists>b. r = Inr b \<and> (b \<longrightarrow> mi \<noteq> None)) \<and> w_acked v = w_acked w \<and> w_db v = w_db w
       \<and> w_dlq_file v = w_dlq_file w"
  by (auto simp: idle_expired_def read_monotonic_def pbind_def split: option.splits)

text \<open>One turn of the loop that is not cut off by the maximum, poll result by poll result.\<close>

lemma consume_loop_idle:
  assumes "poll = NoMessage \<or> poll = PartitionEof" and "\<not> maximum_reached mm n"
    and "consume_loop p rt mm mi (poll # polls) n t w = (res, w')"
  obtains v b where "idle_expired p mi t w = (Inr b, v)"
    "(if b then preturn (IdleExpired, n) else consume_loop p rt mm mi polls n t) v = (res, w')"
proof -
  obtain b v where "idle_expired p mi t w = (Inr b, v)"
    using idle_expired_run [of p mi t w] by (metis prod.exhaust)
  with assms show thesis
    by (intro that [of b v]) (auto simp: maximum_reached_def pbind_def)
qed

lemma consume_loop_message:
  assumes "\<not> maximum_reached mm n"
    and "consume_loop p rt mm mi (Message msg # polls) n t w = (res, w')"
  obtains (fatal) e where "consume_message p rt msg w = (Inl e, w')" "res = Inl e"
    | (done_now) v where "consume_message p rt msg w = (Inr True, v)"
      "consume_loop p rt mm mi polls (n + 1) (monotonic p (w_monos v))
         (v\<lparr>w_monos := Suc (w_monos v)\<rparr>) = (res, w')"
    | (sunk) v where "consume_message p rt msg w = (Inr False, v)"
      "consume_loop p rt mm mi polls n t v = (res, w')"
proof -
  obtain r v where r: "consume_message p rt msg w = (r, v)" by force
  show thesis
  proof (cases r)
    case (Inl e)
    with assms r show thesis
      by (intro fatal [of e]) (auto simp: maximum_reached_def pbind_def)
  next
    case (Inr b)
    with assms r show thesis
      by (cases b)
        (auto simp: maximum_reached_def pbind_def read_monotonic_def intro: done_now sunk)
  qed
qed

text \<open>\<open>good\<close> says of a message that a record of it can be written.\<close>

definition run_accounts ::
  "(kafka_message \<Rightarrow> bool) \<Rightarrow> world \<Rightarrow> poll list \<Rightarrow> int \<Rightarrow> loop_end \<times> int \<Rightarrow> world \<Rightarrow> bool" where
  "run_accounts good w polls n res w' \<longleftrightarrow>
     (\<exists>k\<le>length polls.
        w_acked w' = w_acked w @ map message_id (polled (take k polls))
        \<and> (list_all good (polled polls) \<longrightarrow>
             int (length (polled (take k polls))) = (snd res - n) + (int (dlq_size w') - int (dlq_size w)))
        \<and> (fst res = StillPolling \<longrightarrow> k = length polls))"

lemma run_accounts_stop:
  "w_acked w' = w_acked w \<Longrightarrow> dlq_size w' = dlq_size w \<Longrightarrow> fst res \<noteq> StillPolling \<or> polls = [] \<Longrightarrow>
     snd res = n \<Longrightarrow> run_accounts good w polls n res w'"
  unfolding run_accounts_def by (rule exI [of _ 0]) auto

lemma run_accounts_step:
  assumes "run_accounts good v polls m res w'"
    and "w_acked v = w_acked w @ map message_id (polled [poll])"
    and "list_all good (polled [poll]) \<Longrightarrow> int (length (polled [poll])) = (m - n) + (int (dlq_size v) - int (dlq_size w))"
  shows "run_accounts good w (poll # polls) n res w'"
proof -
  obtain k where k: "k \<le> length polls" and
    a: "w_acked w' = w_acked v @ map message_id (polled (take k polls))" and
    b: "list_all good (polled polls) \<longrightarrow> int (length (polled (take k polls))) =
          (snd res - m) + (int (dlq_size w') - int (dlq_size v))" and
    c: "fst res = StillPolling \<longrightarrow> k = length polls"
    using assms(1) unfolding run_accounts_def by blast
  have split_take: "polled (take (Suc k) (poll # polls)) = polled [poll] @ polled (take k polls)"
    "polled (poll # polls) = polled [poll] @ polled polls"
    by (cases poll; simp)+
  show ?thesis
    unfolding run_accounts_def
    by (rule exI [of _ "Suc k"]) (use k a b c assms(2,3) split_take in auto)
qed

lemma consume_loop_accounts:
  assumes "consume_loop p rt mm mi polls n t w = (Inr res, w')"
    and good: "good = (\<lambda>m. sinks_ok p rt \<and> message_recordable p m)"
  shows "run_accounts good w polls n res w'"
  using assms(1)
proof (induction polls arbitrary: n t w)
  case Nil
  then show ?case by (intro run_accounts_stop) (auto split: if_splits)
next
  case (Cons poll polls)
  show ?case
  proof (cases "maximum_reached mm n")
    case True
    with Cons.prems show ?thesis
      by (intro run_accounts_stop) (auto simp: maximum_reached_def)
  next
    case False
    consider "poll = NoMessage \<or> poll = PartitionEof" | "poll = PollError" | msg where "poll = Message msg"
      by (cases poll) auto
    then show ?thesis
    proof cases
      case 1
      then obtain v b where v: "idle_expired p mi t w = (Inr b, v)"
        and rest: "(if b then preturn (IdleExpired, n) else consume_loop p rt mm mi polls n t) v
                     = (Inr res, w')"
        using consume_loop_idle [OF _ False Cons.prems] by metis
      note same = idle_expired_run [OF v]
      show ?thesis
      proof (cases b)
        case True
        with rest same show ?thesis by (intro run_accounts_stop) (auto simp: dlq_size_def)
      next
        case False
        with rest have "run_accounts good v polls n res w'" by (intro Cons.IH) simp
        then show ?thesis
          by (rule run_accounts_step) (use 1 same in \<open>auto simp: dlq_size_def\<close>)
      qed
    next
      case 2
      with Cons.prems False show ?thesis by (auto simp: maximum_reached_def)
    next
      case 3
      show ?thesis
        using False Cons.prems [unfolded 3]
      proof (cases rule: consume_loop_message)
        case (done_now v)
        from Cons.IH [OF done_now(2)] show ?thesis
          by (rule run_accounts_step)
            (use 3 consume_message_applied [OF done_now(1)] in \<open>auto simp: dlq_size_def\<close>)
      next
        case (sunk v)
        from Cons.IH [OF sunk(2)] show ?thesis
          by (rule run_accounts_step)
            (use 3 consume_message_failed [OF sunk(1)] in
              \<open>auto simp: good dlq_size_def dead_letter_record_def\<close>)
      qed simp
    qed
  qed
qed

text \<open>Why a run stops, and how far it counts.\<close>

definition stop_reason :: "int option \<Rightarrow> int option \<Rightarrow> int \<Rightarrow> loop_end \<times> int \<Rightarrow> bool" where
  "stop_reason mm mi n res \<longleftrightarrow>
     n \<le> snd res
     \<and> (fst res = ReachedMaximum \<longrightarrow> maximum_reached mm (snd res))
     \<and> (fst res = IdleExpired \<longrightarrow> mi \<noteq> None)
     \<and> (\<forall>m. mm = Some m \<longrightarrow> snd res \<le> max m n)"

lemma stop_reason_step:
  "stop_reason mm mi (n + 1) res \<Longrightarrow> \<not> maximum_reached mm n \<Longrightarrow> stop_reason mm mi n res"
  by (auto simp: stop_reason_def maximum_reached_def)

lemma consume_loop_reason:
  assumes "consume_loop p rt mm mi polls n t w = (Inr res, w')"
  shows "stop_reason mm mi n res"
  using assms
proof (induction polls arbitrary: n t w)
  case Nil
  then show ?case by (auto simp: stop_reason_def maximum_reached_def split: if_splits)
next
  case (Cons poll polls)
  show ?case
  proof (cases "maximum_reached mm n")
    case True
    with Cons.prems show ?thesis by (auto simp: stop_reason_def maximum_reached_def)
  next
    case False
    consider "poll = NoMessage \<or> poll = PartitionEof" | "poll = PollError" | msg where "poll = Message msg"
      by (cases poll) auto
    then show ?thesis
    proof cases
      case 1
      then obtain v b where v: "idle_expired p mi t w = (Inr b, v)"
        and rest: "(if b then preturn (IdleExpired, n) else consume_loop p rt mm mi polls n t) v
                     = (Inr res, w')"
        using consume_loop_idle [OF _ False Cons.prems] by metis
      from idle_expired_run [OF v] rest Cons.IH show ?thesis
        by (cases b) (auto simp: stop_reason_def)
    next
      case 2
      with Cons.prems False show ?thesis by (auto simp: maximum_reached_def)
    next
      case 3
      show ?thesis
        using False Cons.prems [unfolded 3]
        by (cases rule: consume_loop_message)
          (auto intro: Cons.IH stop_reason_step [OF _ False])
    qed
  qed
qed

text \<open>When nothing in the \<open>except\<close> branch can raise, the loop does not die.\<close>

definition loop_safe :: "platform \<Rightarrow> poll list \<Rightarrow> bool" where
  "loop_safe p polls \<longleftrightarrow>
     (\<forall>n. \<not> ack_fault p n) \<and> PollError \<notin> set polls
     \<and> list_all (\<lambda>m. \<not> truthy (km_key m) \<or> valid_utf8 (the (km_key m))) (polled polls)"

lemma decoded_key_ok:
  "\<not> truthy (km_key m) \<or> valid_utf8 (the (km_key m)) \<Longrightarrow> decoded_key m \<noteq> Inl e"
  by (auto simp: decoded_key_def decode_strict_def)

lemma loop_safe_Cons:
  "loop_safe p (poll # polls) \<Longrightarrow> loop_safe p polls \<and> poll \<noteq> PollError"
  by (cases poll) (auto simp: loop_safe_def)

lemma consume_loop_returns:
  "loop_safe p polls \<Longrightarrow> \<exists>res w'. consume_loop p rt mm mi polls n t w = (Inr res, w')"
proof (induction polls arbitrary: n t w)
  case (Cons poll polls)
  note safe = loop_safe_Cons [OF Cons.prems]
  have IH: "\<exists>res w'. consume_loop p rt mm mi polls m u v = (Inr res, w')" for m u v
    using safe Cons.IH by blast
  obtain r z where run: "consume_loop p rt mm mi (poll # polls) n t w = (r, z)" by force
  show ?case
  proof (cases "maximum_reached mm n")
    case True
    then show ?thesis by (simp add: maximum_reached_def)
  next
    case False
    consider "poll = NoMessage \<or> poll = PartitionEof" | msg where "poll = Message msg"
      using safe by (cases poll) auto
    then show ?thesis
    proof cases
      case 1
      then obtain v b where
        "(if b then preturn (IdleExpired, n) else consume_loop p rt mm mi polls n t) v = (r, z)"
        using consume_loop_idle [OF _ False run] by metis
      with IH [of n t v] run show ?thesis by (cases b) auto
    next
      case 2
      have key: "decoded_key msg \<noteq> Inl UnicodeDecodeError" and ack: "\<forall>k. \<not> ack_fault p k"
        using Cons.prems 2 by (auto simp: loop_safe_def decoded_key_ok)
      show ?thesis
        using False run [unfolded 2]
      proof (cases rule: consume_loop_message)
        case (fatal e)
        with consume_message_fatal(2) [OF fatal(1)] key ack show ?thesis by auto
      next
        case (done_now v)
        with IH [of "n + 1"] run show ?thesis by (metis Pair_inject)
      next
        case (sunk v)
        with IH [of n t v] run show ?thesis by auto
      qed
    qed
  qed
qed simp

section \<open>An accepted order event\<close>

lemma lag_measured_run:
  "pbind (lag_measured p topic t) f w =
     f () (w\<lparr>w_ticks := Suc (w_ticks w),
            w_telemetry := record_event_lag (clk p (w_ticks w)) topic t (w_telemetry w)\<rparr>)"
  by (simp add: lag_measured_def read_clock_def pbind_def measure_with_def)

lemma freshness_measured_run:
  "\<exists>v. pbind (freshness_measured p topic t) f w = f () v \<and> w_db v = w_db w
     \<and> w_db_calls v = w_db_calls w \<and> w_ack_calls v = w_ack_calls w"
  by (auto simp: freshness_measured_def read_clock_def pbind_def split: prod.splits)

lemma handle_order_ok:
  assumes "order_from_dict payload = Inr ev" and "\<And>t. \<exists>r. store_order p (row_of_order_event ev t) = Inr r"
    and "\<And>n. \<not> db_fault p n"
  shows "\<exists>v t r. handle_order p track topic payload w =
             (Inr (oe_updated_at ev = None \<and> oe_source_version ev = None), v)
           \<and> store_order p (row_of_order_event ev t) = Inr r
           \<and> w_db v = (w_db w)\<lparr>payment_orders := order_upsert r (payment_orders (w_db w))\<rparr>
           \<and> w_ack_calls v = w_ack_calls w"
proof -
  have upsert: "\<exists>v t r. upsert_payment_order p ev u =
             (Inr (oe_updated_at ev = None \<and> oe_source_version ev = None), v)
           \<and> store_order p (row_of_order_event ev t) = Inr r
           \<and> w_db v = (w_db u)\<lparr>payment_orders := order_upsert r (payment_orders (w_db u))\<rparr>
           \<and> w_ack_calls v = w_ack_calls u" for u
  proof -
    obtain r where "store_order p (row_of_order_event ev (clk p (w_ticks u))) = Inr r"
      using assms(2) by blast
    then show ?thesis
      by (auto simp: upsert_payment_order_def ingested_now_def execute_order_upsert_def
          pbind_run [of "db_execute p g" for g] db_execute_run assms(3))
  qed
  have fresh: "\<exists>v. pbind (if track then freshness_measured p topic t else preturn ()) f u = f () v
      \<and> w_db v = w_db u \<and> w_db_calls v = w_db_calls u \<and> w_ack_calls v = w_ack_calls u" for t f u
    using freshness_measured_run [of p topic t f u] by auto
  let ?u = "w\<lparr>w_ticks := Suc (w_ticks w), w_telemetry :=
      record_event_lag (clk p (w_ticks w)) topic (order_event_time ev) (w_telemetry w)\<rparr>"
  obtain v where v: "pbind (if track then freshness_measured p topic (order_event_time ev) else preturn ())
      (\<lambda>_. upsert_payment_order p ev) ?u = upsert_payment_order p ev v" "w_db v = w_db ?u"
      "w_ack_calls v = w_ack_calls ?u"
    using fresh by metis
  have "handle_order p track topic payload w = upsert_payment_order p ev v"
    unfolding handle_order_def using v(1) by (simp add: assms(1) lag_measured_run)
  with upsert [of v] v(2,3) show ?thesis by simp
qed

lemma handle_payload_order_ok:
  assumes "topic_kind (rt_profile rt) topic = Some ''payment_order''"
    and "normalize_payload_for_topic topic payload (rt_profile rt) = Inr n"
    and "order_from_dict (np_payload n) = Inr ev"
    and "\<And>t. \<exists>r. store_order p (row_of_order_event ev t) = Inr r" and "\<And>n. \<not> db_fault p n"
  shows "\<exists>v t r. handle_payload p rt track topic payload w = (Inr (), v)
           \<and> store_order p (row_of_order_event ev t) = Inr r
           \<and> w_db v = (w_db w)\<lparr>payment_orders := order_upsert r (payment_orders (w_db w))\<rparr>
           \<and> w_ack_calls v = w_ack_calls w"
proof -
  have kind: "np_topic_kind n = ''payment_order''"
    by (rule normalize_InrE [OF assms(2)]) (use assms(1) in simp)
  let ?u = "w\<lparr>w_telemetry := fold (\<lambda>(ck, ak). record_contract_alias_hit topic (profile_id (rt_profile rt)) ck ak)
      (np_alias_hits n) (record_contract_profile_message topic (profile_id (rt_profile rt)) (w_telemetry w))\<rparr>"
  let ?m = "oe_updated_at ev = None \<and> oe_source_version ev = None"
  obtain v t r where v: "handle_order p track topic (np_payload n) ?u = (Inr ?m, v)"
      "store_order p (row_of_order_event ev t) = Inr r"
      "w_db v = (w_db ?u)\<lparr>payment_orders := order_upsert r (payment_orders (w_db ?u))\<rparr>"
      "w_ack_calls v = w_ack_calls ?u"
    using handle_order_ok [where p = p and w = ?u, OF assms(3,4,5)] by blast
  have "session_scope p (handle_order p track topic (np_payload n)) ?u =
      (Inr ?m, v\<lparr>w_db_calls := Suc (w_db_calls v)\<rparr>)"
    unfolding session_scope_def by (simp add: pbind_def v(1) db_call_def assms(5))
  then have "handle_payload p rt track topic payload w =
      pbind (measure_with (record_version_missing topic ?m)) (\<lambda>_. version_counted ?m)
        (v\<lparr>w_db_calls := Suc (w_db_calls v)\<rparr>)"
    unfolding handle_payload_def Let_def
    by (simp add: assms(1,2) kind record_contract_metrics_def pbind_run [of "session_scope p a" for a])
  then show ?thesis
    using v(2,3,4) by (auto simp: version_counted_def)
qed

text \<open>What makes an order message acceptable to the service, the platform's faults aside.\<close>

definition acceptable_order ::
  "platform \<Rightarrow> consumer_runtime \<Rightarrow> kafka_message \<Rightarrow> order_event \<Rightarrow> bool" where
  "acceptable_order p rt msg ev \<longleftrightarrow>
     topic_kind (rt_profile rt) (km_topic msg) = Some ''payment_order''
     \<and> rbind (load_payload p (km_value msg)) (\<lambda>payload.
         rbind (normalize_payload_for_topic (km_topic msg) payload (rt_profile rt)) (\<lambda>n.
           order_from_dict (np_payload n))) = Inr ev
     \<and> (\<forall>t. \<exists>r. store_order p (row_of_order_event ev t) = Inr r)
     \<and> (\<forall>n. \<not> db_fault p n)"

lemma acceptable_order_processed:
  assumes "acceptable_order p rt msg ev"
  obtains v t r where "store_order p (row_of_order_event ev t) = Inr r"
    "w_db v = (w_db w)\<lparr>payment_orders := order_upsert r (payment_orders (w_db w))\<rparr>"
    "w_ack_calls v = w_ack_calls w" "w_acked v = w_acked w" "w_dlq_file v = w_dlq_file w"
    "\<exists>payload. load_payload p (km_value msg) = Inr payload"
    "process_message p rt msg cid (load_payload p (km_value msg)) w =
       (case pbind (commit_message p msg)
               (\<lambda>_. measure_with (record_consumer_message (km_topic msg) ''success'')) v of
          (res, v') \<Rightarrow> (res, v'\<lparr>w_correlation := w_correlation w\<rparr>))"
proof -
  obtain payload n where p: "load_payload p (km_value msg) = Inr payload"
      "normalize_payload_for_topic (km_topic msg) payload (rt_profile rt) = Inr n"
      "order_from_dict (np_payload n) = Inr ev"
    and rest: "topic_kind (rt_profile rt) (km_topic msg) = Some ''payment_order''"
      "\<And>t. \<exists>r. store_order p (row_of_order_event ev t) = Inr r" "\<And>k. \<not> db_fault p k"
    using assms by (auto simp: acceptable_order_def rbind_eq_Inr)
  let ?k = "case Option.bind cid stripped_or_none of None \<Rightarrow> Suc (w_uuids w) | Some x \<Rightarrow> w_uuids w"
  let ?u = "w\<lparr>w_correlation := correlation_or_fresh cid (uuid4 p (w_uuids w)), w_uuids := ?k\<rparr>"
  obtain v t r where v: "handle_payload p rt True (km_topic msg) payload ?u = (Inr (), v)"
      "store_order p (row_of_order_event ev t) = Inr r"
      "w_db v = (w_db ?u)\<lparr>payment_orders := order_upsert r (payment_orders (w_db ?u))\<rparr>"
      "w_ack_calls v = w_ack_calls ?u"
    using handle_payload_order_ok [where w = ?u and track = True, OF rest(1) p(2,3) rest(2,3)] by blast
  show thesis
  proof (rule that [of t r v])
    show "w_acked v = w_acked w" "w_dlq_file v = w_dlq_file w"
      using keepsD [OF acked_part.keeps_handle_payload v(1)]
        keepsD [OF dlq_file_part.keeps_handle_payload v(1)] by simp_all
    show "process_message p rt msg cid (load_payload p (km_value msg)) w =
       (case pbind (commit_message p msg)
               (\<lambda>_. measure_with (record_consumer_message (km_topic msg) ''success'')) v of
          (res, v') \<Rightarrow> (res, v'\<lparr>w_correlation := w_correlation w\<rparr>))"
      by (simp add: process_message_def p(1) correlation_context_def Let_def
          pbind_run [of "handle_payload p rt True (km_topic msg) payload"] v(1))
  qed (use v p in auto)
qed

lemma consume_message_order:
  assumes "acceptable_order p rt msg ev" and "\<not> ack_fault p (w_ack_calls w)"
  shows "\<exists>w' t r. consume_message p rt msg w = (Inr True, w')
    \<and> store_order p (row_of_order_event ev t) = Inr r
    \<and> w_db w' = (w_db w)\<lparr>payment_orders := order_upsert r (payment_orders (w_db w))\<rparr>"
proof -
  let ?u = "w\<lparr>w_telemetry := record_kafka_lag (km_topic msg) (km_partition msg) (kafka_lag msg)
                 (w_telemetry w)\<rparr>"
  let ?cid = "message_correlation_id msg (load_payload p (km_value msg))"
  obtain v t r where v: "store_order p (row_of_order_event ev t) = Inr r"
      "w_db v = (w_db ?u)\<lparr>payment_orders := order_upsert r (payment_orders (w_db ?u))\<rparr>"
      "w_ack_calls v = w_ack_calls ?u"
      "process_message p rt msg ?cid (load_payload p (km_value msg)) ?u =
       (case pbind (commit_message p msg)
               (\<lambda>_. measure_with (record_consumer_message (km_topic msg) ''success'')) v of
          (res, v') \<Rightarrow> (res, v'\<lparr>w_correlation := w_correlation ?u\<rparr>))"
    by (rule acceptable_order_processed [OF assms(1), of ?u ?cid]) blast
  then have "\<exists>w'. process_message p rt msg ?cid (load_payload p (km_value msg)) ?u = (Inr (), w')
      \<and> w_db w' = w_db v"
    using assms(2) by (simp add: commit_message_def Let_def pbind_def measure_with_def)
  then obtain w' where "process_message p rt msg ?cid (load_payload p (km_value msg)) ?u = (Inr (), w')"
      "w_db w' = w_db v" by blast
  then have "consume_message p rt msg w = (Inr True, w') \<and> w_db w' = w_db v"
    by (simp add: consume_message_def Let_def pcatch_def
        pbind_run [of "process_message p rt msg c l" for c l])
  then show ?thesis using v(1,2) by auto
qed

section \<open>A refused acknowledgement\<close>

text \<open>Up to the acknowledgement the handling of a message does not depend on the broker.\<close>

lemma broker_free_numeric:
  "store_numeric (p\<lparr>ack_fault := f\<rparr>) = store_numeric p"
  "store_numeric_opt (p\<lparr>ack_fault := f\<rparr>) = store_numeric_opt p"
proof -
  show "store_numeric (p\<lparr>ack_fault := f\<rparr>) = store_numeric p" by (simp add: fun_eq_iff store_numeric_def)
  then show "store_numeric_opt (p\<lparr>ack_fault := f\<rparr>) = store_numeric_opt p"
    by (intro ext) (simp only: store_numeric_opt_def)
qed

lemma broker_free_actions:
  "read_clock (p\<lparr>ack_fault := f\<rparr>) = read_clock p"
  "db_call (p\<lparr>ack_fault := f\<rparr>) = db_call p"
  "db_query (p\<lparr>ack_fault := f\<rparr>) = db_query p"
  "db_execute (p\<lparr>ack_fault := f\<rparr>) = db_execute p"
  "session_scope (p\<lparr>ack_fault := f\<rparr>) = session_scope p"
  "store_ledger (p\<lparr>ack_fault := f\<rparr>) = store_ledger p"
  "store_order (p\<lparr>ack_fault := f\<rparr>) = store_order p"
  "store_pair (p\<lparr>ack_fault := f\<rparr>) = store_pair p"
proof -
  show call: "db_call (p\<lparr>ack_fault := f\<rparr>) = db_call p" by (simp add: fun_eq_iff db_call_def)
  show "db_query (p\<lparr>ack_fault := f\<rparr>) = db_query p" "db_execute (p\<lparr>ack_fault := f\<rparr>) = db_execute p"
    "session_scope (p\<lparr>ack_fault := f\<rparr>) = session_scope p"
    by (intro ext, simp only: db_query_def db_execute_def session_scope_def call)+
  show "store_ledger (p\<lparr>ack_fault := f\<rparr>) = store_ledger p" "store_order (p\<lparr>ack_fault := f\<rparr>) = store_order p"
    "store_pair (p\<lparr>ack_fault := f\<rparr>) = store_pair p"
    by (intro ext, simp only: store_ledger_def store_order_def store_pair_def broker_free_numeric)+
qed (simp add: fun_eq_iff read_clock_def)

lemma broker_free_upserts:
  "update_pairing_for_related_id (p\<lparr>ack_fault := f\<rparr>) = update_pairing_for_related_id p"
  "upsert_ledger_entry (p\<lparr>ack_fault := f\<rparr>) = upsert_ledger_entry p"
  "upsert_payment_order (p\<lparr>ack_fault := f\<rparr>) = upsert_payment_order p"
proof -
  have scan: "scan_order (p\<lparr>ack_fault := f\<rparr>) = scan_order p" by simp
  show pairing: "update_pairing_for_related_id (p\<lparr>ack_fault := f\<rparr>) = update_pairing_for_related_id p"
    by (intro ext) (simp only: update_pairing_for_related_id_def execute_pair_upsert_def broker_free_actions scan)
  show "upsert_ledger_entry (p\<lparr>ack_fault := f\<rparr>) = upsert_ledger_entry p"
    by (intro ext) (simp only: upsert_ledger_entry_def ingested_now_def execute_ledger_upsert_def broker_free_actions pairing)
  show "upsert_payment_order (p\<lparr>ack_fault := f\<rparr>) = upsert_payment_order p"
    by (intro ext) (simp only: upsert_payment_order_def ingested_now_def execute_order_upsert_def broker_free_actions)
qed

lemma handle_payload_broker_free:
  "handle_payload (p\<lparr>ack_fault := f\<rparr>) rt track topic payload = handle_payload p rt track topic payload"
  by (simp only: handle_payload_def handle_ledger_def handle_order_def lag_measured_def freshness_measured_def
      broker_free_actions broker_free_upserts)

text \<open>The \<open>try\<close> block in one equation: the handler, then the acknowledgement.\<close>

definition in_context :: "platform \<Rightarrow> string option \<Rightarrow> world \<Rightarrow> world" where
  "in_context p cid w =
     w\<lparr>w_correlation := correlation_or_fresh cid (uuid4 p (w_uuids w)),
       w_uuids := (case Option.bind cid stripped_or_none of None \<Rightarrow> Suc (w_uuids w) | Some _ \<Rightarrow> w_uuids w)\<rparr>"

lemma process_message_run:
  "process_message p rt msg cid (Inr payload) w =
     (case handle_payload p rt True (km_topic msg) payload (in_context p cid w) of
        (Inl e, v) \<Rightarrow> (Inl e, v\<lparr>w_correlation := w_correlation w\<rparr>)
      | (Inr _, v) \<Rightarrow>
          (case commit_message p msg v of
             (Inl e, v') \<Rightarrow> (Inl e, v'\<lparr>w_correlation := w_correlation w\<rparr>)
           | (Inr _, v') \<Rightarrow> (Inr (), v'\<lparr>w_telemetry := record_consumer_message (km_topic msg) ''success'' (w_telemetry v'),
                                         w_correlation := w_correlation w\<rparr>)))"
  by (simp add: process_message_def correlation_context_def in_context_def Let_def measure_with_def
      pbind_run [of "handle_payload p rt True t l" for t l] pbind_run [of "commit_message p msg"]
      split: prod.split sum.split)

lemma consume_message_refused:
  assumes "consume_message (p\<lparr>ack_fault := \<lambda>n. False\<rparr>) rt msg w = (Inr True, w0)"
    and "ack_fault p (w_ack_calls w)" and "\<not> ack_fault p (Suc (w_ack_calls w))"
    and "decoded_key msg = Inr key" and "sinks_ok p rt" and "message_recordable p msg"
  shows "\<exists>w'. consume_message p rt msg w = (Inr False, w') \<and> business (w_db w') = business (w_db w0)
    \<and> dead_letter_record w w'"
proof -
  let ?p = "p\<lparr>ack_fault := \<lambda>n. False\<rparr>"
  have load: "load_payload ?p = load_payload p" by (simp add: load_payload_def fun_eq_iff)
  have same_context: "in_context ?p = in_context p" by (simp add: in_context_def fun_eq_iff)
  let ?u = "w\<lparr>w_telemetry := record_kafka_lag (km_topic msg) (km_partition msg) (kafka_lag msg) (w_telemetry w)\<rparr>"
  let ?loaded = "load_payload p (km_value msg)"
  let ?cid = "message_correlation_id msg ?loaded"
  from assms(1) have ok: "process_message ?p rt msg ?cid ?loaded ?u = (Inr (), w0)"
    by (cases rule: consume_message_cases) (auto simp: load split: sum.splits)
  obtain payload where payload: "?loaded = Inr payload"
    using ok by (auto simp: process_message_def pbind_eq_Inr)
  have "\<exists>v. handle_payload p rt True (km_topic msg) payload (in_context p ?cid ?u) = (Inr (), v) \<and> w_db w0 = w_db v"
  proof (cases "handle_payload p rt True (km_topic msg) payload (in_context p ?cid ?u)")
    case (Pair r v)
    have "process_message ?p rt msg ?cid (Inr payload) ?u = (Inr (), w0)" using ok payload by simp
    then show ?thesis
      unfolding process_message_run handle_payload_broker_free same_context Pair
      by (cases r) (auto simp: commit_message_def Let_def)
  qed
  then obtain v where v: "handle_payload p rt True (km_topic msg) payload (in_context p ?cid ?u) = (Inr (), v)"
      "w_db w0 = w_db v" by blast
  have calls: "w_ack_calls v = w_ack_calls w"
    using keepsD [OF ack_calls_part.keeps_handle_payload v(1)] by (simp add: in_context_def)
  define x where "x = v\<lparr>w_ack_calls := Suc (w_ack_calls v), w_correlation := w_correlation ?u\<rparr>"
  have x: "process_message p rt msg ?cid ?loaded ?u = (Inl KafkaException, x)"
    unfolding payload
    using assms(2) calls v(1) [unfolded payload] by (simp add: process_message_run commit_message_def Let_def x_def)
  obtain dl w' where dl: "dead_letter p rt msg ?cid KafkaException x = (dl, w')" by force
  from dl have dl_ok: "dl = Inr ()"
  proof (cases rule: dead_letter_cases)
    case bad_key
    then show ?thesis using assms(4) by simp
  next
    case (sunk k v1 v2 v3 now)
    have "w_ack_calls v3 = Suc (w_ack_calls w)"
      using keepsD [OF write_dlq_payload_parts(2) sunk(7)] sunk(3,6) calls by (simp add: x_def)
    then show ?thesis using sunk(8) assms(3) by (auto simp: commit_message_def Let_def)
  qed
  have run: "consume_message p rt msg w = (Inr False, w')"
    by (simp add: consume_message_def Let_def pcatch_def
        pbind_run [of "process_message p rt msg c l" for c l] x
        pbind_run [of "dead_letter p rt msg c e" for c e] dl [unfolded dl_ok])
  have "business (w_db w') = business (w_db w0)"
    using dead_letter_business [OF dl] v(2) by (simp add: x_def)
  with run consume_message_failed(3) [OF run assms(5,6)] show ?thesis by blast
qed

end
