(* ===== verification/StoreProperties.thy ===== *)
theory StoreProperties
  imports Processor
begin

text \<open>
  The properties of the stored tables: the upsert statement against the latest-wins rule,
  redelivery and reordering, the pairing of payments, and the invariants of the tables. The
  concrete platform and rows of the witnesses come first.
\<close>

section \<open>A concrete platform and rows\<close>

definition example_platform :: platform where
  "example_platform =
     \<lparr>clk = (\<lambda>n. Utc (int n + 1000)), uuid4 = (\<lambda>n. ''uuid''), numeric_18_2 = Some,
      scan_order = (\<lambda>rows. rows),
      float_repr = (\<lambda>s. s), exc_text = (\<lambda>e. ''error''),
      monotonic = (\<lambda>n. int n), db_fault = (\<lambda>n. False), file_fault = (\<lambda>n. False),
      ack_fault = (\<lambda>n. False)\<rparr>"

lemma scan_sound_example: "scan_sound example_platform"
  by (simp add: scan_sound_def example_platform_def)

definition example_event :: "string \<Rightarrow> string \<Rightarrow> instant option \<Rightarrow> int option \<Rightarrow> ledger_event" where
  "example_event t ty u v =
     \<lparr>ev_tx_id = t, ev_wallet_id = ''w'', ev_entry_type = ty, ev_amount = DecFinite False 100 0,
      ev_amount_signed = None, ev_related_id = Some ''po-1'', ev_related_type = None,
      ev_event_time = Utc 5, ev_created_at = Utc 5, ev_updated_at = u, ev_source_version = v\<rparr>"

definition example_entry :: "string \<Rightarrow> string \<Rightarrow> instant option \<Rightarrow> int option \<Rightarrow> int \<Rightarrow> ledger_entry" where
  "example_entry t ty u v arrival = row_of_ledger_event (example_event t ty u v) (Utc arrival)"

definition example_pair :: payment_pair where
  "example_pair =
     \<lparr>pp_payment_order_id = ''po-1'', pp_payment_tx_id = Some ''tx-1'',
      pp_receive_tx_id = Some ''tx-2'', pp_payer_wallet_id = Some ''w'',
      pp_payee_wallet_id = Some ''w'', pp_amount = None, pp_status = None,
      pp_event_time = None, pp_updated_at = Utc 1, pp_ingested_at = Utc 1\<rparr>"

definition example_db :: db where
  "example_db = empty_db
     \<lparr>ledger_entries := [example_entry ''tx-1'' ''PAYMENT'' (Some (Utc 5)) None 6,
                         example_entry ''tx-2'' ''RECEIVE'' (Some (Utc 5)) None 7],
      payment_ledger_pairs := [example_pair]\<rparr>"

lemmas example_defs = example_db_def example_pair_def example_entry_def example_event_def
  row_of_ledger_event_def empty_db_def

definition example_config :: app_config where
  "example_config =
     \<lparr>cf_app_env = ''local'', cf_log_level = ''INFO'', cf_database_url = ''db'',
      cf_kafka_brokers = ''k'', cf_kafka_security_protocol = ''PLAINTEXT'',
      cf_kafka_sasl_mechanism = ''PLAIN'', cf_kafka_sasl_username = [], cf_kafka_sasl_password = [],
      cf_kafka_ssl_ca_location = [], cf_service_name = ''s'', cf_consumer_group_id = ''g'',
      cf_ledger_topic = ''ledger.entry.upserted'',
      cf_payment_order_topic = ''payment.order.upserted'',
      cf_event_profile_id = ''canonical-v1'',
      cf_effective_ledger_topic = ''ledger.entry.upserted'',
      cf_effective_payment_order_topic = ''payment.order.upserted'',
      cf_dlq_path = ''dlq'', cf_dlq_backend = ''db'', cf_dlq_retention_days = 14,
      cf_consumer_poll_timeout_ms = 1000, cf_consumer_offset_reset = ''earliest'',
      cf_auth_mode = ''disabled'', cf_auth_issuer = [], cf_auth_audience = [],
      cf_auth_jwks_url = [], cf_auth_algorithm = ''RS256'', cf_auth_roles_claim = ''roles'',
      cf_auth_actor_id_claims = ''sub'', cf_audit_mask_query_keys = ''token'',
      cf_db_pool_size = 5, cf_db_max_overflow = 10, cf_db_pool_timeout = 30,
      cf_db_pool_recycle = 1800, cf_appinsights_connection_string = [], cf_db_slow_query_ms = 200\<rparr>"

lemma example_db_ok: "db_ok example_db"
  by (simp add: db_ok_def example_defs)

lemma example_db_refs: "pair_refs example_db"
  by (simp add: pair_refs_def entry_of_def example_defs)

section \<open>The upsert\<close>

text \<open>
  C2. The statement built by \<open>latest_wins_upsert\<close>, executed by PostgreSQL with three-valued
  conditions on each of the three tables, inserts a row whose key is new and otherwise replaces
  the row of its key exactly when the latest-wins rule says so: a newer or equal
  \<open>updated_at\<close>, without one a newer or equal version, without both only over a row without
  both that arrived no later.
\<close>

theorem upsert_is_latest_wins:
  "execute_upsert ledger_table (latest_wins_upsert ledger_table e [''tx_id'']) es =
     replace_or_insert le_tx_id (\<lambda>v r. lww_wins (ledger_meta v) (ledger_meta r)) e es
   \<and> execute_upsert order_table (latest_wins_upsert order_table o' [''order_id'']) os =
     replace_or_insert po_order_id (\<lambda>v r. lww_wins (order_meta v) (order_meta r)) o' os
   \<and> execute_upsert pair_table (latest_wins_upsert pair_table q [''payment_order_id'']) qs =
     replace_or_insert pp_payment_order_id (\<lambda>v r. lww_wins (pair_meta v) (pair_meta r)) q qs"
  using ledger_upsert_is_replacement [of e es] order_upsert_is_replacement [of o' os]
    pair_upsert_is_replacement [of q qs]
  unfolding ledger_upsert_def order_upsert_def pair_upsert_def ledger_wins_def order_wins_def
    pair_wins_def by simp

lemma replace_or_insert_twice:
  assumes "wins v v"
  shows "replace_or_insert key wins v (replace_or_insert key wins v rows) =
           replace_or_insert key wins v rows"
proof (cases "key v \<in> key ` set rows")
  case True
  let ?f = "\<lambda>r. if key r = key v \<and> wins v r then v else r"
  have "key v \<in> key ` set (map ?f rows)" proof -
    have "map key (map ?f rows) = map key rows" by simp
    then show ?thesis using True by (metis list.set_map)
  qed
  with True show ?thesis by (auto simp: replace_or_insert_def assms)
next
  case False
  then have "map (\<lambda>r. if key r = key v \<and> wins v r then v else r) rows = rows"
    by (intro map_idI) (force simp: image_iff)
  with False show ?thesis by (simp add: replace_or_insert_def)
qed

text \<open>
  Writing the same row a second time changes nothing, in any of the three tables and
  whatever the table holds: a redelivered event is harmless.
\<close>

theorem upsert_twice_is_once:
  "ledger_upsert e (ledger_upsert e es) = ledger_upsert e es
   \<and> order_upsert o' (order_upsert o' os) = order_upsert o' os
   \<and> pair_upsert q (pair_upsert q qs) = pair_upsert q qs"
  by (simp add: upsert_is_replacement replace_or_insert_twice ledger_wins_def order_wins_def
      pair_wins_def)

text \<open>
  C5. Ledger rows that all carry \<open>updated_at\<close> converge: two sequences of upserts into an empty table
  that deliver the same contents, in any order and any number of times, leave the same content under every
  transaction id, when rows of one transaction with equal \<open>updated_at\<close> have equal content.
\<close>

theorem ledger_upserts_converge:
  assumes "\<forall>v\<in>set vs \<union> set ws. le_updated_at v \<noteq> None"
    and "ledger_content ` set vs = ledger_content ` set ws"
    and "\<forall>v\<in>set vs \<union> set ws. \<forall>w\<in>set vs \<union> set ws.
           le_tx_id v = le_tx_id w \<and> le_updated_at v = le_updated_at w \<longrightarrow>
           ledger_content v = ledger_content w"
  shows "map_option ledger_content (row_of le_tx_id k (fold ledger_upsert vs [])) =
         map_option ledger_content (row_of le_tx_id k (fold ledger_upsert ws []))"
proof (rule ledger_by_time.fold_content_converges [OF _ assms(2)])
  show "le_updated_at v \<noteq> None" if "v \<in> set vs \<union> set ws" for v
    using assms(1) that by blast
  fix v w assume vw: "v \<in> set vs \<union> set ws" "w \<in> set vs \<union> set ws" "le_tx_id v = le_tx_id w"
    and "the (le_updated_at v) = the (le_updated_at w)"
  moreover have "le_updated_at v \<noteq> None" "le_updated_at w \<noteq> None" using assms(1) vw by auto
  ultimately have "le_updated_at v = le_updated_at w" by auto
  with assms(3) vw show "ledger_content v = ledger_content w" by blast
qed

theorem ledger_upserts_converge_witness:
  "map_option ledger_content (row_of le_tx_id ''t''
       (fold ledger_upsert [example_entry ''t'' ''PAYMENT'' (Some (Utc 1)) None 10,
                            example_entry ''t'' ''PAYMENT'' (Some (Utc 2)) None 11] [])) =
   map_option ledger_content (row_of le_tx_id ''t''
       (fold ledger_upsert [example_entry ''t'' ''PAYMENT'' (Some (Utc 2)) None 20,
                            example_entry ''t'' ''PAYMENT'' (Some (Utc 1)) None 21,
                            example_entry ''t'' ''PAYMENT'' (Some (Utc 1)) None 22] []))"
  by (rule ledger_upserts_converge) (auto simp: example_defs ledger_content_def)

text \<open>
  C32. Without that condition the order of delivery matters: of any two different entries of one
  transaction of which one carries \<open>updated_at\<close>, and at most the version of the other one, and the
  other only that version, each wins over the other, so that the last to arrive stays.
\<close>

theorem mixed_metadata_depends_on_order:
  assumes "le_tx_id a = k" and "le_tx_id b = k"
    and "le_updated_at a = Some u" and "le_updated_at b = None" and "le_source_version b = Some v"
    and "opt_all (\<lambda>x. x \<le> v) (le_source_version a)"
  shows "row_of le_tx_id k (fold ledger_upsert [a, b] []) = Some b
    \<and> row_of le_tx_id k (fold ledger_upsert [b, a] []) = Some a"
proof -
  have "ledger_wins a b" "ledger_wins b a"
    using assms(3-6) by (auto simp: ledger_wins_def lww_wins_def ledger_meta_def split: option.splits)
  with assms(1,2) show ?thesis
    by (simp add: ledger_upsert_is_replacement replace_or_insert_def)
qed

theorem mixed_metadata_depends_on_order_witness:
  "row_of le_tx_id ''t'' (fold ledger_upsert [example_entry ''t'' ''PAYMENT'' (Some (Utc 9)) None 10,
       example_entry ''t'' ''RECEIVE'' None (Some 1) 10] []) = Some (example_entry ''t'' ''RECEIVE'' None (Some 1) 10)"
  using mixed_metadata_depends_on_order [of "example_entry ''t'' ''PAYMENT'' (Some (Utc 9)) None 10" "''t''"
      "example_entry ''t'' ''RECEIVE'' None (Some 1) 10" "Utc 9" 1]
  by (simp add: example_defs)

section \<open>Pairing\<close>

text \<open>The first entry of a type, or none when there is no entry of that type.\<close>

definition first_of_type :: "string \<Rightarrow> ledger_snapshot list \<Rightarrow> ledger_snapshot option \<Rightarrow> bool" where
  "first_of_type ty es side \<longleftrightarrow>
     (case side of
        None \<Rightarrow> ty \<notin> ls_entry_type ` set es
      | Some e \<Rightarrow> ls_entry_type e = ty
          \<and> (\<exists>before after. es = before @ e # after \<and> ty \<notin> ls_entry_type ` set before))"

lemma first_of_type_find: "first_of_type ty es (find (\<lambda>e. ls_entry_type e = ty) es)"
proof (cases "find (\<lambda>e. ls_entry_type e = ty) es")
  case None
  then have "ty \<notin> ls_entry_type ` set es" by (auto simp: find_None_iff)
  with None show ?thesis by (simp add: first_of_type_def)
next
  case (Some e)
  then obtain i where i: "i < length es" "ls_entry_type (es ! i) = ty" "e = es ! i"
      "\<forall>j<i. ls_entry_type (es ! j) \<noteq> ty"
    by (auto simp: find_Some_iff)
  have "ty \<notin> ls_entry_type ` set (take i es)"
    using i(1,4) by (fastforce simp: in_set_conv_nth)
  moreover have "es = take i es @ e # drop (Suc i) es" using i(1,3) by (simp add: id_take_nth_drop)
  ultimately show ?thesis using Some i(2,3) unfolding first_of_type_def by auto
qed

text \<open>
  C21. What \<open>compute_pairing\<close> returns, in full. Each side, payment and receive, is the first entry
  of its type, with its transaction and its wallet, and missing exactly when there is no such
  entry; the pair is complete exactly when both are there. The event time is the newest one. The
  amount is that of the order, without an order that of the payment, without a payment that of
  the receipt; the status is the order's. The age is given for an incomplete pair that has
  entries, and is the time from the newest event to now, or 0 when that lies in the future.
\<close>

theorem compute_pairing_spec:
  "\<exists>payment receive. first_of_type ''PAYMENT'' es payment \<and> first_of_type ''RECEIVE'' es receive
   \<and> compute_pairing k es po now =
       \<lparr>ps_payment_order_id = k,
        ps_payment_tx_id = map_option ls_tx_id payment,
        ps_receive_tx_id = map_option ls_tx_id receive,
        ps_payer_wallet_id = map_option ls_wallet_id payment,
        ps_payee_wallet_id = map_option ls_wallet_id receive,
        ps_amount = (case (po, payment, receive) of
             (Some ord, _, _) \<Rightarrow> Some (os_amount ord)
           | (None, Some e, _) \<Rightarrow> Some (ls_amount e)
           | (None, None, Some e) \<Rightarrow> Some (ls_amount e)
           | (None, None, None) \<Rightarrow> None),
        ps_status = map_option os_status po,
        ps_event_time = (if es = [] then None else Some (Max (ls_event_time ` set es))),
        ps_complete = (''PAYMENT'' \<in> ls_entry_type ` set es \<and> ''RECEIVE'' \<in> ls_entry_type ` set es),
        ps_incomplete_age =
          (if es = [] \<or> ''PAYMENT'' \<in> ls_entry_type ` set es \<and> ''RECEIVE'' \<in> ls_entry_type ` set es then None
           else Some (max 0 (elapsed now (Max (ls_event_time ` set es))))),
        ps_skipped = False\<rparr>"
proof -
  let ?find = "\<lambda>ty. find (\<lambda>e. ls_entry_type e = ty) es"
  have there: "(?find ty \<noteq> None) = (ty \<in> ls_entry_type ` set es)" for ty
    by (auto simp: find_None_iff)
  have time: "newest_event_time es = (if es = [] then None else Some (Max (ls_event_time ` set es)))"
    by (simp add: newest_event_time_Max newest_event_time_None)
  show ?thesis
    unfolding compute_pairing_def Let_def there time
    by (rule exI [of _ "?find ''PAYMENT''"], rule exI [of _ "?find ''RECEIVE''"], intro conjI first_of_type_find)
      (cases po; cases "?find ''PAYMENT''"; cases "?find ''RECEIVE''"; simp)
qed

text \<open>
  The order in which PostgreSQL returns the entries does not matter for the pairing when
  there is at most one \<open>PAYMENT\<close> and one \<open>RECEIVE\<close> entry.
\<close>

theorem pairing_row_order_irrelevant:
  assumes "set es = set fs"
    and "\<forall>e\<in>set es. \<forall>f\<in>set es. ls_entry_type e = ls_entry_type f \<longrightarrow> e = f
           \<or> ls_entry_type e \<notin> {''PAYMENT'', ''RECEIVE''}"
  shows "compute_pairing k es po now = compute_pairing k fs po now"
  by (rule compute_pairing_order_free [OF assms(1)]) (use assms(2) in blast)

theorem pairing_row_order_irrelevant_witness:
  "compute_pairing ''po-1''
     (map as_snapshot [example_entry ''a'' ''PAYMENT'' None None 1, example_entry ''b'' ''RECEIVE'' None None 2])
     None (Utc 9) =
   compute_pairing ''po-1''
     (map as_snapshot [example_entry ''b'' ''RECEIVE'' None None 2, example_entry ''a'' ''PAYMENT'' None None 1])
     None (Utc 9)"
  by (rule pairing_row_order_irrelevant) (auto simp: example_defs as_snapshot_def)


definition example_run :: "(py_error + bool \<times> pairing_snapshot option) \<times> world" where
  "example_run = upsert_ledger_entry example_platform
     (example_event ''tx-1'' ''PAYMENT'' (Some (Utc 5)) None) (start_world empty_db)"

lemma example_run_ok:
  "case fst example_run of
     Inr (m, Some s) \<Rightarrow> \<not> ps_skipped s \<and> ps_payment_tx_id s = Some ''tx-1''
   | _ \<Rightarrow> False"
  by code_simp


end
