(* ===== verification/ConsumerProperties.thy ===== *)
theory ConsumerProperties
  imports ConsumerOutcome StoreProperties ContractProperties
begin

text \<open>
  The properties of whole runs of the consumer and of the backfill: what happens to each
  message, when a run ends, and the invariants of the tables over a run.
\<close>

section \<open>A concrete runtime\<close>

definition example_runtime :: consumer_runtime where
  "example_runtime = \<lparr>rt_config = example_config, rt_profile = canonical_profile\<rparr>"

text \<open>An order event and the bytes a producer sends for it.\<close>

definition order_payload :: pydict where
  "order_payload =
     [(KeyStr ''order_id'', PyStr ''po-1''), (KeyStr ''amount'', PyInt 100),
      (KeyStr ''status'', PyStr ''PAID''), (KeyStr ''created_at'', PyStr ''2026-02-04'')]"

definition order_json :: string where
  "order_json = json_text True (PyDict order_payload)"

lemma load_order_json: "load_payload p (Some order_json) = Inr order_payload"
proof -
  have "json_ok (float_repr p) True (PyDict order_payload) \<and> truthy (Some order_json)
      \<and> serializable (PyDict order_payload)" by code_simp
  with loads_bytes_dumps [of "float_repr p" "PyDict order_payload" order_json] show ?thesis
    by (simp add: load_payload_def order_json_def dumps_def)
qed

definition example_message :: "string option \<Rightarrow> string \<Rightarrow> int \<Rightarrow> kafka_message" where
  "example_message key body off =
     \<lparr>km_topic = ''payment.order.upserted'', km_partition = 0, km_offset = off, km_key = key,
      km_value = Some body, km_headers = None, km_watermarks = Inr (Some (0, 10))\<rparr>"

definition good_message :: kafka_message where
  "good_message = example_message (Some ''k'') order_json 1"

definition bad_message :: kafka_message where
  "bad_message = example_message None ''not json'' 2"

lemma order_payload_normalizes:
  "normalize_payload_for_topic ''payment.order.upserted'' order_payload canonical_profile =
     Inr \<lparr>np_payload = order_payload, np_topic_kind = ''payment_order'', np_alias_hits = []\<rparr>"
  by code_simp

lemma order_payload_parses:
  "case order_from_dict order_payload of
     Inr ev \<Rightarrow> oe_order_id ev = ''po-1'' \<and> oe_status ev = ''PAID'' \<and> oe_user_id ev = None
       \<and> oe_merchant_name ev = None \<and> oe_source_version ev = None
   | Inl e \<Rightarrow> False"
  by code_simp

lemma good_message_acceptable:
  obtains ev where "acceptable_order example_platform example_runtime good_message ev"
    "acceptable_order (example_platform\<lparr>ack_fault := f\<rparr>) example_runtime good_message ev"
    "oe_order_id ev = ''po-1''"
proof -
  obtain ev where ev: "order_from_dict order_payload = Inr ev" "oe_order_id ev = ''po-1''"
      "oe_status ev = ''PAID''" "oe_user_id ev = None" "oe_merchant_name ev = None"
      "oe_source_version ev = None"
    using order_payload_parses by (auto split: sum.splits)
  have texts: "sql_text_ok ''po-1''" "sql_text_ok ''PAID''" by code_simp+
  have "topic_kind canonical_profile ''payment.order.upserted'' = Some ''payment_order''"
    by (simp add: topic_kind_def canonical_profile_def)
  then have "acceptable_order example_platform example_runtime good_message ev"
    "acceptable_order (example_platform\<lparr>ack_fault := f\<rparr>) example_runtime good_message ev"
    using ev(1,3-6) ev(2) texts
    by (simp_all add: acceptable_order_def example_runtime_def good_message_def example_message_def
        load_order_json order_payload_normalizes store_order_def
        row_of_order_event_def sql_check_def store_numeric_def example_platform_def)
  with ev(2) show thesis by (intro that)
qed

text \<open>\<open>loop_safe\<close> and \<open>sinks_ok\<close> on the example.\<close>

lemma example_loop_safe: "loop_safe example_platform [Message good_message, NoMessage, Message bad_message]"
proof -
  have "valid_utf8 ''k''" by code_simp
  then show ?thesis
    by (simp add: loop_safe_def example_platform_def good_message_def
        bad_message_def example_message_def)
qed

lemma example_sinks_ok: "sinks_ok example_platform example_runtime"
proof -
  have "valid_utf8 ''error''" "valid_utf8 (profile_id (rt_profile example_runtime))" by code_simp+
  then show ?thesis by (simp add: sinks_ok_def file_ok_def example_platform_def)
qed

lemma example_recordable:
  "message_recordable example_platform good_message" "message_recordable example_platform bad_message"
  by code_simp+

section \<open>Messages\<close>


definition bad_run :: "(py_error + bool) \<times> world" where
  "bad_run = consume_message example_platform example_runtime bad_message (start_world example_db)"

lemma bad_run_result: "fst bad_run = Inr False"
  by code_simp


text \<open>
  The body of a session that ends with an exception, its own or that of the commit, leaves
  all five tables as they were.
\<close>

theorem failed_session_changes_nothing:
  assumes "session_scope p body w = (Inl e, w')"
  shows "same_tables (w_db w') (w_db w)"
  by (rule session_scope_error_tables [OF assms])

theorem failed_session_changes_nothing_witness:
  "same_tables (w_db (snd (session_scope example_platform
      (pbind (execute_ledger_upsert example_platform (example_entry ''t'' ''PAYMENT'' None None 1))
         (\<lambda>_. plift (Inl OverflowError :: unit result))) (start_world empty_db)))) empty_db"
proof -
  let ?body = "pbind (execute_ledger_upsert example_platform (example_entry ''t'' ''PAYMENT'' None None 1))
         (\<lambda>_. plift (Inl OverflowError :: unit result))"
  let ?run = "session_scope example_platform ?body (start_world empty_db)"
  have "case fst ?run of Inl e \<Rightarrow> True | Inr u \<Rightarrow> False" by code_simp
  then obtain e where "fst ?run = Inl e" by (auto split: sum.splits)
  then have "?run = (Inl e, snd ?run)" by (metis prod.collapse)
  from failed_session_changes_nothing [OF this] show ?thesis by (simp add: start_world_def)
qed

text \<open>
  C30. A message whose key is not valid UTF-8 and that does not count as processed, be it for its
  payload, the contract, the database or a refused acknowledgement, ends the consumer: the decoding
  of the key raises inside the handler, nothing is written to the dead-letter sink, the message is
  not acknowledged, and the tables are as before unless it was the acknowledgement that failed.
\<close>

theorem undecodable_key_stops_the_consumer:
  assumes "fst (consume_message p rt msg w) \<noteq> Inr True" and "truthy (km_key msg)"
    and "\<not> valid_utf8 (the (km_key msg))"
  shows "fst (consume_message p rt msg w) = Inl UnicodeDecodeError
    \<and> w_acked (snd (consume_message p rt msg w)) = w_acked w
    \<and> dlq_size (snd (consume_message p rt msg w)) = dlq_size w
    \<and> (business (w_db (snd (consume_message p rt msg w))) = business (w_db w) \<or> ack_fault p (w_ack_calls w))"
proof -
  obtain res w' where run: "consume_message p rt msg w = (res, w')" by force
  have key: "decoded_key msg = Inl UnicodeDecodeError"
    using assms(2,3) by (simp add: decoded_key_def decode_strict_def)
  from run show ?thesis
  proof (cases rule: consume_message_cases)
    case (applied u)
    then show ?thesis using assms(1) run by simp
  next
    case (failed u v e dl)
    note kept = process_message_error [OF failed(1)] process_message_dlq_rows [OF failed(1)]
    from failed(3) show ?thesis
    proof (cases rule: dead_letter_cases)
      case bad_key
      then show ?thesis
        using run failed(2,4) kept by (auto simp: dlq_size_def business_def same_tables_def)
    next
      case (sunk k v1 v2 v3 now)
      then show ?thesis by (simp add: key)
    qed
  qed
qed

theorem undecodable_key_stops_the_consumer_witness:
  "fst (consume_message example_platform example_runtime
      (example_message (Some [CHR 0xFF]) ''not json'' 3) (start_world empty_db)) = Inl UnicodeDecodeError"
proof -
  let ?m = "example_message (Some [CHR 0xFF]) ''not json'' 3"
  have "\<not> valid_utf8 (the (km_key ?m))" "truthy (km_key ?m)"
    "fst (consume_message example_platform example_runtime ?m (start_world empty_db)) \<noteq> Inr True" by code_simp+
  then show ?thesis using undecodable_key_stops_the_consumer by blast
qed

text \<open>
  C33. A failing message whose correlation id cannot be encoded, as when its payload has a lone
  surrogate there, is lost: it is acknowledged although neither sink takes a record of it.
\<close>

theorem unencodable_id_loses_the_message:
  assumes "consume_message p rt msg w = (Inr False, w')"
    and "message_correlation_id msg (load_payload p (km_value msg)) = Some cid" and "\<not> valid_utf8 cid"
  shows "w_acked w' = w_acked w @ [(km_topic msg, km_partition msg, km_offset msg)]
    \<and> dlq_size w' = dlq_size w"
  using assms(1)
proof (cases rule: consume_message_cases)
  case (failed u v e dl)
  from failed(3) show ?thesis
  proof (cases rule: dead_letter_cases)
    case (sunk key v1 v2 v3 now)
    have "w_acked w' = w_acked w @ [message_id msg]" by (rule consume_message_failed(1) [OF assms(1)])
    moreover have "w_dlq_file w' = w_dlq_file v3 \<and> w_db w' = w_db v3"
      using sunk(8) by (auto simp: commit_message_def Let_def split: if_splits)
    moreover have "dict_get (dlq_payload_of p rt msg key e (Some cid) now) ''correlation_id'' = PyStr cid"
      by (simp add: dlq_payload_of_def opt_str_def)
    note write_dlq_payload_lost [OF sunk(7) [unfolded assms(2)] this assms(3)]
    moreover note process_message_dlq_rows [OF failed(1)]
    ultimately show ?thesis using sunk(4-6) failed(2) by (auto simp: dlq_size_def message_id_def)
  qed (use failed in simp)
qed simp

text \<open>A payload whose correlation id is the surrogate U+D800.\<close>

definition surrogate :: string where
  "surrogate = [CHR 0xED, CHR 0xA0, CHR 0x80]"

definition surrogate_message :: kafka_message where
  "surrogate_message = example_message None
     (json_text False (PyDict [(KeyStr ''correlation_id'', PyStr surrogate)])) 4"

lemma surrogate_load: "load_payload example_platform (km_value surrogate_message)
    = Inr [(KeyStr ''correlation_id'', PyStr surrogate)]"
  by code_simp

lemma surrogate_refused: "isl (normalize_payload_for_topic (km_topic surrogate_message)
    [(KeyStr ''correlation_id'', PyStr surrogate)] (rt_profile example_runtime))"
  by code_simp

lemma surrogate_id: "message_correlation_id surrogate_message
    (Inr [(KeyStr ''correlation_id'', PyStr surrogate)]) = Some surrogate"
  by code_simp

theorem unencodable_id_loses_the_message_witness:
  "\<exists>w'. consume_message example_platform example_runtime surrogate_message (start_world empty_db) = (Inr False, w')
     \<and> w_acked w' = [(''payment.order.upserted'', 0, 4)] \<and> dlq_size w' = 0"
proof -
  obtain e where e: "normalize_payload_for_topic (km_topic surrogate_message)
      [(KeyStr ''correlation_id'', PyStr surrogate)] (rt_profile example_runtime) = Inl e"
    using surrogate_refused by (auto simp: isl_def)
  have "decoded_key surrogate_message = Inr PyNone" "\<forall>n. \<not> ack_fault example_platform n"
    by (simp_all add: decoded_key_def surrogate_message_def example_message_def example_platform_def)
  then obtain w' where run: "consume_message example_platform example_runtime surrogate_message
      (start_world empty_db) = (Inr False, w')"
    using refused_message_dead_lettered [of example_platform surrogate_message example_runtime e] surrogate_load e
    by (metis rbind_simps(2))
  have "\<not> valid_utf8 surrogate" by code_simp
  from unencodable_id_loses_the_message [OF run _ this] surrogate_load surrogate_id run show ?thesis
    by (auto simp: start_world_def surrogate_message_def example_message_def dlq_size_def empty_db_def)
qed

text \<open>
  C24. An order event that the contract and the database accept is stored under the latest-wins
  rule, and its message counts as processed when the broker takes the
  acknowledgement.
\<close>

theorem accepted_order_is_stored:
  assumes "acceptable_order p rt msg ev" and "\<not> ack_fault p (w_ack_calls w)"
  shows "\<exists>w' t r. consume_message p rt msg w = (Inr True, w')
    \<and> store_order p (row_of_order_event ev t) = Inr r
    \<and> w_db w' = (w_db w)\<lparr>payment_orders := order_upsert r (payment_orders (w_db w))\<rparr>"
  by (rule consume_message_order [OF assms])

theorem accepted_order_is_stored_witness:
  "\<exists>w' r. consume_message example_platform example_runtime good_message (start_world empty_db) = (Inr True, w')
     \<and> payment_orders (w_db w') = [r] \<and> po_order_id r = ''po-1''"
proof -
  obtain ev where ev: "acceptable_order example_platform example_runtime good_message ev"
      "oe_order_id ev = ''po-1''"
    by (rule good_message_acceptable)
  have "\<not> ack_fault example_platform (w_ack_calls (start_world empty_db))"
    by (simp add: example_platform_def)
  from accepted_order_is_stored [OF ev(1) this] ev(2) show ?thesis
    by (auto simp: start_world_def empty_db_def order_upsert_is_replacement replace_or_insert_def
        row_of_order_event_def dest!: store_order_keeps)
qed



section \<open>Runs\<close>


definition example_loop :: "(py_error + loop_end \<times> int) \<times> world" where
  "example_loop = consume_loop example_platform example_runtime None None
     [Message good_message, NoMessage, Message bad_message] 0 0 (start_world empty_db)"




text \<open>
  A run never processes more than \<open>max_messages\<close>; it ends with that reason only when the
  number is reached, and for idleness only when an idle limit was given.
\<close>

theorem run_respects_its_limits:
  assumes "consume_loop p rt mm mi polls 0 t w = (Inr (reason, processed), w')"
  shows "0 \<le> processed
    \<and> (\<forall>m. mm = Some m \<and> 0 \<le> m \<longrightarrow> processed \<le> m)
    \<and> (reason = ReachedMaximum \<longrightarrow> (\<exists>m. mm = Some m \<and> m \<le> processed))
    \<and> (reason = IdleExpired \<longrightarrow> mi \<noteq> None)"
  using consume_loop_reason [OF assms] by (cases mm) (auto simp: stop_reason_def maximum_reached_def)

theorem run_respects_its_limits_witness:
  "\<exists>reason n w'. consume_loop example_platform example_runtime (Some 1) None
      [Message good_message, NoMessage, Message bad_message] 0 0 (start_world empty_db)
      = (Inr (reason, n), w') \<and> n \<le> 1"
proof -
  obtain reason n w' where run: "consume_loop example_platform example_runtime (Some 1) None
      [Message good_message, NoMessage, Message bad_message] 0 0 (start_world empty_db)
      = (Inr (reason, n), w')"
    using consume_loop_returns [OF example_loop_safe] by (metis prod.exhaust)
  with run_respects_its_limits [OF run] show ?thesis by auto
qed

section \<open>Invariants of the tables over a run\<close>

text \<open>
  C25. Primary keys stay unique over any run of the consumer and of the backfill, whatever the
  input and the faults.
\<close>

theorem runs_keep_keys_unique:
  assumes "db_ok (w_db w)"
  shows "db_ok (w_db (snd (run_consumer p config profiles mm mi polls w)))
    \<and> db_ok (w_db (snd (run_backfill p config profiles lf pf since_time until_time w)))"
  using obeys_run_consumer [of p config profiles mm mi polls]
    obeys_run_backfill [of p config profiles lf pf since_time until_time] assms
  by (auto simp: obeys_def db_rel_def dest: db_steps_ok)

theorem runs_keep_keys_unique_witness:
  "db_ok (w_db (snd (run_consumer example_platform (Inr example_config) [] None None [PollError]
      (start_world example_db))))"
  using runs_keep_keys_unique [of "start_world example_db"] example_db_ok by (simp add: start_world_def)

text \<open>
  C10. A payment pair that is complete stays complete over any run of the consumer and of the
  backfill.
\<close>

theorem complete_pairs_stay_complete:
  assumes "db_ok (w_db w)" and "pair_of k (w_db w) = Some x" and "pair_complete x"
  shows "(\<exists>y. pair_of k (w_db (snd (run_consumer p config profiles mm mi polls w))) = Some y
              \<and> pair_complete y)
    \<and> (\<exists>y. pair_of k (w_db (snd (run_backfill p config profiles lf pf since_time until_time w))) = Some y
              \<and> pair_complete y)"
  using obeys_run_consumer [of p config profiles mm mi polls]
    obeys_run_backfill [of p config profiles lf pf since_time until_time] assms
    db_steps_pair_complete [of p "w_db w"]
  unfolding obeys_def db_rel_def by blast

theorem complete_pairs_stay_complete_witness:
  "\<exists>y. pair_of ''po-1'' (w_db (snd (run_consumer example_platform (Inr example_config) [] None None
      [PollError] (start_world example_db)))) = Some y \<and> pair_complete y"
proof -
  have "db_ok (w_db (start_world example_db))"
    "pair_of ''po-1'' (w_db (start_world example_db)) = Some example_pair" "pair_complete example_pair"
    using example_db_ok by (simp_all add: start_world_def pair_of_def example_db_def pair_complete_def
        example_pair_def)
  from complete_pairs_stay_complete [OF this] show ?thesis by blast
qed

text \<open>
  C26. A ledger entry that carries \<open>updated_at\<close> or a version is never replaced by one that
  carries neither: over any run of the consumer the entry of its transaction keeps having
  ordering data.
\<close>

theorem ordering_data_is_never_lost:
  assumes "db_ok (w_db w)" and "entry_of t (w_db w) = Some a"
    and "le_updated_at a \<noteq> None \<or> le_source_version a \<noteq> None"
  shows "\<exists>b. entry_of t (w_db (snd (run_consumer p config profiles mm mi polls w))) = Some b
    \<and> (le_updated_at b \<noteq> None \<or> le_source_version b \<noteq> None)"
proof -
  have meta: "has_metadata (ledger_meta e) \<longleftrightarrow> le_updated_at e \<noteq> None \<or> le_source_version e \<noteq> None" for e
    by (simp add: has_metadata_def ledger_meta_def)
  show ?thesis
    using obeys_run_consumer [of p config profiles mm mi polls] assms
      db_steps_metadata [of p "w_db w"]
    unfolding obeys_def db_rel_def meta by blast
qed

theorem ordering_data_is_never_lost_witness:
  "\<exists>b. entry_of ''tx-1'' (w_db (snd (run_consumer example_platform (Inr example_config) [] None None
      [PollError] (start_world example_db)))) = Some b
     \<and> (le_updated_at b \<noteq> None \<or> le_source_version b \<noteq> None)"
proof -
  have "db_ok (w_db (start_world example_db))"
    "entry_of ''tx-1'' (w_db (start_world example_db)) =
       Some (example_entry ''tx-1'' ''PAYMENT'' (Some (Utc 5)) None 6)"
    "le_updated_at (example_entry ''tx-1'' ''PAYMENT'' (Some (Utc 5)) None 6) \<noteq> None
     \<or> le_source_version (example_entry ''tx-1'' ''PAYMENT'' (Some (Utc 5)) None 6) \<noteq> None"
    using example_db_ok by (simp_all add: start_world_def entry_of_def example_defs)
  from ordering_data_is_never_lost [OF this] show ?thesis .
qed

text \<open>
  C11. The transaction ids in the pairs always name stored ledger entries: this holds over any
  run of the consumer and of the backfill, on a database whose queries return the stored rows.
\<close>

theorem pairs_reference_stored_entries:
  assumes "db_ok (w_db w)" and "pair_refs (w_db w)" and "scan_sound p"
  shows "pair_refs (w_db (snd (run_consumer p config profiles mm mi polls w)))
    \<and> pair_refs (w_db (snd (run_backfill p config profiles lf pf since_time until_time w)))"
  using obeys_run_consumer [of p config profiles mm mi polls]
    obeys_run_backfill [of p config profiles lf pf since_time until_time] assms
    db_steps_refs [of p "w_db w"]
  unfolding obeys_def db_rel_def by blast

theorem pairs_reference_stored_entries_witness:
  "pair_refs (w_db (snd (run_consumer example_platform (Inr example_config) [] None None
      [PollError] (start_world example_db))))"
  using pairs_reference_stored_entries [of "start_world example_db", OF _ _ scan_sound_example]
    example_db_ok example_db_refs by (simp add: start_world_def)

end
