(* ===== verification/ScenarioRuns.thy ===== *)
theory ScenarioRuns
  imports EndToEnd TimeRoundTrip ConsumerProperties
begin

text \<open>
  The events of the scripts on their way through the consumer: such a message is read back from
  its JSON, passes the contract, is stored and updates the pair of its order.
\<close>

section \<open>Events of the scripts\<close>

definition ledger_dict ::
  "string \<Rightarrow> string \<Rightarrow> string \<Rightarrow> string \<Rightarrow> string \<Rightarrow> string \<Rightarrow> string \<Rightarrow> int \<Rightarrow> pydict" where
  "ledger_dict t w ty a sg k ts v =
     [(KeyStr ''tx_id'', PyStr t), (KeyStr ''wallet_id'', PyStr w), (KeyStr ''entry_type'', PyStr ty),
      (KeyStr ''amount'', PyStr a), (KeyStr ''amount_signed'', PyStr sg), (KeyStr ''related_id'', PyStr k),
      (KeyStr ''related_type'', PyStr ''PAYMENT_ORDER''), (KeyStr ''event_time'', PyStr ts),
      (KeyStr ''created_at'', PyStr ts), (KeyStr ''updated_at'', PyStr ts), (KeyStr ''version'', PyInt v)]"

definition order_dict :: "string \<Rightarrow> string \<Rightarrow> string \<Rightarrow> string \<Rightarrow> string \<Rightarrow> int \<Rightarrow> pydict" where
  "order_dict k u m a ts v =
     [(KeyStr ''order_id'', PyStr k), (KeyStr ''user_id'', PyStr u), (KeyStr ''merchant_name'', PyStr m),
      (KeyStr ''amount'', PyStr a), (KeyStr ''status'', PyStr ''SETTLED''), (KeyStr ''created_at'', PyStr ts),
      (KeyStr ''updated_at'', PyStr ts), (KeyStr ''version'', PyInt v)]"

definition trimmed :: "string \<Rightarrow> bool" where
  "trimmed s = (s \<noteq> [] \<and> strip s = s)"

definition canonical_rules :: "event_contract_profile \<Rightarrow> bool" where
  "canonical_rules prof =
     (aliases prof = aliases canonical_profile \<and> core_required prof = core_required canonical_profile
      \<and> tp_ledger (topics prof) \<noteq> tp_payment_order (topics prof))"

lemma constant_texts: "strip ''PAYMENT_ORDER'' = ''PAYMENT_ORDER''" "strip ''SETTLED'' = ''SETTLED''"
  by code_simp+

lemma ledger_dict_normalizes:
  assumes "canonical_rules prof" and "list_all trimmed [t, w, ty, a, ts]"
  shows "normalize_payload_for_topic (tp_ledger (topics prof)) (ledger_dict t w ty a sg k ts v) prof =
    Inr \<lparr>np_payload = ledger_dict t w ty a sg k ts v, np_topic_kind = ''ledger'', np_alias_hits = []\<rparr>"
  using assms
  by (simp add: normalize_payload_for_topic_def topic_kind_def canonical_rules_def canonical_profile_def
      aliases_for_def core_required_for_def resolve_alias_value_def alias_candidates_def validate_core_required_def
      required_key_def EVENT_TIME_REQUIRED_SENTINEL_def trimmed_def ledger_dict_def raise_if_def dict_set_def)

lemma order_dict_normalizes:
  assumes "canonical_rules prof" and "list_all trimmed [k, a, ts]"
  shows "normalize_payload_for_topic (tp_payment_order (topics prof)) (order_dict k u m a ts v) prof =
    Inr \<lparr>np_payload = order_dict k u m a ts v, np_topic_kind = ''payment_order'', np_alias_hits = []\<rparr>"
proof -
  have other: "tp_payment_order (topics prof) \<noteq> tp_ledger (topics prof)"
    using assms(1) by (auto simp: canonical_rules_def)
  then show ?thesis
    using assms
  by (simp add: normalize_payload_for_topic_def topic_kind_def canonical_rules_def canonical_profile_def
      aliases_for_def core_required_for_def resolve_alias_value_def alias_candidates_def validate_core_required_def
      required_key_def EVENT_TIME_REQUIRED_SENTINEL_def trimmed_def order_dict_def raise_if_def dict_set_def
      constant_texts)
qed

text \<open>The printed form of an instant, in either of the two forms the scripts use.\<close>

definition time_text :: "instant \<Rightarrow> string \<Rightarrow> bool" where
  "time_text i ts = (in_calendar i \<and> (ts = local_text (usec i) @ ''Z'' \<or> ts = local_text (usec i) @ ''+00:00''))"

lemma time_text_parses: "time_text i ts \<Longrightarrow> parse_datetime (PyStr ts) f = Inr i"
  using parse_local [of "usec i" "''Z''" f] parse_local [of "usec i" "''+00:00''" f]
  by (cases i) (auto simp: time_text_def in_calendar_def)

lemma time_text_trimmed: "time_text i ts \<Longrightarrow> trimmed ts"
  using strip_local [of "usec i" "''Z''"] strip_local [of "usec i" "''+00:00''"]
  by (auto simp: time_text_def in_calendar_def trimmed_def)

lemma show_instant_text: "in_calendar i \<Longrightarrow> time_text i (show_instant i)"
  by (simp add: time_text_def show_instant_local)

definition scripted_ledger_event ::
  "string \<Rightarrow> string \<Rightarrow> string \<Rightarrow> decimal \<Rightarrow> decimal \<Rightarrow> string \<Rightarrow> instant \<Rightarrow> int \<Rightarrow> ledger_event" where
  "scripted_ledger_event t w ty a sg k i v =
     \<lparr>ev_tx_id = t, ev_wallet_id = w, ev_entry_type = ty, ev_amount = a, ev_amount_signed = Some sg,
      ev_related_id = Some k, ev_related_type = Some ''PAYMENT_ORDER'', ev_event_time = i, ev_created_at = i,
      ev_updated_at = Some i, ev_source_version = Some v\<rparr>"

definition scripted_order_event :: "string \<Rightarrow> string \<Rightarrow> string \<Rightarrow> decimal \<Rightarrow> instant \<Rightarrow> int \<Rightarrow> order_event" where
  "scripted_order_event k u m a i v =
     \<lparr>oe_order_id = k, oe_user_id = Some u, oe_merchant_name = Some m, oe_amount = a, oe_status = ''SETTLED'',
      oe_created_at = i, oe_updated_at = Some i, oe_source_version = Some v\<rparr>"

lemma ledger_dict_parses:
  assumes "list_all trimmed [t, w, ty, k]" and "time_text i ts" and "v \<noteq> 0"
    and "decimal_of_text a = Some da" and "decimal_of_text sg = Some dsg"
  shows "ledger_from_dict (ledger_dict t w ty a sg k ts v) = Inr (scripted_ledger_event t w ty da dsg k i v)"
  using assms(1,3-5) time_text_parses [OF assms(2)] time_text_trimmed [OF assms(2)]
  by (simp add: ledger_from_dict_def ledger_dict_def trimmed_def text_field_def raise_if_def parse_decimal_def
      event_time_value_def created_value_def version_value_def optional_text_def parse_optional_datetime_def
      parse_optional_int_def scripted_ledger_event_def constant_texts Let_def py_or_def)

lemma order_dict_parses:
  assumes "list_all trimmed [k, u, m]" and "time_text i ts" and "v \<noteq> 0" and "decimal_of_text a = Some da"
  shows "order_from_dict (order_dict k u m a ts v) = Inr (scripted_order_event k u m da i v)"
  using assms(1,3,4) time_text_parses [OF assms(2)] time_text_trimmed [OF assms(2)]
  by (simp add: order_from_dict_def order_dict_def trimmed_def text_field_def raise_if_def parse_decimal_def
      version_value_def optional_text_def parse_optional_datetime_def
      parse_optional_int_def scripted_order_event_def constant_texts Let_def py_or_def)

section \<open>Runs without faults\<close>

definition calm :: "platform \<Rightarrow> bool" where
  "calm p = ((\<forall>n. \<not> db_fault p n) \<and> (\<forall>n. \<not> ack_fault p n) \<and> scan_sound p \<and> mono (clk p))"

lemma update_pairing_run:
  assumes "calm p" and "db_ok (w_db w)" and "entries_of k (w_db w) \<noteq> []"
    and "should_update_pair (\<exists>x. pair_of k (w_db w) = Some x \<and> pair_complete x)
           (ps_complete (pairing_on p k (w_db w) (clk p (w_ticks w))))"
    and "store_pair p (pair_of_snapshot (pairing_on p k (w_db w) (clk p (w_ticks w))) (clk p (Suc (w_ticks w)))) = Inr r"
  shows "\<exists>v. update_pairing_for_related_id p k w = (Inr (Some (pairing_on p k (w_db w) (clk p (w_ticks w)))), v)
    \<and> w_db v = (w_db w)\<lparr>payment_ledger_pairs := pair_upsert r (payment_ledger_pairs (w_db w))\<rparr>
    \<and> w_ticks v = w_ticks w + 2"
proof -
  have u: "scalar_one_or_none (filter (\<lambda>r. po_order_id r = k) (payment_orders (w_db w))) = Inr (order_of k (w_db w))"
      "scalar_one_or_none (filter (\<lambda>r. pp_payment_order_id r = k) (payment_ledger_pairs (w_db w))) = Inr (pair_of k (w_db w))"
    using assms(2) by (simp_all add: scalar_unique db_ok_def order_of_def pair_of_def)
  have "set (scan_order p (entries_of k (w_db w))) = set (entries_of k (w_db w))"
    using assms(1) by (simp add: calm_def scan_soundD)
  then have "scan_order p (entries_of k (w_db w)) \<noteq> []" using assms(3) by auto
  then show ?thesis
    using assms(1,4,5) unfolding update_pairing_for_related_id_def Let_def complete_option
    by (simp add: db_query_run u pairing_on_def [symmetric] entries_of_def [symmetric] calm_def
        execute_pair_upsert_def pbind_run [of "db_execute p g" for g] db_execute_run)
qed

lemma upsert_ledger_run:
  assumes "calm p" and "db_ok (w_db w)"
    and "ev_related_id ev = Some k" and "k \<noteq> []" and "ev_related_type ev = Some ''PAYMENT_ORDER''"
    and "store_ledger p (row_of_ledger_event ev (clk p (w_ticks w))) = Inr r"
    and "d = (w_db w)\<lparr>ledger_entries := ledger_upsert r (ledger_entries (w_db w))\<rparr>" and "entries_of k d \<noteq> []"
    and "s = pairing_on p k d (clk p (Suc (w_ticks w)))"
    and "should_update_pair (\<exists>x. pair_of k d = Some x \<and> pair_complete x) (ps_complete s)"
    and "store_pair p (pair_of_snapshot s (clk p (Suc (Suc (w_ticks w))))) = Inr q"
  shows "\<exists>v m. upsert_ledger_entry p ev w = (Inr (m, Some s), v)
    \<and> w_db v = d\<lparr>payment_ledger_pairs := pair_upsert q (payment_ledger_pairs d)\<rparr> \<and> w_ticks v = w_ticks w + 3"
proof -
  let ?w = "w\<lparr>w_ticks := Suc (w_ticks w), w_db_calls := Suc (w_db_calls w), w_db := d\<rparr>"
  have "db_ok d" using db_step_ok [OF ledger_step [OF assms(6)] assms(2)] by (simp add: assms(7))
  with update_pairing_run [of p ?w k q] assms
  obtain v where v: "update_pairing_for_related_id p k ?w = (Inr (Some s), v)"
      "w_db v = d\<lparr>payment_ledger_pairs := pair_upsert q (payment_ledger_pairs d)\<rparr>" "w_ticks v = w_ticks w + 3"
    by auto
  have "execute_ledger_upsert p (row_of_ledger_event ev (clk p (w_ticks w))) (w\<lparr>w_ticks := Suc (w_ticks w)\<rparr>) = (Inr (), ?w)"
    using assms(1,6) by (simp add: execute_ledger_upsert_def db_execute_run calm_def assms(7))
  then show ?thesis
    using v assms(3-5)
    by (simp add: upsert_ledger_entry_def ingested_now_def Let_def is_payment_order_type_def
        pbind_run [of "execute_ledger_upsert p x" for x] pbind_run [of "update_pairing_for_related_id p k"])
qed

text \<open>
  From the session's body to the message: what the body does to the tables is what the message
  does. \<open>Q\<close> speaks of the tables and of the number of clock readings so far.
\<close>

definition runs_to :: "'a action \<Rightarrow> db \<Rightarrow> nat \<Rightarrow> (db \<Rightarrow> nat \<Rightarrow> bool) \<Rightarrow> bool" where
  "runs_to a d n Q \<longleftrightarrow> (\<forall>u. w_db u = d \<and> w_ticks u = n \<longrightarrow> (\<exists>x v. a u = (Inr x, v) \<and> Q (w_db v) (w_ticks v)))"

lemma runs_toE:
  assumes "runs_to a (w_db u) (w_ticks u) Q"
  obtains x v where "a u = (Inr x, v)" "Q (w_db v) (w_ticks v)"
  using assms by (auto simp: runs_to_def)

lemma runs_to_session: "calm p \<Longrightarrow> runs_to a d n Q \<Longrightarrow> runs_to (session_scope p a) d n Q"
  by (force simp: runs_to_def calm_def session_scope_def pbind_def db_call_def)

lemma runs_to_measured:
  assumes "\<And>m. n \<le> m \<Longrightarrow> m \<le> n + 2 \<Longrightarrow> runs_to a d m Q"
  shows "runs_to (pbind (lag_measured p topic t) (\<lambda>_. pbind (freshness_measured p topic t) (\<lambda>_. a))) d n Q"
  unfolding runs_to_def
proof (intro allI impI)
  fix u :: world assume u: "w_db u = d \<and> w_ticks u = n"
  let ?u = "u\<lparr>w_ticks := Suc (w_ticks u), w_telemetry := record_event_lag (clk p (w_ticks u)) topic t (w_telemetry u)\<rparr>"
  obtain v where v: "pbind (freshness_measured p topic t) (\<lambda>_. a) ?u = a v" "w_db v = d" "w_ticks v = n + 2"
    using u by (auto simp: freshness_measured_def pbind_def read_clock_def split: prod.split)
  then obtain x z where "a v = (Inr x, z)" "Q (w_db z) (w_ticks z)"
    using assms [of "n + 2"] by (auto simp: runs_to_def)
  with v(1) show "\<exists>x v. pbind (lag_measured p topic t) (\<lambda>_. pbind (freshness_measured p topic t) (\<lambda>_. a)) u = (Inr x, v)
      \<and> Q (w_db v) (w_ticks v)" by (auto simp: lag_measured_run)
qed

lemma runs_to_quiet:
  assumes "runs_to a d n Q" and "\<And>x u. \<exists>y v. f x u = (Inr y, v) \<and> w_db v = w_db u \<and> w_ticks v = w_ticks u"
  shows "runs_to (pbind a f) d n Q"
  unfolding runs_to_def
proof (intro allI impI)
  fix u :: world assume u: "w_db u = d \<and> w_ticks u = n"
  then obtain x v where "a u = (Inr x, v)" "Q (w_db v) (w_ticks v)" using assms(1) by (auto simp: runs_to_def)
  moreover obtain y z where "f x v = (Inr y, z)" "w_db z = w_db v" "w_ticks z = w_ticks v" using assms(2) by blast
  ultimately show "\<exists>x v. pbind a f u = (Inr x, v) \<and> Q (w_db v) (w_ticks v)" by (auto simp: pbind_run)
qed

lemma runs_to_handle_payload:
  assumes "calm p" and "topic_kind (rt_profile rt) topic = Some kind"
    and "normalize_payload_for_topic topic payload (rt_profile rt) = Inr nm"
    and "runs_to (if np_topic_kind nm = ''ledger'' then handle_ledger p True topic (np_payload nm)
                  else if np_topic_kind nm = ''payment_order'' then handle_order p True topic (np_payload nm)
                  else plift (Inl (UnsupportedTopicError topic (profile_id (rt_profile rt))))) d n Q"
  shows "runs_to (handle_payload p rt True topic payload) d n Q"
  unfolding runs_to_def
proof (intro allI impI)
  fix u :: world assume u: "w_db u = d \<and> w_ticks u = n"
  let ?u = "u\<lparr>w_telemetry := fold (\<lambda>(ck, ak). record_contract_alias_hit topic (profile_id (rt_profile rt)) ck ak)
      (np_alias_hits nm) (record_contract_profile_message topic (profile_id (rt_profile rt)) (w_telemetry u))\<rparr>"
  let ?body = "if np_topic_kind nm = ''ledger'' then handle_ledger p True topic (np_payload nm)
      else if np_topic_kind nm = ''payment_order'' then handle_order p True topic (np_payload nm)
      else plift (Inl (UnsupportedTopicError topic (profile_id (rt_profile rt))))"
  have "runs_to (session_scope p ?body) (w_db ?u) (w_ticks ?u) Q" using runs_to_session [OF assms(1,4)] u by simp
  then obtain x v where "session_scope p ?body ?u = (Inr x, v)" "Q (w_db v) (w_ticks v)" by (rule runs_toE)
  then show "\<exists>x v. handle_payload p rt True topic payload u = (Inr x, v) \<and> Q (w_db v) (w_ticks v)"
    unfolding handle_payload_def Let_def
    by (simp add: assms(2,3) record_contract_metrics_def pbind_run [of "session_scope p a" for a] version_counted_def)
qed

lemma consume_message_run:
  assumes "calm p" and "load_payload p (km_value msg) = Inr payload"
    and "runs_to (handle_payload p rt True (km_topic msg) payload) (w_db w) (w_ticks w) Q"
  shows "\<exists>w'. consume_message p rt msg w = (Inr True, w') \<and> Q (w_db w') (w_ticks w')"
proof -
  let ?cid = "message_correlation_id msg (Inr payload)"
  let ?w = "w\<lparr>w_telemetry := record_kafka_lag (km_topic msg) (km_partition msg) (kafka_lag msg) (w_telemetry w)\<rparr>"
  let ?n = "case Option.bind ?cid stripped_or_none of None \<Rightarrow> Suc (w_uuids ?w) | Some x \<Rightarrow> w_uuids ?w"
  let ?u = "?w\<lparr>w_correlation := correlation_or_fresh ?cid (uuid4 p (w_uuids w)), w_uuids := ?n\<rparr>"
  obtain v where v: "handle_payload p rt True (km_topic msg) payload ?u = (Inr (), v)" "Q (w_db v) (w_ticks v)"
    by (rule runs_toE [of _ ?u Q]) (use assms(3) in auto)
  have "\<exists>w'. process_message p rt msg ?cid (Inr payload) ?w = (Inr (), w') \<and> Q (w_db w') (w_ticks w')"
    using assms(1) v(2) by (simp add: process_message_def correlation_context_def Let_def calm_def v(1)
        pbind_run [of "handle_payload p rt True t d" for t d] pbind_run [of "commit_message p msg"]
        commit_message_def measure_with_def)
  then obtain w' where "process_message p rt msg ?cid (Inr payload) ?w = (Inr (), w')" "Q (w_db w') (w_ticks w')" by blast
  then show ?thesis
    by (simp add: consume_message_def Let_def assms(2) pcatch_def pbind_run [of "process_message p rt msg c l" for c l])
qed

text \<open>A ledger message of the scripts.\<close>

lemma pbind_lifted: "pbind (plift (Inr x)) f = f x"
  by (simp add: fun_eq_iff)

lemma handle_ledger_run:
  assumes "ledger_from_dict payload = Inr ev"
    and "\<And>m. n \<le> m \<Longrightarrow> m \<le> n + 2 \<Longrightarrow> runs_to (upsert_ledger_entry p ev) d m Q"
  shows "runs_to (handle_ledger p True topic payload) d n Q"
proof -
  have "runs_to (pbind (upsert_ledger_entry p ev) (\<lambda>(m, s). pbind (pairing_measured s) (\<lambda>_. preturn m))) d m Q"
    if "n \<le> m" "m \<le> n + 2" for m
    by (rule runs_to_quiet [OF assms(2) [OF that]])
      (auto simp: pairing_measured_def pbind_def split: option.split prod.split)
  from runs_to_measured [OF this, of n p topic "ev_event_time ev"] show ?thesis
    by (simp add: handle_ledger_def assms(1) pbind_lifted)
qed

lemma handle_order_run:
  assumes "order_from_dict payload = Inr ev"
    and "\<And>m. n \<le> m \<Longrightarrow> m \<le> n + 2 \<Longrightarrow> runs_to (upsert_payment_order p ev) d m Q"
  shows "runs_to (handle_order p True topic payload) d n Q"
  using runs_to_measured [OF assms(2), of n p topic "order_event_time ev"] by (simp add: handle_order_def assms(1) pbind_lifted)

end
