(* ===== verification/EndToEndProperties.thy ===== *)
theory EndToEndProperties
  imports ScenarioRuns
begin

text \<open>
  The end-to-end check: the three published messages are consumed, the pair is complete and the
  check passes.
\<close>

section \<open>Storing\<close>

definition storable :: "platform \<Rightarrow> ledger_entry \<Rightarrow> bool" where
  "storable p e =
     (sql_text_ok (le_tx_id e) \<and> sql_text_ok (le_wallet_id e) \<and> numeric_18_2 p (le_amount e) \<noteq> None)"

lemma store_pair_possible:
  assumes "sql_text_ok k" and "list_all (storable p) es" and "po = None"
  shows "\<exists>q. store_pair p (pair_of_snapshot (compute_pairing k (map as_snapshot es) po now) t) = Inr q"
proof -
  have found: "opt_all (\<lambda>e. sql_text_ok (ls_tx_id e) \<and> sql_text_ok (ls_wallet_id e)
      \<and> numeric_18_2 p (ls_amount e) \<noteq> None) (find P (map as_snapshot es))" for P
  proof (cases "find P (map as_snapshot es)")
    case (Some e)
    then have "e \<in> set (map as_snapshot es)" by (rule find_Some_in [THEN conjunct1])
    with assms(2) Some show ?thesis by (auto simp: list_all_iff storable_def as_snapshot_def)
  qed simp
  show ?thesis
    using found [of "\<lambda>e. ls_entry_type e = ''PAYMENT''"] found [of "\<lambda>e. ls_entry_type e = ''RECEIVE''"] assms(1,3)
    by (cases "find (\<lambda>e. ls_entry_type e = ''PAYMENT'') (map as_snapshot es)";
        cases "find (\<lambda>e. ls_entry_type e = ''RECEIVE'') (map as_snapshot es)")
      (auto simp: store_pair_def pair_of_snapshot_def compute_pairing_def Let_def sql_check_def raise_if_def
        store_numeric_opt_def store_numeric_def)
qed

text \<open>What a ledger message of the scripts does to the tables, on an order without an order row.\<close>

definition ledger_stage ::
  "platform \<Rightarrow> string \<Rightarrow> db \<Rightarrow> nat \<Rightarrow> ledger_entry \<Rightarrow> db \<Rightarrow> nat \<Rightarrow> bool" where
  "ledger_stage p k d n r d' n' \<longleftrightarrow>
     (\<exists>q now m. store_pair p (pair_of_snapshot
            (pairing_on p k (d\<lparr>ledger_entries := ledger_entries d @ [r]\<rparr>) now) (clk p m)) = Inr q
        \<and> d' = d\<lparr>ledger_entries := ledger_entries d @ [r],
                payment_ledger_pairs := pair_upsert q (payment_ledger_pairs d)\<rparr>
        \<and> n \<le> m \<and> m \<le> n')"

lemma upsert_new_entry:
  "le_tx_id r \<notin> le_tx_id ` set rows \<Longrightarrow> ledger_upsert r rows = rows @ [r]"
  by (simp add: ledger_upsert_is_replacement replace_or_insert_def)

lemma ledger_event_stage:
  assumes "calm p" and "db_ok d" and "entry_of (ev_tx_id ev) d = None"
    and "ev_related_id ev = Some k" and "k \<noteq> []" and "ev_related_type ev = Some ''PAYMENT_ORDER''"
    and "\<And>t. \<exists>r. store_ledger p (row_of_ledger_event ev t) = Inr r \<and> P r \<and> storable p r"
    and "order_of k d = None" and "list_all (storable p) (entries_of k d)" and "sql_text_ok k"
    and "\<forall>x. pair_of k d = Some x \<longrightarrow> \<not> pair_complete x"
  shows "runs_to (upsert_ledger_entry p ev) d n (\<lambda>d' n'. \<exists>r. P r \<and> storable p r \<and> le_tx_id r = ev_tx_id ev
    \<and> le_wallet_id r = ev_wallet_id ev \<and> le_entry_type r = ev_entry_type ev \<and> le_related_id r = Some k
    \<and> ledger_stage p k d n r d' n')"
  unfolding runs_to_def
proof (intro allI impI)
  fix w :: world assume w: "w_db w = d \<and> w_ticks w = n"
  obtain r where r: "store_ledger p (row_of_ledger_event ev (clk p n)) = Inr r" "P r" "storable p r"
    using assms(7) by blast
  note keep = store_ledger_keeps [OF r(1)]
  have row: "le_tx_id r = ev_tx_id ev" "le_wallet_id r = ev_wallet_id ev" "le_entry_type r = ev_entry_type ev"
    "le_related_id r = Some k"
    using keep assms(4) by (simp_all add: row_of_ledger_event_def)
  let ?d = "d\<lparr>ledger_entries := ledger_entries d @ [r]\<rparr>"
  let ?s = "pairing_on p k ?d (clk p (Suc n))"
  have new: "ledger_upsert r (ledger_entries d) = ledger_entries d @ [r]"
    using assms(3) row(1) by (intro upsert_new_entry) (auto simp: entry_of_def row_of_None)
  have entries: "entries_of k ?d = entries_of k d @ [r]" by (simp add: entries_of_def row(4))
  have "list_all (storable p) (scan_order p (entries_of k ?d))"
    using assms(1,9) r(3) by (auto simp: list_all_iff calm_def scan_soundD entries)
  from store_pair_possible [OF assms(10) this, of "map_option order_as_snapshot (order_of k ?d)" "clk p (Suc n)" "clk p (Suc (Suc n))"]
  obtain q where q: "store_pair p (pair_of_snapshot ?s (clk p (Suc (Suc n)))) = Inr q"
    using assms(8) by (auto simp: pairing_on_def order_of_def)
  have "should_update_pair (\<exists>x. pair_of k ?d = Some x \<and> pair_complete x) (ps_complete ?s)"
    using assms(11) by (simp add: should_update_pair_def pair_of_def)
  then obtain v m where "upsert_ledger_entry p ev w = (Inr (m, Some ?s), v)"
    "w_db v = ?d\<lparr>payment_ledger_pairs := pair_upsert q (payment_ledger_pairs ?d)\<rparr>" "w_ticks v = n + 3"
    using upsert_ledger_run [of p w ev k r ?d ?s q] assms(1,2,4-6) r(1) w q new entries by auto
  then show "\<exists>x v. upsert_ledger_entry p ev w = (Inr x, v) \<and> (\<exists>r. P r \<and> storable p r \<and> le_tx_id r = ev_tx_id ev
    \<and> le_wallet_id r = ev_wallet_id ev \<and> le_entry_type r = ev_entry_type ev \<and> le_related_id r = Some k
    \<and> ledger_stage p k d n r (w_db v) (w_ticks v))"
    using r row q unfolding ledger_stage_def
    by (intro exI [of _ "(m, Some ?s)"] exI [of _ v] conjI exI [of _ r] exI [of _ q] exI [of _ "clk p (Suc n)"]
        exI [of _ "Suc (Suc n)"]) simp_all
qed

lemma runs_to_mono: "runs_to a d n Q \<Longrightarrow> (\<And>d' n'. Q d' n' \<Longrightarrow> R d' n') \<Longrightarrow> runs_to a d n R"
  unfolding runs_to_def by metis

text \<open>The decimals of the scripts have two places, so the column keeps them.\<close>

definition scripted_ledger ::
  "platform \<Rightarrow> string \<Rightarrow> string \<Rightarrow> string \<Rightarrow> string \<Rightarrow> string \<Rightarrow> string \<Rightarrow> bool" where
  "scripted_ledger p t w ty a sg k \<longleftrightarrow>
     list_all trimmed [t, w, ty, a, k] \<and> list_all sql_text_ok [t, w, ty, k]
     \<and> (\<exists>da dsg. decimal_of_text a = Some da \<and> decimal_of_text sg = Some dsg
           \<and> numeric_18_2 p da = Some da \<and> numeric_18_2 p dsg = Some dsg)"

lemma scripted_ledger_message:
  assumes "calm p" and "canonical_rules (rt_profile rt)" and "km_topic msg = tp_ledger (topics (rt_profile rt))"
    and "load_payload p (km_value msg) = Inr (ledger_dict t w ty a sg k ts v)"
    and "scripted_ledger p t w ty a sg k" and "time_text i ts" and "v \<noteq> 0" and "fits_bigint v"
    and "db_ok (w_db u)" and "entry_of t (w_db u) = None" and "order_of k (w_db u) = None"
    and "list_all (storable p) (entries_of k (w_db u))"
    and "\<forall>x. pair_of k (w_db u) = Some x \<longrightarrow> \<not> pair_complete x"
  shows "\<exists>u' r. consume_message p rt msg u = (Inr True, u') \<and> le_tx_id r = t \<and> le_wallet_id r = w
    \<and> le_entry_type r = ty \<and> le_related_id r = Some k \<and> storable p r
    \<and> ledger_stage p k (w_db u) (w_ticks u) r (w_db u') (w_ticks u')"
proof -
  obtain da dsg where dec: "decimal_of_text a = Some da" "decimal_of_text sg = Some dsg"
      "numeric_18_2 p da = Some da" "numeric_18_2 p dsg = Some dsg"
    and trim: "list_all trimmed [t, w, ty, a, k]" and sql: "list_all sql_text_ok [t, w, ty, k]"
    using assms(5) by (auto simp: scripted_ledger_def)
  let ?ev = "scripted_ledger_event t w ty da dsg k i v"
  let ?Q = "\<lambda>d' n'. \<exists>r. le_tx_id r = t \<and> le_wallet_id r = w \<and> le_entry_type r = ty \<and> le_related_id r = Some k
    \<and> storable p r \<and> ledger_stage p k (w_db u) (w_ticks u) r d' n'"
  have "sql_text_ok ''PAYMENT_ORDER''" by code_simp
  then have store: "\<exists>r. store_ledger p (row_of_ledger_event ?ev c) = Inr r \<and> True \<and> storable p r" for c
    using sql dec(3,4) assms(8)
    by (simp add: store_ledger_def row_of_ledger_event_def scripted_ledger_event_def sql_check_def raise_if_def
        store_numeric_def store_numeric_opt_def storable_def)
  have order_id: "k \<noteq> []" "sql_text_ok k" using trim sql by (simp_all add: trimmed_def)
  have event: "ev_related_id ?ev = Some k" "ev_related_type ?ev = Some ''PAYMENT_ORDER''" "ev_tx_id ?ev = t"
    "ev_wallet_id ?ev = w" "ev_entry_type ?ev = ty"
    by (simp_all add: scripted_ledger_event_def)
  have "runs_to (upsert_ledger_entry p ?ev) (w_db u) m ?Q" if "w_ticks u \<le> m" for m
  proof (rule runs_to_mono)
    show "runs_to (upsert_ledger_entry p ?ev) (w_db u) m (\<lambda>d' n'. \<exists>r. True \<and> storable p r \<and> le_tx_id r = ev_tx_id ?ev
        \<and> le_wallet_id r = ev_wallet_id ?ev \<and> le_entry_type r = ev_entry_type ?ev \<and> le_related_id r = Some k
        \<and> ledger_stage p k (w_db u) m r d' n')"
      by (rule ledger_event_stage [OF assms(1,9) _ event(1) order_id(1) event(2) store assms(11,12) order_id(2) assms(13)])
        (use assms(10) event(3) in simp)
    show "?Q d' n'" if "\<exists>r. True \<and> storable p r \<and> le_tx_id r = ev_tx_id ?ev
        \<and> le_wallet_id r = ev_wallet_id ?ev \<and> le_entry_type r = ev_entry_type ?ev \<and> le_related_id r = Some k
        \<and> ledger_stage p k (w_db u) m r d' n'" for d' n'
      using that \<open>w_ticks u \<le> m\<close> unfolding event ledger_stage_def by (blast intro: order_trans)
  qed
  then have "runs_to (handle_ledger p True (km_topic msg) (ledger_dict t w ty a sg k ts v)) (w_db u) (w_ticks u) ?Q"
    by (intro handle_ledger_run [OF ledger_dict_parses [OF _ assms(6,7) dec(1,2)]]) (use trim in simp_all)
  then have "runs_to (handle_payload p rt True (km_topic msg) (ledger_dict t w ty a sg k ts v)) (w_db u) (w_ticks u) ?Q"
    using ledger_dict_normalizes [OF assms(2), of t w ty a ts sg k v] trim time_text_trimmed [OF assms(6)] assms(3)
    by (intro runs_to_handle_payload [OF assms(1), where kind = "''ledger''" and nm = "\<lparr>np_payload = ledger_dict t w ty a sg k ts v,
        np_topic_kind = ''ledger'', np_alias_hits = []\<rparr>"]) (simp_all add: topic_kind_def)
  from consume_message_run [OF assms(1,4) this] show ?thesis by blast
qed

section \<open>Two stages make a pair\<close>

lemma pair_after_stage:
  assumes "ledger_stage p k d n r d' n'" and "calm p" and "le_related_id r = Some k"
    and "\<forall>x. pair_of k d = Some x \<longrightarrow> (\<exists>m\<le>n. pp_updated_at x = clk p m)"
  obtains q now m where "pair_of k d' = Some q" "pp_updated_at q = clk p m" "m \<le> n'"
    "pp_payment_tx_id q = ps_payment_tx_id (pairing_on p k d' now)"
    "pp_receive_tx_id q = ps_receive_tx_id (pairing_on p k d' now)"
    "pp_payer_wallet_id q = ps_payer_wallet_id (pairing_on p k d' now)"
    "pp_payee_wallet_id q = ps_payee_wallet_id (pairing_on p k d' now)"
    "entries_of k d' = entries_of k d @ [r]" "ledger_entries d' = ledger_entries d @ [r]"
    "payment_orders d' = payment_orders d"
proof -
  obtain q now m where q: "store_pair p (pair_of_snapshot
            (pairing_on p k (d\<lparr>ledger_entries := ledger_entries d @ [r]\<rparr>) now) (clk p m)) = Inr q"
    and d': "d' = d\<lparr>ledger_entries := ledger_entries d @ [r], payment_ledger_pairs := pair_upsert q (payment_ledger_pairs d)\<rparr>"
    and m: "n \<le> m" "m \<le> n'"
    using assms(1) by (auto simp: ledger_stage_def)
  note keep = store_pair_keeps [OF q]
  have here: "pairing_on p k d' now = pairing_on p k (d\<lparr>ledger_entries := ledger_entries d @ [r]\<rparr>) now"
    by (simp add: d' pairing_on_def entries_of_def order_of_def)
  have key: "pp_payment_order_id q = k" "pp_updated_at q = clk p m" using keep by (simp_all add: pair_of_snapshot_def)
  have "pair_wins q x" if x: "pair_of k d = Some x" for x
  proof -
    obtain j where "j \<le> n" "pp_updated_at x = clk p j" using assms(4) x by blast
    moreover have "clk p j \<le> clk p m" if "j \<le> n" for j using assms(2) order_trans [OF that m(1)] by (auto simp: calm_def intro: monoD)
    ultimately show ?thesis using key(2) by (simp add: pair_wins_def pair_meta_def lww_wins_def)
  qed
  then have "pair_of k d' = Some q"
    using key(1) by (auto simp: d' pair_of_def pair_store.upsert_lookup split: option.splits)
  then show thesis
    using keep m(2) key(2) here assms(3) by (intro that [of q m now]) (simp_all add: pair_of_snapshot_def d' entries_of_def)
qed

lemma find_of_two:
  assumes "set xs = {a, b}" and "f a = x" and "f b = y" and "x \<noteq> y"
  shows "find (\<lambda>e. f e = x) xs = Some a" and "find (\<lambda>e. f e = y) xs = Some b"
proof -
  show "find (\<lambda>e. f e = x) xs = Some a"
    by (rule find_unique) (use assms in \<open>auto\<close>)
  show "find (\<lambda>e. f e = y) xs = Some b"
    by (rule find_unique) (use assms in \<open>auto\<close>)
qed

lemma pairing_on_members:
  assumes "scan_sound p" and "set (entries_of k d) = {r1, r2}"
    and "le_entry_type r1 = ''PAYMENT''" and "le_entry_type r2 = ''RECEIVE''"
  shows "ps_payment_tx_id (pairing_on p k d now) = Some (le_tx_id r1)"
    and "ps_receive_tx_id (pairing_on p k d now) = Some (le_tx_id r2)"
    and "ps_payer_wallet_id (pairing_on p k d now) = Some (le_wallet_id r1)"
    and "ps_payee_wallet_id (pairing_on p k d now) = Some (le_wallet_id r2)"
proof -
  let ?es = "map as_snapshot (scan_order p (entries_of k d))"
  have members: "set ?es = {as_snapshot r1, as_snapshot r2}" using assms(2) by (simp add: scan_soundD [OF assms(1)])
  have types: "ls_entry_type (as_snapshot r1) = ''PAYMENT''" "ls_entry_type (as_snapshot r2) = ''RECEIVE''"
    using assms(3,4) by (simp_all add: as_snapshot_def)
  have "find (\<lambda>e. ls_entry_type e = ''PAYMENT'') ?es = Some (as_snapshot r1)"
    "find (\<lambda>e. ls_entry_type e = ''RECEIVE'') ?es = Some (as_snapshot r2)"
    by (rule find_of_two [OF members types], simp)+
  then show "ps_payment_tx_id (pairing_on p k d now) = Some (le_tx_id r1)"
    "ps_receive_tx_id (pairing_on p k d now) = Some (le_tx_id r2)"
    "ps_payer_wallet_id (pairing_on p k d now) = Some (le_wallet_id r1)"
    "ps_payee_wallet_id (pairing_on p k d now) = Some (le_wallet_id r2)"
    by (simp_all add: pairing_on_def compute_pairing_def Let_def) (simp_all add: as_snapshot_def)
qed

lemma pairing_on_payment_only:
  assumes "scan_sound p" and "entries_of k d = [r]" and "le_entry_type r = ''PAYMENT''"
  shows "ps_receive_tx_id (pairing_on p k d now) = None"
proof -
  have "set (map as_snapshot (scan_order p (entries_of k d))) = {as_snapshot r}"
    using assms(2) by (simp add: scan_soundD [OF assms(1)])
  then have "find (\<lambda>e. ls_entry_type e = ''RECEIVE'') (map as_snapshot (scan_order p (entries_of k d))) = None"
    using assms(3) by (auto simp: find_None_iff as_snapshot_def)
  then show ?thesis by (simp add: pairing_on_def compute_pairing_def Let_def)
qed

text \<open>The two ledger messages of one payment, one after the other.\<close>

definition untouched :: "string \<Rightarrow> string \<Rightarrow> string \<Rightarrow> db \<Rightarrow> bool" where
  "untouched k t1 t2 d \<longleftrightarrow>
     db_ok d \<and> entry_of t1 d = None \<and> entry_of t2 d = None \<and> t1 \<noteq> t2 \<and> entries_of k d = [] \<and> order_of k d = None
     \<and> pair_of k d = None"

lemma two_ledger_messages:
  assumes "calm p" and "canonical_rules (rt_profile rt)"
    and "km_topic m1 = tp_ledger (topics (rt_profile rt))" and "km_topic m2 = tp_ledger (topics (rt_profile rt))"
    and "load_payload p (km_value m1) = Inr (ledger_dict t1 w1 ''PAYMENT'' a1 g1 k ts v)"
    and "load_payload p (km_value m2) = Inr (ledger_dict t2 w2 ''RECEIVE'' a2 g2 k ts v)"
    and "scripted_ledger p t1 w1 ''PAYMENT'' a1 g1 k" and "scripted_ledger p t2 w2 ''RECEIVE'' a2 g2 k"
    and "time_text i ts" and "v \<noteq> 0" and "fits_bigint v" and "untouched k t1 t2 (w_db u)"
  obtains u1 where "consume_message p rt m1 u = (Inr True, u1)"
    and "\<And>v. w_db v = w_db u1 \<Longrightarrow> w_ticks v = w_ticks u1 \<Longrightarrow> \<exists>u2 q. consume_message p rt m2 v = (Inr True, u2)
      \<and> pair_of k (w_db u2) = Some q \<and> pp_payment_tx_id q = Some t1 \<and> pp_receive_tx_id q = Some t2
      \<and> pp_payer_wallet_id q = Some w1 \<and> pp_payee_wallet_id q = Some w2 \<and> db_ok (w_db u2)"
proof -
  have start: "db_ok (w_db u)" "entry_of t1 (w_db u) = None" "entry_of t2 (w_db u) = None" "t1 \<noteq> t2"
    "entries_of k (w_db u) = []" "order_of k (w_db u) = None" "pair_of k (w_db u) = None"
    using assms(12) by (simp_all add: untouched_def)
  have steps: "consume_message p rt m u = (res, u') \<Longrightarrow> db_ok (w_db u) \<Longrightarrow> db_ok (w_db u')" for m u res u'
  proof -
    assume run: "consume_message p rt m u = (res, u')" and ok: "db_ok (w_db u)"
    have "db_rel p u (snd (consume_message p rt m u))"
      using obeys_consume_message [of p rt m] by (simp add: obeys_def)
    then show "db_ok (w_db u')" using ok by (simp add: run db_rel_def db_steps_ok)
  qed
  have sound: "scan_sound p" using assms(1) by (simp add: calm_def)
  obtain u1 r1 where u1: "consume_message p rt m1 u = (Inr True, u1)" "le_tx_id r1 = t1" "le_wallet_id r1 = w1"
      "le_entry_type r1 = ''PAYMENT''" "le_related_id r1 = Some k" "storable p r1"
      "ledger_stage p k (w_db u) (w_ticks u) r1 (w_db u1) (w_ticks u1)"
    using scripted_ledger_message [OF assms(1-3,5,7,9-11) start(1,2,6)] start(5,7) by auto
  obtain q1 now1 j1 where q1: "pair_of k (w_db u1) = Some q1" "pp_updated_at q1 = clk p j1" "j1 \<le> w_ticks u1"
      "pp_receive_tx_id q1 = ps_receive_tx_id (pairing_on p k (w_db u1) now1)"
      "entries_of k (w_db u1) = [r1]" "ledger_entries (w_db u1) = ledger_entries (w_db u) @ [r1]"
      "payment_orders (w_db u1) = payment_orders (w_db u)"
    using pair_after_stage [OF u1(7) assms(1) u1(5)] start(5,7) by (metis append_Nil option.distinct(1))
  have ok1: "db_ok (w_db u1)" by (rule steps [OF u1(1) start(1)])
  have mid: "entry_of t2 (w_db u1) = None" "order_of k (w_db u1) = None" "list_all (storable p) (entries_of k (w_db u1))"
    "\<forall>x. pair_of k (w_db u1) = Some x \<longrightarrow> \<not> pair_complete x"
    using start(3,4,6) q1 u1(2,6) pairing_on_payment_only [OF sound q1(5) u1(4)]
    by (auto simp: entry_of_def order_of_def row_of_None pair_complete_def)
  show thesis
  proof (rule that [OF u1(1)])
    fix v :: world assume v: "w_db v = w_db u1" "w_ticks v = w_ticks u1"
    obtain u2 r2 where u2: "consume_message p rt m2 v = (Inr True, u2)" "le_tx_id r2 = t2" "le_wallet_id r2 = w2"
        "le_entry_type r2 = ''RECEIVE''" "le_related_id r2 = Some k"
        "ledger_stage p k (w_db u1) (w_ticks u1) r2 (w_db u2) (w_ticks u2)"
      using scripted_ledger_message [OF assms(1,2,4,6,8,9-11), of v] ok1 mid v by auto
    have "\<forall>x. pair_of k (w_db u1) = Some x \<longrightarrow> (\<exists>m\<le>w_ticks u1. pp_updated_at x = clk p m)" using q1(1-3) by auto
    from pair_after_stage [OF u2(6) assms(1) u2(5) this]
    obtain q2 now2 where q2: "pair_of k (w_db u2) = Some q2"
        "pp_payment_tx_id q2 = ps_payment_tx_id (pairing_on p k (w_db u2) now2)"
        "pp_receive_tx_id q2 = ps_receive_tx_id (pairing_on p k (w_db u2) now2)"
        "pp_payer_wallet_id q2 = ps_payer_wallet_id (pairing_on p k (w_db u2) now2)"
        "pp_payee_wallet_id q2 = ps_payee_wallet_id (pairing_on p k (w_db u2) now2)"
        "entries_of k (w_db u2) = [r1, r2]"
      by (metis q1(5) append_Cons append_Nil)
    note members = pairing_on_members [OF sound _ u1(4) u2(4), of k "w_db u2" now2]
    show "\<exists>u2 q. consume_message p rt m2 v = (Inr True, u2)
      \<and> pair_of k (w_db u2) = Some q \<and> pp_payment_tx_id q = Some t1 \<and> pp_receive_tx_id q = Some t2
      \<and> pp_payer_wallet_id q = Some w1 \<and> pp_payee_wallet_id q = Some w2 \<and> db_ok (w_db u2)"
      using u1(2,3) u2(1-3) q2 members steps [OF u2(1)] ok1 v(1) by (intro exI [of _ u2] exI [of _ q2]) simp
  qed
qed

end
