(* ===== verification/Api.thy ===== *)
theory Api
  imports ApiMetrics
begin

text \<open>
  \<open>src/api/main.py\<close>: the three endpoints. Each authenticates, looks up inside one session that
  also writes an audit row, and answers. FastAPI runs the dependency \<open>require_admin_read\<close> first
  and then checks the parameters.
\<close>

section \<open>Constants\<close>

definition ADMIN_TX_LOOKUP :: string where "ADMIN_TX_LOOKUP = ''ADMIN_TX_LOOKUP''"
definition ADMIN_ORDER_LOOKUP :: string where "ADMIN_ORDER_LOOKUP = ''ADMIN_ORDER_LOOKUP''"
definition ADMIN_WALLET_TX_LOOKUP :: string where "ADMIN_WALLET_TX_LOOKUP = ''ADMIN_WALLET_TX_LOOKUP''"

section \<open>The part the endpoints share\<close>

text \<open>\<open>int(seconds * 1000)\<close> of a difference in microseconds.\<close>

definition whole_ms :: "int \<Rightarrow> int" where
  "whole_ms us = (if 0 \<le> us then us div 1000 else - ((- us) div 1000))"

record audit_labels =
  al_action :: string
  al_resource_type :: string
  al_resource_id :: string

record audit_outcome =
  ao_result :: string
  ao_status_code :: int
  ao_result_count :: int

definition audit_row ::
  "app_config \<Rightarrow> instant \<Rightarrow> audit_actor \<Rightarrow> audit_labels \<Rightarrow> audit_outcome \<Rightarrow> request \<Rightarrow> int \<Rightarrow> admin_audit_log" where
  "audit_row config now actor labels out rq duration_ms =
     build_audit_fields config now actor (al_action labels) (al_resource_type labels)
       (Some (al_resource_id labels)) (ao_result out) (ao_status_code out) rq (Some duration_ms)
       (Some (ao_result_count out))"

text \<open>
  The body of the \<open>with session_scope()\<close> block: the lookup, the duration, the fields (which load
  the configuration again and read the clock), and the row.
\<close>

definition audited ::
  "platform \<Rightarrow> app_config result \<Rightarrow> request \<Rightarrow> audit_actor \<Rightarrow> int \<Rightarrow> audit_labels
     \<Rightarrow> ('x \<Rightarrow> audit_outcome) \<Rightarrow> 'x action \<Rightarrow> 'x action" where
  "audited p config rq actor start labels outcome_of lookup =
     session_scope p
       (pbind lookup (\<lambda>x.
        pbind (read_monotonic p) (\<lambda>t.
        pbind (plift config) (\<lambda>cf.
        pbind (read_clock p) (\<lambda>now.
        pbind (record_admin_audit p
                 (audit_row cf now actor labels (outcome_of x) rq (whole_ms (t - start)))) (\<lambda>_.
        preturn x))))))"

section \<open>GET /admin/tx/{tx_id}\<close>

definition tx_lookup ::
  "(string \<Rightarrow> string \<Rightarrow> bool) \<Rightarrow> string \<Rightarrow> platform \<Rightarrow> admin_tx_response option action" where
  "tx_lookup collate tx_id p =
     pbind (fetch_admin_tx_context p collate tx_id) (\<lambda>context.
     case context of
       None \<Rightarrow> preturn None
     | Some c \<Rightarrow> pbind (build_admin_tx_response p c) (\<lambda>response. preturn (Some response)))"

definition tx_outcome :: "admin_tx_response option \<Rightarrow> audit_outcome" where
  "tx_outcome response =
     (if response = None then \<lparr>ao_result = ''NOT_FOUND'', ao_status_code = 404, ao_result_count = 0\<rparr>
      else \<lparr>ao_result = ''FOUND'', ao_status_code = 200, ao_result_count = 1\<rparr>)"

definition tx_labels :: "string \<Rightarrow> audit_labels" where
  "tx_labels tx_id =
     \<lparr>al_action = ADMIN_TX_LOOKUP, al_resource_type = ''TX'', al_resource_id = tx_id\<rparr>"

definition get_admin_tx ::
  "platform \<Rightarrow> (string \<Rightarrow> string \<Rightarrow> bool) \<Rightarrow> token_verifier \<Rightarrow> app_config result \<Rightarrow> request \<Rightarrow> string
     \<Rightarrow> admin_tx_response action" where
  "get_admin_tx p collate verify config rq tx_id =
     pbind (plift (require_admin_read verify config rq)) (\<lambda>state.
     pbind (read_monotonic p) (\<lambda>start.
     pbind (audited p config rq (extract_actor (Some state) rq) start (tx_labels tx_id) tx_outcome
              (tx_lookup collate tx_id p)) (\<lambda>response.
     case response of
       None \<Rightarrow> plift (Inl (HTTPException 404 ''tx_id not found''))
     | Some r \<Rightarrow> preturn r)))"

section \<open>GET /admin/payment-orders/{order_id}\<close>

text \<open>The response and \<open>len(context.ledger_entries)\<close>.\<close>

definition order_lookup ::
  "(string \<Rightarrow> string \<Rightarrow> bool) \<Rightarrow> string \<Rightarrow> platform \<Rightarrow> (admin_order_response \<times> int) option action" where
  "order_lookup collate order_id p =
     pbind (fetch_admin_order_context p collate order_id) (\<lambda>context.
     case context of
       None \<Rightarrow> preturn None
     | Some c \<Rightarrow> pbind (build_admin_order_response p c) (\<lambda>response.
         preturn (Some (response, int (length (oc_ledger_entries c))))))"

definition order_outcome :: "(admin_order_response \<times> int) option \<Rightarrow> audit_outcome" where
  "order_outcome found =
     (case found of
        None \<Rightarrow> \<lparr>ao_result = ''NOT_FOUND'', ao_status_code = 404, ao_result_count = 0\<rparr>
      | Some (response, n) \<Rightarrow> \<lparr>ao_result = ''FOUND'', ao_status_code = 200, ao_result_count = n\<rparr>)"

definition order_labels :: "string \<Rightarrow> audit_labels" where
  "order_labels order_id =
     \<lparr>al_action = ADMIN_ORDER_LOOKUP, al_resource_type = ''PAYMENT_ORDER'', al_resource_id = order_id\<rparr>"

definition get_admin_order ::
  "platform \<Rightarrow> (string \<Rightarrow> string \<Rightarrow> bool) \<Rightarrow> token_verifier \<Rightarrow> app_config result \<Rightarrow> request \<Rightarrow> string
     \<Rightarrow> admin_order_response action" where
  "get_admin_order p collate verify config rq order_id =
     pbind (plift (require_admin_read verify config rq)) (\<lambda>state.
     pbind (read_monotonic p) (\<lambda>start.
     pbind (audited p config rq (extract_actor (Some state) rq) start (order_labels order_id)
              order_outcome (order_lookup collate order_id p)) (\<lambda>found.
     case found of
       None \<Rightarrow> plift (Inl (HTTPException 404 ''order_id not found''))
     | Some (r, n) \<Rightarrow> preturn r)))"

section \<open>GET /admin/wallets/{wallet_id}/tx\<close>

definition wallet_lookup ::
  "(string \<Rightarrow> string \<Rightarrow> bool) \<Rightarrow> string \<Rightarrow> instant option \<Rightarrow> instant option \<Rightarrow> int \<Rightarrow> platform
     \<Rightarrow> (admin_wallet_tx_response \<times> int) action" where
  "wallet_lookup collate wallet_id from_time to_time limit p =
     pbind (fetch_admin_wallet_tx p collate wallet_id from_time to_time limit) (\<lambda>entries.
     pbind (build_admin_wallet_tx_response p wallet_id entries) (\<lambda>response.
     preturn (response, int (length entries))))"

definition wallet_outcome :: "admin_wallet_tx_response \<times> int \<Rightarrow> audit_outcome" where
  "wallet_outcome found =
     \<lparr>ao_result = (if snd found \<noteq> 0 then ''FOUND'' else ''EMPTY''), ao_status_code = 200,
      ao_result_count = snd found\<rparr>"

definition wallet_labels :: "string \<Rightarrow> audit_labels" where
  "wallet_labels wallet_id =
     \<lparr>al_action = ADMIN_WALLET_TX_LOOKUP, al_resource_type = ''WALLET'', al_resource_id = wallet_id\<rparr>"

text \<open>\<open>Query(ge=1, le=100)\<close> with the default 20.\<close>

definition wallet_limit :: "int option \<Rightarrow> int result" where
  "wallet_limit limit =
     (case limit of
        None \<Rightarrow> Inr 20
      | Some n \<Rightarrow> rbind (raise_if (n < 1 \<or> 100 < n) (HTTPException 422 ''limit'')) (\<lambda>_. Inr n))"

definition get_admin_wallet_tx ::
  "platform \<Rightarrow> (string \<Rightarrow> string \<Rightarrow> bool) \<Rightarrow> token_verifier \<Rightarrow> app_config result \<Rightarrow> request \<Rightarrow> string
     \<Rightarrow> instant option \<Rightarrow> instant option \<Rightarrow> int option \<Rightarrow> admin_wallet_tx_response action" where
  "get_admin_wallet_tx p collate verify config rq wallet_id from_time to_time limit =
     pbind (plift (require_admin_read verify config rq)) (\<lambda>state.
     pbind (plift (wallet_limit limit)) (\<lambda>n.
     pbind (read_monotonic p) (\<lambda>start.
     pbind (audited p config rq (extract_actor (Some state) rq) start (wallet_labels wallet_id)
              wallet_outcome (wallet_lookup collate wallet_id from_time to_time n p)) (\<lambda>found.
     preturn (fst found)))))"

section \<open>The contract of an audited lookup\<close>

text \<open>A lookup reads: whatever it returns or raises, the database is as it was.\<close>

locale audited_lookup =
  fixes lookup :: "platform \<Rightarrow> 'x action"
  assumes lookup_reads: "obeys (keeps w_db) (lookup p)"
begin

text \<open>
  A value comes with exactly one audit row, that of the value, and no other change of the
  database; an exception leaves all tables as they were.
\<close>

lemma audited_value:
  assumes "audited p config rq actor start labels outcome_of (lookup p) w = (Inr x, w')"
  obtains cf now ms v where "config = Inr cf" "lookup p w = (Inr x, v)"
    "w_db w' = audit_logged (audit_row cf now actor labels (outcome_of x) rq ms) (w_db w)"
proof -
  obtain x0 v where look: "lookup p w = (x0, v)" by force
  have v: "w_db v = w_db w" using keepsD [OF lookup_reads look] .
  from assms show thesis
    unfolding audited_def
  proof (cases rule: session_scope_cases)
    case (committed y u)
    from committed(1,2) look have x0: "x0 = Inr x"
      by (cases x0) (auto simp: pbind_run read_monotonic_def plift_def split: prod.splits sum.splits)
    from committed(2) look x0 committed(1) obtain cf where cf: "config = Inr cf"
      by (cases config) (auto simp: pbind_run [of "lookup p"] pbind_run [of "read_monotonic p"]
          read_monotonic_def)
    let ?row = "audit_row cf (clk p (w_ticks v)) actor labels (outcome_of x) rq
      (whole_ms (monotonic p (w_monos v) - start))"
    let ?v = "v\<lparr>w_monos := Suc (w_monos v), w_ticks := Suc (w_ticks v)\<rparr>"
    have "\<exists>r. record_admin_audit p ?row ?v = (Inr r, u)"
      using committed(2) look x0 cf
      by (auto simp: pbind_run [of "lookup p"] pbind_run [of "read_monotonic p"] read_monotonic_def
          pbind_run [of "record_admin_audit p r" for r] split: prod.splits sum.splits)
    then obtain r where "record_admin_audit p ?row ?v = (Inr r, u)" by blast
    from record_admin_audit_run [OF this] v committed(3) show thesis
      by (intro that [OF cf look [unfolded x0]]) simp
  next
    case (rolled_back e b u n)
    then show thesis by simp
  qed
qed

lemma audited_error:
  "audited p config rq actor start labels outcome_of (lookup p) w = (Inl e, w') \<Longrightarrow>
     same_tables (w_db w') (w_db w)"
  unfolding audited_def by (rule session_scope_error_tables)

text \<open>The rest of an endpoint, after the checks: it looked up and wrote its row, or failed.\<close>

lemma endpoint_cases:
  assumes "pbind (read_monotonic p) (\<lambda>start.
      pbind (audited p config rq actor start labels outcome_of (lookup p)) finish) w = (res, w')"
  obtains (looked_up) cf now ms x u v w1 where "config = Inr cf" "lookup p w1 = (Inr x, v)"
      "w_db w1 = w_db w"
      "w_db u = audit_logged (audit_row cf now actor labels (outcome_of x) rq ms) (w_db w)"
      "finish x u = (res, w')"
    | (failed) e where "res = Inl e" "same_tables (w_db w') (w_db w)"
proof -
  let ?w1 = "w\<lparr>w_monos := Suc (w_monos w)\<rparr>"
  let ?run = "audited p config rq actor (monotonic p (w_monos w)) labels outcome_of (lookup p) ?w1"
  obtain r u where run: "?run = (r, u)" by force
  show thesis
  proof (cases r)
    case (Inl e)
    from audited_error [OF run [unfolded Inl]] assms run Inl show thesis
      by (intro failed [of e]) (auto simp: pbind_run read_monotonic_def)
  next
    case (Inr x)
    have fin: "finish x u = (res, w')" using assms run Inr by (simp add: pbind_run read_monotonic_def)
    from run [unfolded Inr] show thesis
    proof (rule audited_value)
      fix cf now ms v
      assume "config = Inr cf" "lookup p ?w1 = (Inr x, v)"
        "w_db u = audit_logged (audit_row cf now actor labels (outcome_of x) rq ms) (w_db ?w1)"
      with fin show thesis by (intro looked_up [of cf ?w1 x v u now ms]) simp_all
    qed
  qed
qed

end

lemma lookups_read:
  "obeys (keeps w_db) (tx_lookup collate i p)"
  "obeys (keeps w_db) (order_lookup collate j p)"
  "obeys (keeps w_db) (wallet_lookup collate k from_time to_time limit p)"
  unfolding tx_lookup_def order_lookup_def wallet_lookup_def
  by (auto intro!: keeping.obeys_intros keeps_lookups keeps_builders split: option.splits)

interpretation tx_endpoint: audited_lookup "tx_lookup collate tx_id" for collate tx_id
  by unfold_locales (rule lookups_read)

interpretation order_endpoint: audited_lookup "order_lookup collate order_id" for collate order_id
  by unfold_locales (rule lookups_read)

interpretation wallet_endpoint: audited_lookup "wallet_lookup collate wallet_id from_time to_time limit"
  for collate wallet_id from_time to_time limit
  by unfold_locales (rule lookups_read)

section \<open>What the lookups return\<close>

lemma tx_lookup_result:
  assumes "tx_lookup collate tx_id p w = (Inr x, v)"
  obtains now where "x = map_option (tx_response_at now) (tx_context_of collate (w_db w) tx_id)"
proof -
  from assms obtain c u where c: "fetch_admin_tx_context p collate tx_id w = (Inr c, u)"
    "x = map_option (tx_response_at (clk p (w_ticks u))) c"
    by (auto simp: tx_lookup_def pbind_eq_Inr build_admin_tx_response_def split: option.splits)
  with fetch_admin_tx_context_result [OF c(1)] show thesis by (intro that) simp
qed

lemma order_lookup_result:
  assumes "order_lookup collate order_id p w = (Inr x, v)"
  obtains n where "x = map_option (\<lambda>c. (order_response_at p n c, int (length (oc_ledger_entries c))))
    (order_context_of collate (w_db w) order_id)"
proof -
  from assms obtain c u where c: "fetch_admin_order_context p collate order_id w = (Inr c, u)"
    "x = map_option (\<lambda>c. (order_response_at p (w_ticks u) c, int (length (oc_ledger_entries c)))) c"
    by (auto simp: order_lookup_def pbind_eq_Inr build_responses_run split: option.splits)
  with fetch_admin_order_context_result [OF c(1)] show thesis by (intro that) simp
qed

lemma wallet_lookup_result:
  assumes "wallet_lookup collate wallet_id from_time to_time limit p w = (Inr x, v)"
  obtains n where "x = (wallet_response_at p n wallet_id
      (wallet_entries_of collate (w_db w) wallet_id from_time to_time limit),
    int (length (wallet_entries_of collate (w_db w) wallet_id from_time to_time limit)))"
proof -
  from assms obtain es u where es: "fetch_admin_wallet_tx p collate wallet_id from_time to_time limit w = (Inr es, u)"
    "x = (wallet_response_at p (w_ticks u) wallet_id es, int (length es))"
    by (auto simp: wallet_lookup_def pbind_eq_Inr build_responses_run)
  with fetch_admin_wallet_tx_result [OF es(1)] show thesis by (intro that) simp
qed

section \<open>Runs of the endpoints\<close>

lemma get_admin_tx_cases:
  assumes "get_admin_tx p collate verify config rq tx_id w = (res, w')"
  obtains (denied) e where "require_admin_read verify config rq = Inl e" "res = Inl e" "w' = w"
    | (answered) a cf now ms at' ctx where "require_admin_read verify config rq = Inr a" "config = Inr cf"
      "tx_context_of collate (w_db w) tx_id = Some ctx" "res = Inr (tx_response_at at' ctx)"
      "w_db w' = audit_logged (audit_row cf now (extract_actor (Some a) rq) (tx_labels tx_id)
         \<lparr>ao_result = ''FOUND'', ao_status_code = 200, ao_result_count = 1\<rparr> rq ms) (w_db w)"
    | (absent) a cf now ms where "require_admin_read verify config rq = Inr a" "config = Inr cf"
      "tx_context_of collate (w_db w) tx_id = None" "res = Inl (HTTPException 404 ''tx_id not found'')"
      "w_db w' = audit_logged (audit_row cf now (extract_actor (Some a) rq) (tx_labels tx_id)
         \<lparr>ao_result = ''NOT_FOUND'', ao_status_code = 404, ao_result_count = 0\<rparr> rq ms) (w_db w)"
    | (failed) a e where "require_admin_read verify config rq = Inr a" "res = Inl e"
      "same_tables (w_db w') (w_db w)"
proof (cases "require_admin_read verify config rq")
  case (Inl e)
  with assms show thesis by (intro denied) (auto simp: get_admin_tx_def)
next
  case (Inr a)
  let ?finish = "\<lambda>response. case response of
       None \<Rightarrow> plift (Inl (HTTPException 404 ''tx_id not found'')) | Some r \<Rightarrow> preturn r"
  have "pbind (read_monotonic p) (\<lambda>start. pbind (audited p config rq (extract_actor (Some a) rq) start
      (tx_labels tx_id) tx_outcome (tx_lookup collate tx_id p)) ?finish) w = (res, w')"
    using assms Inr by (simp add: get_admin_tx_def)
  then show thesis
  proof (cases rule: tx_endpoint.endpoint_cases)
    case (looked_up cf now ms x u v w1)
    obtain at' where x: "x = map_option (tx_response_at at') (tx_context_of collate (w_db w1) tx_id)"
      using looked_up(2) by (rule tx_lookup_result)
    show thesis
    proof (cases "tx_context_of collate (w_db w) tx_id")
      case None
      with x looked_up Inr show thesis by (intro absent) (auto simp: tx_outcome_def)
    next
      case (Some ctx)
      with x looked_up Inr show thesis by (intro answered) (auto simp: tx_outcome_def)
    qed
  next
    case (failed e)
    with Inr that(4) show thesis by blast
  qed
qed

lemma get_admin_order_cases:
  assumes "get_admin_order p collate verify config rq order_id w = (res, w')"
  obtains (denied) e where "require_admin_read verify config rq = Inl e" "res = Inl e" "w' = w"
    | (answered) a cf now ms n ctx where "require_admin_read verify config rq = Inr a" "config = Inr cf"
      "order_context_of collate (w_db w) order_id = Some ctx" "res = Inr (order_response_at p n ctx)"
      "w_db w' = audit_logged (audit_row cf now (extract_actor (Some a) rq) (order_labels order_id)
         \<lparr>ao_result = ''FOUND'', ao_status_code = 200,
          ao_result_count = int (length (oc_ledger_entries ctx))\<rparr> rq ms) (w_db w)"
    | (absent) a cf now ms where "require_admin_read verify config rq = Inr a" "config = Inr cf"
      "order_context_of collate (w_db w) order_id = None"
      "res = Inl (HTTPException 404 ''order_id not found'')"
      "w_db w' = audit_logged (audit_row cf now (extract_actor (Some a) rq) (order_labels order_id)
         \<lparr>ao_result = ''NOT_FOUND'', ao_status_code = 404, ao_result_count = 0\<rparr> rq ms) (w_db w)"
    | (failed) a e where "require_admin_read verify config rq = Inr a" "res = Inl e"
      "same_tables (w_db w') (w_db w)"
proof (cases "require_admin_read verify config rq")
  case (Inl e)
  with assms show thesis by (intro denied) (auto simp: get_admin_order_def)
next
  case (Inr a)
  let ?finish = "\<lambda>found. case found of
       None \<Rightarrow> plift (Inl (HTTPException 404 ''order_id not found'')) | Some (r, n) \<Rightarrow> preturn r"
  have "pbind (read_monotonic p) (\<lambda>start. pbind (audited p config rq (extract_actor (Some a) rq) start
      (order_labels order_id) order_outcome (order_lookup collate order_id p)) ?finish) w = (res, w')"
    using assms Inr by (simp add: get_admin_order_def)
  then show thesis
  proof (cases rule: order_endpoint.endpoint_cases)
    case (looked_up cf now ms x u v w1)
    obtain n where x: "x = map_option (\<lambda>c. (order_response_at p n c, int (length (oc_ledger_entries c))))
        (order_context_of collate (w_db w1) order_id)"
      using looked_up(2) by (rule order_lookup_result)
    show thesis
    proof (cases "order_context_of collate (w_db w) order_id")
      case None
      with x looked_up Inr show thesis by (intro absent) (auto simp: order_outcome_def)
    next
      case (Some ctx)
      with x looked_up Inr show thesis by (intro answered) (auto simp: order_outcome_def)
    qed
  next
    case (failed e)
    with Inr that(4) show thesis by blast
  qed
qed

lemma get_admin_wallet_tx_cases:
  assumes "get_admin_wallet_tx p collate verify config rq wid from_time to_time limit w = (res, w')"
  obtains (denied) e where "res = Inl e" "w' = w"
      "require_admin_read verify config rq = Inl e \<or> wallet_limit limit = Inl e"
    | (answered) a cf now ms n k es where "require_admin_read verify config rq = Inr a" "config = Inr cf"
      "wallet_limit limit = Inr k" "es = wallet_entries_of collate (w_db w) wid from_time to_time k"
      "res = Inr (wallet_response_at p n wid es)"
      "w_db w' = audit_logged (audit_row cf now (extract_actor (Some a) rq) (wallet_labels wid)
         \<lparr>ao_result = (if es \<noteq> [] then ''FOUND'' else ''EMPTY''), ao_status_code = 200,
          ao_result_count = int (length es)\<rparr> rq ms) (w_db w)"
    | (failed) a e where "require_admin_read verify config rq = Inr a" "res = Inl e"
      "same_tables (w_db w') (w_db w)"
proof (cases "require_admin_read verify config rq")
  case (Inl e)
  with assms show thesis by (intro denied [of e]) (auto simp: get_admin_wallet_tx_def)
next
  case (Inr a)
  show thesis
  proof (cases "wallet_limit limit")
    case (Inl e)
    with assms Inr show thesis by (intro denied [of e]) (auto simp: get_admin_wallet_tx_def)
  next
    case limit: (Inr k)
    have "pbind (read_monotonic p) (\<lambda>start. pbind (audited p config rq (extract_actor (Some a) rq) start
        (wallet_labels wid) wallet_outcome (wallet_lookup collate wid from_time to_time k p))
        (\<lambda>found. preturn (fst found))) w = (res, w')"
      using assms Inr limit by (simp add: get_admin_wallet_tx_def)
    then show thesis
    proof (cases rule: wallet_endpoint.endpoint_cases)
      case (looked_up cf now ms x u v w1)
      let ?es = "wallet_entries_of collate (w_db w1) wid from_time to_time k"
      obtain n where x: "x = (wallet_response_at p n wid ?es, int (length ?es))"
        using looked_up(2) by (rule wallet_lookup_result)
      with looked_up Inr limit show thesis
        by (intro answered [of a cf k ?es n now ms]) (auto simp: wallet_outcome_def)
    next
      case (failed e)
      with Inr that(3) show thesis by blast
    qed
  qed
qed

text \<open>What a lookup may do to the database: append its audit row, which an answer always has.\<close>

definition only_audited :: "bool \<Rightarrow> db \<Rightarrow> db \<Rightarrow> bool" where
  "only_audited answered d d' \<longleftrightarrow>
     (\<exists>rows. admin_audit_logs d' = admin_audit_logs d @ rows
        \<and> (if answered then length rows = 1 else length rows \<le> 1))
     \<and> ledger_entries d' = ledger_entries d \<and> payment_orders d' = payment_orders d
     \<and> payment_ledger_pairs d' = payment_ledger_pairs d
     \<and> consumer_dlq_events d' = consumer_dlq_events d"

lemma only_audited_logged [simp]: "only_audited b d (audit_logged row d)"
  by (simp add: only_audited_def audit_logged_def)

lemma only_audited_same: "same_tables d' d \<Longrightarrow> only_audited False d d'"
  by (simp add: only_audited_def same_tables_def)

lemma endpoints_only_audit:
  "get_admin_tx p collate verify config rq tx_id w = (r1, w1) \<Longrightarrow>
     only_audited (\<not> isl r1) (w_db w) (w_db w1)"
  "get_admin_order p collate verify config rq order_id w = (r2, w2) \<Longrightarrow>
     only_audited (\<not> isl r2) (w_db w) (w_db w2)"
  "get_admin_wallet_tx p collate verify config rq wid from_time to_time limit w = (r3, w3) \<Longrightarrow>
     only_audited (\<not> isl r3) (w_db w) (w_db w3)"
  by (erule get_admin_tx_cases get_admin_order_cases get_admin_wallet_tx_cases;
      simp add: only_audited_same)+

end
