(* ===== verification/LocalSeed.thy ===== *)
theory LocalSeed
  imports EndToEnd Api
begin

text \<open>
  \<open>scripts/seed_local_db.py\<close>, which writes one complete payment by hand, and
  \<open>scripts/smoke_admin_tx.py\<close>, which seeds and asks the API for it.
\<close>

definition ten_thousand :: decimal where
  "ten_thousand = DecFinite False 10000 0"

definition seed_entry :: "instant \<Rightarrow> string \<Rightarrow> string \<Rightarrow> string \<Rightarrow> decimal \<Rightarrow> ledger_entry" where
  "seed_entry now tx_id wallet_id entry_type amount_signed =
     \<lparr>le_tx_id = tx_id, le_wallet_id = wallet_id, le_entry_type = entry_type, le_amount = ten_thousand,
      le_amount_signed = Some amount_signed, le_related_id = Some ''po-001'',
      le_related_type = Some ''PAYMENT_ORDER'', le_event_time = now, le_created_at = now,
      le_updated_at = Some now, le_source_version = Some 1, le_ingested_at = now\<rparr>"

definition seed_ledger_payment :: "instant \<Rightarrow> ledger_entry" where
  "seed_ledger_payment now =
     seed_entry now ''tx-payment-001'' ''wallet-001'' ''PAYMENT'' (DecFinite True 10000 0)"

definition seed_ledger_receive :: "instant \<Rightarrow> ledger_entry" where
  "seed_ledger_receive now = seed_entry now ''tx-receive-001'' ''wallet-002'' ''RECEIVE'' ten_thousand"

definition seed_payment_order :: "instant \<Rightarrow> payment_order" where
  "seed_payment_order now =
     \<lparr>po_order_id = ''po-001'', po_user_id = Some ''user-001'', po_merchant_name = Some ''MERCHANT-001'',
      po_amount = ten_thousand, po_status = ''SETTLED'', po_created_at = now, po_updated_at = Some now,
      po_source_version = Some 1, po_ingested_at = now\<rparr>"

definition seed_pair :: "instant \<Rightarrow> payment_pair" where
  "seed_pair now =
     \<lparr>pp_payment_order_id = ''po-001'', pp_payment_tx_id = Some ''tx-payment-001'',
      pp_receive_tx_id = Some ''tx-receive-001'', pp_payer_wallet_id = Some ''wallet-001'',
      pp_payee_wallet_id = Some ''wallet-002'', pp_amount = Some ten_thousand,
      pp_status = Some ''SETTLED'', pp_event_time = Some now, pp_updated_at = now, pp_ingested_at = now\<rparr>"

definition seed :: "platform \<Rightarrow> unit action" where
  "seed p =
     pbind (read_clock p) (\<lambda>now.
     session_scope p
       (pbind (execute_ledger_upsert p (seed_ledger_payment now)) (\<lambda>_.
        pbind (execute_ledger_upsert p (seed_ledger_receive now)) (\<lambda>_.
        pbind (execute_order_upsert p (seed_payment_order now)) (\<lambda>_.
        execute_pair_upsert p (seed_pair now))))))"

text \<open>
  The test client's \<open>GET /admin/tx/...\<close> through both middlewares; the framework turns an
  \<open>HTTPException\<close> of the handler into a response and the client raises any other exception.
\<close>

definition client_request :: "string \<Rightarrow> request" where
  "client_request tx_id =
     \<lparr>rq_method = ''GET'', rq_path = ''/admin/tx/'' @ tx_id, rq_query = [],
      rq_headers = [(''host'', ''testserver''), (''user-agent'', ''testclient'')],
      rq_client_host = Some ''testclient''\<rparr>"

definition client_get ::
  "platform \<Rightarrow> (string \<Rightarrow> string \<Rightarrow> bool) \<Rightarrow> token_verifier \<Rightarrow> app_config result \<Rightarrow> string
     \<Rightarrow> admin_tx_response option http_response action" where
  "client_get p collate verify config tx_id =
     (let rq = client_request tx_id in
      observed_call p rq None
        (pcatch
           (pbind (get_admin_tx p collate verify config rq tx_id) (\<lambda>r.
              preturn \<lparr>hr_status = 200, hr_headers = [], hr_body = Some r\<rparr>))
           (\<lambda>e. case e of
                  HTTPException code detail \<Rightarrow> preturn \<lparr>hr_status = code, hr_headers = [], hr_body = None\<rparr>
                | _ \<Rightarrow> plift (Inl e))))"

definition smoke_main ::
  "platform \<Rightarrow> (string \<Rightarrow> string \<Rightarrow> bool) \<Rightarrow> token_verifier \<Rightarrow> app_config result \<Rightarrow> unit action" where
  "smoke_main p collate verify config =
     pbind (seed p) (\<lambda>_.
     pbind (client_get p collate verify config ''tx-payment-001'') (\<lambda>response.
     pbind (plift (raise_if (hr_status response \<noteq> 200) (SystemExit ''Expected 200''))) (\<lambda>_.
     pbind (plift (raise_if (map_option tr_tx_id (hr_body response) \<noteq> Some ''tx-payment-001'')
              (SystemExit ''Unexpected tx_id in response''))) (\<lambda>_.
     pbind (client_get p collate verify config ''tx-missing'') (\<lambda>response_missing.
     plift (raise_if (hr_status response_missing \<noteq> 404) (SystemExit ''Expected 404'')))))))"

end
