(* ===== verification/Liveness.thy ===== *)
theory Liveness
  imports ConsumerProperties
begin

text \<open>
  When a run of the consumer ends: once nothing arrives any more, the idle limit stops it.
\<close>

section \<open>Silence\<close>

definition silent :: "poll list \<Rightarrow> bool" where
  "silent = list_all (\<lambda>q. q = NoMessage \<or> q = PartitionEof)"

text \<open>A clock that passes every value, again and again.\<close>

definition clock_advances :: "platform \<Rightarrow> bool" where
  "clock_advances p \<longleftrightarrow> (\<forall>b n. \<exists>k\<ge>n. b \<le> monotonic p k)"

lemma silent_phase:
  assumes "silent polls" and "j < length polls" and "i * usec_per_sec \<le> monotonic p (w_monos w + j) - t"
  shows "\<exists>e w'. consume_loop p rt mm (Some i) polls n t w = (Inr (e, n), w') \<and> e \<noteq> StillPolling"
  using assms
proof (induction polls arbitrary: w j)
  case (Cons poll polls)
  let ?w = "w\<lparr>w_monos := Suc (w_monos w)\<rparr>"
  have poll: "poll = NoMessage \<or> poll = PartitionEof" and rest: "silent polls" using Cons.prems(1) by (simp_all add: silent_def)
  show ?case
  proof (cases "maximum_reached mm n \<or> i * usec_per_sec \<le> monotonic p (w_monos w) - t")
    case True
    then show ?thesis using poll by (auto simp: maximum_reached_def idle_expired_def read_monotonic_def pbind_run)
  next
    case False
    then have "j \<noteq> 0" using Cons.prems(3) by (cases j) auto
    then have "\<exists>e w'. consume_loop p rt mm (Some i) polls n t ?w = (Inr (e, n), w') \<and> e \<noteq> StillPolling"
      using Cons.IH [OF rest, of "j - 1" ?w] Cons.prems(2,3) by simp
    with False poll show ?thesis by (auto simp: maximum_reached_def idle_expired_def read_monotonic_def pbind_run)
  qed
qed simp

lemma message_handled: "loop_safe p [Message msg] \<Longrightarrow> \<exists>b w'. consume_message p rt msg w = (Inr b, w')"
  using consume_loop_returns [of p "[Message msg]" rt None None 0 0 w]
  by (auto simp: pbind_def split: prod.splits sum.splits)

definition ends_after :: "(poll list \<Rightarrow> world \<Rightarrow> (py_error + loop_end \<times> int) \<times> world) \<Rightarrow> nat \<Rightarrow> world \<Rightarrow> bool" where
  "ends_after run k w \<longleftrightarrow> (\<forall>polls. silent polls \<and> k \<le> length polls \<longrightarrow>
     (\<exists>e n w'. run polls w = (Inr (e, n), w') \<and> e \<noteq> StillPolling))"

lemma silence_ends_the_loop:
  assumes "clock_advances p" and "loop_safe p polls"
  shows "\<exists>k. ends_after (\<lambda>quiet. consume_loop p rt mm (Some i) (polls @ quiet) n t) k w"
  using assms(2)
proof (induction polls arbitrary: n t w)
  case Nil
  obtain m where "w_monos w \<le> m" "t + i * usec_per_sec \<le> monotonic p m"
    using assms(1) unfolding clock_advances_def by blast
  then have "w_monos w + (m - w_monos w) = m" "i * usec_per_sec \<le> monotonic p m - t" by simp_all
  then show ?case
    using silent_phase [of _ "m - w_monos w" i p w t rt mm n] unfolding ends_after_def
    by (intro exI [of _ "Suc (m - w_monos w)"]) (simp add: Suc_le_eq, blast)
next
  case (Cons poll polls)
  note safe = loop_safe_Cons [OF Cons.prems]
  show ?case
  proof (cases "maximum_reached mm n")
    case True
    then show ?thesis by (simp add: ends_after_def maximum_reached_def)
  next
    case False
    show ?thesis
    proof (cases poll)
      case (Message msg)
      have "loop_safe p [Message msg]" using Cons.prems Message by (simp add: loop_safe_def)
      then obtain b v where run: "consume_message p rt msg w = (Inr b, v)" using message_handled by blast
      let ?v = "if b then v\<lparr>w_monos := Suc (w_monos v)\<rparr> else v"
      let ?n = "if b then n + 1 else n" and ?t = "if b then monotonic p (w_monos v) else t"
      obtain k where "ends_after (\<lambda>quiet. consume_loop p rt mm (Some i) (polls @ quiet) ?n ?t) k ?v"
        using Cons.IH [of ?n ?t ?v] safe by blast
      then show ?thesis using False
        by (intro exI [of _ k]) (simp add: ends_after_def Message maximum_reached_def run read_monotonic_def
            pbind_run [of "consume_message p rt msg"] pbind_run [of "read_monotonic p"] split: if_splits)
    next
      case PollError
      with safe show ?thesis by simp
    qed (use False Cons.IH [of n t "w\<lparr>w_monos := Suc (w_monos w)\<rparr>"] safe in
        \<open>auto simp: ends_after_def maximum_reached_def idle_expired_def read_monotonic_def pbind_run\<close>)
  qed
qed

lemma maybe_prune_returns: "\<exists>v. maybe_prune_dlq p c w = (Inr (), v)"
  by (auto simp: maybe_prune_dlq_def pcatch_def pbind_def split: prod.split sum.split)

text \<open>
  C8. A run with an idle limit ends: once the broker is silent, and whatever the messages before
  contained (the broker reported no error until then and takes the acknowledgements, and the keys
  are UTF-8), the run stops after finitely many polls, with the reason that the maximum is reached
  or that the limit has expired, as long as the clock advances. The number of polls is the same
  for every silent continuation.
\<close>

theorem silence_ends_the_run:
  assumes "clock_advances p" and "loop_safe p polls" and "rbind config (build_runtime profiles) = Inr rt"
  shows "\<exists>k. \<forall>quiet. silent quiet \<and> k \<le> length quiet \<longrightarrow>
    (\<exists>e n w'. run_consumer p config profiles mm (Some i) (polls @ quiet) w = (Inr (e, n), w')
       \<and> (e = ReachedMaximum \<or> e = IdleExpired))"
proof -
  obtain v where v: "maybe_prune_dlq p (rt_config rt) w = (Inr (), v)" using maybe_prune_returns by blast
  let ?v = "v\<lparr>w_counter := new_version_counter, w_pairing := new_pairing_metrics, w_tracker := [],
      w_monos := Suc (w_monos v)\<rparr>"
  obtain k where k: "ends_after (\<lambda>quiet. consume_loop p rt mm (Some i) (polls @ quiet) 0 (monotonic p (w_monos v))) k ?v"
    using silence_ends_the_loop [OF assms(1,2)] by blast
  have "run_consumer p config profiles mm (Some i) ps w = consume_loop p rt mm (Some i) ps 0 (monotonic p (w_monos v)) ?v" for ps
    by (simp add: run_consumer_def assms(3) pbind_run [of "maybe_prune_dlq p c" for c] v read_monotonic_def
        pbind_run [of "read_monotonic p"])
  with k show ?thesis unfolding ends_after_def by (metis loop_end.exhaust)
qed

text \<open>The shipped profile and the runtime it gives.\<close>

definition shipped_profiles :: "(string \<times> pyval) list" where
  "shipped_profiles = (case canonical_profiles of Inr ps \<Rightarrow> ps | Inl e \<Rightarrow> [])"

lemma shipped_runtime: "build_runtime shipped_profiles example_config = Inr example_runtime"
  by code_simp

lemma example_clock_advances: "clock_advances example_platform"
proof -
  have "\<exists>k\<ge>n. b \<le> int k" for b n by (intro exI [of _ "max n (nat b)"]) simp
  then show ?thesis by (simp add: clock_advances_def example_platform_def)
qed

theorem silence_ends_the_run_witness:
  "\<exists>k. \<forall>quiet. silent quiet \<and> k \<le> length quiet \<longrightarrow>
    (\<exists>e n w'. run_consumer example_platform (Inr example_config) shipped_profiles None (Some 10)
         ([Message good_message, NoMessage, Message bad_message] @ quiet) (start_world empty_db) = (Inr (e, n), w')
       \<and> (e = ReachedMaximum \<or> e = IdleExpired))"
  by (rule silence_ends_the_run [OF example_clock_advances example_loop_safe]) (simp add: shipped_runtime)

end
