(* ===== verification/EndToEndCheck.thy ===== *)
theory EndToEndCheck
  imports EndToEndProperties LocalSeed Liveness
begin

text \<open>
  The whole of \<open>scripts/e2e_pairing_check.py\<close>: what it publishes is what the consumer reads, the
  consumer stores it, and the check of the pair passes.
\<close>

section \<open>What is published\<close>

lemma published:
  assumes "json_ok (float_repr p) True (PyDict d)" and "valid_utf8 key"
  shows "\<exists>v. (\<forall>f s. pbind (produce_keyed topic key d) f s =
            f () (s\<lparr>sn_queue := sn_queue s @ [\<lparr>og_topic = topic, og_key = Some key, og_value = v\<rparr>]\<rparr>))
    \<and> load_payload p (Some v) = Inr d"
proof -
  let ?v = "json_text True (PyDict d)"
  have printed: "dumps True (PyDict d) = Some ?v" using json_ok_serializable(1) [OF assms(1)] by (simp add: dumps_def)
  have "?v \<noteq> []" by simp
  then have "load_payload p (Some ?v) = Inr d"
    using loads_bytes_dumps [OF assms(1) printed] by (simp add: load_payload_def)
  moreover have "pbind (produce_keyed topic key d) f s =
      f () (s\<lparr>sn_queue := sn_queue s @ [\<lparr>og_topic = topic, og_key = Some key, og_value = ?v\<rparr>]\<rparr>)" for f s
    using printed assms(2) by (simp add: produce_keyed_def json_value_def encode_utf8_def pbind_lifted)
  ultimately show ?thesis by blast
qed

text \<open>Identifiers with the number of the run.\<close>

lemma numbered_text:
  assumes "pre = c # t" and "list_all plain pre" and "\<not> is_space c"
  shows "trimmed (pre @ show_int i)" and "sql_text_ok (pre @ show_int i)" and "valid_utf8 (pre @ show_int i)"
proof -
  have plain: "list_all plain (pre @ show_int i)" using assms(2) by (simp add: plain_show_int)
  then show valid: "valid_utf8 (pre @ show_int i)" by (rule valid_plain)
  have "list_all (\<lambda>c. c \<noteq> CHR 0x00) s" if "list_all plain s" for s
    using that by (auto simp: list_all_iff plain_def byte_of_def)
  with plain valid show "sql_text_ok (pre @ show_int i)" unfolding sql_text_ok_def by blast
  obtain n q where n: "0 \<le> n" "show_int i = q @ show_nat n"
    using that [of "- i" "''-''"] that [of i "[]"] by (cases "i < 0") (simp_all add: show_int_def)
  have "show_nat n \<noteq> []" by (subst show_nat.simps) simp
  moreover from this have "is_digit (last (show_nat n))"
    using digits_show_nat [OF n(1)] by (auto simp: list_all_iff)
  ultimately have "\<not> is_space (last (pre @ show_int i))" using n(2) digit_is_not(5) by simp
  then show "trimmed (pre @ show_int i)"
    using assms(1,3) strip_id [of "pre @ show_int i"] by (simp add: trimmed_def)
qed

lemma ledger_dict_json:
  assumes "list_all valid_utf8 [t, w, ty, a, sg, k, ts]" and "printable_int v"
  shows "json_ok fr True (PyDict (ledger_dict t w ty a sg k ts v))"
proof -
  have "list_all valid_utf8 [''tx_id'', ''wallet_id'', ''entry_type'', ''amount'', ''amount_signed'', ''related_id'',
      ''related_type'', ''event_time'', ''created_at'', ''updated_at'', ''version'', ''PAYMENT_ORDER'']" by code_simp
  with assms show ?thesis by (simp add: ledger_dict_def text_ok_def del: valid_utf8.simps)
qed

lemma order_dict_json:
  assumes "list_all valid_utf8 [k, u, m, a, ts]" and "printable_int v"
  shows "json_ok fr True (PyDict (order_dict k u m a ts v))"
proof -
  have "list_all valid_utf8 [''order_id'', ''user_id'', ''merchant_name'', ''amount'', ''status'', ''created_at'',
      ''updated_at'', ''version'', ''SETTLED'']" by code_simp
  with assms show ?thesis by (simp add: order_dict_def text_ok_def del: valid_utf8.simps)
qed

section \<open>The order message\<close>

lemma upsert_order_run:
  assumes "calm p" and "\<And>t. \<exists>r. store_order p (row_of_order_event ev t) = Inr r"
  shows "runs_to (upsert_payment_order p ev) d n (\<lambda>d' n'. payment_ledger_pairs d' = payment_ledger_pairs d)"
  unfolding runs_to_def
proof (intro allI impI)
  fix u :: world assume "w_db u = d \<and> w_ticks u = n"
  moreover obtain r where "store_order p (row_of_order_event ev (clk p (w_ticks u))) = Inr r" using assms(2) by blast
  ultimately show "\<exists>x v. upsert_payment_order p ev u = (Inr x, v) \<and> payment_ledger_pairs (w_db v) = payment_ledger_pairs d"
    using assms(1) by (simp add: upsert_payment_order_def ingested_now_def execute_order_upsert_def calm_def
        pbind_run [of "db_execute p g" for g] db_execute_run)
qed

lemma scripted_order_message:
  assumes "calm p" and "canonical_rules (rt_profile rt)" and "km_topic msg = tp_payment_order (topics (rt_profile rt))"
    and "load_payload p (km_value msg) = Inr (order_dict k us m a ts v)"
    and "list_all trimmed [k, us, m, a]" and "list_all sql_text_ok [k, us, m]"
    and "decimal_of_text a = Some da" and "numeric_18_2 p da = Some da"
    and "time_text i ts" and "v \<noteq> 0" and "fits_bigint v"
  shows "\<exists>u'. consume_message p rt msg u = (Inr True, u')
    \<and> payment_ledger_pairs (w_db u') = payment_ledger_pairs (w_db u)"
proof -
  let ?ev = "scripted_order_event k us m da i v"
  let ?Q = "\<lambda>d' (n' :: nat). payment_ledger_pairs d' = payment_ledger_pairs (w_db u)"
  have "sql_text_ok ''SETTLED''" by code_simp
  then have "\<exists>r. store_order p (row_of_order_event ?ev c) = Inr r" for c
    using assms(6,8,11)
    by (simp add: store_order_def row_of_order_event_def scripted_order_event_def sql_check_def raise_if_def
        store_numeric_def)
  from upsert_order_run [OF assms(1) this]
  have "runs_to (handle_order p True (km_topic msg) (order_dict k us m a ts v)) (w_db u) (w_ticks u) ?Q"
    by (intro handle_order_run [OF order_dict_parses [OF _ assms(9,10,7)]]) (use assms(5) in simp_all)
  moreover have "tp_payment_order (topics (rt_profile rt)) \<noteq> tp_ledger (topics (rt_profile rt))"
    using assms(2) by (auto simp: canonical_rules_def)
  ultimately have "runs_to (handle_payload p rt True (km_topic msg) (order_dict k us m a ts v)) (w_db u) (w_ticks u) ?Q"
    using order_dict_normalizes [OF assms(2), of k a ts us m v] assms(5) time_text_trimmed [OF assms(9)] assms(3)
    by (intro runs_to_handle_payload [OF assms(1), where kind = "''payment_order''" and nm = "\<lparr>np_payload = order_dict k us m a ts v,
        np_topic_kind = ''payment_order'', np_alias_hits = []\<rparr>"]) (simp_all add: topic_kind_def)
  from consume_message_run [OF assms(1,4) this] show ?thesis by blast
qed

section \<open>The whole check\<close>

text \<open>A broker that hands over what was delivered, in order; keys and offsets are free.\<close>

definition carries :: "outgoing \<Rightarrow> poll \<Rightarrow> bool" where
  "carries out poll =
     (case poll of Message m \<Rightarrow> km_topic m = og_topic out \<and> km_value m = Some (og_value out) | _ \<Rightarrow> False)"

definition in_order :: "(outgoing list \<Rightarrow> poll list) \<Rightarrow> bool" where
  "in_order deliver \<longleftrightarrow> (\<forall>os. list_all2 carries os (deliver os))"

lemma in_order_three:
  assumes "in_order deliver"
  obtains m1 m2 m3 where "deliver [o1, o2, o3] = [Message m1, Message m2, Message m3]"
    "km_topic m1 = og_topic o1" "km_value m1 = Some (og_value o1)"
    "km_topic m2 = og_topic o2" "km_value m2 = Some (og_value o2)"
    "km_topic m3 = og_topic o3" "km_value m3 = Some (og_value o3)"
proof -
  have "list_all2 carries [o1, o2, o3] (deliver [o1, o2, o3])" using assms by (simp add: in_order_def)
  then obtain q1 q2 q3 where "deliver [o1, o2, o3] = [q1, q2, q3]" "carries o1 q1" "carries o2 q2" "carries o3 q3"
    by (auto simp: list_all2_Cons1)
  then show thesis using that by (auto simp: carries_def split: poll.splits)
qed

lemma runtime_of_config:
  assumes "build_runtime profiles c = Inr rt"
  shows "rt_config rt = c" and "topics (rt_profile rt) = \<lparr>tp_ledger = cf_effective_ledger_topic c,
    tp_payment_order = cf_effective_payment_order_topic c\<rparr>"
  using assms by (auto simp: build_runtime_def rbind_eq_Inr load_event_contract_profile_def)

text \<open>Three messages that are all processed, under a limit of three.\<close>

lemma run_of_three:
  assumes "build_runtime profiles c = Inr rt" and "cf_dlq_backend c \<noteq> ''db''"
    and "\<And>u. w_db u = w_db w \<Longrightarrow> w_ticks u = w_ticks w \<Longrightarrow> \<exists>u1. consume_message p rt m1 u = (Inr True, u1)
      \<and> (\<forall>v. w_db v = w_db u1 \<and> w_ticks v = w_ticks u1 \<longrightarrow> (\<exists>u2. consume_message p rt m2 v = (Inr True, u2)
      \<and> (\<forall>x. w_db x = w_db u2 \<and> w_ticks x = w_ticks u2 \<longrightarrow> (\<exists>u3. consume_message p rt m3 x = (Inr True, u3) \<and> Q (w_db u3)))))"
  shows "\<exists>w'. run_consumer p (Inr c) profiles (Some 3) (Some 10) [Message m1, Message m2, Message m3] w
      = (Inr (ReachedMaximum, 3), w') \<and> Q (w_db w')"
proof -
  let ?w = "w\<lparr>w_counter := new_version_counter, w_pairing := new_pairing_metrics, w_tracker := [],
      w_monos := Suc (w_monos w)\<rparr>"
  obtain u1 where u1: "consume_message p rt m1 ?w = (Inr True, u1)" and next1: "\<And>v. w_db v = w_db u1 \<Longrightarrow> w_ticks v = w_ticks u1 \<Longrightarrow>
      \<exists>u2. consume_message p rt m2 v = (Inr True, u2)
      \<and> (\<forall>x. w_db x = w_db u2 \<and> w_ticks x = w_ticks u2 \<longrightarrow> (\<exists>u3. consume_message p rt m3 x = (Inr True, u3) \<and> Q (w_db u3)))"
    using assms(3) [of ?w] by auto
  obtain u2 where u2: "consume_message p rt m2 (u1\<lparr>w_monos := Suc (w_monos u1)\<rparr>) = (Inr True, u2)"
    and next2: "\<And>x. w_db x = w_db u2 \<Longrightarrow> w_ticks x = w_ticks u2 \<Longrightarrow> \<exists>u3. consume_message p rt m3 x = (Inr True, u3) \<and> Q (w_db u3)"
    using next1 [of "u1\<lparr>w_monos := Suc (w_monos u1)\<rparr>"] by auto
  obtain u3 where u3: "consume_message p rt m3 (u2\<lparr>w_monos := Suc (w_monos u2)\<rparr>) = (Inr True, u3)" "Q (w_db u3)"
    using next2 [of "u2\<lparr>w_monos := Suc (w_monos u2)\<rparr>"] by auto
  have "run_consumer p (Inr c) profiles (Some 3) (Some 10) [Message m1, Message m2, Message m3] w
      = (Inr (ReachedMaximum, 3), u3\<lparr>w_monos := Suc (w_monos u3)\<rparr>)"
    using assms(1,2) runtime_of_config(1) [OF assms(1)]
    by (simp add: run_consumer_def maybe_prune_dlq_def read_monotonic_def pbind_run [of "consume_message p rt m" for m]
        pbind_run [of "read_monotonic p"] u1 u2 u3(1))
  with u3(2) show ?thesis by simp
qed

lemma assert_pairing_passes:
  assumes "calm p" and "distinct (map pp_payment_order_id (payment_ledger_pairs (w_db w)))" and "sql_text_ok k"
    and "pair_of k (w_db w) = Some q" and "pp_payment_tx_id q = Some t1" and "pp_receive_tx_id q = Some t2" and "t1 \<noteq> []" and "t2 \<noteq> []"
  shows "\<exists>w'. assert_pairing p k w = (Inr (), w') \<and> w_db w' = w_db w"
proof -
  have unique: "scalar_one_or_none (filter (\<lambda>r. pp_payment_order_id r = k) (payment_ledger_pairs (w_db w))) = Inr (Some q)"
    using assms(2,4) by (simp add: scalar_unique pair_of_def)
  show ?thesis
    using assms(1,3,5-8) unique
    by (simp add: assert_pairing_def session_scope_def calm_def sql_check_def raise_if_def db_call_def db_query_def
        pbind_def)
qed

lemma publish_run:
  assumes "valid_utf8 k" and "valid_utf8 t1" and "valid_utf8 t2"
  obtains v1 v2 v3 now where "e2e_publish_events p (Inr c) k t1 t2 s =
      (Inr (), s\<lparr>sn_settings := build_kafka_client_config c, sn_world := (sn_world s)\<lparr>w_ticks := Suc (w_ticks (sn_world s))\<rparr>,
        sn_queue := [], sn_delivered := sn_delivered s @ sn_queue s @
          [\<lparr>og_topic = cf_ledger_topic c, og_key = Some t1, og_value = v1\<rparr>,
           \<lparr>og_topic = cf_ledger_topic c, og_key = Some t2, og_value = v2\<rparr>,
           \<lparr>og_topic = cf_payment_order_topic c, og_key = Some k, og_value = v3\<rparr>]\<rparr>)"
    and "now = show_instant (clk p (w_ticks (sn_world s)))"
    and "load_payload p (Some v1) = Inr (ledger_dict t1 ''wallet-e2e-1'' ''PAYMENT'' ''15.00'' ''-15.00'' k now 1)"
    and "load_payload p (Some v2) = Inr (ledger_dict t2 ''wallet-e2e-2'' ''RECEIVE'' ''15.00'' ''15.00'' k now 1)"
    and "load_payload p (Some v3) = Inr (order_dict k ''user-e2e-1'' ''MERCHANT-E2E'' ''15.00'' now 1)"
proof -
  define now where "now = show_instant (clk p (w_ticks (sn_world s)))"
  have texts: "list_all valid_utf8 [''wallet-e2e-1'', ''wallet-e2e-2'', ''PAYMENT'', ''RECEIVE'', ''15.00'', ''-15.00'',
      ''user-e2e-1'', ''MERCHANT-E2E'']" "printable_int 1" by code_simp+
  have now: "valid_utf8 now" by (simp add: now_def valid_show_instant)
  let ?d1 = "ledger_dict t1 ''wallet-e2e-1'' ''PAYMENT'' ''15.00'' ''-15.00'' k now 1"
  let ?d2 = "ledger_dict t2 ''wallet-e2e-2'' ''RECEIVE'' ''15.00'' ''15.00'' k now 1"
  let ?d3 = "order_dict k ''user-e2e-1'' ''MERCHANT-E2E'' ''15.00'' now 1"
  have json: "json_ok (float_repr p) True (PyDict ?d1)" "json_ok (float_repr p) True (PyDict ?d2)"
    "json_ok (float_repr p) True (PyDict ?d3)"
    using texts now assms
    by (auto intro!: ledger_dict_json order_dict_json simp del: json_ok.simps valid_utf8.simps)
  obtain v1 where v1: "\<And>(f :: unit \<Rightarrow> unit sending) s. pbind (produce_keyed (cf_ledger_topic c) t1 ?d1) f s =
        f () (s\<lparr>sn_queue := sn_queue s @ [\<lparr>og_topic = cf_ledger_topic c, og_key = Some t1, og_value = v1\<rparr>]\<rparr>)"
      "load_payload p (Some v1) = Inr ?d1" using published [OF json(1) assms(2)] by blast
  obtain v2 where v2: "\<And>(f :: unit \<Rightarrow> unit sending) s. pbind (produce_keyed (cf_ledger_topic c) t2 ?d2) f s =
        f () (s\<lparr>sn_queue := sn_queue s @ [\<lparr>og_topic = cf_ledger_topic c, og_key = Some t2, og_value = v2\<rparr>]\<rparr>)"
      "load_payload p (Some v2) = Inr ?d2" using published [OF json(2) assms(3)] by blast
  obtain v3 where v3: "\<And>(f :: unit \<Rightarrow> unit sending) s. pbind (produce_keyed (cf_payment_order_topic c) k ?d3) f s =
        f () (s\<lparr>sn_queue := sn_queue s @ [\<lparr>og_topic = cf_payment_order_topic c, og_key = Some k, og_value = v3\<rparr>]\<rparr>)"
      "load_payload p (Some v3) = Inr ?d3" using published [OF json(3) assms(1)] by blast
  have events: "e2e_ledger_event t1 ''wallet-e2e-1'' ''PAYMENT'' ''-15.00'' k now = ?d1"
    "e2e_ledger_event t2 ''wallet-e2e-2'' ''RECEIVE'' ''15.00'' k now = ?d2" "e2e_payment_order k now = ?d3"
    by (simp_all add: e2e_ledger_event_def e2e_payment_order_def ledger_dict_def order_dict_def)
  have clock: "on_world (read_clock p) s' = (Inr (clk p (w_ticks (sn_world s'))),
      s'\<lparr>sn_world := (sn_world s')\<lparr>w_ticks := Suc (w_ticks (sn_world s'))\<rparr>\<rparr>)" for s'
    by (simp add: on_world_def read_clock_def)
  have "e2e_publish_events p (Inr c) k t1 t2 s =
      (Inr (), s\<lparr>sn_settings := build_kafka_client_config c, sn_world := (sn_world s)\<lparr>w_ticks := Suc (w_ticks (sn_world s))\<rparr>,
        sn_queue := [], sn_delivered := sn_delivered s @ sn_queue s @
          [\<lparr>og_topic = cf_ledger_topic c, og_key = Some t1, og_value = v1\<rparr>,
           \<lparr>og_topic = cf_ledger_topic c, og_key = Some t2, og_value = v2\<rparr>,
           \<lparr>og_topic = cf_payment_order_topic c, og_key = Some k, og_value = v3\<rparr>]\<rparr>)"
    unfolding e2e_publish_events_def Let_def
    by (simp add: open_producer_def pbind_run [of "on_world (read_clock p)"] clock now_def [symmetric] events v1(1) v2(1) v3(1))
  with v1(2) v2(2) v3(2) now_def show thesis by (intro that [of v1 v2 v3 now])
qed

definition keeps_cents :: "platform \<Rightarrow> bool" where
  "keeps_cents p =
     (numeric_18_2 p (DecFinite False 1500 (-2)) = Some (DecFinite False 1500 (-2))
      \<and> numeric_18_2 p (DecFinite True 1500 (-2)) = Some (DecFinite True 1500 (-2)))"

lemma e2e_texts:
  "scripted_ledger p t ''wallet-e2e-1'' ''PAYMENT'' ''15.00'' ''-15.00'' k" if "keeps_cents p" "trimmed t" "trimmed k"
    "sql_text_ok t" "sql_text_ok k" for p t k
proof -
  have "decimal_of_text ''15.00'' = Some (DecFinite False 1500 (-2))" "decimal_of_text ''-15.00'' = Some (DecFinite True 1500 (-2))"
    "list_all trimmed [''wallet-e2e-1'', ''PAYMENT'', ''15.00'']" "list_all sql_text_ok [''wallet-e2e-1'', ''PAYMENT'']"
    by code_simp+
  with that show ?thesis by (simp add: scripted_ledger_def keeps_cents_def)
qed

lemma e2e_receive_texts:
  "scripted_ledger p t ''wallet-e2e-2'' ''RECEIVE'' ''15.00'' ''15.00'' k" if "keeps_cents p" "trimmed t" "trimmed k"
    "sql_text_ok t" "sql_text_ok k" for p t k
proof -
  have "decimal_of_text ''15.00'' = Some (DecFinite False 1500 (-2))"
    "list_all trimmed [''wallet-e2e-2'', ''RECEIVE'', ''15.00'']" "list_all sql_text_ok [''wallet-e2e-2'', ''RECEIVE'']"
    by code_simp+
  with that show ?thesis by (simp add: scripted_ledger_def keeps_cents_def)
qed

text \<open>The two steps between the clock and the check, for any identifiers of this kind.\<close>

definition run_texts :: "string list \<Rightarrow> bool" where
  "run_texts ids = (list_all trimmed ids \<and> list_all sql_text_ok ids \<and> list_all valid_utf8 ids)"

lemma publish_and_consume:
  assumes "calm p" and "in_calendar (clk p (w_ticks (sn_world s)))" and "keeps_cents p" and "in_order deliver"
    and "valid_config c" and "cf_dlq_backend c \<noteq> ''db''" and "build_runtime profiles c = Inr rt"
    and "canonical_rules (rt_profile rt)" and "untouched k t1 t2 (w_db (sn_world s))"
    and "run_texts [k, t1, t2]" and "sn_queue s = []" and "sn_delivered s = []"
  obtains s1 s2 q where "e2e_publish_events p (Inr c) k t1 t2 s = (Inr (), s1)"
    and "on_world (run_consumer p (Inr c) profiles (Some 3) (Some 10) (deliver (sn_delivered s1))) s1
      = (Inr (ReachedMaximum, 3), s2)"
    and "pair_of k (w_db (sn_world s2)) = Some q" and "pp_payment_tx_id q = Some t1" and "pp_receive_tx_id q = Some t2"
    and "pp_payer_wallet_id q = Some ''wallet-e2e-1''" and "pp_payee_wallet_id q = Some ''wallet-e2e-2''"
    and "distinct (map pp_payment_order_id (payment_ledger_pairs (w_db (sn_world s2))))"
proof -
  have ids: "trimmed k" "trimmed t1" "trimmed t2" "sql_text_ok k" "sql_text_ok t1" "sql_text_ok t2"
    "valid_utf8 k" "valid_utf8 t1" "valid_utf8 t2"
    using assms(10) by (simp_all add: run_texts_def del: valid_utf8.simps)
  let ?w = "(sn_world s)\<lparr>w_ticks := Suc (w_ticks (sn_world s))\<rparr>"
  obtain v1 v2 v3 now where pub: "e2e_publish_events p (Inr c) k t1 t2 s =
      (Inr (), s\<lparr>sn_settings := build_kafka_client_config c, sn_world := ?w,
        sn_queue := [], sn_delivered := sn_delivered s @ sn_queue s @
          [\<lparr>og_topic = cf_ledger_topic c, og_key = Some t1, og_value = v1\<rparr>,
           \<lparr>og_topic = cf_ledger_topic c, og_key = Some t2, og_value = v2\<rparr>,
           \<lparr>og_topic = cf_payment_order_topic c, og_key = Some k, og_value = v3\<rparr>]\<rparr>)"
    and now: "now = show_instant (clk p (w_ticks (sn_world s)))"
    and loads: "load_payload p (Some v1) = Inr (ledger_dict t1 ''wallet-e2e-1'' ''PAYMENT'' ''15.00'' ''-15.00'' k now 1)"
      "load_payload p (Some v2) = Inr (ledger_dict t2 ''wallet-e2e-2'' ''RECEIVE'' ''15.00'' ''15.00'' k now 1)"
      "load_payload p (Some v3) = Inr (order_dict k ''user-e2e-1'' ''MERCHANT-E2E'' ''15.00'' now 1)"
    by (rule publish_run [OF ids(7-9), of p c s])
  let ?o1 = "\<lparr>og_topic = cf_ledger_topic c, og_key = Some t1, og_value = v1\<rparr>"
    and ?o2 = "\<lparr>og_topic = cf_ledger_topic c, og_key = Some t2, og_value = v2\<rparr>"
    and ?o3 = "\<lparr>og_topic = cf_payment_order_topic c, og_key = Some k, og_value = v3\<rparr>"
  obtain m1 m2 m3 where polls: "deliver [?o1, ?o2, ?o3] = [Message m1, Message m2, Message m3]"
    and carried: "km_topic m1 = og_topic ?o1" "km_value m1 = Some (og_value ?o1)"
      "km_topic m2 = og_topic ?o2" "km_value m2 = Some (og_value ?o2)"
      "km_topic m3 = og_topic ?o3" "km_value m3 = Some (og_value ?o3)"
    by (rule in_order_three [OF assms(4)])
  then have msgs: "km_topic m1 = cf_ledger_topic c" "km_value m1 = Some v1" "km_topic m2 = cf_ledger_topic c" "km_value m2 = Some v2"
      "km_topic m3 = cf_payment_order_topic c" "km_value m3 = Some v3" by simp_all
  have topics: "tp_ledger (topics (rt_profile rt)) = cf_ledger_topic c"
    "tp_payment_order (topics (rt_profile rt)) = cf_payment_order_topic c"
    using assms(5) by (simp_all add: runtime_of_config(2) [OF assms(7)] valid_config_def)
  have time: "time_text (clk p (w_ticks (sn_world s))) now" using assms(2) by (simp add: now show_instant_text)
  have order_texts: "list_all trimmed [''user-e2e-1'', ''MERCHANT-E2E'', ''15.00'']" "list_all sql_text_ok [''user-e2e-1'', ''MERCHANT-E2E'']"
    "decimal_of_text ''15.00'' = Some (DecFinite False 1500 (-2))" "fits_bigint 1" by code_simp+
  let ?Q = "\<lambda>d. distinct (map pp_payment_order_id (payment_ledger_pairs d)) \<and> (\<exists>q. pair_of k d = Some q
    \<and> pp_payment_tx_id q = Some t1 \<and> pp_receive_tx_id q = Some t2
    \<and> pp_payer_wallet_id q = Some ''wallet-e2e-1'' \<and> pp_payee_wallet_id q = Some ''wallet-e2e-2'')"
  have third: "\<exists>u3. consume_message p rt m3 x = (Inr True, u3) \<and> ?Q (w_db u3)"
    if "payment_ledger_pairs (w_db x) = payment_ledger_pairs d" "?Q d" for x d
  proof -
    have "load_payload p (km_value m3) = Inr (order_dict k ''user-e2e-1'' ''MERCHANT-E2E'' ''15.00'' now 1)"
      "km_topic m3 = tp_payment_order (topics (rt_profile rt))"
      "numeric_18_2 p (DecFinite False 1500 (-2)) = Some (DecFinite False 1500 (-2))"
      using loads(3) msgs(5,6) topics(2) assms(3) by (simp_all add: keeps_cents_def)
    from scripted_order_message [OF assms(1,8) this(2,1) _ _ order_texts(3) this(3) time _ order_texts(4), of x]
    obtain u3 where "consume_message p rt m3 x = (Inr True, u3)" "payment_ledger_pairs (w_db u3) = payment_ledger_pairs (w_db x)"
      using order_texts(1,2) ids(1,4) by auto
    with that show ?thesis by (simp add: pair_of_def)
  qed
  have run: "\<exists>w'. run_consumer p (Inr c) profiles (Some 3) (Some 10) [Message m1, Message m2, Message m3] ?w
      = (Inr (ReachedMaximum, 3), w') \<and> ?Q (w_db w')"
  proof (rule run_of_three [OF assms(7,6)])
    fix u :: world assume u: "w_db u = w_db ?w" "w_ticks u = w_ticks ?w"
    have start: "untouched k t1 t2 (w_db u)" using assms(9) u(1) by simp
    have m: "km_topic m1 = tp_ledger (topics (rt_profile rt))" "km_topic m2 = tp_ledger (topics (rt_profile rt))"
      "load_payload p (km_value m1) = Inr (ledger_dict t1 ''wallet-e2e-1'' ''PAYMENT'' ''15.00'' ''-15.00'' k now 1)"
      "load_payload p (km_value m2) = Inr (ledger_dict t2 ''wallet-e2e-2'' ''RECEIVE'' ''15.00'' ''15.00'' k now 1)"
      using loads msgs topics by simp_all
    obtain u1 where u1: "consume_message p rt m1 u = (Inr True, u1)"
      and rest: "\<And>v. w_db v = w_db u1 \<Longrightarrow> w_ticks v = w_ticks u1 \<Longrightarrow> \<exists>u2 q. consume_message p rt m2 v = (Inr True, u2)
        \<and> pair_of k (w_db u2) = Some q \<and> pp_payment_tx_id q = Some t1 \<and> pp_receive_tx_id q = Some t2
        \<and> pp_payer_wallet_id q = Some ''wallet-e2e-1'' \<and> pp_payee_wallet_id q = Some ''wallet-e2e-2'' \<and> db_ok (w_db u2)"
      using two_ledger_messages [OF assms(1,8) m e2e_texts e2e_receive_texts time _ order_texts(4) start] assms(3) ids
      by (metis one_neq_zero)
    have second: "\<exists>u2. consume_message p rt m2 v = (Inr True, u2) \<and> (\<forall>x. w_db x = w_db u2 \<and> w_ticks x = w_ticks u2 \<longrightarrow>
        (\<exists>u3. consume_message p rt m3 x = (Inr True, u3) \<and> ?Q (w_db u3)))"
      if same: "w_db v = w_db u1" "w_ticks v = w_ticks u1" for v
    proof -
      obtain u2 where u2: "consume_message p rt m2 v = (Inr True, u2)" "?Q (w_db u2)"
        using rest [OF same] unfolding db_ok_def by blast
      have "\<exists>u3. consume_message p rt m3 x = (Inr True, u3) \<and> ?Q (w_db u3)" if "w_db x = w_db u2" for x
        by (rule third [OF _ u2(2)]) (simp add: that)
      with u2(1) show ?thesis by blast
    qed
    show "\<exists>u1. consume_message p rt m1 u = (Inr True, u1)
      \<and> (\<forall>v. w_db v = w_db u1 \<and> w_ticks v = w_ticks u1 \<longrightarrow> (\<exists>u2. consume_message p rt m2 v = (Inr True, u2)
      \<and> (\<forall>x. w_db x = w_db u2 \<and> w_ticks x = w_ticks u2 \<longrightarrow> (\<exists>u3. consume_message p rt m3 x = (Inr True, u3) \<and> ?Q (w_db u3)))))"
      using u1 second by blast
  qed
  then obtain w' where w': "run_consumer p (Inr c) profiles (Some 3) (Some 10) [Message m1, Message m2, Message m3] ?w
      = (Inr (ReachedMaximum, 3), w')" "?Q (w_db w')" by blast
  then obtain q where q: "pair_of k (w_db w') = Some q" "pp_payment_tx_id q = Some t1" "pp_receive_tx_id q = Some t2"
    "pp_payer_wallet_id q = Some ''wallet-e2e-1''" "pp_payee_wallet_id q = Some ''wallet-e2e-2''" by blast
  show thesis
    by (rule that [OF pub, where q = q and ?s2.0 = "s\<lparr>sn_settings := build_kafka_client_config c, sn_world := w', sn_queue := [],
        sn_delivered := [?o1, ?o2, ?o3]\<rparr>"]) (use w' q polls in \<open>simp_all add: on_world_def assms(11,12)\<close>)
qed


text \<open>On the example platform, with an empty database and the shipped profile.\<close>

definition deliver_in_order :: "outgoing list \<Rightarrow> poll list" where
  "deliver_in_order = map (\<lambda>out. Message \<lparr>km_topic = og_topic out, km_partition = 0, km_offset = 0,
     km_key = og_key out, km_value = Some (og_value out), km_headers = None, km_watermarks = Inr None\<rparr>)"

lemma deliver_in_order: "in_order deliver_in_order"
  by (simp add: in_order_def deliver_in_order_def carries_def list_all2_conv_all_nth)

definition example_suffix :: string where
  "example_suffix = show_int (epoch_seconds (clk example_platform 0))"

definition new_root :: root_logger where
  "new_root = \<lparr>rl_level = 30, rl_handlers = []\<rparr>"

lemma example_logging: "fst (configure_logging (load_config None [] (Inr shipped_profiles)) new_root) = Inr ()"
  by code_simp

lemma example_e2e_config:
  "case load_config None (e2e_environ example_suffix []) (Inr shipped_profiles) of
     Inl e \<Rightarrow> False
   | Inr c \<Rightarrow> cf_dlq_backend c \<noteq> ''db'' \<and>
       (case build_runtime shipped_profiles c of Inl e \<Rightarrow> False | Inr rt \<Rightarrow> canonical_rules (rt_profile rt))"
  by code_simp

lemma example_calm: "calm example_platform" "in_calendar (clk example_platform (Suc (w_ticks (start_world empty_db))))" "keeps_cents example_platform"
  by (simp_all add: calm_def keeps_cents_def example_platform_def scan_sound_def in_calendar_def max_usec_def mono_def start_world_def)


end
