(* ===== verification/Instruments.thy ===== *)
theory Instruments
  imports Metrics
begin

text \<open>
  The instruments that \<open>src/consumer/metrics.py\<close> and \<open>src/common/metrics.py\<close> declare, and the
  instrument and attributes under which each measurement of the model is recorded.
\<close>

datatype instrument_kind = Counter | UpDownCounter | Histogram | ObservableGauge

record instrument =
  in_kind :: instrument_kind
  in_name :: string
  in_unit :: "string option"

definition seconds_of :: "instrument_kind \<Rightarrow> string \<Rightarrow> instrument" where
  "seconds_of kind name = \<lparr>in_kind = kind, in_name = name, in_unit = Some ''s''\<rparr>"

definition unitless :: "instrument_kind \<Rightarrow> string \<Rightarrow> instrument" where
  "unitless kind name = \<lparr>in_kind = kind, in_name = name, in_unit = None\<rparr>"

definition consumer_instruments :: "instrument list" where
  "consumer_instruments =
     [unitless Counter ''consumer_messages_total'',
      seconds_of Histogram ''consumer_event_lag_seconds'',
      unitless Counter ''consumer_dlq_total'',
      unitless Counter ''consumer_version_missing_total'',
      unitless Counter ''consumer_contract_alias_hit_total'',
      unitless Counter ''consumer_contract_core_violation_total'',
      unitless Counter ''consumer_contract_profile_messages_total'',
      unitless Counter ''pairing_total'',
      unitless Counter ''pairing_incomplete_total'',
      seconds_of Histogram ''pairing_incomplete_age_seconds'',
      unitless Counter ''pairing_skipped_non_payment_order_total'']"

definition consumer_gauges :: "instrument list" where
  "consumer_gauges =
     [unitless ObservableGauge ''consumer_kafka_lag'', seconds_of ObservableGauge ''consumer_freshness_seconds'']"

definition api_instruments :: "instrument list" where
  "api_instruments =
     [seconds_of Histogram ''api_request_latency_seconds'',
      unitless Counter ''api_requests_total'',
      unitless UpDownCounter ''api_requests_inflight'',
      seconds_of Histogram ''db_query_latency_seconds'',
      unitless Counter ''db_queries_total'']"

definition pool_instruments :: "instrument list" where
  "pool_instruments =
     [unitless ObservableGauge ''db_pool_size'',
      unitless ObservableGauge ''db_pool_checked_out'',
      unitless ObservableGauge ''db_pool_overflow'',
      unitless ObservableGauge ''db_pool_checked_in'',
      seconds_of Histogram ''db_pool_checkout_latency_seconds'',
      seconds_of ObservableGauge ''db_replication_lag_seconds'']"

section \<open>The log line of the pairing metrics\<close>

text \<open>
  \<open>fixed k n d\<close> is the argument that prints the float quotient of \<open>n\<close> and \<open>d\<close> with \<open>k\<close> decimals;
  ages are microseconds.
\<close>

definition pairing_metrics_summary :: "(nat \<Rightarrow> int \<Rightarrow> int \<Rightarrow> string) \<Rightarrow> pairing_metrics \<Rightarrow> string" where
  "pairing_metrics_summary fixed pm =
     (let ratio = (if pm_total pm \<noteq> 0 then fixed 4 (pm_incomplete pm) (pm_total pm) else fixed 4 0 1);
          avg_age = (if pm_incomplete pm \<noteq> 0 then fixed 2 (pm_age_sum pm) (pm_incomplete pm * usec_per_sec)
                     else fixed 2 0 1)
      in ''pair_total='' @ show_int (pm_total pm) @ '' pair_incomplete='' @ show_int (pm_incomplete pm)
         @ '' pair_incomplete_ratio='' @ ratio @ '' pair_incomplete_avg_age_sec='' @ avg_age
         @ '' pair_incomplete_max_age_sec='' @ fixed 2 (pm_age_max pm) usec_per_sec)"

section \<open>Recording\<close>

text \<open>The name of the instrument, the amount and the attributes of \<open>add\<close> or \<open>record\<close>.\<close>

fun recorded_as :: "measurement \<Rightarrow> string \<times> int \<times> (string \<times> string) list" where
  "recorded_as (ConsumerMessagesTotal topic status) =
     (''consumer_messages_total'', 1, [(''topic'', topic), (''status'', status)])"
| "recorded_as (ConsumerEventLag topic lag) = (''consumer_event_lag_seconds'', lag, [(''topic'', topic)])"
| "recorded_as (ConsumerDlqTotal topic) = (''consumer_dlq_total'', 1, [(''topic'', topic)])"
| "recorded_as (VersionMissingTotal topic) = (''consumer_version_missing_total'', 1, [(''topic'', topic)])"
| "recorded_as (ContractAliasHitTotal topic pid canonical_key alias_key) =
     (''consumer_contract_alias_hit_total'', 1,
      [(''topic'', topic), (''profile_id'', pid), (''canonical_key'', canonical_key), (''alias_key'', alias_key)])"
| "recorded_as (ContractCoreViolationTotal topic pid) =
     (''consumer_contract_core_violation_total'', 1, [(''topic'', topic), (''profile_id'', pid)])"
| "recorded_as (ContractProfileMessagesTotal topic pid) =
     (''consumer_contract_profile_messages_total'', 1, [(''topic'', topic), (''profile_id'', pid)])"
| "recorded_as PairTotal = (''pairing_total'', 1, [])"
| "recorded_as PairIncompleteTotal = (''pairing_incomplete_total'', 1, [])"
| "recorded_as (PairIncompleteAge age) = (''pairing_incomplete_age_seconds'', age, [])"
| "recorded_as (PairingSkippedTotal related_type) =
     (''pairing_skipped_non_payment_order_total'', 1, [(''related_type'', related_type)])"
| "recorded_as (ApiRequestsInflight amount req_method route) =
     (''api_requests_inflight'', amount, [(''method'', req_method), (''route'', route)])"
| "recorded_as (ApiRequestLatency req_method route status duration) =
     (''api_request_latency_seconds'', duration,
      [(''method'', req_method), (''route'', route), (''status_code'', status)])"
| "recorded_as (ApiRequestsTotal req_method route status) =
     (''api_requests_total'', 1, [(''method'', req_method), (''route'', route), (''status_code'', status)])"
| "recorded_as (DbQueryLatency operation table success duration) =
     (''db_query_latency_seconds'', duration,
      [(''operation'', operation), (''table'', table), (''success'', success)])"
| "recorded_as (DbQueriesTotal operation table success) =
     (''db_queries_total'', 1, [(''operation'', operation), (''table'', table), (''success'', success)])"

definition declared :: "instrument list" where
  "declared = consumer_instruments @ consumer_gauges @ api_instruments @ pool_instruments"

lemma declared_once: "distinct (map in_name declared)"
  by code_simp

text \<open>
  Whatever the model emits is recorded by a declared instrument that is no observable gauge,
  under distinct attribute names; a counter is only ever counted up, by one.
\<close>

lemma recorded_is_declared:
  "case recorded_as m of (name, amount, attrs) \<Rightarrow>
     distinct (map fst attrs)
     \<and> (case find (\<lambda>i. in_name i = name) declared of
          None \<Rightarrow> False
        | Some i \<Rightarrow> in_kind i \<noteq> ObservableGauge \<and> (if in_kind i = Counter then amount = 1 else True))"
  by (cases m) (simp_all add: declared_def consumer_instruments_def consumer_gauges_def api_instruments_def
      pool_instruments_def seconds_of_def unitless_def)

end
