(* ===== verification/Migrations.thy ===== *)
theory Migrations
  imports Prelude
begin

text \<open>
  \<open>migrations/versions/*.py\<close>: the schema of the database as the migrations build it, and as
  \<open>src/db/models.py\<close> declares it. A migration is a list of operations on the schema \<open>bo\<close>; what
  an operation does, and when it is refused, is PostgreSQL's.
\<close>

section \<open>Schemas\<close>

datatype sql_type = SqlText | SqlNumeric nat nat | SqlTimestampTz | SqlBigInteger | SqlInteger

record table_column =
  tc_name :: string
  tc_type :: sql_type
  tc_nullable :: bool
  tc_primary_key :: bool
  tc_server_default :: "string option"
  tc_identity :: bool

type_synonym table_index = "string \<times> string list"

record table_schema =
  ts_columns :: "table_column list"
  ts_indexes :: "table_index list"

record db_schema =
  sc_created :: bool
  sc_tables :: "(string \<times> table_schema) list"

text \<open>\<open>sa.Column(name, type)\<close>, with \<open>nullable=False\<close>, \<open>primary_key=True\<close>, and so on.\<close>

definition nullable_column :: "string \<Rightarrow> sql_type \<Rightarrow> table_column" where
  "nullable_column name ty =
     \<lparr>tc_name = name, tc_type = ty, tc_nullable = True, tc_primary_key = False, tc_server_default = None,
      tc_identity = False\<rparr>"

definition required_column :: "string \<Rightarrow> sql_type \<Rightarrow> table_column" where
  "required_column name ty = (nullable_column name ty)\<lparr>tc_nullable := False\<rparr>"

definition key_column :: "string \<Rightarrow> sql_type \<Rightarrow> table_column" where
  "key_column name ty = (required_column name ty)\<lparr>tc_primary_key := True\<rparr>"

definition identity_column :: "string \<Rightarrow> table_column" where
  "identity_column name = (key_column name SqlBigInteger)\<lparr>tc_identity := True\<rparr>"

definition now_column :: "string \<Rightarrow> table_column" where
  "now_column name = (required_column name SqlTimestampTz)\<lparr>tc_server_default := Some ''now()''\<rparr>"

section \<open>Operations\<close>

datatype schema_op =
    CreateSchema
  | DropSchema
  | CreateTable string "table_column list"
  | DropTable string
  | CreateIndex string string "string list"
  | DropIndex string string
  | AddColumn string table_column
  | DropColumn string string

definition has_column :: "table_schema \<Rightarrow> string \<Rightarrow> bool" where
  "has_column t c = list_ex (\<lambda>col. tc_name col = c) (ts_columns t)"

definition index_names :: "db_schema \<Rightarrow> string list" where
  "index_names s = concat (map (\<lambda>(n, t). map fst (ts_indexes t)) (sc_tables s))"

definition on_table :: "string \<Rightarrow> (table_schema \<Rightarrow> table_schema option) \<Rightarrow> db_schema \<Rightarrow> db_schema option" where
  "on_table n f s =
     Option.bind (map_of (sc_tables s) n) (\<lambda>t.
     map_option (\<lambda>t'. s\<lparr>sc_tables := map (\<lambda>(m, u). if m = n then (m, t') else (m, u)) (sc_tables s)\<rparr>) (f t))"

text \<open>\<open>None\<close>: the statement fails. A dropped column takes the indexes on it along.\<close>

fun exec_op :: "schema_op \<Rightarrow> db_schema \<Rightarrow> db_schema option" where
  "exec_op CreateSchema s = Some (s\<lparr>sc_created := True\<rparr>)"
| "exec_op DropSchema s =
     (if sc_created s \<and> sc_tables s \<noteq> [] then None else Some (s\<lparr>sc_created := False\<rparr>))"
| "exec_op (CreateTable n cols) s =
     (if \<not> sc_created s \<or> n \<in> fst ` set (sc_tables s) \<or> \<not> distinct (map tc_name cols) then None
      else Some (s\<lparr>sc_tables := sc_tables s @ [(n, \<lparr>ts_columns = cols, ts_indexes = []\<rparr>)]\<rparr>))"
| "exec_op (DropTable n) s =
     (if n \<notin> fst ` set (sc_tables s) then None
      else Some (s\<lparr>sc_tables := filter (\<lambda>(m, t). m \<noteq> n) (sc_tables s)\<rparr>))"
| "exec_op (CreateIndex i n cols) s =
     (if i \<in> set (index_names s) then None
      else on_table n (\<lambda>t. if list_all (has_column t) cols
                            then Some (t\<lparr>ts_indexes := ts_indexes t @ [(i, cols)]\<rparr>) else None) s)"
| "exec_op (DropIndex i n) s =
     on_table n (\<lambda>t. if i \<in> fst ` set (ts_indexes t)
                      then Some (t\<lparr>ts_indexes := filter (\<lambda>(j, cs). j \<noteq> i) (ts_indexes t)\<rparr>) else None) s"
| "exec_op (AddColumn n col) s =
     on_table n (\<lambda>t. if has_column t (tc_name col) then None
                      else Some (t\<lparr>ts_columns := ts_columns t @ [col]\<rparr>)) s"
| "exec_op (DropColumn n c) s =
     on_table n (\<lambda>t. if has_column t c
                      then Some (t\<lparr>ts_columns := filter (\<lambda>col. tc_name col \<noteq> c) (ts_columns t),
                                   ts_indexes := filter (\<lambda>(i, cs). c \<notin> set cs) (ts_indexes t)\<rparr>)
                      else None) s"

fun exec_ops :: "schema_op list \<Rightarrow> db_schema \<Rightarrow> db_schema option" where
  "exec_ops [] s = Some s"
| "exec_ops (op # ops) s = Option.bind (exec_op op s) (exec_ops ops)"

record migration =
  mg_revision :: string
  mg_down_revision :: "string option"
  mg_upgrade :: "schema_op list"
  mg_downgrade :: "schema_op list"

section \<open>The revisions\<close>

definition core_ledger_columns :: "table_column list" where
  "core_ledger_columns =
     [key_column ''tx_id'' SqlText, required_column ''wallet_id'' SqlText, required_column ''entry_type'' SqlText,
      required_column ''amount'' (SqlNumeric 18 2), nullable_column ''amount_signed'' (SqlNumeric 18 2),
      nullable_column ''related_id'' SqlText, nullable_column ''related_type'' SqlText,
      required_column ''event_time'' SqlTimestampTz, required_column ''created_at'' SqlTimestampTz,
      nullable_column ''updated_at'' SqlTimestampTz, now_column ''ingested_at'']"

definition core_order_columns :: "table_column list" where
  "core_order_columns =
     [key_column ''order_id'' SqlText, nullable_column ''user_id'' SqlText, nullable_column ''merchant_name'' SqlText,
      required_column ''amount'' (SqlNumeric 18 2), required_column ''status'' SqlText,
      required_column ''created_at'' SqlTimestampTz, nullable_column ''updated_at'' SqlTimestampTz,
      now_column ''ingested_at'']"

definition pair_columns_created :: "table_column list" where
  "pair_columns_created =
     [key_column ''payment_order_id'' SqlText, nullable_column ''payment_tx_id'' SqlText,
      nullable_column ''receive_tx_id'' SqlText, nullable_column ''payer_wallet_id'' SqlText,
      nullable_column ''payee_wallet_id'' SqlText, nullable_column ''amount'' (SqlNumeric 18 2),
      nullable_column ''status'' SqlText, nullable_column ''event_time'' SqlTimestampTz,
      now_column ''updated_at'', now_column ''ingested_at'']"

definition upgrade_0001 :: "schema_op list" where
  "upgrade_0001 =
     [CreateSchema,
      CreateTable ''ledger_entries'' core_ledger_columns,
      CreateIndex ''ix_bo_ledger_entries_related_id'' ''ledger_entries'' [''related_id''],
      CreateIndex ''ix_bo_ledger_entries_wallet_event_time'' ''ledger_entries'' [''wallet_id'', ''event_time''],
      CreateIndex ''ix_bo_ledger_entries_event_time'' ''ledger_entries'' [''event_time''],
      CreateTable ''payment_orders'' core_order_columns,
      CreateIndex ''ix_bo_payment_orders_user_id'' ''payment_orders'' [''user_id''],
      CreateIndex ''ix_bo_payment_orders_merchant_name'' ''payment_orders'' [''merchant_name''],
      CreateIndex ''ix_bo_payment_orders_status'' ''payment_orders'' [''status''],
      CreateIndex ''ix_bo_payment_orders_created_at'' ''payment_orders'' [''created_at''],
      CreateTable ''payment_ledger_pairs'' pair_columns_created,
      CreateIndex ''ix_bo_payment_ledger_pairs_payment_tx_id'' ''payment_ledger_pairs'' [''payment_tx_id''],
      CreateIndex ''ix_bo_payment_ledger_pairs_receive_tx_id'' ''payment_ledger_pairs'' [''receive_tx_id'']]"

definition downgrade_0001 :: "schema_op list" where
  "downgrade_0001 =
     [DropIndex ''ix_bo_payment_ledger_pairs_receive_tx_id'' ''payment_ledger_pairs'',
      DropIndex ''ix_bo_payment_ledger_pairs_payment_tx_id'' ''payment_ledger_pairs'',
      DropTable ''payment_ledger_pairs'',
      DropIndex ''ix_bo_payment_orders_created_at'' ''payment_orders'',
      DropIndex ''ix_bo_payment_orders_status'' ''payment_orders'',
      DropIndex ''ix_bo_payment_orders_merchant_name'' ''payment_orders'',
      DropIndex ''ix_bo_payment_orders_user_id'' ''payment_orders'',
      DropTable ''payment_orders'',
      DropIndex ''ix_bo_ledger_entries_event_time'' ''ledger_entries'',
      DropIndex ''ix_bo_ledger_entries_wallet_event_time'' ''ledger_entries'',
      DropIndex ''ix_bo_ledger_entries_related_id'' ''ledger_entries'',
      DropTable ''ledger_entries'',
      DropSchema]"

definition revision_0001 :: migration where
  "revision_0001 =
     \<lparr>mg_revision = ''20260205_0001'', mg_down_revision = None,
      mg_upgrade = upgrade_0001, mg_downgrade = downgrade_0001\<rparr>"

definition revision_0002 :: migration where
  "revision_0002 =
     \<lparr>mg_revision = ''20260205_0002'', mg_down_revision = Some ''20260205_0001'',
      mg_upgrade =
        [AddColumn ''ledger_entries'' (nullable_column ''source_version'' SqlBigInteger),
         AddColumn ''payment_orders'' (nullable_column ''source_version'' SqlBigInteger)],
      mg_downgrade =
        [DropColumn ''payment_orders'' ''source_version'', DropColumn ''ledger_entries'' ''source_version'']\<rparr>"

definition audit_columns :: "table_column list" where
  "audit_columns =
     [identity_column ''audit_id'', nullable_column ''actor_id'' SqlText, nullable_column ''actor_roles'' SqlText,
      required_column ''action'' SqlText, required_column ''resource_type'' SqlText,
      nullable_column ''resource_id'' SqlText, required_column ''result'' SqlText,
      required_column ''status_code'' SqlInteger, nullable_column ''ip'' SqlText,
      nullable_column ''user_agent'' SqlText, required_column ''request_method'' SqlText,
      required_column ''request_path'' SqlText, nullable_column ''request_query'' SqlText,
      now_column ''requested_at'', nullable_column ''duration_ms'' SqlInteger]"

definition revision_0003 :: migration where
  "revision_0003 =
     \<lparr>mg_revision = ''20260205_0003'', mg_down_revision = Some ''20260205_0002'',
      mg_upgrade =
        [CreateTable ''admin_audit_logs'' audit_columns,
         CreateIndex ''ix_bo_admin_audit_logs_requested_at'' ''admin_audit_logs'' [''requested_at''],
         CreateIndex ''ix_bo_admin_audit_logs_resource_id'' ''admin_audit_logs'' [''resource_id''],
         CreateIndex ''ix_bo_admin_audit_logs_actor_id'' ''admin_audit_logs'' [''actor_id''],
         CreateIndex ''ix_bo_admin_audit_logs_resource_time'' ''admin_audit_logs'' [''resource_id'', ''requested_at'']],
      mg_downgrade =
        [DropIndex ''ix_bo_admin_audit_logs_resource_time'' ''admin_audit_logs'',
         DropIndex ''ix_bo_admin_audit_logs_actor_id'' ''admin_audit_logs'',
         DropIndex ''ix_bo_admin_audit_logs_resource_id'' ''admin_audit_logs'',
         DropIndex ''ix_bo_admin_audit_logs_requested_at'' ''admin_audit_logs'',
         DropTable ''admin_audit_logs'']\<rparr>"

definition dlq_columns :: "table_column list" where
  "dlq_columns =
     [identity_column ''dlq_id'', required_column ''topic'' SqlText, nullable_column ''partition'' SqlInteger,
      nullable_column ''offset'' SqlBigInteger, nullable_column ''key'' SqlText, nullable_column ''payload'' SqlText,
      required_column ''error'' SqlText, nullable_column ''correlation_id'' SqlText, now_column ''ingested_at'']"

definition revision_0004 :: migration where
  "revision_0004 =
     \<lparr>mg_revision = ''20260209_0004'', mg_down_revision = Some ''20260205_0003'',
      mg_upgrade =
        [CreateTable ''consumer_dlq_events'' dlq_columns,
         CreateIndex ''ix_bo_consumer_dlq_events_ingested_at'' ''consumer_dlq_events'' [''ingested_at''],
         CreateIndex ''ix_bo_consumer_dlq_events_topic'' ''consumer_dlq_events'' [''topic''],
         CreateIndex ''ix_bo_consumer_dlq_events_topic_ingested_at'' ''consumer_dlq_events'' [''topic'', ''ingested_at'']],
      mg_downgrade =
        [DropIndex ''ix_bo_consumer_dlq_events_topic_ingested_at'' ''consumer_dlq_events'',
         DropIndex ''ix_bo_consumer_dlq_events_topic'' ''consumer_dlq_events'',
         DropIndex ''ix_bo_consumer_dlq_events_ingested_at'' ''consumer_dlq_events'',
         DropTable ''consumer_dlq_events'']\<rparr>"

definition revision_0005 :: migration where
  "revision_0005 =
     \<lparr>mg_revision = ''20260212_0005'', mg_down_revision = Some ''20260209_0004'',
      mg_upgrade = [AddColumn ''admin_audit_logs'' (nullable_column ''result_count'' SqlInteger)],
      mg_downgrade = [DropColumn ''admin_audit_logs'' ''result_count'']\<rparr>"

text \<open>The revisions in the order of their \<open>down_revision\<close> links.\<close>

definition revisions :: "migration list" where
  "revisions = [revision_0001, revision_0002, revision_0003, revision_0004, revision_0005]"

section \<open>The schema of the models\<close>

definition models_metadata :: "(string \<times> table_schema) list" where
  "models_metadata =
     [(''ledger_entries'',
       \<lparr>ts_columns =
          [key_column ''tx_id'' SqlText, required_column ''wallet_id'' SqlText,
           required_column ''entry_type'' SqlText, required_column ''amount'' (SqlNumeric 18 2),
           nullable_column ''amount_signed'' (SqlNumeric 18 2), nullable_column ''related_id'' SqlText,
           nullable_column ''related_type'' SqlText, required_column ''event_time'' SqlTimestampTz,
           required_column ''created_at'' SqlTimestampTz, nullable_column ''updated_at'' SqlTimestampTz,
           nullable_column ''source_version'' SqlBigInteger, now_column ''ingested_at''],
        ts_indexes =
          [(''ix_bo_ledger_entries_related_id'', [''related_id'']),
           (''ix_bo_ledger_entries_wallet_event_time'', [''wallet_id'', ''event_time'']),
           (''ix_bo_ledger_entries_event_time'', [''event_time''])]\<rparr>),
      (''payment_orders'',
       \<lparr>ts_columns =
          [key_column ''order_id'' SqlText, nullable_column ''user_id'' SqlText,
           nullable_column ''merchant_name'' SqlText, required_column ''amount'' (SqlNumeric 18 2),
           required_column ''status'' SqlText, required_column ''created_at'' SqlTimestampTz,
           nullable_column ''updated_at'' SqlTimestampTz, nullable_column ''source_version'' SqlBigInteger,
           now_column ''ingested_at''],
        ts_indexes =
          [(''ix_bo_payment_orders_user_id'', [''user_id'']),
           (''ix_bo_payment_orders_merchant_name'', [''merchant_name'']),
           (''ix_bo_payment_orders_status'', [''status'']),
           (''ix_bo_payment_orders_created_at'', [''created_at''])]\<rparr>),
      (''payment_ledger_pairs'',
       \<lparr>ts_columns =
          [key_column ''payment_order_id'' SqlText, nullable_column ''payment_tx_id'' SqlText,
           nullable_column ''receive_tx_id'' SqlText, nullable_column ''payer_wallet_id'' SqlText,
           nullable_column ''payee_wallet_id'' SqlText, nullable_column ''amount'' (SqlNumeric 18 2),
           nullable_column ''status'' SqlText, nullable_column ''event_time'' SqlTimestampTz,
           now_column ''updated_at'', now_column ''ingested_at''],
        ts_indexes =
          [(''ix_bo_payment_ledger_pairs_payment_tx_id'', [''payment_tx_id'']),
           (''ix_bo_payment_ledger_pairs_receive_tx_id'', [''receive_tx_id''])]\<rparr>),
      (''admin_audit_logs'',
       \<lparr>ts_columns =
          [identity_column ''audit_id'', nullable_column ''actor_id'' SqlText,
           nullable_column ''actor_roles'' SqlText, required_column ''action'' SqlText,
           required_column ''resource_type'' SqlText, nullable_column ''resource_id'' SqlText,
           required_column ''result'' SqlText, required_column ''status_code'' SqlInteger,
           nullable_column ''ip'' SqlText, nullable_column ''user_agent'' SqlText,
           required_column ''request_method'' SqlText, required_column ''request_path'' SqlText,
           nullable_column ''request_query'' SqlText, now_column ''requested_at'',
           nullable_column ''duration_ms'' SqlInteger, nullable_column ''result_count'' SqlInteger],
        ts_indexes =
          [(''ix_bo_admin_audit_logs_requested_at'', [''requested_at'']),
           (''ix_bo_admin_audit_logs_resource_id'', [''resource_id'']),
           (''ix_bo_admin_audit_logs_actor_id'', [''actor_id'']),
           (''ix_bo_admin_audit_logs_resource_time'', [''resource_id'', ''requested_at''])]\<rparr>),
      (''consumer_dlq_events'',
       \<lparr>ts_columns =
          [identity_column ''dlq_id'', required_column ''topic'' SqlText,
           nullable_column ''partition'' SqlInteger, nullable_column ''offset'' SqlBigInteger,
           nullable_column ''key'' SqlText, nullable_column ''payload'' SqlText,
           required_column ''error'' SqlText, nullable_column ''correlation_id'' SqlText,
           now_column ''ingested_at''],
        ts_indexes =
          [(''ix_bo_consumer_dlq_events_ingested_at'', [''ingested_at'']),
           (''ix_bo_consumer_dlq_events_topic'', [''topic'']),
           (''ix_bo_consumer_dlq_events_topic_ingested_at'', [''topic'', ''ingested_at''])]\<rparr>)]"

section \<open>Well-formed schemas\<close>

definition table_ok :: "table_schema \<Rightarrow> bool" where
  "table_ok t = list_all (\<lambda>(i, cs). list_all (has_column t) cs) (ts_indexes t)"

definition schema_ok :: "db_schema \<Rightarrow> bool" where
  "schema_ok s =
     (distinct (map fst (sc_tables s)) \<and> distinct (index_names s) \<and> list_all (\<lambda>(n, t). table_ok t) (sc_tables s)
      \<and> (sc_created s \<or> sc_tables s = []))"

fun undo_op :: "schema_op \<Rightarrow> schema_op" where
  "undo_op (CreateTable n cols) = DropTable n"
| "undo_op (CreateIndex i n cols) = DropIndex i n"
| "undo_op (AddColumn n col) = DropColumn n (tc_name col)"
| "undo_op op = op"

fun additive :: "schema_op \<Rightarrow> bool" where
  "additive (CreateTable n cols) = True"
| "additive (CreateIndex i n cols) = True"
| "additive (AddColumn n col) = True"
| "additive op = False"

text \<open>Replacing the one table of a name.\<close>

lemma map_other_tables: "n \<notin> fst ` set xs \<Longrightarrow> map (\<lambda>(m, u). if m = n then (m, t) else (m, u)) xs = xs"
  by (induction xs) auto

lemma on_table_split:
  assumes "on_table n f s = Some s'" and "distinct (map fst (sc_tables s))"
  obtains before t after t' where "sc_tables s = before @ (n, t) # after" "f t = Some t'"
    "s' = s\<lparr>sc_tables := before @ (n, t') # after\<rparr>" "n \<notin> fst ` set before" "n \<notin> fst ` set after"
proof -
  obtain t t' where t: "map_of (sc_tables s) n = Some t" "f t = Some t'"
    and s': "s' = s\<lparr>sc_tables := map (\<lambda>(m, u). if m = n then (m, t') else (m, u)) (sc_tables s)\<rparr>"
    using assms(1) by (auto simp: on_table_def bind_eq_Some_conv)
  obtain before after where split: "sc_tables s = before @ (n, t) # after"
    using t(1) by (meson map_of_SomeD split_list)
  with assms(2) have new: "n \<notin> fst ` set before" "n \<notin> fst ` set after" by auto
  with s' split have "s' = s\<lparr>sc_tables := before @ (n, t') # after\<rparr>"
    by (simp only: map_append list.map map_other_tables [OF new(1)] map_other_tables [OF new(2)] prod.case simp_thms if_True)
  with that [OF split t(2) _ new] show thesis by blast
qed

lemma on_table_join:
  assumes "sc_tables s = before @ (n, t) # after" and "f t = Some t'"
    and "n \<notin> fst ` set before" and "n \<notin> fst ` set after"
  shows "on_table n f s = Some (s\<lparr>sc_tables := before @ (n, t') # after\<rparr>)"
proof -
  have "map (\<lambda>(m, u). if m = n then (m, t') else (m, u)) (sc_tables s) = before @ (n, t') # after"
    by (simp only: assms(1) map_append list.map map_other_tables [OF assms(3)] map_other_tables [OF assms(4)]
        prod.case simp_thms if_True)
  moreover have "map_of before n = None" using assms(3) by (simp add: map_of_eq_None_iff)
  ultimately show ?thesis by (simp add: on_table_def assms(2) map_add_def) (simp add: assms(1,2) map_add_def)
qed

lemma has_column_append: "has_column (t\<lparr>ts_columns := ts_columns t @ [col]\<rparr>) c \<longleftrightarrow> has_column t c \<or> tc_name col = c"
  by (simp add: has_column_def)

lemma has_column_indexes [simp]: "has_column (t\<lparr>ts_indexes := is\<rparr>) = has_column t"
  by (simp add: has_column_def fun_eq_iff)

lemma on_tableE:
  assumes "on_table n f s = Some s'" and "schema_ok s"
  obtains before t after t' where "sc_tables s = before @ (n, t) # after" "f t = Some t'"
    "s' = s\<lparr>sc_tables := before @ (n, t') # after\<rparr>" "n \<notin> fst ` set before" "n \<notin> fst ` set after"
  using on_table_split [OF assms(1)] assms(2) that by (auto simp: schema_ok_def)

lemma schema_ok_split:
  "sc_tables s = before @ (n, t) # after \<Longrightarrow> schema_ok s \<longleftrightarrow>
     distinct (map fst before) \<and> distinct (map fst after) \<and> n \<notin> fst ` set before \<and> n \<notin> fst ` set after
     \<and> fst ` set before \<inter> fst ` set after = {} \<and> distinct (index_names s)
     \<and> list_all (\<lambda>(n, t). table_ok t) before \<and> table_ok t \<and> list_all (\<lambda>(n, t). table_ok t) after \<and> sc_created s"
  by (simp add: schema_ok_def) blast

lemma additive_keeps_ok:
  assumes "exec_op op s = Some s'" and "additive op" and "schema_ok s"
  shows "schema_ok s'"
proof (cases op)
  case (CreateTable n cols)
  with assms show ?thesis
    by (simp add: schema_ok_def index_names_def table_ok_def split: if_splits) force
next
  case (CreateIndex i n cols)
  with assms(1) have fresh: "i \<notin> set (index_names s)"
    and run: "on_table n (\<lambda>t. if list_all (has_column t) cols
        then Some (t\<lparr>ts_indexes := ts_indexes t @ [(i, cols)]\<rparr>) else None) s = Some s'"
    by (simp_all split: if_splits)
  obtain before t after t' where split: "sc_tables s = before @ (n, t) # after" "list_all (has_column t) cols"
      "t' = t\<lparr>ts_indexes := ts_indexes t @ [(i, cols)]\<rparr>" "s' = s\<lparr>sc_tables := before @ (n, t') # after\<rparr>"
    by (rule on_tableE [OF run assms(3)]) (simp split: if_splits)
  have "table_ok t'" using assms(3) split(2) by (simp add: schema_ok_split [OF split(1)] table_ok_def split(3))
  moreover have "distinct (index_names s')"
    using assms(3) fresh by (simp add: schema_ok_split [OF split(1)]) (auto simp: index_names_def split)
  ultimately show ?thesis
    using assms(3) schema_ok_split [of s' before n t' after] by (simp add: schema_ok_split [OF split(1)] split(4))
next
  case (AddColumn n col)
  with assms(1) have run: "on_table n (\<lambda>t. if has_column t (tc_name col) then None
      else Some (t\<lparr>ts_columns := ts_columns t @ [col]\<rparr>)) s = Some s'" by simp
  obtain before t after t' where split: "sc_tables s = before @ (n, t) # after"
      "t' = t\<lparr>ts_columns := ts_columns t @ [col]\<rparr>" "s' = s\<lparr>sc_tables := before @ (n, t') # after\<rparr>"
    by (rule on_tableE [OF run assms(3)]) (simp split: if_splits)
  have "table_ok t'"
    using assms(3) by (auto simp: schema_ok_split [OF split(1)] table_ok_def split(2) has_column_append list_all_iff)
  moreover have "index_names s' = index_names s" by (simp add: index_names_def split)
  ultimately show ?thesis
    using assms(3) schema_ok_split [of s' before n t' after] by (simp add: schema_ok_split [OF split(1)] split(3))
qed (use assms(2) in simp_all)

lemma undo_additive:
  assumes "exec_op op s = Some s'" and "additive op" and "schema_ok s"
  shows "exec_op (undo_op op) s' = Some s"
proof (cases op)
  case (CreateTable n cols)
  with assms have "n \<notin> fst ` set (sc_tables s)" by (auto split: if_splits)
  then have "filter (\<lambda>(m, t). m \<noteq> n) (sc_tables s) = sc_tables s" by (force simp: filter_id_conv)
  with CreateTable assms show ?thesis by (auto split: if_splits)
next
  case (CreateIndex i n cols)
  with assms(1) have fresh: "i \<notin> set (index_names s)"
    and run: "on_table n (\<lambda>t. if list_all (has_column t) cols
        then Some (t\<lparr>ts_indexes := ts_indexes t @ [(i, cols)]\<rparr>) else None) s = Some s'"
    by (auto split: if_splits)
  obtain before t after t' where split: "sc_tables s = before @ (n, t) # after"
      "t' = t\<lparr>ts_indexes := ts_indexes t @ [(i, cols)]\<rparr>" "s' = s\<lparr>sc_tables := before @ (n, t') # after\<rparr>"
      "n \<notin> fst ` set before" "n \<notin> fst ` set after"
    by (rule on_tableE [OF run assms(3)]) (simp split: if_splits)
  have "filter (\<lambda>(j, cs). j \<noteq> i) (ts_indexes t) = ts_indexes t"
  proof -
    have "fst ` set (ts_indexes t) \<subseteq> set (index_names s)" by (auto simp: index_names_def split(1))
    with fresh show ?thesis by (force simp: filter_id_conv)
  qed
  then have "(if i \<in> fst ` set (ts_indexes t') then Some (t'\<lparr>ts_indexes := filter (\<lambda>(j, cs). j \<noteq> i) (ts_indexes t')\<rparr>)
      else None) = Some t" unfolding split(2) by simp
  from on_table_join [of s' before n t' after
      "\<lambda>t. if i \<in> fst ` set (ts_indexes t) then Some (t\<lparr>ts_indexes := filter (\<lambda>(j, cs). j \<noteq> i) (ts_indexes t)\<rparr>)
        else None", OF _ this split(4,5)]
  have "exec_op (DropIndex i n) s' = Some (s'\<lparr>sc_tables := before @ (n, t) # after\<rparr>)" by (simp add: split(3))
  with split CreateIndex show ?thesis by simp
next
  case (AddColumn n col)
  with assms(1) have run: "on_table n (\<lambda>t. if has_column t (tc_name col) then None
      else Some (t\<lparr>ts_columns := ts_columns t @ [col]\<rparr>)) s = Some s'" by simp
  obtain before t after t' where split: "sc_tables s = before @ (n, t) # after"
      "t' = t\<lparr>ts_columns := ts_columns t @ [col]\<rparr>" "s' = s\<lparr>sc_tables := before @ (n, t') # after\<rparr>"
      "\<not> has_column t (tc_name col)" "n \<notin> fst ` set before" "n \<notin> fst ` set after"
    by (rule on_tableE [OF run assms(3)]) (simp split: if_splits)
  have "table_ok t" using assms(3) by (simp add: schema_ok_def split(1))
  then have "filter (\<lambda>(i, cs). tc_name col \<notin> set cs) (ts_indexes t) = ts_indexes t"
    using split(4) by (auto simp: filter_id_conv table_ok_def list_all_iff)
  moreover have "filter (\<lambda>c. tc_name c \<noteq> tc_name col) (ts_columns t) = ts_columns t"
    using split(4) by (auto simp: filter_id_conv has_column_def list_ex_iff)
  ultimately have "(if has_column t' (tc_name col)
      then Some (t'\<lparr>ts_columns := filter (\<lambda>c. tc_name c \<noteq> tc_name col) (ts_columns t'),
                    ts_indexes := filter (\<lambda>(i, cs). tc_name col \<notin> set cs) (ts_indexes t')\<rparr>)
      else None) = Some t" unfolding split(2) by (simp add: has_column_append)
  from on_table_join [of s' before n t' after "\<lambda>t. if has_column t (tc_name col)
      then Some (t\<lparr>ts_columns := filter (\<lambda>c. tc_name c \<noteq> tc_name col) (ts_columns t),
                    ts_indexes := filter (\<lambda>(i, cs). tc_name col \<notin> set cs) (ts_indexes t)\<rparr>)
      else None", OF _ this split(5,6)]
  have "exec_op (DropColumn n (tc_name col)) s' = Some (s'\<lparr>sc_tables := before @ (n, t) # after\<rparr>)" by (simp add: split(3))
  with split AddColumn show ?thesis by simp
qed (use assms(2) in simp_all)

lemma exec_ops_append: "exec_ops (xs @ ys) s = Option.bind (exec_ops xs s) (exec_ops ys)"
  by (induction xs arbitrary: s) (simp_all split: bind_split)

lemma undo_ops:
  assumes "exec_ops ops s = Some s'" and "list_all additive ops" and "schema_ok s"
  shows "exec_ops (map undo_op (rev ops)) s' = Some s \<and> schema_ok s'"
  using assms
proof (induction ops arbitrary: s)
  case (Cons op ops)
  obtain u where u: "exec_op op s = Some u" "exec_ops ops u = Some s'"
    using Cons.prems(1) by (auto simp: bind_eq_Some_conv)
  have "schema_ok u" using additive_keeps_ok [OF u(1)] Cons.prems by simp
  with Cons.IH [OF u(2)] Cons.prems undo_additive [OF u(1)] show ?case by (simp add: exec_ops_append)
qed simp

lemma additive_revisions:
  "m \<in> {revision_0002, revision_0003, revision_0004, revision_0005} \<Longrightarrow>
     list_all additive (mg_upgrade m) \<and> mg_downgrade m = map undo_op (rev (mg_upgrade m))"
  by (auto simp: revision_0002_def revision_0003_def revision_0004_def revision_0005_def nullable_column_def)

text \<open>
  C23. Downgrading undoes upgrading: on every well-formed schema on which the upgrade of a
  revision succeeds its downgrade succeeds and restores the schema exactly; the first revision,
  which also creates the schema, when there was none before.
\<close>

theorem downgrade_undoes_upgrade:
  assumes "m \<in> set revisions" and "schema_ok s" and "exec_ops (mg_upgrade m) s = Some s'"
    and "mg_revision m = ''20260205_0001'' \<Longrightarrow> \<not> sc_created s"
  shows "exec_ops (mg_downgrade m) s' = Some s"
proof (cases "m = revision_0001")
  case False
  with assms(1) have "m \<in> {revision_0002, revision_0003, revision_0004, revision_0005}" by (simp add: revisions_def)
  from additive_revisions [OF this] undo_ops [OF assms(3) _ assms(2)] show ?thesis by simp
next
  case True
  define ops where "ops = tl (mg_upgrade revision_0001)"
  let ?s = "s\<lparr>sc_created := True\<rparr>"
  have fresh: "\<not> sc_created s" "sc_tables s = []"
    using assms(2,4) True by (auto simp: schema_ok_def revision_0001_def)
  have ops: "mg_upgrade revision_0001 = CreateSchema # ops" "list_all additive ops"
    "mg_downgrade revision_0001 = map undo_op (rev ops) @ [DropSchema]"
    by (simp_all add: revision_0001_def upgrade_0001_def downgrade_0001_def ops_def)
  have "exec_ops ops ?s = Some s'" using assms(3) True ops(1) by simp
  from undo_ops [OF this ops(2)] have "exec_ops (map undo_op (rev ops)) s' = Some ?s"
    using assms(2) by (simp add: schema_ok_def index_names_def)
  with fresh show ?thesis by (simp add: True ops(3) exec_ops_append)
qed

definition no_schema :: db_schema where
  "no_schema = \<lparr>sc_created = False, sc_tables = []\<rparr>"

lemma first_revision_runs: "exec_ops (mg_upgrade revision_0001) no_schema \<noteq> None"
  by code_simp

theorem downgrade_undoes_upgrade_witness:
  "Option.bind (exec_ops (mg_upgrade revision_0001) no_schema) (exec_ops (mg_downgrade revision_0001)) = Some no_schema"
proof -
  obtain s where "exec_ops (mg_upgrade revision_0001) no_schema = Some s" using first_revision_runs by auto
  moreover from downgrade_undoes_upgrade [OF _ _ this]
  have "exec_ops (mg_downgrade revision_0001) s = Some no_schema"
    by (simp add: revisions_def no_schema_def schema_ok_def index_names_def)
  ultimately show ?thesis by simp
qed

section \<open>The models\<close>

definition same_columns :: "table_column list \<Rightarrow> table_column list \<Rightarrow> bool" where
  "same_columns xs ys =
     (distinct (map tc_name xs) \<and> distinct (map tc_name ys) \<and> list_all (\<lambda>c. c \<in> set ys) xs \<and> list_all (\<lambda>c. c \<in> set xs) ys)"

text \<open>Tables that an operation does not name are beside it: the operation runs as without them.\<close>

definition beside :: "(string \<times> table_schema) list \<Rightarrow> db_schema \<Rightarrow> db_schema" where
  "beside xs s = s\<lparr>sc_tables := xs @ sc_tables s\<rparr>"

definition index_names_of :: "(string \<times> table_schema) list \<Rightarrow> string list" where
  "index_names_of xs = concat (map (\<lambda>(n, t). map fst (ts_indexes t)) xs)"

fun names_within :: "string list \<Rightarrow> string list \<Rightarrow> schema_op \<Rightarrow> bool" where
  "names_within tables indexes CreateSchema = True"
| "names_within tables indexes (CreateTable n cols) = (n \<in> set tables)"
| "names_within tables indexes (CreateIndex i n cols) = (n \<in> set tables \<and> i \<in> set indexes)"
| "names_within tables indexes (AddColumn n col) = (n \<in> set tables)"
| "names_within tables indexes op = False"

lemma on_table_beside:
  "n \<notin> fst ` set xs \<Longrightarrow> on_table n f (beside xs s) = map_option (beside xs) (on_table n f s)"
proof -
  assume n: "n \<notin> fst ` set xs"
  then have "map_of xs n = None" by (simp add: map_of_eq_None_iff)
  then show ?thesis
    using map_other_tables [OF n]
    by (cases "map_of (sc_tables s) n") (auto simp: on_table_def beside_def map_add_def option.map_comp comp_def)
qed

lemma exec_op_beside:
  assumes "names_within tables indexes op" and "set tables \<inter> fst ` set xs = {}"
    and "set indexes \<inter> set (index_names_of xs) = {}"
  shows "exec_op op (beside xs s) = map_option (beside xs) (exec_op op s)"
proof (cases op)
  case CreateSchema
  then show ?thesis by (simp add: beside_def)
next
  case (CreateTable n cols)
  with assms(1,2) have "n \<notin> fst ` set xs" by auto
  with CreateTable show ?thesis by (auto simp: beside_def)
next
  case (CreateIndex i n cols)
  with assms have "n \<notin> fst ` set xs" "i \<notin> set (index_names_of xs)" by auto
  moreover have "set (index_names (beside xs s)) = set (index_names_of xs) \<union> set (index_names s)"
    by (simp add: index_names_def index_names_of_def beside_def)
  ultimately show ?thesis using CreateIndex by (simp add: on_table_beside)
next
  case (AddColumn n col)
  with assms(1,2) have "n \<notin> fst ` set xs" by auto
  with AddColumn show ?thesis by (simp add: on_table_beside)
qed (use assms(1) in simp_all)

lemma exec_ops_beside:
  assumes "list_all (names_within tables indexes) ops" and "set tables \<inter> fst ` set xs = {}"
    and "set indexes \<inter> set (index_names_of xs) = {}"
  shows "exec_ops ops (beside xs s) = map_option (beside xs) (exec_ops ops s)"
  using assms(1)
proof (induction ops arbitrary: s)
  case (Cons op ops)
  then show ?case
    using exec_op_beside [OF _ assms(2,3), of op s] by (cases "exec_op op s") simp_all
qed simp

definition matches_models :: "(string \<times> table_schema) list \<Rightarrow> bool" where
  "matches_models ts =
     list_all2 (\<lambda>(n, t) (m, u). n = m \<and> same_columns (ts_columns t) (ts_columns u) \<and> ts_indexes t = ts_indexes u)
       ts models_metadata"

lemma upgrades_of_empty:
  "case exec_ops (concat (map mg_upgrade revisions)) \<lparr>sc_created = b, sc_tables = []\<rparr> of
     None \<Rightarrow> False | Some s \<Rightarrow> sc_created s \<and> matches_models (sc_tables s)"
proof -
  have "exec_ops (concat (map mg_upgrade revisions)) \<lparr>sc_created = b, sc_tables = []\<rparr> =
      exec_ops (concat (map mg_upgrade revisions)) no_schema"
    by (simp add: revisions_def revision_0001_def upgrade_0001_def no_schema_def)
  moreover have "case exec_ops (concat (map mg_upgrade revisions)) no_schema of
      None \<Rightarrow> False | Some s \<Rightarrow> sc_created s \<and> matches_models (sc_tables s)" by code_simp
  ultimately show ?thesis by simp
qed

lemma upgrades_name_models:
  "list_all (names_within (map fst models_metadata) (index_names_of models_metadata)) (concat (map mg_upgrade revisions))"
  by code_simp

text \<open>
  C38. On every database in which none of the names of the models' tables and indexes is taken, all
  upgrades together succeed, leave the tables that are there as they are, and add the schema that
  the models declare: the same tables, in each the same columns with the same types, keys and
  defaults (in another order where a column was added later), and the same indexes.
\<close>

theorem migrations_build_the_models:
  assumes "fst ` set models_metadata \<inter> fst ` set (sc_tables s) = {}"
    and "set (index_names_of models_metadata) \<inter> set (index_names_of (sc_tables s)) = {}"
  shows "\<exists>ts. exec_ops (concat (map mg_upgrade revisions)) s = Some \<lparr>sc_created = True, sc_tables = sc_tables s @ ts\<rparr>
    \<and> list_all2 (\<lambda>(n, t) (m, u). n = m \<and> same_columns (ts_columns t) (ts_columns u) \<and> ts_indexes t = ts_indexes u)
        ts models_metadata"
proof -
  let ?empty = "\<lparr>sc_created = sc_created s, sc_tables = []\<rparr>"
  have s: "s = beside (sc_tables s) ?empty" by (simp add: beside_def)
  obtain s0 where s0: "exec_ops (concat (map mg_upgrade revisions)) ?empty = Some s0" "sc_created s0" "matches_models (sc_tables s0)"
    using upgrades_of_empty [of "sc_created s"] by (auto split: option.splits)
  have "exec_ops (concat (map mg_upgrade revisions)) s = Some (beside (sc_tables s) s0)"
    using exec_ops_beside [OF upgrades_name_models, of "sc_tables s" ?empty] assms s0(1) s by simp
  moreover have "beside (sc_tables s) s0 = \<lparr>sc_created = True, sc_tables = sc_tables s @ sc_tables s0\<rparr>"
    using s0(2) by (simp add: beside_def)
  ultimately show ?thesis using s0(3) unfolding matches_models_def by auto
qed

definition other_schema :: db_schema where
  "other_schema =
     \<lparr>sc_created = True,
      sc_tables = [(''reports'', \<lparr>ts_columns = [key_column ''id'' SqlText], ts_indexes = [(''ix_reports'', [''id''])]\<rparr>)]\<rparr>"

theorem migrations_build_the_models_witness:
  "\<exists>ts. exec_ops (concat (map mg_upgrade revisions)) other_schema =
     Some \<lparr>sc_created = True, sc_tables = sc_tables other_schema @ ts\<rparr> \<and> length ts = length models_metadata"
proof -
  have "fst ` set models_metadata \<inter> fst ` set (sc_tables other_schema) = {}"
    "set (index_names_of models_metadata) \<inter> set (index_names_of (sc_tables other_schema)) = {}" by code_simp+
  from migrations_build_the_models [OF this] show ?thesis by (auto dest: list_all2_lengthD)
qed

text \<open>The links of the revisions form the chain in which they are listed.\<close>

lemma revisions_chain:
  "map mg_down_revision revisions = None # map Some (butlast (map mg_revision revisions))"
  by code_simp

end
