(* ===== verification/ReplayProperties.thy ===== *)
theory ReplayProperties
  imports Replay ConsumerProperties
begin

text \<open>
  The properties of the replay: a dead-lettered message comes back with its topic and its value,
  rows leave in order and within the filter, and what goes wrong.
\<close>

section \<open>Lemmas\<close>

lemma strip_nonempty: "\<not> is_space c \<Longrightarrow> strip (c # s) \<noteq> []"
  by (auto simp: strip_def dropWhile_eq_Nil_conv)

lemma json_ok_raw:
  "json_ok fr asc v \<Longrightarrow> json_ok fr False v"
  "elems_ok fr asc xs \<Longrightarrow> elems_ok fr False xs"
  "items_ok fr asc d \<Longrightarrow> items_ok fr False d"
  by (induction fr asc v and fr asc xs and fr asc d rule: json_ok_elems_ok_items_ok.induct)
    (auto simp: text_ok_def split: pykey.splits)

lemma text_ok_raw [simp]: "text_ok False s"
  by (simp add: text_ok_def)

lemma load_dlq_line:
  assumes "json_ok fr False (PyDict d)" and "dumps False (PyDict d) = Some line"
  shows "loads fr line = Inr (PyDict d)" and "strip line \<noteq> []"
proof -
  show "loads fr line = Inr (PyDict d)" by (rule loads_dumps [OF assms])
  have "\<not> is_space (CHR ''{'')" by code_simp
  moreover have "line = CHR ''{'' # tl line" using assms(2) by (auto simp: dumps_def split: if_splits)
  ultimately show "strip line \<noteq> []" using strip_nonempty by metis
qed

text \<open>One line with a text as topic and a payload that can be sent.\<close>

lemma replay_one:
  assumes "loads (float_repr p) line = Inr (PyDict d)" and "strip line \<noteq> []"
    and "dict_get d ''topic'' = PyStr t" and "t \<noteq> []" and "dict_get d ''payload'' \<noteq> PyNone"
    and "replay_value (dict_get d ''payload'') = Inr v"
  shows "replay_lines p None None (line # rest) s =
    replay_lines p None None rest (s\<lparr>sn_queue := sn_queue s @ [\<lparr>og_topic = t, og_key = None, og_value = v\<rparr>]\<rparr>)"
  using assms by (simp add: Let_def in_topics_def used_up_def produce_to_def)

lemma dlq_payload_json_ok:
  assumes "decoded_key msg = Inr key" and "recordable msg cid"
  shows "json_ok fr False (PyDict (dlq_payload_of p rt msg key e cid now))"
  using assms
  by (auto simp: dlq_payload_of_def opt_str_def recordable_def decoded_key_def rbind_eq_Inr
      split: if_splits option.splits)

section \<open>Messages come back\<close>

text \<open>
  C34. A message with a UTF-8 value that the consumer dead-letters into the file, its record being
  writable, comes back from its line with its topic and, byte for byte, with its value; the key is
  not sent again.
\<close>

theorem dead_letter_replays_the_message:
  assumes "consume_message p rt msg w = (Inr False, w')" and "sinks_ok p rt" and "message_recordable p msg"
    and "cf_dlq_backend (rt_config rt) \<noteq> ''db''" and "km_topic msg \<noteq> []"
    and "km_value msg = Some v" and "v \<noteq> []" and "valid_utf8 v"
  shows "\<exists>line. w_dlq_file w' = w_dlq_file w @ [line]
    \<and> replay_lines p None None [line] s =
        (Inr (), s\<lparr>sn_queue := sn_queue s @ [\<lparr>og_topic = km_topic msg, og_key = None, og_value = v\<rparr>]\<rparr>)"
  using assms(1)
proof (cases rule: consume_message_cases)
  case (failed u x e dl)
  then obtain y where dl: "dl = Inr y" by (auto split: sum.splits)
  let ?cid = "message_correlation_id msg (load_payload p (km_value msg))"
  from failed(3) show ?thesis
  proof (cases rule: dead_letter_cases)
    case (sunk key v1 v2 v3 now)
    let ?d = "dlq_payload_of p rt msg key e ?cid now"
    have rec: "recordable msg ?cid" using assms(3) by (simp add: message_recordable_def)
    obtain line where line: "w_dlq_file v3 = w_dlq_file v2 @ [line]" "dumps False (PyDict ?d) = Some line"
      using write_dlq_payload_record [OF sunk(7) _ dlq_payload_writable [OF assms(2) rec sunk(1)]] assms(2,4)
      by (auto simp: sinks_ok_def)
    have "dict_get ?d ''topic'' = PyStr (km_topic msg)" "dict_get ?d ''payload'' = PyStr v"
      using assms(6-8) by (simp_all add: dlq_payload_of_def decode_replace_valid)
    with replay_one [OF load_dlq_line [OF dlq_payload_json_ok [OF sunk(1) rec] line(2)], where v = v and rest = "[]" and s = s] assms(5,8)
    have "replay_lines p None None [line] s =
        (Inr (), s\<lparr>sn_queue := sn_queue s @ [\<lparr>og_topic = km_topic msg, og_key = None, og_value = v\<rparr>]\<rparr>)"
      by (simp add: replay_value_def encode_utf8_def)
    moreover have "w_dlq_file w' = w_dlq_file v3"
      using sunk(8) by (auto simp: commit_message_def Let_def split: if_splits)
    moreover note process_message_dlq_rows(2) [OF failed(1)]
    ultimately show ?thesis using line(1) sunk(4,6) failed(2) by auto
  qed (use dl in simp)
qed simp

definition file_runtime :: consumer_runtime where
  "file_runtime = example_runtime\<lparr>rt_config := example_config\<lparr>cf_dlq_backend := ''file''\<rparr>\<rparr>"

lemma bad_message_load: "load_payload example_platform (km_value bad_message) = Inl JSONDecodeError"
  by code_simp

lemma file_sinks_ok: "sinks_ok example_platform file_runtime"
  using example_sinks_ok by (simp add: sinks_ok_def file_runtime_def)

theorem dead_letter_replays_the_message_witness:
  "\<exists>w' line. consume_message example_platform file_runtime bad_message (start_world empty_db) = (Inr False, w')
     \<and> w_dlq_file w' = [line]
     \<and> sn_queue (snd (replay_lines example_platform None None [line] (start_sender w'))) =
         [\<lparr>og_topic = ''payment.order.upserted'', og_key = None, og_value = ''not json''\<rparr>]"
proof -
  obtain w' where run: "consume_message example_platform file_runtime bad_message (start_world empty_db) = (Inr False, w')"
    using refused_message_dead_lettered [of example_platform bad_message file_runtime JSONDecodeError] bad_message_load
    by (auto simp: decoded_key_def bad_message_def example_message_def example_platform_def)
  have "valid_utf8 ''not json''" by code_simp
  then obtain line where "w_dlq_file w' = w_dlq_file (start_world empty_db) @ [line]"
    "replay_lines example_platform None None [line] (start_sender w') = (Inr (), (start_sender w')
       \<lparr>sn_queue := sn_queue (start_sender w') @ [\<lparr>og_topic = km_topic bad_message, og_key = None, og_value = ''not json''\<rparr>]\<rparr>)"
    using dead_letter_replays_the_message [OF run file_sinks_ok example_recordable(2), where v = "''not json''" and s = "start_sender w'"]
    by (auto simp: bad_message_def example_message_def file_runtime_def simp del: replay_lines.simps)
  then have "w_dlq_file w' = [line]" and "sn_queue (snd (replay_lines example_platform None None [line] (start_sender w')))
      = [\<lparr>og_topic = km_topic bad_message, og_key = None, og_value = ''not json''\<rparr>]"
    by (simp_all only: snd_conv) (simp_all add: start_world_def start_sender_def)
  with run show ?thesis by (auto simp: bad_message_def example_message_def simp del: replay_lines.simps)
qed

section \<open>Rows\<close>

text \<open>What one row is sent as, or the exception that reading or encoding it raises.\<close>

definition row_messages ::
  "(consumer_dlq_event \<Rightarrow> consumer_dlq_event result) \<Rightarrow> consumer_dlq_event \<Rightarrow> outgoing list result" where
  "row_messages read_row e =
     rbind (read_row e) (\<lambda>row.
       case dq_payload row of
         None \<Rightarrow> Inr []
       | Some payload \<Rightarrow>
           if dq_topic row = [] then Inr []
           else if valid_utf8 payload then Inr [\<lparr>og_topic = dq_topic row, og_key = None, og_value = payload\<rparr>]
           else Inl UnicodeEncodeError)"

lemma replay_rows_run:
  "\<exists>more. replay_rows read_row es s =
     (case rmap (row_messages read_row) es of Inl err \<Rightarrow> Inl err | Inr ms \<Rightarrow> Inr (),
      s\<lparr>sn_queue := sn_queue s @ more\<rparr>)
   \<and> (\<forall>ms. rmap (row_messages read_row) es = Inr ms \<longrightarrow> more = concat ms)"
proof (induction es arbitrary: s)
  case (Cons e es)
  show ?case
  proof (cases "row_messages read_row e")
    case (Inl err)
    then have "replay_rows read_row (e # es) s = (Inl err, s\<lparr>sn_queue := sn_queue s @ []\<rparr>)"
      by (cases "read_row e") (auto simp: row_messages_def encode_utf8_def split: option.splits list.splits if_splits)
    with Inl show ?thesis by (intro exI [of _ "[]"]) simp
  next
    case (Inr ms)
    then have step: "replay_rows read_row (e # es) s = replay_rows read_row es (s\<lparr>sn_queue := sn_queue s @ ms\<rparr>)"
      by (cases "read_row e") (auto simp: row_messages_def encode_utf8_def split: option.splits list.splits if_splits)
    obtain more where more: "replay_rows read_row es (s\<lparr>sn_queue := sn_queue s @ ms\<rparr>) =
        (case rmap (row_messages read_row) es of Inl err \<Rightarrow> Inl err | Inr ms \<Rightarrow> Inr (),
         s\<lparr>sn_queue := sn_queue s @ ms @ more\<rparr>)"
      "\<forall>xs. rmap (row_messages read_row) es = Inr xs \<longrightarrow> more = concat xs"
      using Cons.IH [of "s\<lparr>sn_queue := sn_queue s @ ms\<rparr>"] by auto
    show ?thesis
      unfolding step more(1)
      using more(2) Inr by (intro exI [of _ "ms @ more"]) (cases "rmap (row_messages read_row) es"; auto)
  qed
qed simp

lemma replay_select_run:
  assumes "\<forall>n. \<not> db_fault p n" and "opt_all (list_all sql_text_ok) (df_topics f)"
  shows "\<exists>w'. on_world (session_scope p (db_query p (\<lambda>d.
      rbind (sql_check (opt_all (list_all sql_text_ok) (df_topics f))) (\<lambda>_. Inr (select_events f d))))) s
    = (Inr (select_events f (w_db (sn_world s))), s\<lparr>sn_world := w'\<rparr>)"
  using assms by (simp add: on_world_def session_scope_def db_query_run db_call_def pbind_def sql_check_def)
    (auto simp: db_query_def db_call_def pbind_def)


definition example_row :: "int \<Rightarrow> int \<Rightarrow> string \<Rightarrow> consumer_dlq_event" where
  "example_row i t v =
     \<lparr>dq_dlq_id = i, dq_topic = ''orders'', dq_partition = None, dq_offset = None, dq_key = Some ''k'',
      dq_payload = Some v, dq_error = ''parse_error'', dq_correlation_id = None, dq_ingested_at = Utc t\<rparr>"

definition rows_db :: db where
  "rows_db = empty_db\<lparr>consumer_dlq_events := [example_row 1 20 ''b'', example_row 2 10 ''a'', example_row 3 30 ''c'']\<rparr>"

definition example_filter :: dlq_filter where
  "example_filter = \<lparr>df_topics = Some [''orders''], df_since = None, df_until = Some (Utc 25),
     df_min_id = None, df_max_id = None, df_limit = Some 5\<rparr>"

lemma example_filter_ok: "opt_all (list_all sql_text_ok) (df_topics example_filter)"
  by code_simp

lemma example_no_db_fault: "\<forall>n. \<not> db_fault example_platform n"
  by (simp add: example_platform_def)


text \<open>
  With SQLAlchemy's default, which expires the rows at the commit, every row read after the session is
  closed raises: then nothing that is selected is ever replayed from the table.
\<close>

lemma detached_rows_stop_the_replay:
  assumes "\<And>e. read_row e = Inl DetachedInstanceError" and "\<forall>n. \<not> db_fault p n"
    and "opt_all (list_all sql_text_ok) (df_topics f)" and "select_events f (w_db w) \<noteq> []"
  shows "\<exists>s'. replay_db read_row p (Inr c) f (start_sender w) = (Inl DetachedInstanceError, s')"
proof -
  obtain e es where rows: "select_events f (w_db w) = e # es" using assms(4) by (cases "select_events f (w_db w)") auto
  let ?s = "(start_sender w)\<lparr>sn_settings := build_kafka_client_config c\<rparr>"
  obtain w' where "on_world (session_scope p (db_query p (\<lambda>d.
      rbind (sql_check (opt_all (list_all sql_text_ok) (df_topics f))) (\<lambda>_. Inr (select_events f d))))) ?s
    = (Inr (e # es), ?s\<lparr>sn_world := w'\<rparr>)"
    using replay_select_run [OF assms(2,3), of ?s] rows by (auto simp: start_sender_def)
  then show ?thesis
    unfolding replay_db_def
    by (simp add: open_producer_def pbind_run [of "on_world a" for a] pbind_run [of "pbind (plift r) k" for r k] assms(1))
qed

section \<open>Lines\<close>

text \<open>The line is a record with a topic and a payload that can be sent, and this is its message.\<close>

definition replayable :: "platform \<Rightarrow> string \<Rightarrow> outgoing \<Rightarrow> bool" where
  "replayable p line m \<longleftrightarrow>
     (\<exists>d. loads (float_repr p) line = Inr (PyDict d) \<and> dict_get d ''topic'' = PyStr (og_topic m)
        \<and> og_topic m \<noteq> [] \<and> og_key m = None \<and> dict_get d ''payload'' \<noteq> PyNone
        \<and> replay_value (dict_get d ''payload'') = Inr (og_value m))"

lemma replay_lines_run:
  assumes "list_all2 (replayable p) (filter (\<lambda>line. strip line \<noteq> []) lines) ms"
  shows "replay_lines p wanted remaining lines s =
    (Inr (), s\<lparr>sn_queue := sn_queue s @
       (case remaining of None \<Rightarrow> filter (\<lambda>m. opt_all (\<lambda>ts. og_topic m \<in> set ts) wanted) ms
        | Some n \<Rightarrow> take (nat n) (filter (\<lambda>m. opt_all (\<lambda>ts. og_topic m \<in> set ts) wanted) ms))\<rparr>)"
  using assms
proof (induction lines arbitrary: ms remaining s)
  case (Cons line lines)
  show ?case
  proof (cases "strip line = []")
    case True
    with Cons.prems Cons.IH [of ms remaining s] show ?thesis by simp
  next
    case False
    then obtain m ms' where ms: "ms = m # ms'" and m: "replayable p line m"
        and rest: "list_all2 (replayable p) (filter (\<lambda>line. strip line \<noteq> []) lines) ms'"
      using Cons.prems by (auto simp: list_all2_Cons1)
    obtain d where d: "loads (float_repr p) line = Inr (PyDict d)" "dict_get d ''topic'' = PyStr (og_topic m)"
        "og_topic m \<noteq> []" "og_key m = None" "dict_get d ''payload'' \<noteq> PyNone"
        "replay_value (dict_get d ''payload'') = Inr (og_value m)"
      using m by (auto simp: replayable_def)
    then have message: "\<lparr>og_topic = og_topic m, og_key = None, og_value = og_value m\<rparr> = m" by simp
    have chosen: "in_topics wanted (PyStr (og_topic m)) = Inr (opt_all (\<lambda>ts. og_topic m \<in> set ts) wanted)"
      by (cases wanted) (simp_all add: in_topics_def)
    note step = Cons.IH [OF rest]
    show ?thesis
    proof (cases "opt_all (\<lambda>ts. og_topic m \<in> set ts) wanted")
      case False
      with \<open>strip line \<noteq> []\<close> show ?thesis
        using step unfolding ms by (cases remaining) (simp_all add: d chosen Let_def)
    next
      case True
      then show ?thesis
        using \<open>strip line \<noteq> []\<close> d(3) step unfolding ms
        by (cases remaining) (auto simp: d chosen message Let_def used_up_def produce_to_def take_Cons'
            nat_diff_distrib)
    qed
  qed
qed (simp split: option.split)

text \<open>
  C36. The replay of a file of readable records (blank lines aside, each an object with a topic and a
  payload that can be encoded) flushes exactly the messages of the records with a wanted topic, in
  the order of the file, the first ones up to the limit, none for a negative one, over a producer
  with the settings of the configuration.
\<close>

theorem file_is_replayed_in_order:
  assumes "list_all2 (replayable p) (filter (\<lambda>line. strip line \<noteq> []) lines) ms"
  shows "\<exists>s'. replay_file p (Inr c) (Inr lines) wanted limit (start_sender w) = (Inr (), s')
    \<and> sn_delivered s' =
        (case limit of None \<Rightarrow> filter (\<lambda>m. opt_all (\<lambda>ts. og_topic m \<in> set ts) wanted) ms
         | Some n \<Rightarrow> take (nat n) (filter (\<lambda>m. opt_all (\<lambda>ts. og_topic m \<in> set ts) wanted) ms))
    \<and> sn_queue s' = [] \<and> sn_settings s' = build_kafka_client_config c"
proof -
  have limit: "nat (max 0 n) = nat n" for n :: int by (simp add: max_def)
  show ?thesis
    using replay_lines_run [OF assms, of wanted "map_option (max 0) limit"]
    by (cases limit) (auto simp: replay_file_def open_producer_def start_sender_def limit
        pbind_run [of "replay_lines p a b l" for a b l])
qed

definition record_line :: "string \<Rightarrow> string \<Rightarrow> string" where
  "record_line topic payload =
     json_text False (PyDict [(KeyStr ''topic'', PyStr topic), (KeyStr ''payload'', PyStr payload)])"

lemma example_lines_replayable:
  "replayable example_platform (record_line ''a'' ''x'') \<lparr>og_topic = ''a'', og_key = None, og_value = ''x''\<rparr>"
  "replayable example_platform (record_line ''b'' ''y'') \<lparr>og_topic = ''b'', og_key = None, og_value = ''y''\<rparr>"
  "replayable example_platform (record_line ''a'' ''z'') \<lparr>og_topic = ''a'', og_key = None, og_value = ''z''\<rparr>"
proof -
  have "loads (float_repr example_platform) (record_line ''a'' ''x'') =
      Inr (PyDict [(KeyStr ''topic'', PyStr ''a''), (KeyStr ''payload'', PyStr ''x'')])"
    "loads (float_repr example_platform) (record_line ''b'' ''y'') =
      Inr (PyDict [(KeyStr ''topic'', PyStr ''b''), (KeyStr ''payload'', PyStr ''y'')])"
    "loads (float_repr example_platform) (record_line ''a'' ''z'') =
      Inr (PyDict [(KeyStr ''topic'', PyStr ''a''), (KeyStr ''payload'', PyStr ''z'')])"
    "list_all valid_utf8 [''x'', ''y'', ''z'']" by code_simp+
  then show "replayable example_platform (record_line ''a'' ''x'') \<lparr>og_topic = ''a'', og_key = None, og_value = ''x''\<rparr>"
    "replayable example_platform (record_line ''b'' ''y'') \<lparr>og_topic = ''b'', og_key = None, og_value = ''y''\<rparr>"
    "replayable example_platform (record_line ''a'' ''z'') \<lparr>og_topic = ''a'', og_key = None, og_value = ''z''\<rparr>"
    by (simp_all add: replayable_def replay_value_def encode_utf8_def)
qed

theorem file_is_replayed_in_order_witness:
  "\<exists>s'. replay_file example_platform (Inr example_config)
       (Inr [record_line ''a'' ''x'', '' '', record_line ''b'' ''y'', record_line ''a'' ''z'']) (Some [''a'']) (Some 1)
       (start_sender (start_world empty_db)) = (Inr (), s')
     \<and> map og_value (sn_delivered s') = [''x'']"
proof -
  have "filter (\<lambda>line. strip line \<noteq> []) [record_line ''a'' ''x'', '' '', record_line ''b'' ''y'', record_line ''a'' ''z'']
      = [record_line ''a'' ''x'', record_line ''b'' ''y'', record_line ''a'' ''z'']" by code_simp
  then have "list_all2 (replayable example_platform)
      (filter (\<lambda>line. strip line \<noteq> []) [record_line ''a'' ''x'', '' '', record_line ''b'' ''y'', record_line ''a'' ''z''])
      [\<lparr>og_topic = ''a'', og_key = None, og_value = ''x''\<rparr>, \<lparr>og_topic = ''b'', og_key = None, og_value = ''y''\<rparr>,
       \<lparr>og_topic = ''a'', og_key = None, og_value = ''z''\<rparr>]"
    using example_lines_replayable by simp
  from file_is_replayed_in_order [OF this, of example_config "Some [''a'']" "Some 1" "start_world empty_db"]
  show ?thesis by auto
qed

section \<open>Records of the backfill\<close>

lemma float_ok_ascii: "float_ok fr t \<Longrightarrow> list_all is_ascii t"
proof -
  have "list_all (list_all is_ascii) [''nan'', ''inf'', ''-inf'']" by code_simp
  then show "float_ok fr t \<Longrightarrow> list_all is_ascii t"
    using plain_number_char by (auto simp: float_ok_def json_float_def plain_def list_all_iff split: if_splits)
qed

lemma json_ok_texts:
  "json_ok fr asc v \<Longrightarrow> asc \<Longrightarrow> texts_valid v"
  "elems_ok fr asc xs \<Longrightarrow> asc \<Longrightarrow> elems_valid xs"
  "items_ok fr asc d \<Longrightarrow> asc \<Longrightarrow> items_valid d"
  by (induction fr asc v and fr asc xs and fr asc d rule: json_ok_elems_ok_items_ok.induct)
    (auto simp: text_ok_def float_ok_ascii split: pykey.splits)

definition backfill_record ::
  "platform \<Rightarrow> consumer_runtime \<Rightarrow> string \<Rightarrow> pydict \<Rightarrow> py_error \<Rightarrow> instant \<Rightarrow> pydict" where
  "backfill_record p rt label payload e now =
     [(KeyStr ''topic'', PyStr label), (KeyStr ''payload'', PyDict payload),
      (KeyStr ''error'', PyStr (classify_error e)), (KeyStr ''error_detail'', PyStr (exc_text p e)),
      (KeyStr ''profile_id'', PyStr (profile_id (rt_profile rt))),
      (KeyStr ''correlation_id'', opt_str (extract_correlation_id_from_payload payload)),
      (KeyStr ''ingested_at'', PyStr (show_instant now))]"

lemma backfill_failed_run:
  assumes "backfill_failed p rt label topic payload e w = (r, w')"
  obtains now w1 where "write_dlq_payload p (rt_config rt) (backfill_record p rt label payload e now) w1 = (r, w')"
    and "w_dlq_file w1 = w_dlq_file w"
proof -
  define violated where "violated = (if classify_error e = ''contract_core_violation''
    then measure_with (record_contract_core_violation topic (profile_id (rt_profile rt))) else preturn ())"
  have quiet: "\<exists>v'. violated v = (Inr (), v') \<and> w_dlq_file v' = w_dlq_file v" for v
    by (simp add: violated_def measure_with_def)
  obtain v where v: "violated (w\<lparr>w_telemetry := record_dlq label (record_consumer_message label ''error'' (w_telemetry w))\<rparr>) = (Inr (), v)"
    "w_dlq_file v = w_dlq_file w"
    using quiet by force
  have "write_dlq_payload p (rt_config rt) (backfill_record p rt label payload e (clk p (w_ticks v)))
      (v\<lparr>w_ticks := Suc (w_ticks v)\<rparr>) = (r, w')"
    using assms v(1) unfolding backfill_failed_def violated_def [symmetric]
    by (simp add: backfill_record_def measure_with_def pbind_def read_clock_def)
  then show thesis by (rule that) (simp add: v(2))
qed

lemma backfill_record_ok:
  assumes "sinks_ok p rt" and "json_ok (float_repr p) True (PyDict payload)" and "valid_utf8 label"
    and "opt_all valid_utf8 (extract_correlation_id_from_payload payload)"
  shows "json_ok (float_repr p) True (PyDict (backfill_record p rt label payload e now))"
    and "writable (backfill_record p rt label payload e now)"
proof -
  let ?r = "PyDict (backfill_record p rt label payload e now)"
  have names: "list_all valid_utf8 [''topic'', ''payload'', ''error'', ''error_detail'', ''profile_id'',
      ''correlation_id'', ''ingested_at'']" by code_simp
  have "json_ok (float_repr p) True (opt_str (extract_correlation_id_from_payload payload))"
    using assms(4) by (auto simp: opt_str_def text_ok_def split: option.split)
  then show ok: "json_ok (float_repr p) True ?r"
    using assms names valid_classified [of e] valid_show_instant [of now]
    by (simp add: backfill_record_def text_ok_def sinks_ok_def)
  show "writable (backfill_record p rt label payload e now)"
    using json_ok_texts(1) [OF ok] json_ok_serializable(1) [OF ok] valid_json_text(1) by (simp add: writable_def del: json_text.simps json_ok.simps)
qed

text \<open>
  C37. A record that the backfill dead-letters into the file is replayed to the label of the
  backfill instead of a Kafka topic: the payload survives, but a consumer that receives it
  under the label refuses it as an unsupported topic.
\<close>

theorem backfill_record_replays_to_no_topic:
  assumes "backfill_failed p rt label topic payload e w = (r, w')" and "sinks_ok p rt"
    and "cf_dlq_backend (rt_config rt) \<noteq> ''db''" and "json_ok (float_repr p) True (PyDict payload)"
    and "valid_utf8 label" and "label \<noteq> []" and "topic_kind (rt_profile rt) label = None"
    and "opt_all valid_utf8 (extract_correlation_id_from_payload payload)"
  shows "\<exists>line v. w_dlq_file w' = w_dlq_file w @ [line]
    \<and> replay_lines p None None [line] s =
        (Inr (), s\<lparr>sn_queue := sn_queue s @ [\<lparr>og_topic = label, og_key = None, og_value = v\<rparr>]\<rparr>)
    \<and> load_payload p (Some v) = Inr payload
    \<and> fst (handle_payload p rt track label payload w2) = Inl (UnsupportedTopicError label (profile_id (rt_profile rt)))"
proof -
  obtain now w1 where run: "write_dlq_payload p (rt_config rt) (backfill_record p rt label payload e now) w1 = (r, w')"
      "w_dlq_file w1 = w_dlq_file w"
    by (rule backfill_failed_run [OF assms(1)])
  let ?d = "backfill_record p rt label payload e now"
  note ok = backfill_record_ok [OF assms(2,4,5,8), of e now]
  obtain line where line: "w_dlq_file w' = w_dlq_file w1 @ [line]" "dumps False (PyDict ?d) = Some line"
    using write_dlq_payload_record [OF run(1) _ ok(2)] assms(2,3) by (auto simp: sinks_ok_def)
  obtain v where v: "dumps True (PyDict payload) = Some v"
    using json_ok_serializable(1) [OF assms(4)] by (simp add: dumps_def)
  have "v \<noteq> []" using json_text_nonempty [OF assms(4)] v by (auto simp: dumps_def split: if_splits)
  then have reload: "load_payload p (Some v) = Inr payload"
    using loads_bytes_dumps [OF assms(4) v] by (simp add: load_payload_def)
  have "dict_get ?d ''topic'' = PyStr label" "dict_get ?d ''payload'' = PyDict payload"
    by (simp_all add: backfill_record_def)
  with replay_one [OF load_dlq_line [OF json_ok_raw(1) [OF ok(1)] line(2)], where v = v and rest = "[]" and s = s] assms(6) v
  have "replay_lines p None None [line] s =
      (Inr (), s\<lparr>sn_queue := sn_queue s @ [\<lparr>og_topic = label, og_key = None, og_value = v\<rparr>]\<rparr>)"
    by (simp add: replay_value_def json_value_def)
  moreover have "fst (handle_payload p rt track label payload w2) = Inl (UnsupportedTopicError label (profile_id (rt_profile rt)))"
    using assms(7) by (simp add: handle_payload_def raise_if_def Let_def)
  ultimately show ?thesis using line(1) run(2) reload by (simp add: exI)
qed

lemma label_names: "list_all valid_utf8 [''backfill-ledger'', ''po-1'', ''order_id'']"
  by code_simp

theorem backfill_record_replays_to_no_topic_witness:
  "\<exists>line v. w_dlq_file (snd (backfill_failed example_platform file_runtime ''backfill-ledger'' ''ledger.entry.upserted''
        [(KeyStr ''order_id'', PyStr ''po-1'')] JSONDecodeError (start_world empty_db))) = [line]
    \<and> sn_queue (snd (replay_lines example_platform None None [line] (start_sender (start_world empty_db)))) =
        [\<lparr>og_topic = ''backfill-ledger'', og_key = None, og_value = v\<rparr>]
    \<and> load_payload example_platform (Some v) = Inr [(KeyStr ''order_id'', PyStr ''po-1'')]"
proof -
  let ?d = "[(KeyStr ''order_id'', PyStr ''po-1'')]"
  let ?w = "start_world empty_db"
  obtain r w' where run: "backfill_failed example_platform file_runtime ''backfill-ledger'' ''ledger.entry.upserted'' ?d
      JSONDecodeError ?w = (r, w')" by force
  have "cf_dlq_backend (rt_config file_runtime) \<noteq> ''db''" "topic_kind (rt_profile file_runtime) ''backfill-ledger'' = None"
    "opt_all valid_utf8 (extract_correlation_id_from_payload ?d)"
    by (simp_all add: file_runtime_def example_runtime_def topic_kind_def canonical_profile_def
        extract_correlation_id_from_payload_def)
  moreover have "json_ok (float_repr example_platform) True (PyDict ?d)" "valid_utf8 ''backfill-ledger''"
    using label_names by (simp_all add: text_ok_def)
  ultimately obtain line v where "w_dlq_file w' = w_dlq_file ?w @ [line]"
    "replay_lines example_platform None None [line] (start_sender ?w) = (Inr (), (start_sender ?w)\<lparr>sn_queue :=
       sn_queue (start_sender ?w) @ [\<lparr>og_topic = ''backfill-ledger'', og_key = None, og_value = v\<rparr>]\<rparr>)"
    "load_payload example_platform (Some v) = Inr ?d"
    using backfill_record_replays_to_no_topic [OF run file_sinks_ok, where s = "start_sender ?w"] by blast
  then show ?thesis
    by (intro exI [of _ line] exI [of _ v] conjI) (simp_all only: run snd_conv, simp_all add: start_world_def start_sender_def)
qed

end
