(* ===== verification/ScenarioContract.thy ===== *)
theory ScenarioContract
  imports ScenarioRuns
begin

text \<open>
  The synthetic scenarios against the contract: what they publish is accepted, except what the
  scenario \<open>error\<close> publishes.
\<close>

section \<open>Times in whole seconds\<close>

lemma replace_all_absent:
  assumes "c \<notin> set s"
  shows "replace_all (c # old) new (s @ c # old) = s @ new"
  using assms by (induction s) (auto simp: starts_with_def)

lemma show_nat_all_digits: "list_all is_digit (show_nat n)"
proof (induction n rule: show_nat.induct)
  case (1 n)
  have "is_digit (digit_char d)" if "d < 10" for d
    using that is_digit_char [of d] is_digit_char [of 0] by (cases "0 \<le> d") (simp_all add: digit_char_def)
  with 1 show ?case by (cases "n < 10"; subst show_nat.simps) simp_all
qed

lemma no_plus_pad: "CHR ''+'' \<notin> set (pad_nat w n)"
proof -
  have "\<not> is_digit (CHR ''+'')" by code_simp
  then have "CHR ''+'' \<notin> set (show_nat n)" using show_nat_all_digits [of n] unfolding list_all_iff by blast
  then show ?thesis by (simp add: pad_nat_def Let_def)
qed

lemma no_plus_local: "CHR ''+'' \<notin> set (local_text u)"
  by (simp add: local_text_def show_hms_def Let_def no_plus_pad split: prod.split)

lemma iso_seconds_text:
  assumes "in_calendar now"
  shows "time_text (Utc (usec now - usec now mod usec_per_sec)) (iso_seconds now)"
proof -
  let ?u = "usec now - usec now mod usec_per_sec"
  have "iso_seconds now = local_text ?u @ ''Z''"
    using replace_all_absent [OF no_plus_local, of "''00:00''" "''Z''" ?u] by (simp add: iso_seconds_def show_instant_local)
  moreover have "0 \<le> usec now mod usec_per_sec" "usec now mod usec_per_sec \<le> usec now"
    using assms by (simp_all add: in_calendar_def usec_per_sec_def zmod_le_nonneg_dividend)
  ultimately show ?thesis using assms by (simp add: time_text_def in_calendar_def)
qed

section \<open>Records and the contract\<close>

text \<open>Whether a payload passes the contract of its topic and the parser of its event.\<close>

definition passes :: "event_contract_profile \<Rightarrow> scenario_record \<Rightarrow> bool" where
  "passes prof r =
     (case r of (stream, key, payload) \<Rightarrow>
        (let topic = (if stream = ''ledger'' then tp_ledger (topics prof) else tp_payment_order (topics prof))
         in case normalize_payload_for_topic topic payload prof of
              Inl e \<Rightarrow> False
            | Inr n \<Rightarrow> (if stream = ''ledger'' then \<not> isl (ledger_from_dict (np_payload n))
                        else \<not> isl (order_from_dict (np_payload n)))))"

definition refused :: "event_contract_profile \<Rightarrow> scenario_record \<Rightarrow> bool" where
  "refused prof r =
     (case r of (stream, key, payload) \<Rightarrow>
        (let topic = (if stream = ''ledger'' then tp_ledger (topics prof) else tp_payment_order (topics prof))
         in case normalize_payload_for_topic topic payload prof of
              Inl e \<Rightarrow> classify_error e = ''parse_error'' | Inr n \<Rightarrow> False))"

lemma prefixed_trimmed:
  assumes "trimmed run_id" and "\<not> is_space c"
  shows "trimmed ((c # t) @ run_id)"
proof -
  have "\<not> is_space (last run_id)" using assms(1) last_strip [of run_id] by (simp add: trimmed_def)
  then show ?thesis using assms strip_id [of "(c # t) @ run_id"] by (simp add: trimmed_def)
qed

lemma ledger_record_passes:
  assumes "canonical_rules prof" and "list_all trimmed [t, w, ty, a, k]" and "time_text i ts" and "v \<noteq> 0"
    and "decimal_of_text a \<noteq> None" and "decimal_of_text sg \<noteq> None"
  shows "passes prof (''ledger'', key, ledger_dict t w ty a sg k ts v)"
proof -
  obtain da dsg where "decimal_of_text a = Some da" "decimal_of_text sg = Some dsg" using assms(5,6) by auto
  with ledger_dict_parses [OF _ assms(3,4) this, of t w ty k] ledger_dict_normalizes [OF assms(1), of t w ty a ts sg k v]
    assms(2) time_text_trimmed [OF assms(3)]
  show ?thesis by (simp add: passes_def)
qed

lemma order_record_passes:
  assumes "canonical_rules prof" and "list_all trimmed [k, u, m, a]" and "time_text i ts" and "v \<noteq> 0"
    and "decimal_of_text a \<noteq> None"
  shows "passes prof (''payment'', key, order_dict k u m a ts v)"
proof -
  obtain da where "decimal_of_text a = Some da" using assms(5) by auto
  with order_dict_parses [OF _ assms(3,4) this, of k u m] order_dict_normalizes [OF assms(1), of k a ts u m v]
    assms(2) time_text_trimmed [OF assms(3)]
  show ?thesis by (simp add: passes_def)
qed

definition scenario_amounts :: "string list" where
  "scenario_amounts = [''100.00'', ''150.00'', ''200.00'']"

lemma scenario_texts:
  "list_all (\<lambda>a. decimal_of_text a \<noteq> None \<and> decimal_of_text (''-'' @ a) \<noteq> None \<and> trimmed a) scenario_amounts"
  "list_all trimmed [''wallet-payer'', ''wallet-payee'', ''PAYMENT'', ''RECEIVE'', ''user-synthetic'', ''MERCHANT-SYNTHETIC'']"
  "\<not> is_space (CHR ''p'')" "\<not> is_space (CHR ''t'')"
  by code_simp+

lemma trio_passes:
  assumes "canonical_rules prof" and "trimmed run_id" and "in_calendar t" and "v \<noteq> 0" and "a \<in> set scenario_amounts"
  shows "list_all (passes prof) (order_trio run_id a t v)"
proof -
  note time = iso_seconds_text [OF assms(3)]
  have a: "decimal_of_text a \<noteq> None" "decimal_of_text (''-'' @ a) \<noteq> None" "trimmed a"
    using scenario_texts(1) assms(5) by (auto simp: list_all_iff)
  have ids: "trimmed (''po-'' @ run_id)" "trimmed (''tx-pay-'' @ run_id)" "trimmed (''tx-rec-'' @ run_id)"
    using prefixed_trimmed [OF assms(2) scenario_texts(3)] prefixed_trimmed [OF assms(2) scenario_texts(4)] by blast+
  let ?ts = "iso_seconds t"
  have "passes prof (''ledger'', key, ledger_dict (''tx-pay-'' @ run_id) ''wallet-payer'' ''PAYMENT'' a (''-'' @ a) (''po-'' @ run_id) ?ts v)"
    "passes prof (''ledger'', key, ledger_dict (''tx-rec-'' @ run_id) ''wallet-payee'' ''RECEIVE'' a a (''po-'' @ run_id) ?ts v)"
    "passes prof (''payment'', key, order_dict (''po-'' @ run_id) ''user-synthetic'' ''MERCHANT-SYNTHETIC'' a ?ts v)" for key
    by (rule ledger_record_passes [OF assms(1) _ time assms(4)] order_record_passes [OF assms(1) _ time assms(4)],
        use a ids scenario_texts(2) in simp_all)+
  moreover have "synthetic_ledger_event x w ''PAYMENT'' a k t v = ledger_dict x w ''PAYMENT'' a (''-'' @ a) k ?ts v"
    "synthetic_ledger_event x w ''RECEIVE'' a k t v = ledger_dict x w ''RECEIVE'' a a k ?ts v"
    "synthetic_order_event k a t v = order_dict k ''user-synthetic'' ''MERCHANT-SYNTHETIC'' a ?ts v" for x w k
    by (simp_all add: synthetic_ledger_event_def synthetic_order_event_def ledger_dict_def order_dict_def Let_def)
  ultimately show ?thesis by (simp only: order_trio_def Let_def list.pred_inject simp_thms)
qed

lemma invalid_records_refused:
  assumes "canonical_rules prof" and "in_calendar now"
  shows "list_all (refused prof) (invalid_records run_id now)"
proof -
  have time: "strip (iso_seconds now) \<noteq> []" using time_text_trimmed [OF iso_seconds_text [OF assms(2)]] by (simp add: trimmed_def)
  have other: "tp_payment_order (topics prof) \<noteq> tp_ledger (topics prof)" using assms(1) by (auto simp: canonical_rules_def)
  show ?thesis
    using assms(1) time other
    by (simp add: invalid_records_def refused_def normalize_payload_for_topic_def topic_kind_def canonical_rules_def
      canonical_profile_def aliases_for_def core_required_for_def resolve_alias_value_def alias_candidates_def
      validate_core_required_def required_key_def EVENT_TIME_REQUIRED_SENTINEL_def raise_if_def dict_set_def
      classify_error_def)
qed

text \<open>
  C22. The scenarios do what their names say under the canonical contract: every record of \<open>happy\<close>,
  \<open>duplicate\<close> and \<open>out_of_order\<close> passes normalisation and parsing, and every record of \<open>error\<close> is
  refused for its missing fields, which the consumer classifies as \<open>parse_error\<close>.
\<close>

theorem scenarios_meet_the_contract:
  assumes "canonical_rules prof" and "trimmed run_id" and "in_calendar now"
    and "build_scenario_records scenario run_id now = Inr (records, metadata)"
  shows "list_all (if scenario = ''error'' then refused prof else passes prof) records \<and> records \<noteq> []"
proof -
  have trio: "list_all (passes prof) (order_trio run_id a t v)" if "in_calendar t" "v \<noteq> 0" "a \<in> set scenario_amounts" for a t v
    using trio_passes [OF assms(1,2)] that by blast
  have amounts: "''100.00'' \<in> set scenario_amounts" "''150.00'' \<in> set scenario_amounts" "''200.00'' \<in> set scenario_amounts"
    by (simp_all add: scenario_amounts_def)
  have older: "in_calendar older" if "minus_minutes now 3 = Inr older" for older
    using that assms(3) by (auto simp: minus_minutes_def Let_def rbind_eq_Inr raise_if_def in_calendar_def usec_per_sec_def
        split: if_splits)
  have some: "order_trio run_id a t v \<noteq> []" "invalid_records run_id now \<noteq> []" for a t v
    by (simp_all add: order_trio_def invalid_records_def Let_def)
  consider "scenario = ''happy''" | "scenario = ''duplicate''" | "scenario = ''out_of_order''" | "scenario = ''error''"
    using assms(4) by (auto simp: build_scenario_records_def Let_def split: if_splits)
  then show ?thesis
    using assms(3,4) trio amounts older some invalid_records_refused [OF assms(1,3)]
    by cases (auto simp: build_scenario_records_def Let_def rbind_eq_Inr)
qed

lemma example_scenario_builds: "\<not> isl (build_scenario_records ''out_of_order'' ''7'' (Utc 63905000000000001))"
  by (simp add: build_scenario_records_def Let_def minus_minutes_def usec_per_sec_def raise_if_def)

theorem scenarios_meet_the_contract_witness:
  "\<exists>records metadata. build_scenario_records ''out_of_order'' ''7'' (Utc 63905000000000001) = Inr (records, metadata)
     \<and> list_all (passes canonical_profile) records"
proof -
  obtain records metadata where run: "build_scenario_records ''out_of_order'' ''7'' (Utc 63905000000000001) = Inr (records, metadata)"
    using example_scenario_builds by (cases "build_scenario_records ''out_of_order'' ''7'' (Utc 63905000000000001)") auto
  have "canonical_rules canonical_profile" "trimmed ''7''" by code_simp+
  from scenarios_meet_the_contract [OF this _ run] run show ?thesis
    by (simp add: in_calendar_def max_usec_def)
qed

end
