(* ===== verification/ApiProperties.thy ===== *)
theory ApiProperties
  imports Api StoreProperties
begin

text \<open>
  The properties of the admin API: who gets an answer, what the answer is, and what every
  lookup leaves in the audit log.
\<close>

section \<open>A concrete request\<close>

definition example_request :: request where
  "example_request =
     \<lparr>rq_method = ''GET'', rq_path = ''/admin'', rq_query = ''a=1&Token=secret&x=a%20b'',
      rq_headers = [(''authorization'', ''Bearer abc''), (''x-actor-id'', ''mallory'')],
      rq_client_host = Some ''10.0.0.1''\<rparr>"

definition oidc_config :: app_config where
  "oidc_config = example_config\<lparr>cf_auth_mode := ''oidc'', cf_auth_issuer := ''iss'',
     cf_auth_audience := ''aud'', cf_auth_jwks_url := ''https://keys''\<rparr>"

definition example_verifier :: token_verifier where
  "example_verifier url alg aud iss token =
     (if token = ''abc'' then Inr [(KeyStr ''roles'', PyList [PyStr ''ADMIN_READ''])] else Inl PyJWTError)"

abbreviation text_order :: "string \<Rightarrow> string \<Rightarrow> bool" where
  "text_order \<equiv> (\<lambda>a b. True)"

section \<open>Access\<close>

text \<open>
  C12. With authentication on, an endpoint answers only a request whose bearer token the
  verifier accepts for the configured issuer and audience and whose claims hold one of the two
  roles; a request that is refused has not read or written anything.
\<close>

theorem answers_need_a_role:
  assumes "cf_auth_mode c \<noteq> ''disabled''"
    and "fst (get_admin_tx p collate verify (Inr c) rq tx_id w) = Inr r
      \<or> fst (get_admin_order p collate verify (Inr c) rq order_id w) = Inr ro
      \<or> fst (get_admin_wallet_tx p collate verify (Inr c) rq wallet_id from_time to_time limit w) = Inr rw"
  shows "\<exists>token claims. extract_bearer rq = Inr token
    \<and> verify (cf_auth_jwks_url c) (cf_auth_algorithm c) (cf_auth_audience c) (cf_auth_issuer c) token
        = Inr claims
    \<and> set (extract_roles claims (or_default (split_csv (Some (cf_auth_roles_claim c))) ''roles''))
        \<inter> {''ADMIN_READ'', ''ADMIN_AUDIT''} \<noteq> {}"
proof -
  have "\<exists>a. require_admin_read verify (Inr c) rq = Inr a"
    using assms(2)
    by (cases "require_admin_read verify (Inr c) rq")
      (auto simp: get_admin_tx_def get_admin_order_def get_admin_wallet_tx_def)
  then obtain a where a: "require_admin_read verify (Inr c) rq = Inr a" by blast
  show ?thesis
    by (rule require_admin_read_oidc [OF a assms(1)])
      (auto simp: auth_required_roles_def ADMIN_READ_ROLE_def ADMIN_AUDIT_ROLE_def)
qed

lemma oidc_access:
  "require_admin_read example_verifier (Inr oidc_config) example_request =
     Inr \<lparr>ac_actor_id = None, ac_actor_roles = [''ADMIN_READ'']\<rparr>"
  by code_simp

lemma oidc_tx_run:
  "case fst (get_admin_tx example_platform text_order example_verifier (Inr oidc_config) example_request
      ''tx-1'' (start_world example_db)) of Inl e \<Rightarrow> False | Inr r \<Rightarrow> tr_tx_id r = ''tx-1''"
  by code_simp

theorem answers_need_a_role_witness:
  "\<exists>token claims. extract_bearer example_request = Inr token
     \<and> example_verifier ''https://keys'' ''RS256'' ''aud'' ''iss'' token = Inr claims
     \<and> set (extract_roles claims (or_default (split_csv (Some ''roles'')) ''roles''))
         \<inter> {''ADMIN_READ'', ''ADMIN_AUDIT''} \<noteq> {}"
proof -
  have "cf_auth_mode oidc_config \<noteq> ''disabled''" by (simp add: oidc_config_def)
  moreover obtain r where "fst (get_admin_tx example_platform text_order example_verifier
      (Inr oidc_config) example_request ''tx-1'' (start_world example_db)) = Inr r"
    using oidc_tx_run by (auto split: sum.splits)
  ultimately show ?thesis
    using answers_need_a_role [of oidc_config example_platform text_order example_verifier example_request
        "''tx-1''" "start_world example_db" r]
    by (simp add: oidc_config_def example_config_def)
qed

text \<open>
  C13. No endpoint changes anything but the audit log, and the log grows by exactly one row when
  there is an answer and by at most one otherwise: no data is given out without a trace.
\<close>

theorem endpoints_change_only_the_audit_log:
  "only_audited (\<not> isl (fst (get_admin_tx p collate verify config rq tx_id w)))
     (w_db w) (w_db (snd (get_admin_tx p collate verify config rq tx_id w)))
   \<and> only_audited (\<not> isl (fst (get_admin_order p collate verify config rq order_id w)))
     (w_db w) (w_db (snd (get_admin_order p collate verify config rq order_id w)))
   \<and> only_audited (\<not> isl (fst (get_admin_wallet_tx p collate verify config rq wid from_time to_time limit w)))
     (w_db w) (w_db (snd (get_admin_wallet_tx p collate verify config rq wid from_time to_time limit w)))"
  by (intro conjI endpoints_only_audit [OF prod.collapse [symmetric]])

text \<open>
  C14. An answer of the transaction endpoint is built from what the database holds about that
  transaction, its order, its pair and its counterpart; and the new audit row names the actor,
  the transaction, the outcome and the masked query.
\<close>

theorem tx_answer_and_its_audit_row:
  assumes "get_admin_tx p collate verify config rq tx_id w = (Inr r, w')"
  shows "\<exists>a c ctx at' row. require_admin_read verify config rq = Inr a \<and> config = Inr c
    \<and> tx_context_of collate (w_db w) tx_id = Some ctx \<and> r = tx_response_at at' ctx
    \<and> admin_audit_logs (w_db w') = admin_audit_logs (w_db w) @ [row]
    \<and> aa_action row = ''ADMIN_TX_LOOKUP'' \<and> aa_resource_id row = Some tx_id
    \<and> aa_result row = ''FOUND'' \<and> aa_status_code row = 200 \<and> aa_result_count row = Some 1
    \<and> aa_actor_id row = por (ac_actor_id a) (request_header rq ''X-Actor-Id'')
    \<and> aa_request_query row =
        (if truthy (mask_query (Some (rq_query rq)) (audit_mask_keys c))
         then mask_query (Some (rq_query rq)) (audit_mask_keys c) else None)"
  using assms
proof (cases rule: get_admin_tx_cases)
  case (answered a cf now ms at' ctx)
  let ?row = "audit_row cf now (extract_actor (Some a) rq) (tx_labels tx_id)
    \<lparr>ao_result = ''FOUND'', ao_status_code = 200, ao_result_count = 1\<rparr> rq ms
    \<lparr>aa_audit_id := audit_seq (w_db w) + 1\<rparr>"
  have "admin_audit_logs (w_db w') = admin_audit_logs (w_db w) @ [?row]"
    using answered(5) by (simp add: audit_logged_def)
  with answered(1-4) show ?thesis
    by (intro exI [of _ a] exI [of _ cf] exI [of _ ctx] exI [of _ at'] exI [of _ ?row])
      (simp add: audit_row_def build_audit_fields_def tx_labels_def ADMIN_TX_LOOKUP_def
        extract_actor_def Let_def)
qed simp_all

theorem tx_answer_and_its_audit_row_witness:
  "\<exists>r w' row. get_admin_tx example_platform text_order example_verifier (Inr oidc_config) example_request
       ''tx-1'' (start_world example_db) = (Inr r, w')
     \<and> admin_audit_logs (w_db w') = [row] \<and> aa_resource_id row = Some ''tx-1''"
proof -
  let ?run = "get_admin_tx example_platform text_order example_verifier (Inr oidc_config) example_request
      ''tx-1'' (start_world example_db)"
  obtain r where "fst ?run = Inr r" using oidc_tx_run by (auto split: sum.splits)
  then have run: "?run = (Inr r, snd ?run)" by (metis prod.collapse)
  from tx_answer_and_its_audit_row [OF run] run show ?thesis
    by (auto simp: start_world_def example_db_def empty_db_def)
qed

text \<open>
  The pairing status of a transaction is \<open>UNKNOWN\<close> outside the context of a payment order,
  \<open>COMPLETE\<close> when both sides are known from the pair, the counterpart or the transaction itself,
  and \<open>INCOMPLETE\<close> otherwise; the data lag is never negative and the status group is one of four.
\<close>

theorem tx_response_spec:
  "tr_pairing_status (tx_response_at now c) =
     (if truthy (le_related_id (tc_ledger_entry c)) \<and> resolve_related_type c = ''PAYMENT_ORDER''
      then (if side_known pp_payment_tx_id ''PAYMENT'' c \<and> side_known pp_receive_tx_id ''RECEIVE'' c
            then COMPLETE else INCOMPLETE)
      else UNKNOWN)
   \<and> tr_tx_id (tx_response_at now c) = le_tx_id (tc_ledger_entry c)
   \<and> tr_status (tx_response_at now c) = map_option po_status (tc_payment_order c)
   \<and> tr_status_group (tx_response_at now c) \<in> {''SUCCESS'', ''FAIL'', ''IN_PROGRESS'', ''UNKNOWN''}
   \<and> (\<exists>lag. tr_data_lag_sec (tx_response_at now c) = Some lag \<and> 0 \<le> lag)"
  using resolve_pairing_status [of c]
    resolve_status_group_range [of "map_option po_status (tc_payment_order c)"]
  by (auto simp: tx_response_at_def compute_data_lag_sec_def Let_def split: prod.splits)

text \<open>
  C16. What the consumer pairs, the endpoint shows: when the stored pair of a transaction's order
  has both ids and the transaction is one of a payment order, the answer is \<open>COMPLETE\<close> with the
  other transaction of the pair.
\<close>

theorem stored_pair_is_reported:
  assumes "get_admin_tx p collate verify config rq tx_id w = (Inr r, w')"
    and "entry_of tx_id (w_db w) = Some e" and "le_related_id e = Some k" and "k \<noteq> []"
    and "le_related_type e = Some ''PAYMENT_ORDER'' \<or> le_related_type e = None \<and> order_of k (w_db w) \<noteq> None"
    and "pair_of k (w_db w) = Some q" and "truthy (pp_payment_tx_id q)" and "truthy (pp_receive_tx_id q)"
  shows "tr_pairing_status r = COMPLETE
    \<and> (tr_paired_tx_id r = (if le_entry_type e = ''PAYMENT'' then pp_receive_tx_id q
         else if le_entry_type e = ''RECEIVE'' then pp_payment_tx_id q else None))"
  using assms(1)
proof (cases rule: get_admin_tx_cases)
  case (answered a cf now ms at' ctx)
  have ctx: "tc_ledger_entry ctx = e" "tc_payment_pair ctx = Some q" "tc_payment_order ctx = order_of k (w_db w)"
    using answered(3) assms(2,3,6) by (auto simp: tx_context_of_def Let_def)
  have "resolve_related_type ctx = ''PAYMENT_ORDER''"
    using assms(5) ctx by (auto simp: resolve_related_type_def)
  with resolve_pairing_pair [of ctx q] ctx assms(3,4,7,8) answered(4) show ?thesis
    by (auto simp: tx_response_at_def Let_def split: prod.splits)
qed simp_all

definition order_db :: db where
  "order_db = example_db\<lparr>payment_orders :=
     [\<lparr>po_order_id = ''po-1'', po_user_id = None, po_merchant_name = Some ''shop'',
       po_amount = DecFinite False 100 0, po_status = ''PAID'', po_created_at = Utc 1,
       po_updated_at = None, po_source_version = None, po_ingested_at = Utc 2\<rparr>]\<rparr>"

lemma order_tx_run:
  "\<not> isl (fst (get_admin_tx example_platform text_order example_verifier (Inr oidc_config) example_request
      ''tx-1'' (start_world order_db)))"
  by code_simp

theorem stored_pair_is_reported_witness:
  "\<exists>r w'. get_admin_tx example_platform text_order example_verifier (Inr oidc_config) example_request
       ''tx-1'' (start_world order_db) = (Inr r, w')
     \<and> tr_pairing_status r = COMPLETE \<and> tr_paired_tx_id r = Some ''tx-2''"
proof -
  let ?run = "get_admin_tx example_platform text_order example_verifier (Inr oidc_config) example_request
      ''tx-1'' (start_world order_db)"
  obtain r where "fst ?run = Inr r" using order_tx_run by (cases "fst ?run") auto
  then have run: "?run = (Inr r, snd ?run)" by (metis prod.collapse)
  from stored_pair_is_reported [OF run, of "example_entry ''tx-1'' ''PAYMENT'' (Some (Utc 5)) None 6"
      "''po-1''" example_pair]
  have "tr_pairing_status r = COMPLETE \<and> tr_paired_tx_id r = Some ''tx-2''"
    by (simp add: start_world_def order_db_def entry_of_def order_of_def pair_of_def example_defs)
  with run show ?thesis by blast
qed

text \<open>The stored type of what an entry relates to, or what the tables say about it.\<close>

definition related_type_of :: "db \<Rightarrow> ledger_entry \<Rightarrow> string" where
  "related_type_of d e =
     (case le_related_type e of
        Some (c # cs) \<Rightarrow> c # cs
      | _ \<Rightarrow> if Option.bind (le_related_id e) (\<lambda>k. order_of k d) = None then ''UNKNOWN'' else ''PAYMENT_ORDER'')"

text \<open>
  C31. The answer reports what is stored: the entry of that transaction with its time, type and
  amounts, the status and the merchant of the order the entry names, and the related id with its
  type, the stored one, else \<open>PAYMENT_ORDER\<close> when there is such an order. The pairing status is
  \<open>UNKNOWN\<close> exactly for an entry that belongs to no payment order; the status group is one of four,
  and \<open>UNKNOWN\<close> without an order; the data lag is never negative.
\<close>

theorem tx_answer_reports_the_entry:
  assumes "get_admin_tx p collate verify config rq tx_id w = (Inr r, w')"
  shows "\<exists>e order. entry_of tx_id (w_db w) = Some e
    \<and> order = Option.bind (le_related_id e) (\<lambda>k. order_of k (w_db w))
    \<and> tr_tx_id r = tx_id \<and> tr_event_time r = le_event_time e \<and> tr_entry_type r = le_entry_type e
    \<and> tr_amount r = le_amount e \<and> tr_amount_signed r = le_amount_signed e
    \<and> tr_status r = map_option po_status order \<and> tr_merchant_name r = Option.bind order po_merchant_name
    \<and> tr_related r =
        (if truthy (le_related_id e)
         then Some \<lparr>ri_related_id = le_related_id e, ri_related_type = related_type_of (w_db w) e\<rparr> else None)
    \<and> (tr_pairing_status r = UNKNOWN) =
        (le_related_id e \<in> {None, Some []} \<or> related_type_of (w_db w) e \<noteq> ''PAYMENT_ORDER'')
    \<and> tr_status_group r \<in> (if order = None then {''UNKNOWN''} else {''SUCCESS'', ''FAIL'', ''IN_PROGRESS'', ''UNKNOWN''})
    \<and> (\<exists>lag\<ge>0. tr_data_lag_sec r = Some lag)"
  using assms
proof (cases rule: get_admin_tx_cases)
  case (answered a cf now ms at' ctx)
  obtain e where e: "entry_of tx_id (w_db w) = Some e" "tc_ledger_entry ctx = e"
      "tc_payment_order ctx = Option.bind (le_related_id e) (\<lambda>k. order_of k (w_db w))"
    using answered(3) by (auto simp: tx_context_of_def Let_def)
  have id: "le_tx_id e = tx_id" using e(1) by (auto simp: entry_of_def dest: row_of_SomeD)
  have ty: "resolve_related_type ctx = related_type_of (w_db w) e"
    using e(2,3) by (auto simp: resolve_related_type_def related_type_of_def split: option.splits list.splits)
  have blank: "(\<not> truthy (le_related_id e)) = (le_related_id e \<in> {None, Some []})"
    by (cases "le_related_id e") auto
  have unknown: "(fst (resolve_pairing ctx) = UNKNOWN) =
      (le_related_id e \<in> {None, Some []} \<or> related_type_of (w_db w) e \<noteq> ''PAYMENT_ORDER'')"
    by (simp add: resolve_pairing_status e(2) ty blank)
  obtain status paired sender receiver where parts: "resolve_pairing ctx = (status, paired, sender, receiver)"
    by (cases "resolve_pairing ctx")
  have "resolve_status_group None = ''UNKNOWN''" by (simp add: resolve_status_group_def)
  then have group: "resolve_status_group (map_option po_status (tc_payment_order ctx)) \<in>
      (if tc_payment_order ctx = None then {''UNKNOWN''} else {''SUCCESS'', ''FAIL'', ''IN_PROGRESS'', ''UNKNOWN''})"
    using resolve_status_group_range [of "map_option po_status (tc_payment_order ctx)"] by simp
  have r: "r = tx_response_at at' ctx" using answered(4) by simp
  show ?thesis
    by (intro exI [of _ e] exI [of _ "tc_payment_order ctx"] conjI)
      (use unknown group id e(1) in
        \<open>simp_all add: r e(2) e(3) [symmetric] ty parts tx_response_at_def compute_data_lag_sec_def Let_def split del: if_split cong: if_cong\<close>)
qed simp_all

theorem tx_answer_reports_the_entry_witness:
  "\<exists>r w'. get_admin_tx example_platform text_order example_verifier (Inr oidc_config) example_request
       ''tx-1'' (start_world order_db) = (Inr r, w')
     \<and> tr_tx_id r = ''tx-1'' \<and> tr_entry_type r = ''PAYMENT'' \<and> tr_status r = Some ''PAID''"
proof -
  let ?run = "get_admin_tx example_platform text_order example_verifier (Inr oidc_config) example_request
      ''tx-1'' (start_world order_db)"
  obtain r where "fst ?run = Inr r" using order_tx_run by (cases "fst ?run") auto
  then have run: "?run = (Inr r, snd ?run)" by (metis prod.collapse)
  have "entry_of ''tx-1'' (w_db (start_world order_db)) = Some (example_entry ''tx-1'' ''PAYMENT'' (Some (Utc 5)) None 6)"
    by (simp add: start_world_def order_db_def entry_of_def example_defs)
  with tx_answer_reports_the_entry [OF run]
  have "tr_tx_id r = ''tx-1'' \<and> tr_entry_type r = ''PAYMENT'' \<and> tr_status r = Some ''PAID''"
    by (auto simp: start_world_def order_db_def order_of_def example_defs)
  with run show ?thesis by blast
qed

text \<open>
  C19. The answer about an order lists exactly its ledger entries, newest first, one item each,
  and its overall status is \<open>COMPLETE\<close> when the pair has both ids, else \<open>INCOMPLETE\<close> when there
  are entries, else \<open>UNKNOWN\<close>; the audit row counts the entries.
\<close>

theorem order_answer_spec:
  assumes "get_admin_order p collate verify config rq order_id w = (Inr r, w')"
  shows "\<exists>order. order_of order_id (w_db w) = Some order \<and> or_order r = order_detail order
    \<and> map li_tx_id (or_ledger_entries r) = map le_tx_id (entries_of_order collate order_id (w_db w))
    \<and> mset (entries_of_order collate order_id (w_db w)) =
        mset (filter (\<lambda>e. le_related_id e = Some order_id) (ledger_entries (w_db w)))
    \<and> descending (entries_of_order collate order_id (w_db w))
    \<and> or_pairing_status r =
        (if pair_has_both (pair_of order_id (w_db w)) then COMPLETE
         else if or_ledger_entries r \<noteq> [] then INCOMPLETE else UNKNOWN)
    \<and> aa_result_count (last (admin_audit_logs (w_db w'))) = Some (int (length (or_ledger_entries r)))"
  using assms
proof (cases rule: get_admin_order_cases)
  case (answered a cf now ms n ctx)
  let ?es = "entries_of_order collate order_id (w_db w)"
  obtain order where ctx: "order_of order_id (w_db w) = Some order" "oc_payment_order ctx = order"
      "oc_ledger_entries ctx = ?es" "oc_payment_pair ctx = pair_of order_id (w_db w)"
    using answered(3) by (auto simp: order_context_of_def)
  have ids: "map li_tx_id (items_at p n pair o' es) = map le_tx_id es" for pair o' es
    by (rule nth_equalityI) (simp_all add: items_at_def entry_item_at_def Let_def split: prod.splits)
  have items: "or_ledger_entries r = items_at p n (oc_payment_pair ctx) (Some order) ?es"
    using answered(4) ctx by (simp add: order_response_at_def)
  have "(items_at p n (oc_payment_pair ctx) (Some order) ?es = []) = (?es = [])"
    by (metis length_0_conv length_items_at)
  with items ids ctx answered(4,5) show ?thesis
    by (simp add: order_response_at_def overall_pairing_def descending_newest_first entries_of_order_def
        audit_logged_def audit_row_def build_audit_fields_def Let_def)
qed simp_all

lemma order_run:
  "\<not> isl (fst (get_admin_order example_platform text_order example_verifier (Inr oidc_config) example_request
      ''po-1'' (start_world order_db)))"
  by code_simp

theorem order_answer_spec_witness:
  "\<exists>r w'. get_admin_order example_platform text_order example_verifier (Inr oidc_config) example_request
       ''po-1'' (start_world order_db) = (Inr r, w')
     \<and> length (or_ledger_entries r) = 2 \<and> or_pairing_status r = COMPLETE"
proof -
  let ?run = "get_admin_order example_platform text_order example_verifier (Inr oidc_config) example_request
      ''po-1'' (start_world order_db)"
  obtain r where "fst ?run = Inr r" using order_run by (cases "fst ?run") auto
  then have run: "?run = (Inr r, snd ?run)" by (metis prod.collapse)
  let ?d = "w_db (start_world order_db)"
  from order_answer_spec [OF run] have
    "map li_tx_id (or_ledger_entries r) = map le_tx_id (entries_of_order text_order ''po-1'' ?d)"
    "or_pairing_status r = (if pair_has_both (pair_of ''po-1'' ?d) then COMPLETE
       else if or_ledger_entries r \<noteq> [] then INCOMPLETE else UNKNOWN)"
    by blast+
  moreover have "length (entries_of_order text_order ''po-1'' ?d) = 2"
    "pair_has_both (pair_of ''po-1'' ?d)"
    by (simp_all add: entries_of_order_def start_world_def order_db_def pair_of_def pair_has_both_def
        example_defs)
  ultimately have "length (or_ledger_entries r) = 2" "or_pairing_status r = COMPLETE"
    by (metis length_map, simp)
  with run show ?thesis by blast
qed

text \<open>
  C18. The page of a wallet is complete and no larger than asked: of the wallet's entries in the
  time window it holds as many as there are, up to the limit, which is the requested one between 1
  and 100, or 20; newest first, none twice, and none of those left out is newer than one on the
  page. There is one item for each, with its id, time, type and amount; no item shows the status
  of an order or a complete pair.
\<close>

theorem wallet_page_spec:
  assumes "get_admin_wallet_tx p collate verify config rq wid from_time to_time limit w = (Inr r, w')"
  shows "\<exists>n es. n = (case limit of None \<Rightarrow> 20 | Some m \<Rightarrow> m) \<and> 1 \<le> n \<and> n \<le> 100
    \<and> mset es \<subseteq># mset (filter (in_window wid from_time to_time) (ledger_entries (w_db w)))
    \<and> length es = min (nat n) (length (filter (in_window wid from_time to_time) (ledger_entries (w_db w))))
    \<and> descending es
    \<and> (\<forall>x\<in>#mset (filter (in_window wid from_time to_time) (ledger_entries (w_db w))) - mset es.
         list_all (\<lambda>e. le_event_time x \<le> le_event_time e) es)
    \<and> wr_wallet_id r = wid \<and> wr_count r = int (length es)
    \<and> map (\<lambda>i. (li_tx_id i, li_event_time i, li_entry_type i, li_amount i)) (wr_entries r)
        = map (\<lambda>e. (le_tx_id e, le_event_time e, le_entry_type e, le_amount e)) es
    \<and> list_all (\<lambda>item. li_pairing_status item \<noteq> COMPLETE \<and> li_status item = None) (wr_entries r)"
  using assms
proof (cases rule: get_admin_wallet_tx_cases)
  case (answered a cf now ms n k es)
  let ?found = "filter (in_window wid from_time to_time) (ledger_entries (w_db w))"
  have k: "k = (case limit of None \<Rightarrow> 20 | Some m \<Rightarrow> m)" "1 \<le> k" "k \<le> 100"
    using answered(3) by (auto simp: wallet_limit_def rbind_eq_Inr split: option.splits)
  note es = wallet_entries_page [where collate = collate and d = "w_db w" and wid = wid and f = from_time
      and t = to_time and n = k, folded answered(4)]
  have fields: "map (\<lambda>i. (li_tx_id i, li_event_time i, li_entry_type i, li_amount i)) (items_at p n pair o' es)
      = map (\<lambda>e. (le_tx_id e, le_event_time e, le_entry_type e, le_amount e)) es" for pair o'
    by (rule nth_equalityI) (simp_all add: items_at_def entry_item_at_def Let_def split: prod.splits)
  have items: "list_all (\<lambda>item. li_pairing_status item \<noteq> COMPLETE \<and> li_status item = None)
      (items_at p n None None es)"
    using wallet_item_pairing by (auto simp: list_all_iff dest!: items_at_member)
  show ?thesis
    using k es fields [of None None] items wallet_entries_facts(2) [of collate "w_db w" wid from_time to_time k, folded answered(4)]
    by (intro exI [of _ k] exI [of _ es] conjI) (use answered(5) in \<open>simp_all add: wallet_response_at_def\<close>)
qed simp_all

lemma wallet_run:
  "\<not> isl (fst (get_admin_wallet_tx example_platform text_order example_verifier (Inr oidc_config)
      example_request ''w'' None (Some (Utc 9)) (Some 1) (start_world order_db)))"
  by code_simp

theorem wallet_page_spec_witness:
  "\<exists>r w'. get_admin_wallet_tx example_platform text_order example_verifier (Inr oidc_config)
       example_request ''w'' None (Some (Utc 9)) (Some 1) (start_world order_db) = (Inr r, w')
     \<and> length (wr_entries r) = 1"
proof -
  let ?run = "get_admin_wallet_tx example_platform text_order example_verifier (Inr oidc_config)
       example_request ''w'' None (Some (Utc 9)) (Some 1) (start_world order_db)"
  obtain r where "fst ?run = Inr r" using wallet_run by (cases "fst ?run") auto
  then have run: "?run = (Inr r, snd ?run)" by (metis prod.collapse)
  have "length (filter (in_window ''w'' None (Some (Utc 9))) (ledger_entries (w_db (start_world order_db)))) = 2"
    by code_simp
  with wallet_page_spec [OF run] have "length (wr_entries r) = 1"
    by (auto dest!: arg_cong [of "map f xs" _ length for f xs])
  with run show ?thesis by blast
qed

section \<open>The audit log\<close>

text \<open>
  C17. The query string of an audit row shows no sensitive value: read back, it has the fields of
  the request in the same order, and the value of a field whose name is one of the masked keys,
  in any letter case, is \<open>***\<close>.
\<close>

theorem audited_query_hides_secrets:
  assumes "aa_request_query (build_audit_fields c now actor action rtype rid outcome status rq ms cnt) = Some q"
    and "valid_utf8 (rq_query rq)"
  shows "parse_qsl q = map (mask_pair (map lower (audit_mask_keys c))) (parse_qsl (rq_query rq))
    \<and> map fst (parse_qsl q) = map fst (parse_qsl (rq_query rq))
    \<and> list_all (\<lambda>(k, v). lower k \<in> lower ` set (audit_mask_keys c) \<longrightarrow> v = ''***'') (parse_qsl q)"
proof -
  have "mask_query (Some (rq_query rq)) (audit_mask_keys c) = Some q"
    using assms(1) by (simp add: build_audit_fields_def Let_def split: if_splits)
  from mask_query_parse [OF this assms(2)] show ?thesis
    by (auto simp: mask_pair_def list_all_iff split: if_splits)
qed

theorem audited_query_hides_secrets_witness:
  "\<exists>q. aa_request_query (build_audit_fields oidc_config (Utc 1) \<lparr>au_actor_id = None, au_actor_roles = None\<rparr>
       ''a'' ''b'' None ''FOUND'' 200 example_request None None) = Some q
     \<and> map fst (parse_qsl q) = [''a'', ''Token'', ''x'']"
proof -
  let ?row = "build_audit_fields oidc_config (Utc 1) \<lparr>au_actor_id = None, au_actor_roles = None\<rparr>
       ''a'' ''b'' None ''FOUND'' 200 example_request None None"
  have "truthy (aa_request_query ?row)" by code_simp
  then obtain q where q: "aa_request_query ?row = Some q" by (auto elim: truthyE)
  have "valid_utf8 (rq_query example_request)"
    "map fst (parse_qsl (rq_query example_request)) = [''a'', ''Token'', ''x'']" by code_simp+
  with audited_query_hides_secrets [OF q] q show ?thesis by auto
qed

section \<open>Middleware\<close>

text \<open>The transaction endpoint leaves the telemetry and the correlation id to the middlewares.\<close>

definition request_part :: "world \<Rightarrow> telemetry \<times> string" where
  "request_part w = (w_telemetry w, w_correlation w)"

lemma keeps_request_part:
  "obeys (keeps request_part) (read_clock p)" "obeys (keeps request_part) (read_monotonic p)"
  "obeys (keeps request_part) (db_query p g)" "obeys (keeps request_part) (db_execute p f)"
  by (auto simp: obeys_def keeps_def request_part_def read_clock_def read_monotonic_def db_query_def db_call_def pbind_def
      db_execute_run split: sum.splits)

lemma keeps_request_session:
  "obeys (keeps request_part) a \<Longrightarrow> obeys (keeps request_part) (session_scope p a)"
proof (rule obeysI)
  fix w r w' assume a: "obeys (keeps request_part) a" and run: "session_scope p a w = (r, w')"
  from run show "keeps request_part w w'"
    by (cases rule: session_scope_cases) (auto simp: keeps_def request_part_def dest: keepsD [OF a])
qed

lemma tx_endpoint_quiet: "obeys (keeps request_part) (get_admin_tx p collate verify config rq tx_id)"
proof -
  have fetch: "obeys (keeps request_part) (fetch_admin_tx_context p collate tx_id)"
    unfolding fetch_admin_tx_context_def
    by (auto intro!: keeping.obeys_intros keeps_request_part split: option.split prod.split)
  have "obeys (keeps request_part) (tx_lookup collate tx_id p)"
    unfolding tx_lookup_def build_admin_tx_response_def
    by (intro keeping.obeys_intros keeps_request_part fetch)
  then have "obeys (keeps request_part) (audited p config rq actor start labels outcome_of (tx_lookup collate tx_id p))"
    for actor start labels outcome_of
    unfolding audited_def record_admin_audit_def
    by (intro keeps_request_session keeping.obeys_intros keeps_request_part)
  then show ?thesis
    unfolding get_admin_tx_def by (intro keeping.obeys_intros keeps_request_part)
qed

text \<open>
  C20. Around any handler that itself balances the in-flight counter, counts no request and restores
  the correlation id, as the transaction endpoint does: the number of requests in flight is afterwards what it
  was, also when the handler raises; the request is counted exactly once, under its method, its
  route and the status of its response, 500 when the handler raised; the correlation id is
  restored; and a response carries the id under which it was made, the request's own one when it
  sent one.
\<close>

theorem observed_call_spec:
  assumes "\<And>v. inflight (w_telemetry (snd (call_next v))) = inflight (w_telemetry v)"
    and "\<And>v. request_counts (w_telemetry (snd (call_next v))) = request_counts (w_telemetry v)"
    and "\<And>v. w_correlation (snd (call_next v)) = w_correlation v"
    and "observed_call p rq route call_next w = (res, w')"
  shows "inflight (w_telemetry w') = inflight (w_telemetry w)
    \<and> request_counts (w_telemetry w') = request_counts (w_telemetry w)
        @ [ApiRequestsTotal (rq_method rq) (resolve_route_template route)
             (show_int (case res of Inr r \<Rightarrow> hr_status r | Inl e \<Rightarrow> 500))]
    \<and> w_correlation w' = w_correlation w
    \<and> (case res of Inl e \<Rightarrow> True | Inr r \<Rightarrow>
         map_of (hr_headers r) ''x-correlation-id'' =
           Some (correlation_or_fresh (request_header rq ''X-Correlation-ID'') (uuid4 p (w_uuids w))))"
proof -
  have hdr: "lower CORRELATION_ID_HEADER = ''x-correlation-id''" by code_simp
  from assms(4) obtain w1 w2 where m: "correlation_middleware p rq call_next w1 = (res, w2)"
    "inflight (w_telemetry w1) = inflight (w_telemetry w) + 1"
    "inflight (w_telemetry w') = inflight (w_telemetry w2) - 1"
    "w_correlation w1 = w_correlation w" "w_correlation w' = w_correlation w2" "w_uuids w1 = w_uuids w"
    "request_counts (w_telemetry w1) = request_counts (w_telemetry w)"
    "request_counts (w_telemetry w') = request_counts (w_telemetry w2)
       @ [ApiRequestsTotal (rq_method rq) (resolve_route_template route)
            (show_int (case res of Inr r \<Rightarrow> hr_status r | Inl _ \<Rightarrow> 500))]"
    unfolding observed_call_def by (rule metrics_middleware_run)
  from m(1) obtain n u answer where c:
    "call_next (w1\<lparr>w_correlation :=
         correlation_or_fresh (request_header rq CORRELATION_ID_HEADER) (uuid4 p (w_uuids w1)),
       w_uuids := n\<rparr>) = (answer, u)"
    "w2 = u\<lparr>w_correlation := w_correlation w1\<rparr>"
    "res = map_sum id (\<lambda>r. r\<lparr>hr_headers :=
       AList.update (lower CORRELATION_ID_HEADER) (w_correlation u) (hr_headers r)\<rparr>) answer"
    by (rule correlation_middleware_run)
  let ?v = "w1\<lparr>w_correlation :=
         correlation_or_fresh (request_header rq CORRELATION_ID_HEADER) (uuid4 p (w_uuids w1)),
       w_uuids := n\<rparr>"
  have "inflight (w_telemetry u) = inflight (w_telemetry w1)"
    "request_counts (w_telemetry u) = request_counts (w_telemetry w1)"
    "w_correlation u = correlation_or_fresh (request_header rq CORRELATION_ID_HEADER) (uuid4 p (w_uuids w1))"
    using assms(1-3) [of ?v] c(1) by simp_all
  with m c hdr show ?thesis
    by (cases answer) (simp_all add: update_conv' CORRELATION_ID_HEADER_def)
qed

definition example_call :: "admin_tx_response http_response action" where
  "example_call =
     pbind (get_admin_tx example_platform text_order example_verifier (Inr oidc_config) example_request ''tx-1'')
       (\<lambda>r. preturn \<lparr>hr_status = 200, hr_headers = [], hr_body = r\<rparr>)"

theorem observed_call_spec_witness:
  "\<exists>status. request_counts (w_telemetry (snd (observed_call example_platform example_request None example_call
        (start_world order_db)))) = [ApiRequestsTotal ''GET'' ''unmatched'' status]
     \<and> inflight (w_telemetry (snd (observed_call example_platform example_request None example_call
        (start_world order_db)))) = 0"
proof -
  have "obeys (keeps request_part) example_call"
    unfolding example_call_def by (intro keeping.obeys_intros tx_endpoint_quiet)
  then have quiet: "w_telemetry (snd (example_call v)) = w_telemetry v"
    "w_correlation (snd (example_call v)) = w_correlation v" for v
    by (simp_all add: obeys_def keeps_def request_part_def)
  obtain res w' where run: "observed_call example_platform example_request None example_call (start_world order_db)
      = (res, w')" by force
  from observed_call_spec [OF _ _ _ run] run show ?thesis
    by (simp add: quiet start_world_def inflight_def request_counts_def resolve_route_template_def example_request_def)
qed

end
