(* ===== verification/SmokeCheck.thy ===== *)
theory SmokeCheck
  imports LocalSeed ScenarioRuns ApiProperties
begin

text \<open>
  The transaction endpoint answers when nothing fails, and with it the whole of
  \<open>scripts/smoke_admin_tx.py\<close>: the seeded transaction is found, an unknown one is not.
\<close>

section \<open>The endpoint on a platform without faults\<close>

lemma fetch_tx_runs:
  assumes "\<forall>n. \<not> db_fault p n" and "sql_text_ok tx"
  shows "\<exists>n. fetch_admin_tx_context p collate tx w = (Inr (tx_context_of collate (w_db w) tx), w\<lparr>w_db_calls := n\<rparr>)"
proof (cases "entry_of tx (w_db w)")
  case None
  then show ?thesis using assms
    by (simp add: fetch_admin_tx_context_def db_query_run with_text_param_def sql_check_def raise_if_def first_row_joined
        tx_context_of_def) blast
next
  case (Some e)
  let ?pair = "Option.bind (le_related_id e) (\<lambda>k. pair_of k (w_db w))"
  show ?thesis using assms Some
    by (cases "truthy (le_related_id e) \<and> needs_peer ?pair")
      (simp_all add: fetch_admin_tx_context_def db_query_run with_text_param_def sql_check_def raise_if_def first_row_joined
        tx_context_of_def Let_def, blast+)
qed

lemma tx_lookup_runs:
  assumes "\<forall>n. \<not> db_fault p n" and "sql_text_ok tx"
  shows "\<exists>now v. tx_lookup collate tx p w = (Inr (map_option (tx_response_at now) (tx_context_of collate (w_db w) tx)), v)
    \<and> w_db v = w_db w \<and> w_monos v = w_monos w"
proof -
  obtain n where run: "fetch_admin_tx_context p collate tx w = (Inr (tx_context_of collate (w_db w) tx), w\<lparr>w_db_calls := n\<rparr>)"
    using fetch_tx_runs [OF assms] by blast
  show ?thesis
    by (cases "tx_context_of collate (w_db w) tx")
      (auto simp: tx_lookup_def pbind_run run build_admin_tx_response_def read_clock_def)
qed

text \<open>Two readings in a row are less than 24 days apart, so their difference fits the column.\<close>

definition prompt :: "platform \<Rightarrow> bool" where
  "prompt p \<longleftrightarrow> (\<forall>n. fits_integer (whole_ms (monotonic p (Suc n) - monotonic p n)))"

lemma tx_endpoint_runs:
  assumes "\<forall>n. \<not> db_fault p n" and "prompt p" and "sql_text_ok tx" and "require_admin_read verify (Inr c) rq = Inr a"
    and "\<And>now ms x. fits_integer ms \<Longrightarrow>
      store_audit (audit_row c now (extract_actor (Some a) rq) (tx_labels tx) (tx_outcome x) rq ms) = Inr ()"
  shows "\<exists>now row v. get_admin_tx p collate verify (Inr c) rq tx w =
      (case tx_context_of collate (w_db w) tx of
         None \<Rightarrow> Inl (HTTPException 404 ''tx_id not found'') | Some ctx \<Rightarrow> Inr (tx_response_at now ctx), v)
    \<and> w_db v = audit_logged row (w_db w)"
proof -
  let ?w = "w\<lparr>w_monos := Suc (w_monos w)\<rparr>"
  obtain now v where look: "tx_lookup collate tx p ?w = (Inr (map_option (tx_response_at now) (tx_context_of collate (w_db w) tx)), v)"
      "w_db v = w_db w" "w_monos v = Suc (w_monos w)"
    using tx_lookup_runs [OF assms(1,3), of collate ?w] by auto
  let ?x = "map_option (tx_response_at now) (tx_context_of collate (w_db w) tx)"
  let ?row = "audit_row c (clk p (w_ticks v)) (extract_actor (Some a) rq) (tx_labels tx) (tx_outcome ?x) rq
      (whole_ms (monotonic p (Suc (w_monos w)) - monotonic p (w_monos w)))"
  have "store_audit ?row = Inr ()" using assms(2,5) by (simp add: prompt_def)
  then have "audited p (Inr c) rq (extract_actor (Some a) rq) (monotonic p (w_monos w)) (tx_labels tx) tx_outcome
      (tx_lookup collate tx p) ?w = (Inr ?x, v\<lparr>w_monos := Suc (Suc (w_monos w)), w_ticks := Suc (w_ticks v),
        w_db_calls := Suc (Suc (w_db_calls v)), w_db := audit_logged ?row (w_db w)\<rparr>)"
    using assms(1) look(2,3)
    by (simp add: audited_def session_scope_def pbind_run look(1) read_monotonic_def read_clock_def record_admin_audit_def
        db_execute_run db_call_def)
  then show ?thesis
    using assms(4)
    by (cases "tx_context_of collate (w_db w) tx")
      (auto simp: get_admin_tx_def pbind_run [of "read_monotonic p"] read_monotonic_def
        pbind_run [of "audited p config' rq' ac st l oc lk" for config' rq' ac st l oc lk])
qed

section \<open>The middlewares around a handler that answers\<close>

lemma observed_answer:
  assumes "\<And>u. w_db u = w_db w \<Longrightarrow> \<exists>r v. call_next u = (Inr r, v) \<and> P (hr_status r) (hr_body r) (w_db v)"
  shows "\<exists>r w'. observed_call p rq route call_next w = (Inr r, w') \<and> P (hr_status r) (hr_body r) (w_db w')"
proof -
  obtain res w' where "observed_call p rq route call_next w = (res, w')" by force
  from this obtain w1 w2 where m: "correlation_middleware p rq call_next w1 = (res, w2)" "w_db w1 = w_db w" "w_db w' = w_db w2"
    unfolding observed_call_def by (rule metrics_middleware_run)
  from m(1) obtain n u answer where c:
    "call_next (w1\<lparr>w_correlation :=
         correlation_or_fresh (request_header rq CORRELATION_ID_HEADER) (uuid4 p (w_uuids w1)), w_uuids := n\<rparr>) = (answer, u)"
    "w2 = u\<lparr>w_correlation := w_correlation w1\<rparr>"
    "res = map_sum id (\<lambda>r. r\<lparr>hr_headers :=
       AList.update (lower CORRELATION_ID_HEADER) (w_correlation u) (hr_headers r)\<rparr>) answer"
    by (rule correlation_middleware_run)
  obtain r where "answer = Inr r" "P (hr_status r) (hr_body r) (w_db u)"
    using assms [of "w1\<lparr>w_correlation :=
         correlation_or_fresh (request_header rq CORRELATION_ID_HEADER) (uuid4 p (w_uuids w1)), w_uuids := n\<rparr>"] m(2) c(1) by auto
  with c(2,3) m(3) show ?thesis
    using \<open>observed_call p rq route call_next w = (res, w')\<close> by auto
qed

text \<open>What the client sees, with authentication disabled.\<close>

lemma client_request_texts:
  "request_header (client_request tx) ''X-Actor-Id'' = None" "request_header (client_request tx) ''X-Actor-Roles'' = None"
  "request_header (client_request tx) ''user-agent'' = Some ''testclient''"
  by (simp_all add: request_header_def client_request_def) (code_simp+)?

lemma plain_sql_text: "list_all plain s \<Longrightarrow> sql_text_ok s"
  using valid_plain [of s] by (auto simp: sql_text_ok_def list_all_iff plain_def byte_of_def)

lemma client_admitted:
  "cf_auth_mode c = ''disabled'' \<Longrightarrow>
     require_admin_read verify (Inr c) (client_request tx) = Inr \<lparr>ac_actor_id = None, ac_actor_roles = []\<rparr>"
  by (simp add: require_admin_read_def client_request_texts split_csv_def)

lemma client_row_stored:
  assumes "list_all plain tx" and "fits_integer ms"
  shows "store_audit (audit_row c now (extract_actor (Some \<lparr>ac_actor_id = None, ac_actor_roles = []\<rparr>) (client_request tx))
    (tx_labels tx) (tx_outcome x) (client_request tx) ms) = Inr ()"
proof -
  have texts: "list_all sql_text_ok [ADMIN_TX_LOOKUP, ''TX'', ''FOUND'', ''NOT_FOUND'', ''GET'', ''testclient'']"
    "list_all plain ''/admin/tx/''" by code_simp+
  have "sql_text_ok (''/admin/tx/'' @ tx)" using assms(1) texts(2) by (intro plain_sql_text) simp
  moreover have "sql_text_ok tx" by (rule plain_sql_text [OF assms(1)])
  ultimately show ?thesis
    using texts(1) assms(2)
    by (simp add: store_audit_def audit_row_def build_audit_fields_def extract_actor_def client_request_texts tx_labels_def
        tx_outcome_def mask_query_def Let_def sql_check_def raise_if_def fits_integer_def por_def)
      (simp add: client_request_def)
qed

lemma client_get_answers:
  assumes "\<forall>n. \<not> db_fault p n" and "prompt p" and "cf_auth_mode c = ''disabled''" and "list_all plain tx"
  shows "\<exists>r w'. client_get p collate verify (Inr c) tx w = (Inr r, w')
    \<and> (case entry_of tx (w_db w) of None \<Rightarrow> hr_status r = 404
       | Some e \<Rightarrow> hr_status r = 200 \<and> map_option tr_tx_id (hr_body r) = Some tx)
    \<and> ledger_entries (w_db w') = ledger_entries (w_db w)"
  unfolding client_get_def Let_def
proof (rule observed_answer [where P = "\<lambda>status body d. (case entry_of tx (w_db w) of None \<Rightarrow> status = 404
       | Some e \<Rightarrow> status = 200 \<and> map_option tr_tx_id body = Some tx) \<and> ledger_entries d = ledger_entries (w_db w)"])
  fix u :: world assume u: "w_db u = w_db w"
  let ?rq = "client_request tx"
  obtain now row v where run: "get_admin_tx p collate verify (Inr c) ?rq tx u =
      (case tx_context_of collate (w_db w) tx of
         None \<Rightarrow> Inl (HTTPException 404 ''tx_id not found'') | Some ctx \<Rightarrow> Inr (tx_response_at now ctx), v)"
      and v: "w_db v = audit_logged row (w_db w)"
    using tx_endpoint_runs [OF assms(1,2) plain_sql_text [OF assms(4)] client_admitted [OF assms(3), of verify]
        client_row_stored [OF assms(4)], where collate = collate and w = u, unfolded u] by blast
  show "\<exists>r v. pcatch (pbind (get_admin_tx p collate verify (Inr c) ?rq tx) (\<lambda>r.
         preturn \<lparr>hr_status = 200, hr_headers = [], hr_body = Some r\<rparr>))
       (\<lambda>e. case e of HTTPException code detail \<Rightarrow> preturn \<lparr>hr_status = code, hr_headers = [], hr_body = None\<rparr>
             | _ \<Rightarrow> plift (Inl e)) u = (Inr r, v)
     \<and> (case entry_of tx (w_db w) of None \<Rightarrow> hr_status r = 404
        | Some e \<Rightarrow> hr_status r = 200 \<and> map_option tr_tx_id (hr_body r) = Some tx)
     \<and> ledger_entries (w_db v) = ledger_entries (w_db w)"
  proof (cases "entry_of tx (w_db w)")
    case None
    then have "tx_context_of collate (w_db w) tx = None" by (simp add: tx_context_of_def)
    with None run v show ?thesis by (simp add: pcatch_def pbind_run [of "get_admin_tx p' k' vf cf rq' t'" for p' k' vf cf rq' t'] audit_logged_def)
  next
    case (Some e)
    then obtain ctx where "tx_context_of collate (w_db w) tx = Some ctx" "tc_ledger_entry ctx = e"
      by (simp add: tx_context_of_def Let_def)
    moreover have "le_tx_id e = tx" using Some by (auto simp: entry_of_def dest: row_of_SomeD)
    ultimately show ?thesis using Some run v
      by (simp add: pcatch_def pbind_run [of "get_admin_tx p' k' vf cf rq' t'" for p' k' vf cf rq' t'] audit_logged_def
          tx_response_at_def Let_def split: prod.split)
  qed
qed

section \<open>The seed\<close>

text \<open>
  A column of type \<open>numeric(18,2)\<close> stores an amount at scale 2, as PostgreSQL documents: the seeded
  10000 becomes 10000.00.
\<close>

definition scales_units :: "platform \<Rightarrow> bool" where
  "scales_units p =
     (numeric_18_2 p ten_thousand = Some (DecFinite False 1000000 (-2))
      \<and> numeric_18_2 p (DecFinite True 10000 0) = Some (DecFinite True 1000000 (-2)))"

lemma seed_runs:
  assumes "\<forall>n. \<not> db_fault p n" and "scales_units p"
  shows "\<exists>w'. seed p w = (Inr (), w') \<and> entry_of ''tx-payment-001'' (w_db w') \<noteq> None
    \<and> entry_of ''tx-missing'' (w_db w') = entry_of ''tx-missing'' (w_db w)"
proof -
  have texts: "list_all sql_text_ok [''tx-payment-001'', ''tx-receive-001'', ''wallet-001'', ''wallet-002'', ''PAYMENT'',
      ''RECEIVE'', ''po-001'', ''PAYMENT_ORDER'', ''user-001'', ''MERCHANT-001'', ''SETTLED'']" "fits_bigint 1" by code_simp+
  let ?u = "DecFinite False 1000000 (-2)"
  let ?paid = "\<lambda>t. (seed_ledger_payment t)\<lparr>le_amount := ?u, le_amount_signed := Some (DecFinite True 1000000 (-2))\<rparr>"
  let ?received = "\<lambda>t. (seed_ledger_receive t)\<lparr>le_amount := ?u, le_amount_signed := Some ?u\<rparr>"
  have rows: "store_ledger p (seed_ledger_payment t) = Inr (?paid t)"
    "store_ledger p (seed_ledger_receive t) = Inr (?received t)"
    "store_order p (seed_payment_order t) = Inr ((seed_payment_order t)\<lparr>po_amount := ?u\<rparr>)"
    "store_pair p (seed_pair t) = Inr ((seed_pair t)\<lparr>pp_amount := Some ?u\<rparr>)" for t
    using texts assms(2)
    by (simp_all add: store_ledger_def store_order_def store_pair_def seed_ledger_payment_def seed_ledger_receive_def
        seed_entry_def seed_payment_order_def seed_pair_def sql_check_def raise_if_def store_numeric_def store_numeric_opt_def
        scales_units_def)
  let ?t = "clk p (w_ticks w)"
  let ?rows = "ledger_upsert (?received ?t) (ledger_upsert (?paid ?t) (ledger_entries (w_db w)))"
  obtain w' where "seed p w = (Inr (), w')" "ledger_entries (w_db w') = ?rows"
    using assms(1) by (simp add: seed_def session_scope_def pbind_run execute_ledger_upsert_def execute_order_upsert_def
        execute_pair_upsert_def db_execute_run rows db_call_def read_clock_def)
  moreover have "row_of le_tx_id ''tx-payment-001'' ?rows \<noteq> None"
    "row_of le_tx_id ''tx-missing'' ?rows = row_of le_tx_id ''tx-missing'' (ledger_entries (w_db w))"
    by (simp_all add: ledger_store.upsert_lookup seed_ledger_payment_def seed_ledger_receive_def seed_entry_def)
  ultimately show ?thesis by (simp add: entry_of_def)
qed

text \<open>
  C15. The smoke test passes: with authentication disabled, on a platform without database faults
  whose database scales the seeded amounts to two decimals and whose monotonic clock does not jump
  by weeks, and on any database that does not hold the unknown transaction, the seed is written, and
  through both middlewares the API answers 200 with the seeded transaction and 404 for the other one.
\<close>

theorem smoke_check_passes:
  assumes "\<forall>n. \<not> db_fault p n" and "prompt p" and "scales_units p" and "cf_auth_mode c = ''disabled''"
    and "entry_of ''tx-missing'' (w_db w) = None"
  shows "\<exists>w'. smoke_main p collate verify (Inr c) w = (Inr (), w')"
proof -
  have plain: "list_all plain ''tx-payment-001''" "list_all plain ''tx-missing''" by code_simp+
  obtain w1 where seeded: "seed p w = (Inr (), w1)" "entry_of ''tx-payment-001'' (w_db w1) \<noteq> None"
      "entry_of ''tx-missing'' (w_db w1) = None"
    using seed_runs [OF assms(1,3), of w] assms(5) by auto
  obtain r1 w2 where found: "client_get p collate verify (Inr c) ''tx-payment-001'' w1 = (Inr r1, w2)" "hr_status r1 = 200"
      "map_option tr_tx_id (hr_body r1) = Some ''tx-payment-001''" "ledger_entries (w_db w2) = ledger_entries (w_db w1)"
    using client_get_answers [OF assms(1,2,4) plain(1), of collate verify w1] seeded(2) by auto
  have "entry_of ''tx-missing'' (w_db w2) = None" using seeded(3) found(4) by (simp add: entry_of_def)
  then obtain r2 w3 where "client_get p collate verify (Inr c) ''tx-missing'' w2 = (Inr r2, w3)" "hr_status r2 = 404"
    using client_get_answers [OF assms(1,2,4) plain(2), of collate verify w2] by auto
  with found seeded(1) show ?thesis
    by (simp add: smoke_main_def pbind_run [of "seed p"] pbind_run [of "client_get p collate verify cf t" for cf t] raise_if_def)
qed

text \<open>A platform that stores amounts as the column does, when they have at most two decimals.\<close>

definition two_decimals :: "decimal \<Rightarrow> decimal option" where
  "two_decimals d =
     (case d of
        DecFinite s c e \<Rightarrow>
          if -2 \<le> e \<and> c * 10 ^ nat (e + 2) < 10 ^ 18 then Some (DecFinite s (c * 10 ^ nat (e + 2)) (-2)) else None
      | _ \<Rightarrow> None)"

theorem smoke_check_passes_witness:
  "\<exists>w'. smoke_main (example_platform\<lparr>numeric_18_2 := two_decimals\<rparr>) text_order example_verifier (Inr example_config)
     (start_world empty_db) = (Inr (), w')"
  by (rule smoke_check_passes)
    (simp_all add: example_platform_def prompt_def whole_ms_def fits_integer_def scales_units_def two_decimals_def
      ten_thousand_def example_config_def start_world_def empty_db_def entry_of_def)

end
