(* ===== verification/Spec2Isabelle.thy ===== *)
theory Spec2Isabelle
  imports ContractProperties EndToEndCheck Instruments Migrations ReplayProperties ScenarioContract SmokeCheck
begin

text \<open>
  The transaction lookup service of the back office.

  \<^bold>\<open>The program.\<close> A Kafka consumer (\<open>src/consumer/\<close>) reads ledger entries and payment orders,
  normalises each payload under a contract profile (\<open>contract_profile.py\<close>,
  \<open>contract_normalizer.py\<close>), parses it into an event (\<open>events.py\<close>), writes it with a latest-wins
  upsert (\<open>src/db/upsert.py\<close>) and recomputes the pair of a payment and its counterpart
  (\<open>pairing.py\<close>, \<open>processor.py\<close>), in one database session per message, and then acknowledges the
  message; what fails goes to a dead-letter file or table (\<open>dlq.py\<close>). A backfill does the same
  for files of JSON lines, and a script replays dead letters. A read-only API (\<open>src/api/\<close>) with
  token authentication answers about a transaction, an order or a wallet and writes an audit row
  for each answer. Scripts publish events, seed the tables and check the whole chain; Alembic
  migrations build the schema.

  \<^bold>\<open>How it is modelled.\<close> Fallible code returns \<open>py_error + 'a\<close>; code with effects is a function
  on a state, \<open>(world, py_error, 'a) prog\<close>, composed by \<open>pbind\<close> and \<open>pcatch\<close>, so that every raise
  and every early return is a branch. \<open>world\<close> (Database) holds the five tables, the telemetry,
  the accumulators, the correlation id, the DLQ file and the acknowledged messages. What lies
  outside the code is a field of the record \<open>platform\<close>: the readings of both clocks, uuids, the
  conversion to \<open>numeric(18, 2)\<close>, the order of rows without ORDER BY, the text of a float and of an
  exception, and which calls of the database, the file system and the broker fail. A run is a
  sequence of such calls: one process, no interleaving inside a session.

  \<^bold>\<open>Theories.\<close>
  \<^item> Prelude: results, state-passing programs, the locale \<open>action_relation\<close> (what every combinator
    of programs keeps), list lemmas.
  \<^item> PyText, PyBytes, PyTime, PyDecimal, PyValue, PyJson, PyUrl: the operations of Python and its
    standard library that the source uses.
  \<^item> EventProfiles, ContractProfile, Normalizer, Events: \<open>src/common/event_profiles.py\<close>,
    \<open>src/consumer/contract_profile.py\<close>, \<open>contract_normalizer.py\<close>, \<open>events.py\<close>.
  \<^item> Config: \<open>src/common/config.py\<close>, \<open>kafka.py\<close>. Correlation: \<open>src/common/observability.py\<close>.
  \<^item> Store, LatestWins: \<open>src/db/models.py\<close>, \<open>upsert.py\<close>, with the locales \<open>keyed_lww\<close> and
    \<open>ranked_lww\<close>, interpreted on the three tables. Database: \<open>session_scope\<close> of
    \<open>src/db/session.py\<close> and the world.
  \<^item> Metrics, Instruments: \<open>src/consumer/metrics.py\<close> and the instruments of
    \<open>src/common/metrics.py\<close>. ApiMetrics: the rest of it and \<open>src/api/observability.py\<close>.
    DbObservability: \<open>src/db/observability.py\<close>.
  \<^item> Pairing, Processor, Dlq, Consumer: the files of that name in \<open>src/consumer/\<close> (\<open>main.py\<close> is
    Consumer: \<open>handle_payload\<close>, \<open>consume_message\<close>, \<open>consume_loop\<close>, \<open>run_consumer\<close>,
    \<open>run_backfill\<close>).
  \<^item> Startup: \<open>src/common/logging.py\<close>, \<open>otel.py\<close>, the engine of \<open>src/db/session.py\<close>, and the
    commands of \<open>src/consumer/main.py\<close>.
  \<^item> AdminTx, Service, Auth, AuditLog, Api: \<open>src/db/admin_tx.py\<close>, \<open>src/api/service.py\<close> with
    \<open>schemas.py\<close>, \<open>auth.py\<close>, \<open>audit.py\<close> with \<open>src/db/audit.py\<close>, and the endpoints of
    \<open>src/api/main.py\<close>, each an interpretation of the locale \<open>audited_lookup\<close>.
  \<^item> Publishing, Replay, Scenarios, EndToEnd, LocalSeed: the Kafka producer as a queue that
    \<open>flush\<close> delivers, and \<open>scripts/\<close>. Migrations: \<open>migrations/versions/\<close>.

  \<^bold>\<open>What is shown.\<close>
  \<^item> StoreProperties: the SQL statement refines the latest-wins rule (three-valued logic included);
    upserts converge in any order; what \<open>compute_pairing\<close> returns and stores.
  \<^item> ContractProperties: the result of normalisation, the errors of parsing, what a loaded
    configuration satisfies.
  \<^item> ConsumerFrames and ConsumerOutcome carry the proofs about the consumer: which part of the world
    each operation leaves alone, and the outcomes of a message. ConsumerProperties: every message is
    applied or dead-lettered, each exactly once and acknowledged in order; keys stay unique, complete
    pairs complete, ids in pairs name stored entries; the loop survives bad messages; and the inputs
    on which it does not do what it means to: a refused acknowledgement of an applied event, a key that
    does not decode, a correlation id that cannot be encoded. Liveness: with an idle limit, silence ends a run.
  \<^item> ApiProperties: no answer without a role, one audit row for each answer with masked query,
    contents of the three answers, the middlewares count each request once and balance the counter.
  \<^item> JsonRoundTrip, TimeRoundTrip: \<open>json.loads\<close> reads back what \<open>json.dumps\<close> prints, the parser reads
    back what \<open>isoformat\<close> prints. ReplayProperties: a dead letter is replayed to the bytes of its
    message; a file is replayed in order within the limit; the database replay sends all the rows it
    selects or none.
  \<^item> ScenarioContract: which scenarios the contract accepts. ScenarioRuns, EndToEndProperties,
    EndToEndCheck: an event of the scripts through the consumer, and
    the end-to-end check passes. SmokeCheck: the transaction endpoint answers when nothing fails, and the
    smoke test passes.
  \<^item> Migrations: a downgrade undoes its upgrade, and all upgrades build the schema of the models beside
    the tables that are there. Startup: engine, hooks, session factory and exporter are set up once.

  \<^bold>\<open>Bounds.\<close> Recursion is structural or has a measure, except in the JSON scanner, which takes fuel:
  twice the length of the text; JsonRoundTrip shows that this reads every printed
  value. The poll loop recurses over the list of what the broker's polls return; it ends with
  \<open>StillPolling\<close> when the list is used up, and the theorems that a run ends say that this is not the
  result. Integers are unbounded, as in Python; the ranges of \<open>bigint\<close> and \<open>numeric(18, 2)\<close> are checked
  where a row is stored. Durations are exact microseconds where the code has floats.

  \<^bold>\<open>Conventions.\<close> A text is the list of its UTF-8 bytes; white space and letter case are those of
  ASCII. SQL statements run one after the other; a session's changes are taken back when it fails.

  \<open>run_consumer\<close> and \<open>run_backfill\<close> also call \<open>_init_observability\<close>, which touches the exporter only;
  it is \<open>init_azure_monitor\<close> of Startup, on a state of its own.

  \<^bold>\<open>Not modelled.\<close> FastAPI and Starlette (routing, parsing of parameters, OpenAPI), pydantic's
  serialisation, SQLAlchemy's creation of engines (an argument) and mapping, the Kafka client, keys and
  signatures of PyJWT (the argument \<open>verify\<close>), \<open>KeyboardInterrupt\<close> and \<open>consumer.close()\<close>, the YAML
  parser, argparse, the formatting of log records and most log lines, the two lag queries on
  PostgreSQL's system views, the wiring of Alembic
  (\<open>migrations/env.py\<close>), the empty declarative base (\<open>src/db/base.py\<close>), container files, and the tests.
  What Alembic's operations do to a schema, and when they fail, is PostgreSQL's documented behaviour.
\<close>

end
